(* ===== verification/GoPrelude.thy ===== *)
theory GoPrelude
  imports Main "HOL-Library.AList" "HOL-Library.Word" "HOL-Library.Signed_Division"
begin

text \<open>
  What the driver uses of Go and of its standard library, and the automation the components share.

  \<^item> Results: \<open>'a res\<close> is a call that returned a value, an error, or did not return: it panicked,
    or it waits for a mutex that is held and never released (\<open>Panic\<close>). Errors carry the
    text \<open>err.Error()\<close> yields, because the driver decides by substring of that text in several places.
  \<^item> Integers: Go's \<open>int\<close> and \<open>int64\<close> are HOL \<open>int\<close>, with the wrap-around written out
    (\<open>to_int32\<close>, \<open>to_int64\<close>) at the conversions and multiplications where the value can leave the
    width; division truncates (\<open>sdiv\<close>, \<open>smod\<close>).
  \<^item> Strings: \<open>string\<close>, one \<open>char\<close> per byte. Case mapping and character classes are those of ASCII;
    a byte from 128 on is its own upper and lower case and belongs to no class.
  \<^item> Maps: \<open>('k \<times> 'v) list\<close> with distinct keys. The order of the list is an order in which
    \<open>range\<close> may visit the map, so a lemma over all lists covers every iteration order.
\<close>

section \<open>Lemma collections\<close>

named_theorems go_defs \<open>definitions of small string and map operations, to unfold\<close>

section \<open>Errors and results\<close>

text \<open>The status codes of google.golang.org/grpc/codes that the driver returns.\<close>

datatype code =
    Unknown | InvalidArgument | NotFound | AlreadyExists | FailedPrecondition
  | Aborted | Unimplemented | Internal | Unavailable

fun code_str :: "code \<Rightarrow> string" where
  "code_str Unknown = ''Unknown''"
| "code_str InvalidArgument = ''InvalidArgument''"
| "code_str NotFound = ''NotFound''"
| "code_str AlreadyExists = ''AlreadyExists''"
| "code_str FailedPrecondition = ''FailedPrecondition''"
| "code_str Aborted = ''Aborted''"
| "code_str Unimplemented = ''Unimplemented''"
| "code_str Internal = ''Internal''"
| "code_str Unavailable = ''Unavailable''"

text \<open>
  The error values the driver tells apart: a plain error, a gRPC status, the sentinel
  \<open>cloudprovider.InstanceNotFound\<close>, \<open>volerr.DanglingAttachError\<close> with its current node,
  \<open>azcore.ResponseError\<close> with its HTTP status, and an error wrapped with \<open>%w\<close> behind a text.
\<close>

datatype go_error =
    Errorf string
  | StatusErr code string
  | InstanceNotFound
  | DanglingAttachError string string
  | ResponseError int string
  | Wrapped string go_error

fun Error :: "go_error \<Rightarrow> string" where
  "Error (Errorf m) = m"
| "Error (StatusErr c m) = ''rpc error: code = '' @ code_str c @ '' desc = '' @ m"
| "Error InstanceNotFound = ''instance not found''"
| "Error (DanglingAttachError m n) = m"
| "Error (ResponseError s m) = m"
| "Error (Wrapped m e) = m @ Error e"

text \<open>The verb \<open>%s\<close> between single or double quotes.\<close>

definition quoted :: "string \<Rightarrow> string" where
  "quoted s = [CHR 0x27] @ s @ [CHR 0x27]"

definition dquoted :: "string \<Rightarrow> string" where
  "dquoted s = [CHR 0x22] @ s @ [CHR 0x22]"

text \<open>\<open>errors.Is(err, cloudprovider.InstanceNotFound)\<close> and
  \<open>errors.As(err, &respErr)\<close> with the status code it finds: both unwrap.\<close>

fun is_InstanceNotFound :: "go_error \<Rightarrow> bool" where
  "is_InstanceNotFound InstanceNotFound = True"
| "is_InstanceNotFound (Wrapped m e) = is_InstanceNotFound e"
| "is_InstanceNotFound _ = False"

fun as_ResponseError :: "go_error \<Rightarrow> int option" where
  "as_ResponseError (ResponseError s m) = Some s"
| "as_ResponseError (Wrapped m e) = as_ResponseError e"
| "as_ResponseError _ = None"

definition StatusNotFound :: int where
  "StatusNotFound = 404"

text \<open>\<open>status.Code(err)\<close>: the code of a status error, \<open>Unknown\<close> for any other.\<close>

fun status_Code :: "go_error \<Rightarrow> code" where
  "status_Code (StatusErr c m) = c"
| "status_Code _ = Unknown"

datatype 'a res = Ok 'a | Err go_error | Panic

fun is_Ok :: "'a res \<Rightarrow> bool" where
  "is_Ok (Ok _) = True"
| "is_Ok _ = False"

section \<open>Calls with effects\<close>

text \<open>
  A computation that reads and changes the world outside the process (the Azure service, the file
  system, the clock) or the driver's own state: it takes the state and returns the result of the
  call and the state after it. What a package outside the repository does is an argument of that
  type. \<open>call m h k\<close> is the idiom \<open>x, err := m(); if err != nil { h(err) }; k(x)\<close>.
\<close>

type_synonym ('w, 'a) io = "'w \<Rightarrow> 'a res \<times> 'w"

definition ret :: "'a \<Rightarrow> ('w, 'a) io" where
  "ret x w = (Ok x, w)"

definition fail :: "go_error \<Rightarrow> ('w, 'a) io" where
  "fail e w = (Err e, w)"

definition panic :: "('w, 'a) io" where
  "panic w = (Panic, w)"

definition call :: "('w, 'a) io \<Rightarrow> (go_error \<Rightarrow> ('w, 'b) io) \<Rightarrow> ('a \<Rightarrow> ('w, 'b) io) \<Rightarrow> ('w, 'b) io" where
  "call m h k w =
     (case m w of
        (Ok x, w') \<Rightarrow> k x w'
      | (Err e, w') \<Rightarrow> h e w'
      | (Panic, w') \<Rightarrow> (Panic, w'))"

text \<open>A call whose error is returned as it is.\<close>

definition bind :: "('w, 'a) io \<Rightarrow> ('a \<Rightarrow> ('w, 'b) io) \<Rightarrow> ('w, 'b) io" where
  "bind m k = call m fail k"

text \<open>A computation without effects.\<close>

definition lift :: "'a res \<Rightarrow> ('w, 'a) io" where
  "lift r w = (r, w)"

text \<open>Reading the state.\<close>

definition get_state :: "('w, 'w) io" where
  "get_state w = (Ok w, w)"

text \<open>\<open>defer d()\<close>, which runs when the rest of the function has returned; its own result is
  dropped. \<open>on_error\<close> is the deferred call that only acts when the function returns an error.\<close>

definition deferred :: "('w, unit) io \<Rightarrow> ('w, 'a) io \<Rightarrow> ('w, 'a) io" where
  "deferred d m w =
     (case m w of
        (Panic, w') \<Rightarrow> (Panic, w')
      | (r, w') \<Rightarrow> (case d w' of (Panic, w'') \<Rightarrow> (Panic, w'') | (_, w'') \<Rightarrow> (r, w'')))"

definition on_error :: "('w, unit) io \<Rightarrow> ('w, 'a) io \<Rightarrow> ('w, 'a) io" where
  "on_error d m w =
     (case m w of
        (Err e, w') \<Rightarrow> (case d w' of (Panic, w'') \<Rightarrow> (Panic, w'') | (_, w'') \<Rightarrow> (Err e, w''))
      | (r, w') \<Rightarrow> (r, w'))"

lemma ret_apply [simp]: "ret x w = (Ok x, w)"
  by (simp add: ret_def)

lemma fail_apply [simp]: "fail e w = (Err e, w)"
  by (simp add: fail_def)

lemma panic_apply [simp]: "panic w = (Panic, w)"
  by (simp add: panic_def)

lemma get_state_apply [simp]: "get_state w = (Ok w, w)"
  by (simp add: get_state_def)

lemma bind_get_state [simp]: "bind get_state k w = k w w"
  by (simp add: bind_def call_def)

lemma lift_apply [simp]: "lift r w = (r, w)"
  by (simp add: lift_def)

lemma call_Ok: "m w = (Ok x, w') \<Longrightarrow> call m h k w = k x w'"
  by (simp add: call_def)

lemma call_Err: "m w = (Err e, w') \<Longrightarrow> call m h k w = h e w'"
  by (simp add: call_def)

lemma call_Panic: "m w = (Panic, w') \<Longrightarrow> call m h k w = (Panic, w')"
  by (simp add: call_def)

lemma call_ret [simp]: "call (ret x) h k = k x"
  by (simp add: call_def fun_eq_iff)

lemma call_fail [simp]: "call (fail e) h k = h e"
  by (simp add: call_def fun_eq_iff)

lemma call_cases:
  assumes "call m h k w = (r, w'')"
  obtains x w' where "m w = (Ok x, w')" "k x w' = (r, w'')"
  | e w' where "m w = (Err e, w')" "h e w' = (r, w'')"
  | "m w = (Panic, w'')" "r = Panic"
  using assms by (auto simp: call_def split: prod.splits res.splits)

lemma call_OkE:
  assumes "call m (\<lambda>e. fail (f e)) k w = (Ok y, w'')"
  obtains x w' where "m w = (Ok x, w')" "k x w' = (Ok y, w'')"
  using assms by (auto simp: call_def split: prod.splits res.splits)

lemma bind_Ok: "m w = (Ok x, w') \<Longrightarrow> bind m k w = k x w'"
  by (simp add: bind_def call_def)

lemma bind_OkE:
  assumes "bind m k w = (Ok y, w'')"
  obtains x w' where "m w = (Ok x, w')" "k x w' = (Ok y, w'')"
  using assms by (auto simp: bind_def call_def split: prod.splits res.splits)

lemma bind_ret [simp]: "bind (ret x) k = k x" "bind (fail e) k = fail e"
  by (rule ext, simp add: bind_def call_def)+

lemma bind_lift [simp]:
  "bind (lift (Ok x)) k = k x" "bind (lift (Err e)) k = fail e" "bind (lift Panic) k = panic"
  by (rule ext, simp add: bind_def call_def)+

lemma bind_lift_Ok: "bind (lift r) k w = (Ok x, w') \<longleftrightarrow> (\<exists>y. r = Ok y \<and> k y w = (Ok x, w'))"
  by (cases r) simp_all

lemma call_lift [simp]:
  "call (lift (Ok x)) h k = k x" "call (lift (Err e)) h k = h e" "call (lift Panic) h k = panic"
  by (rule ext, simp add: bind_def call_def)+

text \<open>
  A relation between the state before and after every run of a computation that returns. The rules
  follow the structure of the code.
\<close>

definition keeps :: "('w \<Rightarrow> 'w \<Rightarrow> bool) \<Rightarrow> ('w, 'a) io \<Rightarrow> bool" where
  "keeps R m \<longleftrightarrow> (\<forall>w r w'. m w = (r, w') \<longrightarrow> r \<noteq> Panic \<longrightarrow> R w w')"

lemma keepsD: "keeps R m \<Longrightarrow> m w = (r, w') \<Longrightarrow> r \<noteq> Panic \<Longrightarrow> R w w'"
  by (simp add: keeps_def)

lemma keeps_return [simp, intro]:
  assumes "reflp R"
  shows "keeps R (ret x)" "keeps R (fail e)" "keeps R panic" "keeps R (lift r)" "keeps R get_state"
  using assms by (simp_all add: keeps_def reflp_def get_state_def)

lemma keeps_ite [intro]: "keeps R a \<Longrightarrow> keeps R b \<Longrightarrow> keeps R (if c then a else b)"
  by simp

lemma keeps_call [intro]:
  assumes "transp R" "keeps R m" "\<And>e. keeps R (h e)" "\<And>x. keeps R (k x)"
  shows "keeps R (call m h k)"
  unfolding keeps_def
proof (intro allI impI)
  fix w r w'' assume c: "call m h k w = (r, w'')" and r: "r \<noteq> Panic"
  from c show "R w w''"
  proof (cases rule: call_cases)
    case (1 x w')
    then have "R w w'" "R w' w''" using keepsD [OF assms(2)] keepsD [OF assms(4)] r by blast+
    with assms(1) show ?thesis by (blast dest: transpD)
  next
    case (2 e w')
    then have "R w w'" "R w' w''" using keepsD [OF assms(2)] keepsD [OF assms(3)] r by blast+
    with assms(1) show ?thesis by (blast dest: transpD)
  qed (use r in simp)
qed

lemma keeps_bind [intro]:
  assumes "reflp R" "transp R" "keeps R m" "\<And>x. keeps R (k x)"
  shows "keeps R (bind m k)"
  unfolding bind_def using assms by blast

lemma keeps_deferred [intro]:
  assumes "transp R" "keeps R m" "keeps R d"
  shows "keeps R (deferred d m)"
  unfolding keeps_def
proof (intro allI impI)
  fix w r w'' assume e: "deferred d m w = (r, w'')" and r: "r \<noteq> Panic"
  obtain a w1 where m: "m w = (a, w1)" by fastforce
  obtain b w2 where d: "d w1 = (b, w2)" by fastforce
  have "a \<noteq> Panic" "b \<noteq> Panic" "w'' = w2"
    using e r m d by (auto simp: deferred_def split: res.splits)
  then have "R w w1" "R w1 w2" using keepsD [OF assms(2)] keepsD [OF assms(3)] m d by blast+
  with \<open>w'' = w2\<close> assms(1) show "R w w''" by (blast dest: transpD)
qed

lemma keeps_on_error [intro]:
  assumes "transp R" "keeps R m" "keeps R d"
  shows "keeps R (on_error d m)"
  unfolding keeps_def
proof (intro allI impI)
  fix w r w'' assume e: "on_error d m w = (r, w'')" and r: "r \<noteq> Panic"
  obtain a w1 where m: "m w = (a, w1)" by fastforce
  obtain b w2 where d: "d w1 = (b, w2)" by fastforce
  have "a \<noteq> Panic" "w'' = w1 \<or> b \<noteq> Panic \<and> w'' = w2"
    using e r m d by (auto simp: on_error_def split: res.splits)
  then have "R w w1" "w'' = w1 \<or> R w1 w''" using keepsD [OF assms(2)] keepsD [OF assms(3)] m d by blast+
  with assms(1) show "R w w''" by (blast dest: transpD)
qed

section \<open>Machine integers\<close>

definition to_int32 :: "int \<Rightarrow> int" where
  "to_int32 x = (x + 2147483648) mod 4294967296 - 2147483648"

definition to_int64 :: "int \<Rightarrow> int" where
  "to_int64 x = (x + 9223372036854775808) mod 18446744073709551616 - 9223372036854775808"

definition int32_range :: "int \<Rightarrow> bool" where
  "int32_range x \<longleftrightarrow> - 2147483648 \<le> x \<and> x \<le> 2147483647"

definition int64_range :: "int \<Rightarrow> bool" where
  "int64_range x \<longleftrightarrow> - 9223372036854775808 \<le> x \<and> x \<le> 9223372036854775807"

lemma to_int32_id [simp]: "int32_range x \<Longrightarrow> to_int32 x = x"
  by (simp add: to_int32_def int32_range_def)

lemma to_int64_id [simp]: "int64_range x \<Longrightarrow> to_int64 x = x"
  by (simp add: to_int64_def int64_range_def)

lemma to_int32_range: "int32_range (to_int32 x)"
proof -
  have "0 \<le> (x + 2147483648) mod 4294967296" "(x + 2147483648) mod 4294967296 < 4294967296"
    by simp_all
  then show ?thesis unfolding to_int32_def int32_range_def by linarith
qed

lemma to_int64_range: "int64_range (to_int64 x)"
proof -
  have "0 \<le> (x + 9223372036854775808) mod 18446744073709551616"
    "(x + 9223372036854775808) mod 18446744073709551616 < 18446744073709551616"
    by simp_all
  then show ?thesis unfolding to_int64_def int64_range_def by linarith
qed

text \<open>The conversions are those of the two's complement words of the same width.\<close>

lemma to_int32_word: "to_int32 x = sint (word_of_int x :: 32 word)"
  by (simp add: to_int32_def sint_uint signed_take_bit_eq_take_bit_shift unsigned_of_int
      take_bit_eq_mod mod_add_left_eq)

lemma to_int64_word: "to_int64 x = sint (word_of_int x :: 64 word)"
  by (simp add: to_int64_def sint_uint signed_take_bit_eq_take_bit_shift unsigned_of_int
      take_bit_eq_mod mod_add_left_eq)

end
