(* ===== verification/GoStrings.thy ===== *)
theory GoStrings
  imports GoPrelude
begin

text \<open>
  The functions of Go's packages \<open>strings\<close>, \<open>strconv\<close>, \<open>unicode\<close>, \<open>path\<close> and
  \<open>path/filepath\<close> that the driver calls, over ASCII strings, with the laws the components use:
  case folding is an equivalence, \<open>Join\<close> inverts \<open>Split\<close>, \<open>Atoi\<close> inverts \<open>Itoa\<close>, and a
  cleaned path has no dot elements.
\<close>

section \<open>Character classes and case\<close>

abbreviation (input) ord :: "char \<Rightarrow> nat" where
  "ord c \<equiv> of_char c"

definition is_upper :: "char \<Rightarrow> bool" where
  "is_upper c \<longleftrightarrow> 65 \<le> ord c \<and> ord c \<le> 90"

definition is_lower :: "char \<Rightarrow> bool" where
  "is_lower c \<longleftrightarrow> 97 \<le> ord c \<and> ord c \<le> 122"

definition IsLetter :: "char \<Rightarrow> bool" where
  "IsLetter c \<longleftrightarrow> is_upper c \<or> is_lower c"

definition IsDigit :: "char \<Rightarrow> bool" where
  "IsDigit c \<longleftrightarrow> 48 \<le> ord c \<and> ord c \<le> 57"

definition is_space :: "char \<Rightarrow> bool" where
  "is_space c \<longleftrightarrow> ord c = 32 \<or> (9 \<le> ord c \<and> ord c \<le> 13)"

definition lower_char :: "char \<Rightarrow> char" where
  "lower_char c = (if is_upper c then char_of (ord c + 32) else c)"

definition upper_char :: "char \<Rightarrow> char" where
  "upper_char c = (if is_lower c then char_of (ord c - 32) else c)"

definition ToLower :: "string \<Rightarrow> string" where
  "ToLower s = map lower_char s"

definition ToUpper :: "string \<Rightarrow> string" where
  "ToUpper s = map upper_char s"

definition EqualFold :: "string \<Rightarrow> string \<Rightarrow> bool" where
  "EqualFold s t \<longleftrightarrow> ToLower s = ToLower t"

lemma ord_char_of [simp]: "n < 256 \<Longrightarrow> ord (char_of n) = n"
  by (simp add: of_char_of)

lemma ord_lower_char: "ord (lower_char c) = (if is_upper c then ord c + 32 else ord c)"
  by (simp add: lower_char_def is_upper_def)

lemma lower_char_idem [simp]: "lower_char (lower_char c) = lower_char c"
  by (simp add: lower_char_def is_upper_def)

lemma ToLower_idem [simp]: "ToLower (ToLower s) = ToLower s"
  by (simp add: ToLower_def)

lemma length_ToLower [simp]: "length (ToLower s) = length s"
  by (simp add: ToLower_def)

lemma ToLower_Nil [simp]: "ToLower [] = []"
  by (simp add: ToLower_def)

lemma ToLower_eq_Nil [simp]: "ToLower s = [] \<longleftrightarrow> s = []"
  by (simp add: ToLower_def)

lemma ToLower_append [simp]: "ToLower (s @ t) = ToLower s @ ToLower t"
  by (simp add: ToLower_def)

lemma lower_char_fix: "\<not> is_upper c \<Longrightarrow> lower_char c = c"
  by (simp add: lower_char_def)

lemma not_upper_slash [simp]: "lower_char (CHR ''/'') = CHR ''/''"
  by (simp add: lower_char_def is_upper_def)

lemma lower_char_eq_slash [simp]: "lower_char c = CHR ''/'' \<longleftrightarrow> c = CHR ''/''"
proof
  assume *: "lower_char c = CHR ''/''"
  then have "ord (lower_char c) = 47" by simp
  then have "\<not> is_upper c" by (auto simp: ord_lower_char is_upper_def split: if_splits)
  with * show "c = CHR ''/''" by (simp add: lower_char_fix)
qed simp

lemma EqualFold_refl [simp, intro]: "EqualFold s s"
  by (simp add: EqualFold_def)

lemma EqualFold_sym: "EqualFold s t \<longleftrightarrow> EqualFold t s"
  by (auto simp: EqualFold_def)

lemma EqualFold_trans: "EqualFold s t \<Longrightarrow> EqualFold t u \<Longrightarrow> EqualFold s u"
  by (simp add: EqualFold_def)

lemma EqualFold_ToLower [simp]: "EqualFold (ToLower s) t \<longleftrightarrow> EqualFold s t"
  "EqualFold s (ToLower t) \<longleftrightarrow> EqualFold s t"
  by (simp_all add: EqualFold_def)

lemma EqualFold_Nil [simp]: "EqualFold [] s \<longleftrightarrow> s = []" "EqualFold s [] \<longleftrightarrow> s = []"
  by (auto simp: EqualFold_def ToLower_def)

section \<open>Prefixes, substrings, splitting\<close>

definition HasPrefix :: "string \<Rightarrow> string \<Rightarrow> bool" where
  "HasPrefix s p \<longleftrightarrow> take (length p) s = p"

definition HasSuffix :: "string \<Rightarrow> string \<Rightarrow> bool" where
  "HasSuffix s p \<longleftrightarrow> take (length p) (rev s) = rev p"

definition TrimPrefix :: "string \<Rightarrow> string \<Rightarrow> string" where
  "TrimPrefix s p = (if HasPrefix s p then drop (length p) s else s)"

fun index_nat :: "string \<Rightarrow> string \<Rightarrow> nat option" where
  "index_nat [] t = (if t = [] then Some 0 else None)"
| "index_nat (c # s) t =
     (if HasPrefix (c # s) t then Some 0 else map_option Suc (index_nat s t))"

definition Index :: "string \<Rightarrow> string \<Rightarrow> int" where
  "Index s t = (case index_nat s t of None \<Rightarrow> - 1 | Some i \<Rightarrow> int i)"

definition Contains :: "string \<Rightarrow> string \<Rightarrow> bool" where
  "Contains s t \<longleftrightarrow> index_nat s t \<noteq> None"

definition ContainsAny :: "string \<Rightarrow> string \<Rightarrow> bool" where
  "ContainsAny s cs \<longleftrightarrow> list_ex (\<lambda>c. c \<in> set cs) s"

text \<open>\<open>strings.Split\<close> for a separator of one character, the only kind the driver uses.\<close>

fun Split :: "string \<Rightarrow> char \<Rightarrow> string list" where
  "Split [] c = [[]]"
| "Split (x # xs) c =
     (if x = c then [] # Split xs c
      else (case Split xs c of [] \<Rightarrow> [[x]] | y # ys \<Rightarrow> (x # y) # ys))"

fun Join :: "string list \<Rightarrow> char \<Rightarrow> string" where
  "Join [] c = []"
| "Join [x] c = x"
| "Join (x # y # ys) c = x @ c # Join (y # ys) c"

definition TrimSpace :: "string \<Rightarrow> string" where
  "TrimSpace s = rev (dropWhile is_space (rev (dropWhile is_space s)))"

lemma HasPrefix_iff: "HasPrefix s p \<longleftrightarrow> (\<exists>t. s = p @ t)"
  by (metis HasPrefix_def append_eq_conv_conj append_take_drop_id)

lemma HasPrefix_append [simp]: "HasPrefix (p @ t) p"
  by (simp add: HasPrefix_def)

lemma HasSuffix_iff: "HasSuffix s p \<longleftrightarrow> (\<exists>t. s = t @ p)"
proof -
  have "HasSuffix s p \<longleftrightarrow> HasPrefix (rev s) (rev p)"
    by (simp add: HasSuffix_def HasPrefix_def)
  also have "\<dots> \<longleftrightarrow> (\<exists>t. rev s = rev p @ t)"
    by (rule HasPrefix_iff)
  also have "\<dots> \<longleftrightarrow> (\<exists>t. s = t @ p)"
    by (metis rev_append rev_rev_ident)
  finally show ?thesis .
qed

lemma TrimPrefix_append [simp]: "TrimPrefix (p @ t) p = t"
  by (simp add: TrimPrefix_def)

lemma index_nat_Some: "index_nat s t = Some i \<Longrightarrow> \<exists>u. drop i s = t @ u"
proof (induction s t arbitrary: i rule: index_nat.induct)
  case (2 c s t)
  then show ?case
    by (auto simp: HasPrefix_iff split: if_splits)
qed (auto split: if_splits)

lemma index_nat_prefix [simp]: "HasPrefix s t \<Longrightarrow> index_nat s t = Some 0"
  by (cases s) (auto simp: HasPrefix_def)

lemma Contains_iff: "Contains s t \<longleftrightarrow> (\<exists>u v. s = u @ t @ v)"
proof
  assume "Contains s t"
  then obtain i where "index_nat s t = Some i" by (auto simp: Contains_def)
  then obtain v where "drop i s = t @ v" by (blast dest: index_nat_Some)
  then show "\<exists>u v. s = u @ t @ v" by (metis append_take_drop_id)
next
  assume "\<exists>u v. s = u @ t @ v"
  then obtain u v where "s = u @ t @ v" by blast
  then show "Contains s t"
  proof (induction u arbitrary: s)
    case Nil
    then show ?case by (simp add: Contains_def)
  next
    case (Cons c u)
    then have "Contains (u @ t @ v) t" by blast
    with Cons.prems show ?case by (auto simp: Contains_def)
  qed
qed

lemma Contains_append [simp]: "Contains s t \<Longrightarrow> Contains (u @ s) t"
  unfolding Contains_iff by (metis append_assoc)

lemma Contains_append2 [simp]: "Contains s t \<Longrightarrow> Contains (s @ u) t"
  unfolding Contains_iff by (metis append_assoc)

lemma Index_zero: "Index s t = 0 \<longleftrightarrow> HasPrefix s t"
  by (cases s) (auto simp: Index_def HasPrefix_def split: option.splits)

lemma Split_nonempty [simp]: "Split s c \<noteq> []"
  by (induction s c rule: Split.induct) (auto split: list.splits)

lemma Join_Split [simp]: "Join (Split s c) c = s"
proof (induction s c rule: Split.induct)
  case (2 x xs c)
  obtain y ys where y: "Split xs c = y # ys" by (cases "Split xs c") auto
  with 2 show ?case by (cases ys) auto
qed simp

lemma Split_no_sep: "c \<notin> set s \<Longrightarrow> Split s c = [s]"
  by (induction s) auto

lemma Split_append_sep: "c \<notin> set s \<Longrightarrow> Split (s @ c # t) c = s # Split t c"
  by (induction s) auto

lemma Split_append: "Split (s @ c # t) c = Split s c @ Split t c"
proof (induction s)
  case (Cons x s)
  then show ?case by (cases "Split s c") auto
qed simp

lemma Split_Join: "xs \<noteq> [] \<Longrightarrow> (\<forall>x \<in> set xs. c \<notin> set x) \<Longrightarrow> Split (Join xs c) c = xs"
  by (induction xs c rule: Join.induct) (auto simp: Split_no_sep Split_append_sep)

lemma length_Split: "length (Split s c) = Suc (count_list s c)"
  by (induction s c rule: Split.induct) (auto split: list.splits)

lemma Split_elem_no_sep: "x \<in> set (Split s c) \<Longrightarrow> c \<notin> set x"
proof (induction s c arbitrary: x rule: Split.induct)
  case (2 y xs c)
  obtain z zs where z: "Split xs c = z # zs" by (cases "Split xs c") auto
  with 2 show ?case by (auto split: if_splits)
qed simp

lemma TrimSpace_Nil [simp]: "TrimSpace [] = []"
  by (simp add: TrimSpace_def)

lemma TrimSpace_id:
  assumes "s = [] \<or> (\<not> is_space (hd s) \<and> \<not> is_space (last s))"
  shows "TrimSpace s = s"
proof (cases "s = []")
  case False
  with assms have "dropWhile is_space s = s" "dropWhile is_space (rev s) = rev s"
    by (auto simp: dropWhile_eq_self_iff hd_rev)
  then show ?thesis by (simp add: TrimSpace_def)
qed simp

section \<open>strconv\<close>

definition digit_char :: "nat \<Rightarrow> char" where
  "digit_char n = char_of (48 + n)"

definition digit_val :: "char \<Rightarrow> nat" where
  "digit_val c = ord c - 48"

fun nat_str :: "nat \<Rightarrow> string" where
  "nat_str n = (if n < 10 then [digit_char n] else nat_str (n div 10) @ [digit_char (n mod 10)])"

declare nat_str.simps [simp del]

definition Itoa :: "int \<Rightarrow> string" where
  "Itoa n = (if n < 0 then CHR ''-'' # nat_str (nat (- n)) else nat_str (nat n))"

definition digits_val :: "string \<Rightarrow> nat" where
  "digits_val s = foldl (\<lambda>a c. a * 10 + digit_val c) 0 s"

text \<open>\<open>strconv.ParseInt(s, 10, 64)\<close>, which \<open>strconv.Atoi\<close> is on a 64-bit target: an optional
  sign, one or more digits, and a value that fits. Nothing else is accepted.\<close>

definition parse_int :: "string \<Rightarrow> int option" where
  "parse_int s =
     (let neg = (case s of [] \<Rightarrow> False | c # _ \<Rightarrow> c = CHR ''-'');
          ds = (case s of [] \<Rightarrow> [] | c # r \<Rightarrow> if c = CHR ''-'' \<or> c = CHR ''+'' then r else s);
          v = (if neg then - int (digits_val ds) else int (digits_val ds))
      in if ds \<noteq> [] \<and> list_all IsDigit ds \<and> int64_range v then Some v else None)"

definition Atoi :: "string \<Rightarrow> int res" where
  "Atoi s = (case parse_int s of
       Some v \<Rightarrow> Ok v
     | None \<Rightarrow> Err (Errorf (''strconv.Atoi: parsing '' @ s)))"

text \<open>\<open>strconv.ParseBool\<close> and \<open>strconv.FormatBool\<close>.\<close>

definition ParseBool :: "string \<Rightarrow> bool res" where
  "ParseBool s =
     (if s \<in> set [''1'', ''t'', ''T'', ''true'', ''TRUE'', ''True''] then Ok True
      else if s \<in> set [''0'', ''f'', ''F'', ''false'', ''FALSE'', ''False''] then Ok False
      else Err (Errorf (''strconv.ParseBool: parsing '' @ s)))"

definition FormatBool :: "bool \<Rightarrow> string" where
  "FormatBool b = (if b then ''true'' else ''false'')"

lemma digit_char_props [simp]:
  assumes "n < 10"
  shows "IsDigit (digit_char n)" "digit_val (digit_char n) = n"
    "digit_char n \<noteq> CHR ''-''" "digit_char n \<noteq> CHR ''+''"
proof -
  have o: "ord (digit_char n) = 48 + n" using assms by (simp add: digit_char_def)
  show "IsDigit (digit_char n)" "digit_val (digit_char n) = n"
    using assms o by (simp_all add: IsDigit_def digit_val_def)
  show "digit_char n \<noteq> CHR ''-''"
  proof
    assume "digit_char n = CHR ''-''"
    then have "ord (digit_char n) = 45" by simp
    with o show False by simp
  qed
  show "digit_char n \<noteq> CHR ''+''"
  proof
    assume "digit_char n = CHR ''+''"
    then have "ord (digit_char n) = 43" by simp
    with o show False by simp
  qed
qed

lemma nat_str_nonempty [simp]: "nat_str n \<noteq> []"
  by (subst nat_str.simps) simp

lemma nat_str_digits: "list_all IsDigit (nat_str n)"
proof (induction n rule: nat_str.induct)
  case (1 n)
  then show ?case by (subst nat_str.simps) auto
qed

lemma digits_val_snoc: "digits_val (s @ [c]) = digits_val s * 10 + digit_val c"
  by (simp add: digits_val_def)

lemma digits_val_nat_str [simp]: "digits_val (nat_str n) = n"
proof (induction n rule: nat_str.induct)
  case (1 n)
  show ?case
  proof (cases "n < 10")
    case True
    then show ?thesis by (subst nat_str.simps) (simp add: digits_val_def)
  next
    case False
    with 1 show ?thesis by (subst nat_str.simps) (simp add: digits_val_snoc)
  qed
qed

lemma nat_str_hd: "nat_str n = c # r \<Longrightarrow> c \<noteq> CHR ''-'' \<and> c \<noteq> CHR ''+''"
proof -
  assume "nat_str n = c # r"
  with nat_str_digits [of n] have "IsDigit c" by simp
  then show ?thesis by (auto simp: IsDigit_def)
qed

lemma parse_int_Itoa: "int64_range n \<Longrightarrow> parse_int (Itoa n) = Some n"
proof (cases "n < 0")
  case True
  assume "int64_range n"
  with True nat_str_digits [of "nat (- n)"] show ?thesis
    by (simp add: parse_int_def Itoa_def Let_def)
next
  case False
  assume n: "int64_range n"
  obtain c r where "nat_str (nat n) = c # r" by (cases "nat_str (nat n)") auto
  with False n nat_str_hd [of "nat n" c r] nat_str_digits [of "nat n"]
    digits_val_nat_str [of "nat n"] show ?thesis
    by (simp add: parse_int_def Itoa_def Let_def)
qed

lemma Atoi_Itoa [simp]: "int64_range n \<Longrightarrow> Atoi (Itoa n) = Ok n"
  by (simp add: Atoi_def parse_int_Itoa)

lemma Atoi_range: "Atoi s = Ok n \<Longrightarrow> int64_range n"
  by (auto simp: Atoi_def parse_int_def Let_def split: option.splits if_splits)

lemma Atoi_not_Panic [simp]: "Atoi s \<noteq> Panic"
  by (simp add: Atoi_def split: option.splits)

lemma ParseBool_not_Panic [simp]: "ParseBool s \<noteq> Panic"
  by (simp add: ParseBool_def)

section \<open>path and path/filepath\<close>

definition slash :: char where
  "slash = CHR ''/''"

text \<open>\<open>path.Base\<close>: the last element, after trailing slashes are dropped.\<close>

definition Base :: "string \<Rightarrow> string" where
  "Base p =
     (if p = [] then ''.''
      else let q = rev (dropWhile (\<lambda>c. c = CHR ''/'') (rev p));
               b = rev (takeWhile (\<lambda>c. c \<noteq> CHR ''/'') (rev q))
           in if b = [] then ''/'' else b)"

text \<open>\<open>filepath.Clean\<close> on Unix, on the elements between slashes, kept in reverse: empty and
  \<open>.\<close> elements go, \<open>..\<close> removes the element before it, and a leading \<open>..\<close> stays only on a
  relative path.\<close>

definition dot_elem :: "string \<Rightarrow> bool" where
  "dot_elem e \<longleftrightarrow> e = [] \<or> e = ''.''"

definition up_elem :: "string \<Rightarrow> bool" where
  "up_elem e \<longleftrightarrow> e = ''..''"

fun clean_elems :: "bool \<Rightarrow> string list \<Rightarrow> string list \<Rightarrow> string list" where
  "clean_elems rooted acc [] = rev acc"
| "clean_elems rooted acc (e # es) =
     (if dot_elem e then clean_elems rooted acc es
      else if up_elem e then
        (case acc of
           [] \<Rightarrow> clean_elems rooted (if rooted then [] else [e]) es
         | a # as \<Rightarrow> if up_elem a then clean_elems rooted (e # acc) es
                      else clean_elems rooted as es)
      else clean_elems rooted (e # acc) es)"

definition is_abs :: "string \<Rightarrow> bool" where
  "is_abs p \<longleftrightarrow> HasPrefix p ''/''"

definition Clean :: "string \<Rightarrow> string" where
  "Clean p =
     (let es = clean_elems (is_abs p) [] (Split p (CHR ''/''));
          body = Join es (CHR ''/'')
      in if is_abs p then CHR ''/'' # body else if body = [] then ''.'' else body)"

text \<open>\<open>filepath.Join\<close> of two elements: empty elements are ignored, the rest is cleaned.\<close>

definition filepath_Join :: "string \<Rightarrow> string \<Rightarrow> string" where
  "filepath_Join a b =
     (if a = [] \<and> b = [] then []
      else if a = [] then Clean b
      else if b = [] then Clean a
      else Clean (a @ CHR ''/'' # b))"

text \<open>The elements of a cleaned rooted path hold no empty, dot or dot-dot element.\<close>

definition plain_elem :: "string \<Rightarrow> bool" where
  "plain_elem e \<longleftrightarrow> \<not> dot_elem e \<and> \<not> up_elem e"

lemma clean_elems_rooted:
  "list_all plain_elem acc \<Longrightarrow> list_all plain_elem (clean_elems True acc es)"
proof (induction es arbitrary: acc)
  case (Cons e es)
  then show ?case by (auto simp: plain_elem_def split: list.splits)
qed (simp add: list_all_iff)

lemma clean_elems_step:
  "\<exists>acc'. clean_elems r acc (e # es) = clean_elems r acc' es \<and> set acc' \<subseteq> insert e (set acc)"
proof (cases acc)
  case Nil
  then show ?thesis by (cases r) auto
next
  case (Cons a as)
  then show ?thesis by (cases "up_elem a") auto
qed

lemma clean_elems_subset: "x \<in> set (clean_elems r acc es) \<Longrightarrow> x \<in> set acc \<union> set es"
proof (induction es arbitrary: acc)
  case (Cons e es)
  obtain acc' where "clean_elems r acc (e # es) = clean_elems r acc' es"
    "set acc' \<subseteq> insert e (set acc)"
    using clean_elems_step by blast
  with Cons.prems Cons.IH [of acc'] show ?case by auto
qed simp

end
