(* ===== verification/GoRegexp.thy ===== *)
theory GoRegexp
  imports GoStrings
begin

text \<open>
  Go's package \<open>regexp\<close>, for the shape of expression the driver compiles: a sequence of literal
  characters (with or without the flag \<open>(?i)\<close>), single wildcards, starred wildcards and one
  capture group of one or more characters of a class. \<open>rmatch\<close> is the leftmost-first semantics:
  stars are greedy and give characters back only when the rest does not match.
  \<open>FindStringSubmatch\<close> tries the start positions from the left.

  The lemmas relate the matcher to the language of the expression: what it returns is a match
  (\<open>rmatch_sound\<close>), and it returns whenever there is one (\<open>rmatch_complete\<close>).
\<close>

datatype rchar = Lit char | LitFold char | AnyOf "char \<Rightarrow> bool"

fun accepts :: "rchar \<Rightarrow> char \<Rightarrow> bool" where
  "accepts (Lit a) c \<longleftrightarrow> c = a"
| "accepts (LitFold a) c \<longleftrightarrow> lower_char c = lower_char a"
| "accepts (AnyOf p) c \<longleftrightarrow> p c"

datatype ritem =
    One rchar
  | Many "char \<Rightarrow> bool"
  | Cap "char \<Rightarrow> bool"
  | CapMore "char \<Rightarrow> bool"

definition not_nl :: "char \<Rightarrow> bool" where
  "not_nl c \<longleftrightarrow> ord c \<noteq> 10"

text \<open>\<open>\S\<close>: everything but tab, newline, form feed, carriage return and space.\<close>

definition not_ws :: "char \<Rightarrow> bool" where
  "not_ws c \<longleftrightarrow> ord c \<notin> {9, 10, 12, 13, 32}"

definition lits :: "string \<Rightarrow> ritem list" where
  "lits s = map (\<lambda>c. One (Lit c)) s"

definition litsF :: "string \<Rightarrow> ritem list" where
  "litsF s = map (\<lambda>c. One (LitFold c)) s"

fun rmatch :: "string \<Rightarrow> ritem list \<Rightarrow> string \<Rightarrow> string option" where
  "rmatch cap [] s = Some cap"
| "rmatch cap (One r # is) s =
     (case s of [] \<Rightarrow> None | c # cs \<Rightarrow> if accepts r c then rmatch cap is cs else None)"
| "rmatch cap (Many p # is) s =
     (case s of [] \<Rightarrow> rmatch cap is []
      | c # cs \<Rightarrow>
          if p c then
            (case rmatch cap (Many p # is) cs of
               Some r \<Rightarrow> Some r
             | None \<Rightarrow> rmatch cap is (c # cs))
          else rmatch cap is (c # cs))"
| "rmatch cap (Cap p # is) s =
     (case s of [] \<Rightarrow> None
      | c # cs \<Rightarrow> if p c then rmatch (cap @ [c]) (CapMore p # is) cs else None)"
| "rmatch cap (CapMore p # is) s =
     (case s of [] \<Rightarrow> rmatch cap is []
      | c # cs \<Rightarrow>
          if p c then
            (case rmatch (cap @ [c]) (CapMore p # is) cs of
               Some r \<Rightarrow> Some r
             | None \<Rightarrow> rmatch cap is (c # cs))
          else rmatch cap is (c # cs))"

fun FindStringSubmatch :: "ritem list \<Rightarrow> string \<Rightarrow> string option" where
  "FindStringSubmatch is [] = rmatch [] is []"
| "FindStringSubmatch is (c # cs) =
     (case rmatch [] is (c # cs) of
        Some r \<Rightarrow> Some r
      | None \<Rightarrow> FindStringSubmatch is cs)"

text \<open>\<open>FindString(s) != ""\<close>: none of the driver's expressions matches the empty string.\<close>

definition MatchFound :: "ritem list \<Rightarrow> string \<Rightarrow> bool" where
  "MatchFound is s \<longleftrightarrow> FindStringSubmatch is s \<noteq> None"

section \<open>The language of an expression\<close>

text \<open>The strings a capture-free prefix of an expression matches.\<close>

fun lang :: "ritem list \<Rightarrow> string \<Rightarrow> bool" where
  "lang [] u \<longleftrightarrow> u = []"
| "lang (One r # is) u \<longleftrightarrow> (case u of [] \<Rightarrow> False | c # v \<Rightarrow> accepts r c \<and> lang is v)"
| "lang (Many p # is) u \<longleftrightarrow> (\<exists>v w. u = v @ w \<and> list_all p v \<and> lang is w)"
| "lang (Cap p # is) u \<longleftrightarrow> False"
| "lang (CapMore p # is) u \<longleftrightarrow> False"

fun no_cap :: "ritem \<Rightarrow> bool" where
  "no_cap (Cap p) = False"
| "no_cap (CapMore p) = False"
| "no_cap _ = True"

lemma lang_Many_Cons: "lang (Many p # is) u \<Longrightarrow> p c \<Longrightarrow> lang (Many p # is) (c # u)"
proof -
  assume "lang (Many p # is) u" "p c"
  then obtain v w where "u = v @ w" "list_all p v" "lang is w" by auto
  with \<open>p c\<close> have "c # u = (c # v) @ w" "list_all p (c # v)" "lang is w" by auto
  then show ?thesis unfolding lang.simps(3) by blast
qed

lemma lang_One: "lang (One r # is) u \<longleftrightarrow> (\<exists>c v. u = c # v \<and> accepts r c \<and> lang is v)"
  by (cases u) auto

lemma lang_append: "lang (xs @ ys) u \<longleftrightarrow> (\<exists>v w. u = v @ w \<and> lang xs v \<and> lang ys w)"
proof (induction xs arbitrary: u)
  case (Cons x xs)
  show ?case
  proof (cases x)
    case (Many p)
    show ?thesis
    proof
      assume "lang ((x # xs) @ ys) u"
      then obtain a b c where "u = a @ b @ c" "list_all p a" "lang xs b" "lang ys c"
        using Many Cons by auto
      then have "u = (a @ b) @ c" "lang (x # xs) (a @ b)" "lang ys c"
        using Many by auto
      then show "\<exists>v w. u = v @ w \<and> lang (x # xs) v \<and> lang ys w" by blast
    next
      assume "\<exists>v w. u = v @ w \<and> lang (x # xs) v \<and> lang ys w"
      then obtain a b c where abc: "u = a @ b @ c" "list_all p a" "lang xs b" "lang ys c"
        using Many by auto
      then have "lang (xs @ ys) (b @ c)" using Cons by blast
      with abc Many show "lang ((x # xs) @ ys) u" by auto
    qed
  next
    case (One r)
    show ?thesis
    proof (cases u)
      case u: (Cons c u')
      have "(\<exists>v w. u' = v @ w \<and> lang xs v \<and> lang ys w) \<and> accepts r c \<longleftrightarrow>
          (\<exists>v w. c # u' = v @ w \<and> lang (One r # xs) v \<and> lang ys w)"
        by (auto simp: Cons_eq_append_conv lang_One simp del: lang.simps(2))
      with One Cons u show ?thesis by auto
    qed (use One in auto)
  qed auto
qed auto

lemma lang_lits [simp]: "lang (lits s) u \<longleftrightarrow> u = s"
proof (induction s arbitrary: u)
  case (Cons a s)
  have "lits (a # s) = One (Lit a) # lits s" by (simp add: lits_def)
  with Cons show ?case by (cases u) simp_all
qed (simp add: lits_def)

lemma EqualFold_Cons: "EqualFold (c # s) (d # t) \<longleftrightarrow> lower_char c = lower_char d \<and> EqualFold s t"
  by (simp add: EqualFold_def ToLower_def)

lemma lang_litsF [simp]: "lang (litsF s) u \<longleftrightarrow> EqualFold u s"
proof (induction s arbitrary: u)
  case (Cons a s)
  have "litsF (a # s) = One (LitFold a) # litsF s" by (simp add: litsF_def)
  with Cons show ?case by (cases u) (simp_all add: EqualFold_Cons)
qed (simp add: litsF_def)

lemma no_cap_lits [simp]: "list_all no_cap (lits s)" "list_all no_cap (litsF s)"
  by (auto simp: lits_def litsF_def list_all_iff)

section \<open>Soundness and completeness of the matcher\<close>

lemma rmatch_CapMore [simp]: "rmatch cap [CapMore p] s = Some (cap @ takeWhile p s)"
  by (induction s arbitrary: cap) auto

lemma rmatch_Cap [simp]:
  "rmatch cap [Cap p] s = (if takeWhile p s = [] then None else Some (cap @ takeWhile p s))"
  by (cases s) (simp_all del: rmatch.simps(5))

declare rmatch.simps(4,5) [simp del]

text \<open>A match of an expression that ends in its capture group splits the input into a word of the
  prefix and a remainder whose longest prefix in the class is the capture.\<close>

lemma rmatch_sound:
  assumes "list_all no_cap is" "rmatch cap (is @ [Cap p]) s = Some r"
  shows "\<exists>u v. s = u @ v \<and> lang is u \<and> r = cap @ takeWhile p v \<and> takeWhile p v \<noteq> []"
  using assms
proof (induction "is" arbitrary: s)
  case Nil
  then show ?case by (auto split: if_splits)
next
  case (Cons x xs)
  have IH: "rmatch cap (xs @ [Cap p]) t = Some r \<Longrightarrow>
      \<exists>u v. t = u @ v \<and> lang xs u \<and> r = cap @ takeWhile p v \<and> takeWhile p v \<noteq> []" for t
    using Cons by simp
  show ?case
  proof (cases x)
    case (Many q)
    have "rmatch cap (Many q # xs @ [Cap p]) t = Some r \<Longrightarrow>
        \<exists>u v. t = u @ v \<and> lang (Many q # xs) u \<and> r = cap @ takeWhile p v \<and> takeWhile p v \<noteq> []" for t
    proof (induction t)
      case Nil
      then show ?case using IH [of "[]"] by auto
    next
      case (Cons c t)
      show ?case
      proof (cases "q c \<and> rmatch cap (Many q # xs @ [Cap p]) t = Some r")
        case True
        then obtain u v where "t = u @ v" "lang (Many q # xs) u"
          "r = cap @ takeWhile p v" "takeWhile p v \<noteq> []"
          using Cons.IH by blast
        with True lang_Many_Cons [of q xs u c] show ?thesis
          by (metis append_Cons)
      next
        case False
        with Cons.prems have "rmatch cap (xs @ [Cap p]) (c # t) = Some r"
          by (auto split: if_splits option.splits)
        then obtain u v where "c # t = u @ v" "lang xs u" "r = cap @ takeWhile p v"
          "takeWhile p v \<noteq> []" using IH by blast
        moreover from \<open>lang xs u\<close> have "lang (Many q # xs) u"
          by (auto intro: exI [of _ "[]"])
        ultimately show ?thesis by blast
      qed
    qed
    with Many Cons.prems show ?thesis by simp
  next
    case (One q)
    with Cons.prems obtain c t where c: "s = c # t" "accepts q c"
      "rmatch cap (xs @ [Cap p]) t = Some r"
      by (auto split: list.splits if_splits)
    then obtain u v where "t = u @ v" "lang xs u" "r = cap @ takeWhile p v" "takeWhile p v \<noteq> []"
      using IH by blast
    with c One have "s = (c # u) @ v" "lang (x # xs) (c # u)" by auto
    with \<open>r = cap @ takeWhile p v\<close> \<open>takeWhile p v \<noteq> []\<close> show ?thesis by blast
  qed (use Cons.prems in auto)
qed

lemma rmatch_complete:
  assumes "lang is u" "p c"
  shows "rmatch cap (is @ [Cap p]) (u @ c # t) \<noteq> None"
  using assms
proof (induction "is" u arbitrary: rule: lang.induct)
  case (3 q "is" u)
  then obtain v w where vw: "u = v @ w" "list_all q v" "lang is w" by auto
  with 3 have *: "rmatch cap (is @ [Cap p]) (w @ c # t) \<noteq> None" by auto
  have base: "rmatch cap (Many q # is @ [Cap p]) (w @ c # t) \<noteq> None"
    using * by (cases "w @ c # t") (auto split: option.splits)
  have "rmatch cap (Many q # is @ [Cap p]) (v @ w @ c # t) \<noteq> None"
    using vw(2) base by (induction v) (auto split: option.splits)
  with vw(1) show ?case by simp
qed (auto split: list.splits)

lemma FindStringSubmatch_sound:
  assumes "list_all no_cap is" "FindStringSubmatch (is @ [Cap p]) s = Some r"
  shows "\<exists>a u v. s = a @ u @ v \<and> lang is u \<and> r = takeWhile p v \<and> r \<noteq> []"
  using assms
proof (induction s)
  case Nil
  then show ?case using rmatch_sound [of "is" "[]" p "[]" r] by auto
next
  case (Cons c s)
  show ?case
  proof (cases "rmatch [] (is @ [Cap p]) (c # s)")
    case None
    with Cons show ?thesis by (metis FindStringSubmatch.simps(2) append_Cons option.simps(4))
  next
    case (Some r')
    with Cons.prems have "rmatch [] (is @ [Cap p]) (c # s) = Some r" by simp
    with Cons.prems(1) rmatch_sound [of "is" "[]" p "c # s" r] show ?thesis
      by (metis append_Nil)
  qed
qed

lemma FindStringSubmatch_start:
  "rmatch [] is s = Some r \<Longrightarrow> FindStringSubmatch is s = Some r"
  by (cases s) auto

lemma FindStringSubmatch_complete:
  assumes "lang is u" "p c"
  shows "FindStringSubmatch (is @ [Cap p]) (a @ u @ c # t) \<noteq> None"
proof (induction a)
  case Nil
  obtain r where "rmatch [] (is @ [Cap p]) (u @ c # t) = Some r"
    using rmatch_complete [of "is" u p c "[]" t] assms by blast
  then have "FindStringSubmatch (is @ [Cap p]) (u @ c # t) = Some r"
    by (rule FindStringSubmatch_start)
  then show ?case by simp
next
  case (Cons d a)
  then show ?case by (auto split: option.splits)
qed

section \<open>Counting slashes\<close>

text \<open>
  The number of slashes among the literals of an expression bounds the number in any word it
  matches. On a path with exactly as many slashes the wildcards match no slash, so the capture is
  the last element of the path.
\<close>

fun item_slashes :: "ritem \<Rightarrow> nat" where
  "item_slashes (One (Lit c)) = (if c = CHR ''/'' then 1 else 0)"
| "item_slashes (One (LitFold c)) = (if c = CHR ''/'' then 1 else 0)"
| "item_slashes _ = 0"

lemma item_slashes_One:
  "accepts r c \<Longrightarrow> item_slashes (One r) \<le> (if c = CHR ''/'' then 1 else 0)"
  by (cases r) auto

lemma lang_slashes: "lang is u \<Longrightarrow> sum_list (map item_slashes is) \<le> count_list u (CHR ''/'')"
proof (induction "is" u rule: lang.induct)
  case (3 p "is" u)
  then obtain v w where "u = v @ w" "lang is w" by auto
  with 3 have "sum_list (map item_slashes is) \<le> count_list w (CHR ''/'')" by blast
  with \<open>u = v @ w\<close> show ?case by simp
next
  case (2 r "is" u)
  then obtain c v where "u = c # v" "accepts r c" "lang is v" by (auto simp: lang_One simp del: lang.simps)
  with 2 item_slashes_One [of r c] show ?case by (auto split: if_splits)
qed auto

lemma last_elem_unique:
  assumes "u @ v = u' @ v'" "CHR ''/'' \<notin> set v" "CHR ''/'' \<notin> set v'"
    "u = w @ ''/''" "u' = w' @ ''/''"
  shows "v = v'"
proof -
  have *: "takeWhile (\<lambda>c. c \<noteq> CHR ''/'') (rev (z @ ''/'' @ x)) = rev x"
    if "CHR ''/'' \<notin> set x" for z x :: string
    using that by (subst rev_append, subst rev_append, subst append_assoc,
      subst takeWhile_append2) auto
  have "w @ ''/'' @ v = w' @ ''/'' @ v'" using assms by simp
  then have "rev v = rev v'" using * [of v w] * [of v' w'] assms(2,3) by metis
  then show ?thesis by simp
qed

lemma FindStringSubmatch_last_elem:
  assumes "list_all no_cap is" "lang is u0" "n \<noteq> []" "list_all p n"
    and slashes: "CHR ''/'' \<notin> set n" "count_list u0 (CHR ''/'') = sum_list (map item_slashes is)"
    and last: "\<And>u. lang is u \<Longrightarrow> \<exists>w. u = w @ ''/''"
  shows "FindStringSubmatch (is @ [Cap p]) (u0 @ n) = Some n"
proof -
  obtain c t where n: "n = c # t" using assms(3) by (cases n) auto
  then obtain r where r: "FindStringSubmatch (is @ [Cap p]) (u0 @ n) = Some r"
    using FindStringSubmatch_complete [of "is" u0 p c "[]" t] assms(2,4) by auto
  then obtain a u v where uv: "u0 @ n = (a @ u) @ v" "lang is u" "r = takeWhile p v"
    using FindStringSubmatch_sound [OF assms(1)] by (metis append_assoc)
  have "count_list (u0 @ n) (CHR ''/'') = sum_list (map item_slashes is)"
    using slashes by simp
  then have v: "CHR ''/'' \<notin> set v"
    using lang_slashes [OF uv(2)] uv(1) by (simp flip: count_list_0_iff)
  obtain w0 where "u0 = w0 @ ''/''" using last assms(2) by blast
  moreover obtain w where "a @ u = (a @ w) @ ''/''" using last uv(2) by auto
  ultimately have "n = v" using last_elem_unique uv(1) slashes(1) v by blast
  with uv(3) assms(4) r show ?thesis by (simp add: takeWhile_eq_all_conv list_all_iff)
qed

end
