(* ===== verification/VolumeHelper.thy ===== *)
theory VolumeHelper
  imports GoRegexp "HOL-Library.Multiset"
begin

text \<open>
  The package \<open>pkg/util\<close> (imported as \<open>volumehelper\<close>): size arithmetic in GiB, the parser of the
  \<open>tags\<close> parameter, the table of volume operation locks, the difference of two LUN lists, and
  the name of a disk from its URI. Also \<open>pkg/azuredisk/util.go\<close>, the map of per-node mutexes.

  The two lock tables implement one contract, the locale \<open>entry_lock\<close>: acquiring an entry
  succeeds exactly when nobody holds it, and neither operation touches another entry.
\<close>

section \<open>Sizes\<close>

definition GiB :: int where
  "GiB = 1024 * 1024 * 1024"

definition RoundUpSize :: "int \<Rightarrow> int \<Rightarrow> int" where
  "RoundUpSize volumeSizeBytes allocationUnitBytes =
     (let roundedUp = volumeSizeBytes sdiv allocationUnitBytes
      in if volumeSizeBytes smod allocationUnitBytes > 0 then roundedUp + 1 else roundedUp)"

definition RoundUpBytes :: "int \<Rightarrow> int" where
  "RoundUpBytes volumeSizeBytes = to_int64 (RoundUpSize volumeSizeBytes GiB * GiB)"

definition RoundUpGiB :: "int \<Rightarrow> int" where
  "RoundUpGiB volumeSizeBytes = RoundUpSize volumeSizeBytes GiB"

definition BytesToGiB :: "int \<Rightarrow> int" where
  "BytesToGiB volumeSizeBytes = volumeSizeBytes sdiv GiB"

definition GiBToBytes :: "int \<Rightarrow> int" where
  "GiBToBytes volumeSizeGiB = to_int64 (volumeSizeGiB * GiB)"

section \<open>Tags\<close>

definition TagsDelimiter :: char where
  "TagsDelimiter = CHR '',''"

definition TagKeyValueDelimiter :: char where
  "TagKeyValueDelimiter = CHR ''=''"

text \<open>The loop over the tags, with the map built so far.\<close>

fun convert_tags :: "string \<Rightarrow> string list \<Rightarrow> (string \<times> string) list \<Rightarrow>
    (string \<times> string) list res" where
  "convert_tags tags [] m = Ok m"
| "convert_tags tags (tag # rest) m =
     (case Split tag TagKeyValueDelimiter of
        [k, v] \<Rightarrow>
          (let key = TrimSpace k; value = TrimSpace v
           in if key = [] then
                Err (Errorf (''Tags '' @ quoted tags @ '' are invalid, the format should like: '' @
                  quoted ''key1=value1,key2=value2''))
              else if ContainsAny key ''<>%&?/.'' then
                Err (Errorf (''Tag key '' @ quoted key @ '' contains invalid characters''))
              else convert_tags tags rest (AList.update key value m))
      | _ \<Rightarrow> Err (Errorf (''Tags '' @ quoted tags @ '' are invalid, the format should like: '' @
                  quoted ''key1=value1,key2=value2'')))"

definition ConvertTagsToMap :: "string \<Rightarrow> (string \<times> string) list res" where
  "ConvertTagsToMap tags =
     (if tags = [] then Ok [] else convert_tags tags (Split tags TagsDelimiter) [])"

section \<open>Volume locks\<close>

record volume_locks =
  locks :: "string set"

definition NewVolumeLocks :: volume_locks where
  "NewVolumeLocks = \<lparr>locks = {}\<rparr>"

definition TryAcquire :: "volume_locks \<Rightarrow> string \<Rightarrow> bool \<times> volume_locks" where
  "TryAcquire vl volumeID =
     (if volumeID \<in> locks vl then (False, vl)
      else (True, vl\<lparr>locks := insert volumeID (locks vl)\<rparr>))"

definition Release :: "volume_locks \<Rightarrow> string \<Rightarrow> volume_locks" where
  "Release vl volumeID = vl\<lparr>locks := locks vl - {volumeID}\<rparr>"

section \<open>Difference of two lists\<close>

text \<open>The two-index loop, on what is left of each sorted slice.\<close>

fun diff_loop :: "int list \<Rightarrow> int list \<Rightarrow> int list" where
  "diff_loop (x # xs) (y # ys) =
     (if x < y then x # diff_loop xs (y # ys)
      else if x > y then diff_loop (x # xs) ys
      else diff_loop xs ys)"
| "diff_loop xs [] = xs"
| "diff_loop [] ys = []"

definition GetElementsInArray1NotInArray2 :: "int list \<Rightarrow> int list \<Rightarrow> int list" where
  "GetElementsInArray1NotInArray2 arr1 arr2 = diff_loop (sort arr1) (sort arr2)"

section \<open>Disk name\<close>

definition volumeNameRE :: "ritem list" where
  "volumeNameRE = lits ''Microsoft.Compute/disks/'' @ [Cap not_ws]"

definition GetVolumeName :: "string \<Rightarrow> string res" where
  "GetVolumeName diskURI =
     (case FindStringSubmatch volumeNameRE diskURI of
        Some name \<Rightarrow> Ok name
      | None \<Rightarrow> Err (Errorf (''could not parse disk name from URI: '' @ diskURI)))"

section \<open>The map of mutexes\<close>

text \<open>
  An entry of \<open>mutexMap\<close> says whether its mutex is locked. \<open>LockEntry\<close> is \<open>None\<close> while the
  mutex is locked by somebody else: the goroutine waits. Unlocking an unlocked mutex is a fatal
  error of the runtime.
\<close>

record lockMap =
  mutexMap :: "(string \<times> bool) list"

definition newLockMap :: lockMap where
  "newLockMap = \<lparr>mutexMap = []\<rparr>"

definition LockEntry :: "lockMap \<Rightarrow> string \<Rightarrow> lockMap option" where
  "LockEntry lm entry =
     (let mutex = (case map_of (mutexMap lm) entry of None \<Rightarrow> False | Some b \<Rightarrow> b)
      in if mutex then None else Some (lm\<lparr>mutexMap := AList.update entry True (mutexMap lm)\<rparr>))"

definition UnlockEntry :: "lockMap \<Rightarrow> string \<Rightarrow> lockMap res" where
  "UnlockEntry lm entry =
     (case map_of (mutexMap lm) entry of
        None \<Rightarrow> Ok lm
      | Some locked \<Rightarrow>
          if locked then Ok (lm\<lparr>mutexMap := AList.update entry False (mutexMap lm)\<rparr>)
          else Panic)"

definition entry_locked :: "lockMap \<Rightarrow> string \<Rightarrow> bool" where
  "entry_locked lm entry \<longleftrightarrow> map_of (mutexMap lm) entry = Some True"

section \<open>The contract of a table of locks\<close>

locale entry_lock =
  fixes held :: "'s \<Rightarrow> string \<Rightarrow> bool"
    and acquire :: "'s \<Rightarrow> string \<Rightarrow> 's option"
    and release :: "'s \<Rightarrow> string \<Rightarrow> 's"
  assumes acquire_None: "acquire s k = None \<longleftrightarrow> held s k"
    and acquire_held: "acquire s k = Some t \<Longrightarrow> held t j \<longleftrightarrow> j = k \<or> held s j"
    and release_held: "held s k \<Longrightarrow> held (release s k) j \<longleftrightarrow> j \<noteq> k \<and> held s j"
begin

lemma acquire_takes: "acquire s k = Some t \<Longrightarrow> held t k"
  by (simp add: acquire_held)

lemma acquire_twice: "acquire s k = Some t \<Longrightarrow> acquire t k = None"
  by (simp add: acquire_None acquire_held)

lemma critical_section: "acquire s k = Some t \<Longrightarrow> held (release t k) j \<longleftrightarrow> held s j"
  using acquire_None [of s k] acquire_held [of s k t] release_held [of t k j] by auto

lemma after_release: "acquire s k = Some t \<Longrightarrow> acquire (release t k) k \<noteq> None"
  using acquire_None acquire_takes release_held by blast

text \<open>
  Clients of a table: \<open>h\<close> records which client is inside the critical section of which entry.
  Clients enter by acquiring and leave by releasing, in any order.
\<close>

inductive clients :: "'s \<Rightarrow> (nat \<times> string) set \<Rightarrow> bool" where
  start: "\<forall>k. \<not> held s k \<Longrightarrow> clients s {}"
| enter: "clients s h \<Longrightarrow> acquire s k = Some t \<Longrightarrow> clients t (insert (c, k) h)"
| leave: "clients s h \<Longrightarrow> (c, k) \<in> h \<Longrightarrow> clients (release s k) (h - {(c, k)})"

lemma clients_inv:
  "clients s h \<Longrightarrow> (\<forall>k. held s k \<longleftrightarrow> (\<exists>c. (c, k) \<in> h)) \<and>
     (\<forall>c d k. (c, k) \<in> h \<longrightarrow> (d, k) \<in> h \<longrightarrow> c = d)"
proof (induction rule: clients.induct)
  case (enter s h k t c)
  then have "\<not> held s k" using acquire_None by (metis option.distinct(1))
  with enter acquire_held [of s k t] show ?case by auto
next
  case (leave s h c k)
  then have "held s k" by blast
  with leave release_held [of s k] show ?case by (auto; blast)
qed simp

lemma exclusion: "clients s h \<Longrightarrow> (c, k) \<in> h \<Longrightarrow> (d, k) \<in> h \<Longrightarrow> c = d"
  using clients_inv by blast

end

text \<open>Both tables of the driver satisfy the contract.\<close>

definition try_acquire_opt :: "volume_locks \<Rightarrow> string \<Rightarrow> volume_locks option" where
  "try_acquire_opt vl k = (let (acquired, vl') = TryAcquire vl k in if acquired then Some vl' else None)"

interpretation vlock: entry_lock "\<lambda>vl k. k \<in> locks vl" try_acquire_opt Release
  by unfold_locales (auto simp: try_acquire_opt_def TryAcquire_def Release_def split: if_splits)

definition unlock_entry :: "lockMap \<Rightarrow> string \<Rightarrow> lockMap" where
  "unlock_entry lm k = (case UnlockEntry lm k of Ok lm' \<Rightarrow> lm' | _ \<Rightarrow> lm)"

interpretation nlock: entry_lock entry_locked LockEntry unlock_entry
  by unfold_locales
    (auto simp: LockEntry_def UnlockEntry_def unlock_entry_def entry_locked_def update_conv'
      split: if_splits option.splits)

section \<open>Properties\<close>

subsection \<open>Sizes\<close>

lemma sdiv_nonneg: "0 \<le> (a::int) \<Longrightarrow> 0 < b \<Longrightarrow> a sdiv b = a div b"
  by (simp add: signed_divide_int_def sgn_if)

lemma smod_nonneg: "0 \<le> (a::int) \<Longrightarrow> 0 < b \<Longrightarrow> a smod b = a mod b"
  by (cases "a = 0") (simp_all add: signed_modulo_int_def)

lemma RoundUpSize_eq:
  "0 \<le> a \<Longrightarrow> 0 < u \<Longrightarrow> RoundUpSize a u = a div u + (if a mod u > 0 then 1 else 0)"
  by (simp add: RoundUpSize_def sdiv_nonneg smod_nonneg)

lemma RoundUpSize_bounds:
  assumes "0 \<le> a" "0 < u"
  shows "a \<le> RoundUpSize a u * u" "RoundUpSize a u * u < a + u" "0 \<le> RoundUpSize a u"
proof -
  have a: "a = u * (a div u) + a mod u" by simp
  have m: "0 \<le> a mod u" "a mod u < u" using assms by simp_all
  have "0 \<le> a div u" using assms by (simp add: pos_imp_zdiv_nonneg_iff)
  then show "0 \<le> RoundUpSize a u" using assms by (simp add: RoundUpSize_eq)
  have r: "RoundUpSize a u * u = u * (a div u) + (if a mod u > 0 then u else 0)"
    using assms by (simp add: RoundUpSize_eq algebra_simps)
  show "a \<le> RoundUpSize a u * u" "RoundUpSize a u * u < a + u"
    unfolding r using a m by (simp_all only: split: if_split, linarith+)
qed

lemma RoundUpGiB_nonneg [simp]: "0 \<le> b \<Longrightarrow> 0 \<le> RoundUpGiB b"
  by (simp add: RoundUpGiB_def GiB_def RoundUpSize_bounds)

lemma RoundUpGiB_upper: "0 \<le> b \<Longrightarrow> int64_range b \<Longrightarrow> RoundUpGiB b \<le> 8589934592"
  using RoundUpSize_bounds(2) [of b GiB]
  by (simp add: RoundUpGiB_def GiB_def int64_range_def)

text \<open>RoundUpGiB returns the least number of GiB that holds the given number of bytes: the
  result covers the bytes, and any number of GiB that covers them is at least the result.\<close>

theorem RoundUpGiB_least:
  assumes "0 \<le> b"
  shows "b \<le> RoundUpGiB b * GiB \<and> (\<forall>n. b \<le> n * GiB \<longrightarrow> RoundUpGiB b \<le> n)"
proof -
  have u: "0 < GiB" by (simp add: GiB_def)
  note bounds = RoundUpSize_bounds [OF assms u]
  have "RoundUpGiB b \<le> n" if "b \<le> n * GiB" for n
  proof -
    have "RoundUpGiB b * GiB < (n + 1) * GiB"
      using bounds(2) that by (simp add: RoundUpGiB_def algebra_simps)
    then show ?thesis using u by (simp add: mult_less_cancel_right_disj)
  qed
  with bounds(1) show ?thesis by (simp add: RoundUpGiB_def)
qed

theorem RoundUpGiB_least_witness:
  "(1610612736::int) \<le> RoundUpGiB 1610612736 * GiB \<and> RoundUpGiB 1610612736 = 2"
  using RoundUpGiB_least [of 1610612736]
  by (simp add: RoundUpGiB_def RoundUpSize_eq GiB_def)

text \<open>RoundUpBytes never returns less than it was given, except in the last GiB below the
  greatest int64, where the multiplication overflows and the result is the least int64.\<close>

theorem RoundUpBytes_overflow:
  assumes "0 \<le> b" "int64_range b"
  shows "RoundUpBytes b = (if b \<le> 9223372035781033984 then RoundUpGiB b * GiB
                           else - 9223372036854775808) \<and>
         (b \<le> RoundUpBytes b \<longleftrightarrow> b \<le> 9223372035781033984)"
proof -
  have u: "0 < GiB" by (simp add: GiB_def)
  note bounds = RoundUpSize_bounds [OF assms(1) u]
  let ?n = "RoundUpSize b GiB"
  show ?thesis
  proof (cases "b \<le> 9223372035781033984")
    case True
    have "?n \<le> 8589934591" using bounds(2) True by (simp add: GiB_def)
    then have "int64_range (?n * GiB)"
      using bounds(3) by (simp add: int64_range_def GiB_def)
    with True bounds(1) show ?thesis by (simp add: RoundUpBytes_def RoundUpGiB_def)
  next
    case False
    have "?n = 8589934592"
      using bounds(1,2) False assms(2) by (simp add: GiB_def int64_range_def)
    then have "RoundUpBytes b = - 9223372036854775808"
      by (simp add: RoundUpBytes_def GiB_def to_int64_def)
    with False assms(1) show ?thesis by simp
  qed
qed

theorem RoundUpBytes_overflow_witness:
  "RoundUpBytes 9223372036854775807 = - 9223372036854775808 \<and> RoundUpBytes 1 = 1073741824"
  using RoundUpBytes_overflow [of 9223372036854775807] RoundUpBytes_overflow [of 1]
  by (simp add: int64_range_def RoundUpGiB_def RoundUpSize_eq GiB_def)

subsection \<open>Tags\<close>

definition tag_text :: "string \<times> string \<Rightarrow> string" where
  "tag_text kv = fst kv @ TagKeyValueDelimiter # snd kv"

definition plain_text :: "string \<Rightarrow> bool" where
  "plain_text s \<longleftrightarrow> TagsDelimiter \<notin> set s \<and> TagKeyValueDelimiter \<notin> set s \<and> TrimSpace s = s"

definition valid_tag :: "string \<times> string \<Rightarrow> bool" where
  "valid_tag kv \<longleftrightarrow> plain_text (fst kv) \<and> plain_text (snd kv) \<and> fst kv \<noteq> [] \<and>
     \<not> ContainsAny (fst kv) ''<>%&?/.''"

lemma convert_tags_valid:
  assumes "list_all valid_tag kvs" "distinct (map fst (m @ kvs))"
  shows "convert_tags tags (map tag_text kvs) m = Ok (m @ kvs)"
  using assms
proof (induction kvs arbitrary: m)
  case (Cons kv kvs)
  obtain k v where kv: "kv = (k, v)" by fastforce
  from Cons.prems have v: "plain_text k" "plain_text v" "k \<noteq> []" "\<not> ContainsAny k ''<>%&?/.''"
    by (simp_all add: kv valid_tag_def)
  then have split: "Split (tag_text kv) TagKeyValueDelimiter = [k, v]"
    by (simp add: tag_text_def kv Split_append_sep Split_no_sep plain_text_def)
  have "AList.update k v m = m @ [(k, v)]"
  proof -
    have "k \<notin> set (map fst m)" using Cons.prems by (auto simp: kv)
    then show ?thesis by (induction m) auto
  qed
  with v split Cons show ?case
    by (simp add: kv Let_def plain_text_def)
qed simp

lemma tag_text_no_comma: "valid_tag kv \<Longrightarrow> TagsDelimiter \<notin> set (tag_text kv)"
  by (auto simp: valid_tag_def plain_text_def tag_text_def TagsDelimiter_def TagKeyValueDelimiter_def)

text \<open>Writing a list of valid tags with distinct keys as key=value pairs joined by commas and
  parsing the text gives the tags back, in order; an empty list is the empty text.\<close>

theorem ConvertTagsToMap_roundtrip:
  assumes "list_all valid_tag kvs" "distinct (map fst kvs)"
  shows "ConvertTagsToMap (Join (map tag_text kvs) TagsDelimiter) = Ok kvs"
proof (cases kvs)
  case Nil
  then show ?thesis by (simp add: ConvertTagsToMap_def)
next
  case (Cons kv rest)
  have "\<forall>x \<in> set (map tag_text kvs). TagsDelimiter \<notin> set x"
    using assms(1) by (auto simp: list_all_iff tag_text_no_comma)
  with Cons have "Split (Join (map tag_text kvs) TagsDelimiter) TagsDelimiter = map tag_text kvs"
    by (intro Split_Join) auto
  moreover have "Join (map tag_text kvs) TagsDelimiter \<noteq> []"
    using Cons by (cases rest) (auto simp: tag_text_def)
  ultimately show ?thesis
    using convert_tags_valid [of kvs "[]"] assms by (simp add: ConvertTagsToMap_def)
qed

theorem ConvertTagsToMap_roundtrip_witness:
  "ConvertTagsToMap (Join (map tag_text [(''env'', ''prod''), (''team'', ''x y'')]) TagsDelimiter)
     = Ok [(''env'', ''prod''), (''team'', ''x y'')]"
  by (rule ConvertTagsToMap_roundtrip)
    (simp_all add: valid_tag_def plain_text_def TagsDelimiter_def TagKeyValueDelimiter_def
      ContainsAny_def TrimSpace_def is_space_def)

text \<open>Whatever is accepted has usable keys: no key of the result is empty or holds a character
  that is not allowed. In particular the keys of the driver's own tags, which hold dots, cannot
  come from the user.\<close>

lemma convert_tags_keys:
  "convert_tags tags ts m = Ok r \<Longrightarrow> \<forall>k \<in> fst ` set m. k \<noteq> [] \<and> \<not> ContainsAny k ''<>%&?/.'' \<Longrightarrow>
   \<forall>k \<in> fst ` set r. k \<noteq> [] \<and> \<not> ContainsAny k ''<>%&?/.''"
proof (induction tags ts m rule: convert_tags.induct)
  case (2 tags tag rest m)
  obtain k v where kv: "Split tag TagKeyValueDelimiter = [k, v]"
    using 2(2) by (auto split: list.splits)
  with 2(2) have ok: "TrimSpace k \<noteq> []" "\<not> ContainsAny (TrimSpace k) ''<>%&?/.''"
    "convert_tags tags rest (AList.update (TrimSpace k) (TrimSpace v) m) = Ok r"
    by (auto simp: Let_def split: if_splits)
  have "\<forall>j \<in> fst ` set (AList.update (TrimSpace k) (TrimSpace v) m).
      j \<noteq> [] \<and> \<not> ContainsAny j ''<>%&?/.''"
    using 2(3) ok(1,2) dom_update [of "TrimSpace k" "TrimSpace v" m] by auto
  then show ?case using 2(1) [OF kv refl refl refl refl ok(1,2) ok(3)] by blast
qed simp

lemma ConvertTagsToMap_keys:
  "ConvertTagsToMap tags = Ok r \<Longrightarrow> k \<in> fst ` set r \<Longrightarrow> k \<noteq> [] \<and> \<not> ContainsAny k ''<>%&?/.''"
  using convert_tags_keys [of tags _ "[]"] by (auto simp: ConvertTagsToMap_def split: if_splits)

lemma ConvertTagsToMap_not_Panic [simp]: "ConvertTagsToMap tags \<noteq> Panic"
proof -
  have "convert_tags tags ts m \<noteq> Panic" for ts m
    by (induction tags ts m rule: convert_tags.induct) (auto simp: Let_def split: list.splits)
  then show ?thesis by (simp add: ConvertTagsToMap_def)
qed

subsection \<open>Locks\<close>

text \<open>
  The clients of the lock table of volume operations: a client that got \<open>True\<close> from
  \<open>TryAcquire\<close> is inside the critical section of that volume until it calls \<open>Release\<close>; a
  client that got \<open>False\<close> has changed nothing.
\<close>

inductive lock_clients :: "volume_locks \<Rightarrow> (nat \<times> string) set \<Rightarrow> bool" where
  lc_start: "lock_clients NewVolumeLocks {}"
| lc_acquired: "lock_clients vl h \<Longrightarrow> TryAcquire vl k = (True, vl') \<Longrightarrow>
     lock_clients vl' (insert (c, k) h)"
| lc_refused: "lock_clients vl h \<Longrightarrow> TryAcquire vl k = (False, vl') \<Longrightarrow> lock_clients vl' h"
| lc_release: "lock_clients vl h \<Longrightarrow> (c, k) \<in> h \<Longrightarrow> lock_clients (Release vl k) (h - {(c, k)})"

lemma TryAcquire_False: "TryAcquire vl k = (False, vl') \<Longrightarrow> vl' = vl \<and> k \<in> locks vl"
  by (auto simp: TryAcquire_def split: if_splits)

lemma TryAcquire_True:
  "TryAcquire vl k = (True, vl') \<Longrightarrow> k \<notin> locks vl \<and> vl' = vl\<lparr>locks := insert k (locks vl)\<rparr>"
  by (auto simp: TryAcquire_def split: if_splits)

lemma Release_TryAcquire: "TryAcquire vl k = (True, vl') \<Longrightarrow> Release vl' k = vl"
  by (auto simp: TryAcquire_def Release_def split: if_splits)

lemma lock_clients_refine: "lock_clients vl h \<Longrightarrow> vlock.clients vl h"
proof (induction rule: lock_clients.induct)
  case lc_start
  show ?case by (rule vlock.start) (simp add: NewVolumeLocks_def)
next
  case (lc_acquired vl h k vl' c)
  then have "try_acquire_opt vl k = Some vl'" by (simp add: try_acquire_opt_def)
  with lc_acquired.IH show ?case by (rule vlock.enter)
next
  case (lc_refused vl h k vl')
  then show ?case by (auto dest: TryAcquire_False)
next
  case (lc_release vl h c k)
  then show ?case by (auto intro: vlock.leave)
qed

text \<open>C35. At every moment at most one client is inside the critical section of a volume, and the
  table holds exactly the volumes some client is inside of, whatever the order of the calls.\<close>

theorem volume_locks_exclusive:
  assumes "lock_clients vl h"
  shows "(\<forall>c d k. (c, k) \<in> h \<longrightarrow> (d, k) \<in> h \<longrightarrow> c = d) \<and> locks vl = snd ` h"
  using vlock.clients_inv [OF lock_clients_refine [OF assms]] by (auto simp: image_iff Bex_def)

theorem volume_locks_exclusive_witness:
  "locks \<lparr>locks = {''disk1''}\<rparr> = snd ` {(7::nat, ''disk1'')}"
proof -
  have "lock_clients \<lparr>locks = {''disk1''}\<rparr> (insert (7, ''disk1'') {})"
    by (rule lc_acquired [OF lc_start, of "''disk1''"])
      (simp add: TryAcquire_def NewVolumeLocks_def)
  from volume_locks_exclusive [OF this] show ?thesis by simp
qed

subsection \<open>Difference of LUN lists\<close>

lemma mset_diff_loop:
  "sorted xs \<Longrightarrow> sorted ys \<Longrightarrow> mset (diff_loop xs ys) = mset xs - mset ys"
proof (induction xs ys rule: diff_loop.induct)
  case (1 x xs y ys)
  show ?case
  proof (cases x y rule: linorder_cases)
    case less
    with 1 have "x \<notin> set (y # ys)" by auto
    then have "x \<notin># mset (y # ys)" by simp
    moreover have "mset (diff_loop xs (y # ys)) = mset xs - mset (y # ys)"
      using 1 less by simp
    ultimately show ?thesis using less by (simp add: diff_union_swap)
  next
    case greater
    with 1 have "y \<notin> set (x # xs)" by auto
    moreover have "mset (diff_loop (x # xs) ys) = mset (x # xs) - mset ys"
      using 1 greater by simp
    ultimately show ?thesis using greater
      by (simp add: diff_single_trivial flip: diff_diff_add_mset)
  next
    case equal
    with 1 show ?thesis by simp
  qed
qed auto

lemma set_diff_loop: "set (diff_loop xs ys) \<subseteq> set xs"
  by (induction xs ys rule: diff_loop.induct) auto

lemma sorted_diff_loop: "sorted xs \<Longrightarrow> sorted (diff_loop xs ys)"
proof (induction xs ys rule: diff_loop.induct)
  case (1 x xs y ys)
  then show ?case using set_diff_loop [of xs "y # ys"] by auto
qed auto

text \<open>The difference of two LUN lists is their difference as multisets, in ascending order: a
  LUN recorded twice and used once is still reported.\<close>

theorem GetElementsInArray1NotInArray2_correct:
  "mset (GetElementsInArray1NotInArray2 arr1 arr2) = mset arr1 - mset arr2 \<and>
   sorted (GetElementsInArray1NotInArray2 arr1 arr2)"
  by (simp add: GetElementsInArray1NotInArray2_def mset_diff_loop sorted_diff_loop)

subsection \<open>Disk name\<close>

lemma GetVolumeName_sound:
  assumes "GetVolumeName diskURI = Ok n"
  shows "\<exists>a v. diskURI = a @ ''Microsoft.Compute/disks/'' @ v \<and> n = takeWhile not_ws v \<and> n \<noteq> []"
proof -
  have "FindStringSubmatch (lits ''Microsoft.Compute/disks/'' @ [Cap not_ws]) diskURI = Some n"
    using assms by (simp add: GetVolumeName_def volumeNameRE_def split: option.splits)
  from FindStringSubmatch_sound [OF no_cap_lits(1) this] show ?thesis by auto
qed

lemma GetVolumeName_complete:
  assumes "not_ws c"
  shows "\<exists>n. GetVolumeName (a @ ''Microsoft.Compute/disks/'' @ c # t) = Ok n"
  using FindStringSubmatch_complete [of "lits ''Microsoft.Compute/disks/''"
      "''Microsoft.Compute/disks/''" not_ws c a t] assms
  by (auto simp: GetVolumeName_def volumeNameRE_def)

end
