(* ===== verification/AzureConstants.thy ===== *)
theory AzureConstants
  imports GoRegexp
begin

text \<open>
  The constants of \<open>pkg/azureconstants/azure_constants.go\<close>: parameter and tag keys, sizes and
  throttling bounds, the path of a managed disk and the expression that recognises it. A constant
  whose Go name is a HOL name here gets a suffix.
\<close>

definition AzureDiskCSIDriverName :: string where
  "AzureDiskCSIDriverName = ''azuredisk_csi_driver''"

definition CachingModeField :: string where
  "CachingModeField = ''cachingmode''"

definition DefaultAzureCredentialFileEnv :: string where
  "DefaultAzureCredentialFileEnv = ''AZURE_CREDENTIAL_FILE''"

definition DefaultCredFilePathLinux :: string where
  "DefaultCredFilePathLinux = ''/etc/kubernetes/azure.json''"

definition DefaultCredFilePathWindows :: string where
  "DefaultCredFilePathWindows = ''C:'' @ [CHR 0x5C] @ ''k'' @ [CHR 0x5C] @ ''azure.json''"

definition DefaultDriverName :: string where
  "DefaultDriverName = ''azuredisk.csi.confidential.cloud''"

definition DesIDField :: string where
  "DesIDField = ''diskencryptionsetid''"

definition DiskEncryptionTypeField :: string where
  "DiskEncryptionTypeField = ''diskencryptiontype''"

definition DiskAccessIDField :: string where
  "DiskAccessIDField = ''diskaccessid''"

definition DiskIOPSReadWriteField :: string where
  "DiskIOPSReadWriteField = ''diskiopsreadwrite''"

definition DiskMBPSReadWriteField :: string where
  "DiskMBPSReadWriteField = ''diskmbpsreadwrite''"

definition DiskNameField :: string where
  "DiskNameField = ''diskname''"

definition EnableBurstingField :: string where
  "EnableBurstingField = ''enablebursting''"

definition ErrDiskNotFound :: string where
  "ErrDiskNotFound = ''not found''"

definition FsTypeField :: string where
  "FsTypeField = ''fstype''"

definition IncrementalField :: string where
  "IncrementalField = ''incremental''"

definition KindField :: string where
  "KindField = ''kind''"

definition LocationField :: string where
  "LocationField = ''location''"

definition LogicalSectorSizeField :: string where
  "LogicalSectorSizeField = ''logicalsectorsize''"

definition LUN :: string where
  "LUN = ''LUN''"

definition MaxSharesField :: string where
  "MaxSharesField = ''maxshares''"

definition MinimumDiskSizeGiB :: int where
  "MinimumDiskSizeGiB = 1"

definition NetworkAccessPolicyField :: string where
  "NetworkAccessPolicyField = ''networkaccesspolicy''"

definition PublicNetworkAccessField :: string where
  "PublicNetworkAccessField = ''publicnetworkaccess''"

definition NotFoundText :: string where
  "NotFoundText = ''NotFound''"

definition PerfProfileBasic :: string where
  "PerfProfileBasic = ''basic''"

definition PerfProfileAdvanced :: string where
  "PerfProfileAdvanced = ''advanced''"

definition PerfProfileField :: string where
  "PerfProfileField = ''perfprofile''"

definition PerfProfileNone :: string where
  "PerfProfileNone = ''none''"

definition PremiumAccountPrefix :: string where
  "PremiumAccountPrefix = ''premium''"

definition PvcNameKey :: string where
  "PvcNameKey = ''csi.storage.k8s.io/pvc/name''"

definition PvcNamespaceKey :: string where
  "PvcNamespaceKey = ''csi.storage.k8s.io/pvc/namespace''"

definition PvcNamespaceTag :: string where
  "PvcNamespaceTag = ''kubernetes.io-created-for-pvc-namespace''"

definition PvcNameTag :: string where
  "PvcNameTag = ''kubernetes.io-created-for-pvc-name''"

definition PvNameKey :: string where
  "PvNameKey = ''csi.storage.k8s.io/pv/name''"

definition PvNameTag :: string where
  "PvNameTag = ''kubernetes.io-created-for-pv-name''"

definition RateLimited :: string where
  "RateLimited = ''rate limited''"

definition RequestedSizeGib :: string where
  "RequestedSizeGib = ''requestedsizegib''"

definition ResizeRequired :: string where
  "ResizeRequired = ''resizeRequired''"

definition SubscriptionIDField :: string where
  "SubscriptionIDField = ''subscriptionid''"

definition ResourceGroupField :: string where
  "ResourceGroupField = ''resourcegroup''"

definition DataAccessAuthModeField :: string where
  "DataAccessAuthModeField = ''dataaccessauthmode''"

definition ResourceNotFound :: string where
  "ResourceNotFound = ''ResourceNotFound''"

definition SkuNameField :: string where
  "SkuNameField = ''skuname''"

definition SourceDiskSearchMaxDepth :: int where
  "SourceDiskSearchMaxDepth = 10"

definition SourceSnapshot :: string where
  "SourceSnapshot = ''snapshot''"

definition SourceVolume :: string where
  "SourceVolume = ''volume''"

definition StandardSsdAccountPrefix :: string where
  "StandardSsdAccountPrefix = ''standardssd''"

definition StorageAccountTypeField :: string where
  "StorageAccountTypeField = ''storageaccounttype''"

definition TagsField :: string where
  "TagsField = ''tags''"

definition GetDiskThrottlingKey :: string where
  "GetDiskThrottlingKey = ''getdiskthrottlingKey''"

definition CheckDiskLunThrottlingKey :: string where
  "CheckDiskLunThrottlingKey = ''checkdisklunthrottlingKey''"

definition TrueValue :: string where
  "TrueValue = ''true''"

definition FalseValue :: string where
  "FalseValue = ''false''"

definition UserAgentField :: string where
  "UserAgentField = ''useragent''"

definition VolumeAttributePartition :: string where
  "VolumeAttributePartition = ''partition''"

definition WellKnownTopologyKey :: string where
  "WellKnownTopologyKey = ''topology.kubernetes.io/zone''"

definition InstanceTypeKey :: string where
  "InstanceTypeKey = ''node.kubernetes.io/instance-type''"

definition WriteAcceleratorEnabledConst :: string where
  "WriteAcceleratorEnabledConst = ''writeacceleratorenabled''"

definition ZonedField :: string where
  "ZonedField = ''zoned''"

definition EnableAsyncAttachField :: string where
  "EnableAsyncAttachField = ''enableasyncattach''"

definition PerformancePlusField :: string where
  "PerformancePlusField = ''enableperformanceplus''"

definition PerformancePlusMinimumDiskSizeGiB :: int where
  "PerformancePlusMinimumDiskSizeGiB = 513"

definition AttachDiskInitialDelayField :: string where
  "AttachDiskInitialDelayField = ''attachdiskinitialdelay''"

definition TooManyRequests :: string where
  "TooManyRequests = ''TooManyRequests''"

definition ClientThrottled :: string where
  "ClientThrottled = ''client throttled''"

definition VolumeIDLabel :: string where
  "VolumeIDLabel = ''volumeid''"

definition NodeLabel :: string where
  "NodeLabel = ''node''"

definition SourceResourceIDLabel :: string where
  "SourceResourceIDLabel = ''source_resource_id''"

definition SnapshotNameLabel :: string where
  "SnapshotNameLabel = ''snapshot_name''"

definition SnapshotIDLabel :: string where
  "SnapshotIDLabel = ''snapshot_id''"

definition DeviceSettingsKeyPrefix :: string where
  "DeviceSettingsKeyPrefix = ''device-setting/''"

definition BlockDeviceRootPathLinux :: string where
  "BlockDeviceRootPathLinux = ''/sys/block''"

definition DummyBlockDevicePathLinux :: string where
  "DummyBlockDevicePathLinux = ''/sys/block/sda''"

definition SnapshotOpThrottlingSleepSec :: int where
  "SnapshotOpThrottlingSleepSec = 50"

definition MaxThrottlingSleepSec :: int where
  "MaxThrottlingSleepSec = 1200"

text \<open>\<open>fmt.Sprintf(ManagedDiskPath, subscription, resource group, name)\<close>.\<close>

definition ManagedDiskPath :: "string \<Rightarrow> string \<Rightarrow> string \<Rightarrow> string" where
  "ManagedDiskPath subs rg name =
     ''/subscriptions/'' @ subs @ ''/resourceGroups/'' @ rg @
     ''/providers/Microsoft.Compute/disks/'' @ name"

text \<open>\<open>(?i).*/subscriptions/(?:.*)/resourceGroups/(?:.*)/providers/Microsoft.Compute/disks/(.+)\<close>:
  the dot in the provider's name is a wildcard too.\<close>

definition managed_prefix :: "(string \<Rightarrow> ritem list) \<Rightarrow> string \<Rightarrow> ritem list" where
  "managed_prefix lit kind =
     Many not_nl # lit ''/subscriptions/'' @ Many not_nl # lit ''/resourceGroups/'' @
     Many not_nl # lit ''/providers/Microsoft'' @ One (AnyOf not_nl) # lit (''Compute/'' @ kind)"

definition ManagedDiskPathRE :: "ritem list" where
  "ManagedDiskPathRE = managed_prefix litsF ''disks/'' @ [Cap not_nl]"

text \<open>The text of the expression, which error messages quote; \<open>kind\<close> is \<open>disks\<close> or
  \<open>snapshots\<close>.\<close>

definition managed_RE_String :: "string \<Rightarrow> string" where
  "managed_RE_String kind =
     ''(?i).*/subscriptions/(?:.*)/resourceGroups/(?:.*)/providers/Microsoft.Compute/'' @ kind @ ''/(.+)''"

lemmas azure_consts = AzureDiskCSIDriverName_def
  CachingModeField_def
  DefaultAzureCredentialFileEnv_def
  DefaultCredFilePathLinux_def
  DefaultCredFilePathWindows_def
  DefaultDriverName_def
  DesIDField_def
  DiskEncryptionTypeField_def
  DiskAccessIDField_def
  DiskIOPSReadWriteField_def
  DiskMBPSReadWriteField_def
  DiskNameField_def
  EnableBurstingField_def
  ErrDiskNotFound_def
  FsTypeField_def
  IncrementalField_def
  KindField_def
  LocationField_def
  LogicalSectorSizeField_def
  LUN_def
  MaxSharesField_def
  MinimumDiskSizeGiB_def
  NetworkAccessPolicyField_def
  PublicNetworkAccessField_def
  NotFoundText_def
  PerfProfileBasic_def
  PerfProfileAdvanced_def
  PerfProfileField_def
  PerfProfileNone_def
  PremiumAccountPrefix_def
  PvcNameKey_def
  PvcNamespaceKey_def
  PvcNamespaceTag_def
  PvcNameTag_def
  PvNameKey_def
  PvNameTag_def
  RateLimited_def
  RequestedSizeGib_def
  ResizeRequired_def
  SubscriptionIDField_def
  ResourceGroupField_def
  DataAccessAuthModeField_def
  ResourceNotFound_def
  SkuNameField_def
  SourceDiskSearchMaxDepth_def
  SourceSnapshot_def
  SourceVolume_def
  StandardSsdAccountPrefix_def
  StorageAccountTypeField_def
  TagsField_def
  GetDiskThrottlingKey_def
  CheckDiskLunThrottlingKey_def
  TrueValue_def
  FalseValue_def
  UserAgentField_def
  VolumeAttributePartition_def
  WellKnownTopologyKey_def
  InstanceTypeKey_def
  WriteAcceleratorEnabledConst_def
  ZonedField_def
  EnableAsyncAttachField_def
  PerformancePlusField_def
  PerformancePlusMinimumDiskSizeGiB_def
  AttachDiskInitialDelayField_def
  TooManyRequests_def
  ClientThrottled_def
  VolumeIDLabel_def
  NodeLabel_def
  SourceResourceIDLabel_def
  SnapshotNameLabel_def
  SnapshotIDLabel_def
  DeviceSettingsKeyPrefix_def
  BlockDeviceRootPathLinux_def
  DummyBlockDevicePathLinux_def
  SnapshotOpThrottlingSleepSec_def
  MaxThrottlingSleepSec_def

end
