(* ===== verification/AzureTypes.thy ===== *)
theory AzureTypes
  imports Complex_Main AzureConstants
begin

text \<open>
  The data that crosses the driver's boundary: the CSI messages, the Azure compute resources and
  the named string constants of the Azure SDK, of \<open>k8s.io/api\<close> and of the Azure cloud provider.
  None of those packages is part of the repository. The message and resource types below keep the
  fields the driver reads or writes, with an optional pointer as \<open>option\<close> and an empty string as
  \<open>[]\<close>; the constants are the fields of a record \<open>sdk\<close>, an argument of every definition that
  uses one of them.
\<close>

section \<open>Constants of the packages the driver imports\<close>

record sdk =
  DiskStorageAccountTypesStandardLRS :: string
  DiskStorageAccountTypesStandardSSDLRS :: string
  DiskStorageAccountTypesPremiumLRS :: string
  DiskStorageAccountTypesPremiumV2LRS :: string
  DiskStorageAccountTypesUltraSSDLRS :: string
  PossibleDiskStorageAccountTypesValues :: "string list"
  PossibleNetworkAccessPolicyValues :: "string list"
  NetworkAccessPolicyAllowPrivate :: string
  PossiblePublicNetworkAccessValues :: "string list"
  PossibleEncryptionTypeValues :: "string list"
  PossibleDataAccessAuthModeValues :: "string list"
  AzureDataDiskCachingNone :: string
  AzureDataDiskCachingReadOnly :: string
  AzureDataDiskCachingReadWrite :: string
  AzureManagedDisk :: string
  azure_WriteAcceleratorEnabled :: string
  CachingTypesNone :: string
  DiskStateUnattached :: string
  EncryptionTypeEncryptionAtRestWithCustomerKey :: string
  CannotFindDiskLUN :: string
  OperationPreemptedErrorCode :: string
  VmssVMNotActiveErrorMessage :: string
  CreatedByTag :: string
  DefaultDiskIOPSReadWrite :: int
  DefaultDiskMBpsReadWrite :: int
  DiskEncryptionSetIDFormat :: string

text \<open>The values these constants have in the versions named by \<open>go.mod\<close>; used by witnesses only.\<close>

definition sdk0 :: sdk where
  "sdk0 = \<lparr>
     DiskStorageAccountTypesStandardLRS = ''Standard_LRS'',
     DiskStorageAccountTypesStandardSSDLRS = ''StandardSSD_LRS'',
     DiskStorageAccountTypesPremiumLRS = ''Premium_LRS'',
     DiskStorageAccountTypesPremiumV2LRS = ''PremiumV2_LRS'',
     DiskStorageAccountTypesUltraSSDLRS = ''UltraSSD_LRS'',
     PossibleDiskStorageAccountTypesValues =
       [''Premium_LRS'', ''PremiumV2_LRS'', ''Premium_ZRS'', ''Standard_LRS'', ''StandardSSD_LRS'',
        ''StandardSSD_ZRS'', ''UltraSSD_LRS''],
     PossibleNetworkAccessPolicyValues = [''AllowAll'', ''AllowPrivate'', ''DenyAll''],
     NetworkAccessPolicyAllowPrivate = ''AllowPrivate'',
     PossiblePublicNetworkAccessValues = [''Disabled'', ''Enabled''],
     PossibleEncryptionTypeValues =
       [''EncryptionAtRestWithCustomerKey'', ''EncryptionAtRestWithPlatformAndCustomerKeys'',
        ''EncryptionAtRestWithPlatformKey''],
     PossibleDataAccessAuthModeValues = [''AzureActiveDirectory'', ''None''],
     AzureDataDiskCachingNone = ''None'',
     AzureDataDiskCachingReadOnly = ''ReadOnly'',
     AzureDataDiskCachingReadWrite = ''ReadWrite'',
     AzureManagedDisk = ''Managed'',
     azure_WriteAcceleratorEnabled = ''writeacceleratorenabled'',
     CachingTypesNone = ''None'',
     DiskStateUnattached = ''Unattached'',
     EncryptionTypeEncryptionAtRestWithCustomerKey = ''EncryptionAtRestWithCustomerKey'',
     CannotFindDiskLUN = ''cannot find Lun'',
     OperationPreemptedErrorCode = ''OperationPreempted'',
     VmssVMNotActiveErrorMessage = ''not an active Virtual Machine Scale Set VM instanceId'',
     CreatedByTag = ''k8s-azure-created-by'',
     DefaultDiskIOPSReadWrite = 500,
     DefaultDiskMBpsReadWrite = 100,
     DiskEncryptionSetIDFormat = ''/subscriptions/{subs-id}/resourceGroups/{rg-name}/providers/Microsoft.Compute/diskEncryptionSets/{diskEncryptionSet-name}''\<rparr>"

section \<open>CSI messages\<close>

datatype access_mode =
    UNKNOWN
  | SINGLE_NODE_WRITER
  | SINGLE_NODE_READER_ONLY
  | MULTI_NODE_READER_ONLY
  | MULTI_NODE_SINGLE_WRITER
  | MULTI_NODE_MULTI_WRITER
  | SINGLE_NODE_SINGLE_WRITER
  | SINGLE_NODE_MULTI_WRITER

fun access_mode_String :: "access_mode \<Rightarrow> string" where
  "access_mode_String UNKNOWN = ''UNKNOWN''"
| "access_mode_String SINGLE_NODE_WRITER = ''SINGLE_NODE_WRITER''"
| "access_mode_String SINGLE_NODE_READER_ONLY = ''SINGLE_NODE_READER_ONLY''"
| "access_mode_String MULTI_NODE_READER_ONLY = ''MULTI_NODE_READER_ONLY''"
| "access_mode_String MULTI_NODE_SINGLE_WRITER = ''MULTI_NODE_SINGLE_WRITER''"
| "access_mode_String MULTI_NODE_MULTI_WRITER = ''MULTI_NODE_MULTI_WRITER''"
| "access_mode_String SINGLE_NODE_SINGLE_WRITER = ''SINGLE_NODE_SINGLE_WRITER''"
| "access_mode_String SINGLE_NODE_MULTI_WRITER = ''SINGLE_NODE_MULTI_WRITER''"

record mount_volume =
  mnt_FsType :: string
  mnt_MountFlags :: "string list"

datatype access_type = Block | Mount mount_volume

record volume_capability =
  cap_AccessType :: "access_type option"
  cap_AccessMode :: "access_mode option"

definition GetBlock :: "volume_capability \<Rightarrow> bool" where
  "GetBlock c \<longleftrightarrow> cap_AccessType c = Some Block"

definition GetMount :: "volume_capability \<Rightarrow> mount_volume option" where
  "GetMount c = (case cap_AccessType c of Some (Mount m) \<Rightarrow> Some m | _ \<Rightarrow> None)"

definition GetMode :: "volume_capability \<Rightarrow> access_mode" where
  "GetMode c = (case cap_AccessMode c of None \<Rightarrow> UNKNOWN | Some m \<Rightarrow> m)"

type_synonym str_map = "(string \<times> string) list"

record topology_requirement =
  req_Requisite :: "str_map list"
  req_Preferred :: "str_map list"

section \<open>Azure compute resources\<close>

text \<open>\<open>CreateOptionOther\<close> is a nil pointer or an option the driver does not mention.\<close>

datatype disk_create_option =
  CreateOptionEmpty | CreateOptionCopy | CreateOptionCopyStart | CreateOptionOther

record creation_data =
  cd_CreateOption :: disk_create_option
  cd_SourceResourceID :: "string option"
  cd_LogicalSectorSize :: "int option"
  cd_PerformancePlus :: "bool option"

record encryption =
  enc_DiskEncryptionSetID :: "string option"
  enc_Type :: "string option"

record disk_properties =
  prop_DiskSizeGB :: "int option"
  prop_DiskState :: "string option"
  prop_ProvisioningState :: "string option"
  prop_CreationData :: "creation_data option"
  prop_Encryption :: "encryption option"
  prop_DiskIOPSReadWrite :: "int option"
  prop_DiskMBpsReadWrite :: "int option"
  prop_MaxShares :: "int option"
  prop_NetworkAccessPolicy :: "string option"
  prop_PublicNetworkAccess :: "string option"
  prop_DiskAccessID :: "string option"
  prop_BurstingEnabled :: "bool option"
  prop_DataAccessAuthMode :: "string option"
  prop_HyperVGeneration :: "string option"

record disk =
  disk_ID :: "string option"
  disk_Name :: "string option"
  disk_Location :: "string option"
  disk_SKU :: "string option"
  disk_ManagedBy :: "string option"
  disk_ManagedByExtended :: "string list"
  disk_Zones :: "string list"
  disk_ExtendedLocation :: "(string \<times> string) option"
  disk_Tags :: str_map
  disk_Properties :: "disk_properties option"

text \<open>A snapshot. The time of creation is a number of seconds, and the completion percentage, a
  \<open>float32\<close>, is the rational it denotes.\<close>

record snapshot_properties =
  snp_TimeCreated :: "int option"
  snp_DiskSizeGB :: "int option"
  snp_ProvisioningState :: "string option"
  snp_CreationData :: "creation_data option"
  snp_CompletionPercent :: "rat option"
  snp_Incremental :: "bool option"
  snp_DataAccessAuthMode :: "string option"

record snapshot =
  snap_ID :: "string option"
  snap_Location :: "string option"
  snap_Tags :: str_map
  snap_Properties :: "snapshot_properties option"

text \<open>A disk of a virtual machine's storage profile. \<open>dd_ManagedDisk\<close> is the pointer to the
  managed disk, whose \<open>ID\<close> is a pointer again.\<close>

record data_disk =
  dd_Lun :: "int option"
  dd_Name :: "string option"
  dd_VhdURI :: "string option"
  dd_ManagedDisk :: "string option option"
  dd_Caching :: "string option"
  dd_ToBeDetached :: "bool option"
  dd_WriteAcceleratorEnabled :: "bool option"
  dd_DiskEncryptionSetID :: "string option"

section \<open>The cloud\<close>

text \<open>
  The Azure cloud provider and the ARM clients, as the calls the driver makes on an abstract world
  \<open>'w\<close>. The options of an attach request keep the fields the driver sets.
\<close>

datatype cache_read_type = CacheReadTypeDefault | CacheReadTypeUnsafe | CacheReadTypeForceRefresh

record attach_options =
  ao_Lun :: int
  ao_DiskName :: string
  ao_CachingMode :: string
  ao_DiskEncryptionSetID :: string
  ao_WriteAcceleratorEnabled :: bool

type_synonym attach_map = "(string \<times> attach_options option) list"

type_synonym detach_map = "(string \<times> string) list"

text \<open>\<open>GetDataDisks\<close> returns the disks, the provisioning state of the machine and an error.\<close>

record 'w vmset =
  vs_AttachDisk :: "string \<Rightarrow> attach_map \<Rightarrow> ('w, unit) io"
  vs_DetachDisk :: "string \<Rightarrow> detach_map \<Rightarrow> bool \<Rightarrow> ('w, unit) io"
  vs_UpdateVM :: "string \<Rightarrow> ('w, unit) io"
  vs_GetDataDisks :: "string \<Rightarrow> cache_read_type \<Rightarrow> 'w \<Rightarrow>
    (data_disk list \<times> string option \<times> go_error option) \<times> 'w"
  vs_GetNodeNameByProviderID :: "string \<Rightarrow> ('w, string) io"
  vs_DeleteCacheForNode :: "string \<Rightarrow> ('w, unit) io"

record 'w disk_client =
  dc_Get :: "string \<Rightarrow> string \<Rightarrow> ('w, disk) io"
  dc_CreateOrUpdate :: "string \<Rightarrow> string \<Rightarrow> disk \<Rightarrow> ('w, unit) io"
  dc_Delete :: "string \<Rightarrow> string \<Rightarrow> ('w, unit) io"
  dc_Patch :: "string \<Rightarrow> string \<Rightarrow> int \<Rightarrow> ('w, unit) io"
  dc_ListByResourceGroup :: "string \<Rightarrow> ('w, disk list) io"

record 'w snapshot_client =
  sc_Get :: "string \<Rightarrow> string \<Rightarrow> ('w, snapshot) io"
  sc_CreateOrUpdate :: "string \<Rightarrow> string \<Rightarrow> snapshot \<Rightarrow> ('w, unit) io"
  sc_Delete :: "string \<Rightarrow> string \<Rightarrow> ('w, unit) io"
  sc_List :: "string \<Rightarrow> ('w, snapshot list) io"

text \<open>What the driver reads from Kubernetes: volume attachments, the CSI source (driver and volume
  handle) of each persistent volume, and the labels of a node. An interface that is nil is
  \<open>None\<close>.\<close>

record volume_attachment =
  va_Attacher :: string
  va_NodeName :: string
  va_Attached :: bool
  va_AttachmentMetadata :: str_map

record 'w kube_client =
  kc_VolumeAttachments :: "('w, volume_attachment list) io option"
  kc_PersistentVolumes :: "('w, (string \<times> string) option list) io option"
  kc_NodeLabels :: "(string \<Rightarrow> ('w, str_map) io) option"

record 'w cloud =
  cl_ResourceGroup :: string
  cl_SubscriptionID :: string
  cl_Location :: string
  cl_HasExtendedLocation :: bool
  cl_ExtendedLocationName :: string
  cl_ExtendedLocationType :: string
  cl_GetZoneID :: "string \<Rightarrow> string"
  cl_GetNodeVMSet :: "string \<Rightarrow> cache_read_type \<Rightarrow> ('w, 'w vmset) io"
  cl_InstanceID :: "string \<Rightarrow> ('w, string) io"
  cl_GetDiskClientForSub :: "string \<Rightarrow> 'w disk_client res"
  cl_Sleep :: "int \<Rightarrow> 'w \<Rightarrow> 'w"
  cl_Cloud :: string
  cl_DisableAzureStackCloud :: bool
  cl_KubeClient :: "'w kube_client option"
  cl_VMSet_GetNodeNameByProviderID :: "string \<Rightarrow> ('w, string) io"
  cl_GetDiskClient :: "'w disk_client"
  cl_GetSnapshotClient :: "'w snapshot_client"
  cl_GetSnapshotClientForSub :: "string \<Rightarrow> 'w snapshot_client res"

end
