(* ===== verification/DevicePerf.thy ===== *)
theory DevicePerf
  imports AzureTypes
begin

text \<open>
  The package \<open>pkg/optimization\<close>: which perf profiles and storage accounts can be tuned, the
  device settings a volume asks for, the check that a setting stays below the device's directory
  in sysfs, the choice of the disk SKU and the writing of the settings.

  The file system is a parameter: \<open>EvalSymlinks\<close>, \<open>Create\<close> and the process \<open>echo\<close> act on an
  abstract world, and \<open>Getwd\<close> is the working directory \<open>filepath.Abs\<close> starts from.
\<close>

section \<open>Profiles and attributes\<close>

definition isPerfTuningEnabled :: "string \<Rightarrow> bool" where
  "isPerfTuningEnabled profile =
     (if ToLower profile = PerfProfileBasic then True
      else if ToLower profile = PerfProfileAdvanced then True
      else False)"

definition IsValidPerfProfile :: "string \<Rightarrow> bool" where
  "IsValidPerfProfile profile \<longleftrightarrow> isPerfTuningEnabled profile \<or> EqualFold profile PerfProfileNone"

definition accountSupportsPerfOptimization :: "string \<Rightarrow> bool" where
  "accountSupportsPerfOptimization accountType =
     (let accountTypeLower = ToLower accountType
      in if HasPrefix accountTypeLower ''premium'' \<or> HasPrefix accountTypeLower ''standardssd''
         then True else False)"

definition DiskSupportsPerfOptimization :: "string \<Rightarrow> string \<Rightarrow> bool" where
  "DiskSupportsPerfOptimization diskPerfProfile diskAccountType \<longleftrightarrow>
     isPerfTuningEnabled diskPerfProfile \<and> accountSupportsPerfOptimization diskAccountType"

definition GetDeviceSettingFromAttribute :: "string \<Rightarrow> string res" where
  "GetDeviceSettingFromAttribute key =
     (if \<not> HasPrefix key DeviceSettingsKeyPrefix then
        Err (Errorf (''GetDeviceSettingFromAttribute: '' @ key @
              '' is not a valid device setting override''))
      else Ok (TrimPrefix key DeviceSettingsKeyPrefix))"

text \<open>The named results of \<open>GetDiskPerfAttributes\<close>.\<close>

record perf_attributes =
  pa_profile :: string
  pa_accountType :: string
  pa_diskSizeGibStr :: string
  pa_diskIopsStr :: string
  pa_diskBwMbpsStr :: string
  pa_deviceSettings :: str_map

definition perf_attribute_step :: "string \<times> string \<Rightarrow> bool \<times> perf_attributes \<Rightarrow> bool \<times> perf_attributes" where
  "perf_attribute_step kv st =
     (let (k, v) = kv; (perfProfilePresent, a) = st; key = ToLower k
      in if key = PerfProfileField then (True, a\<lparr>pa_profile := v\<rparr>)
         else if key = SkuNameField then (perfProfilePresent, a\<lparr>pa_accountType := v\<rparr>)
         else if key = RequestedSizeGib then (perfProfilePresent, a\<lparr>pa_diskSizeGibStr := v\<rparr>)
         else if key = DiskIOPSReadWriteField then (perfProfilePresent, a\<lparr>pa_diskIopsStr := v\<rparr>)
         else if key = DiskMBPSReadWriteField then (perfProfilePresent, a\<lparr>pa_diskBwMbpsStr := v\<rparr>)
         else (case GetDeviceSettingFromAttribute key of
                 Ok setting \<Rightarrow>
                   (perfProfilePresent,
                    a\<lparr>pa_deviceSettings := AList.update setting v (pa_deviceSettings a)\<rparr>)
               | _ \<Rightarrow> (perfProfilePresent, a)))"

definition GetDiskPerfAttributes :: "str_map \<Rightarrow> perf_attributes res" where
  "GetDiskPerfAttributes attributes =
     (let (perfProfilePresent, a) =
            fold perf_attribute_step attributes (False,
              \<lparr>pa_profile = [], pa_accountType = [], pa_diskSizeGibStr = [], pa_diskIopsStr = [],
               pa_diskBwMbpsStr = [], pa_deviceSettings = []\<rparr>)
      in if perfProfilePresent then
           (if \<not> IsValidPerfProfile (pa_profile a) then
              Err (Errorf (''Perf profile '' @ pa_profile a @ '' is invalid''))
            else Ok a)
         else Ok (a\<lparr>pa_profile := PerfProfileNone\<rparr>))"

section \<open>Paths of device settings\<close>

text \<open>\<open>filepath.Abs\<close>, which fails only when the working directory is unknown.\<close>

definition filepath_Abs :: "string res \<Rightarrow> string \<Rightarrow> string res" where
  "filepath_Abs Getwd path =
     (if is_abs path then Ok (Clean path)
      else (case Getwd of Ok wd \<Rightarrow> Ok (filepath_Join wd path) | Err e \<Rightarrow> Err e | Panic \<Rightarrow> Panic))"

fun device_settings_loop :: "string res \<Rightarrow> string \<Rightarrow> string list \<Rightarrow> unit res" where
  "device_settings_loop Getwd deviceRoot [] = Ok ()"
| "device_settings_loop Getwd deviceRoot (setting # rest) =
     (case filepath_Abs Getwd setting of
        Ok absSetting \<Rightarrow>
          if \<not> HasPrefix absSetting (Clean deviceRoot @ ''/'') then
            Err (Errorf (''AreDeviceSettingsValid: Setting '' @ setting @
                  '' is not a valid file path under '' @ deviceRoot))
          else device_settings_loop Getwd deviceRoot rest
      | Err err \<Rightarrow>
          Err (Errorf (''AreDeviceSettingsValid: Failed to get absolute path. Can not allow setting '' @
                setting @ '' for device '' @ deviceRoot))
      | Panic \<Rightarrow> Panic)"

definition AreDeviceSettingsValid :: "string res \<Rightarrow> string \<Rightarrow> str_map \<Rightarrow> unit res" where
  "AreDeviceSettingsValid Getwd deviceRoot deviceSettings =
     (if deviceSettings = [] then Err (Errorf ''AreDeviceSettingsValid: No deviceSettings passed'')
      else device_settings_loop Getwd deviceRoot (map fst deviceSettings))"

section \<open>SKUs\<close>

record NodeInfo =
  ni_SkuName :: string
  ni_MaxDataDiskCount :: int
  ni_VCpus :: int
  ni_MaxBurstIops :: int
  ni_MaxIops :: int
  ni_MaxBwMbps :: int
  ni_MaxBurstBwMbps :: int

record DiskSkuInfo =
  StorageAccountType :: string
  StorageTier :: string
  DiskSize :: string
  MaxAllowedShares :: int
  MaxBurstIops :: int
  MaxIops :: int
  MaxBwMbps :: int
  MaxBurstBwMbps :: int
  MaxSizeGiB :: int

type_synonym sku_map = "(string \<times> (string \<times> DiskSkuInfo) list) list"

text \<open>\<open>Instances\<close> is the cloud provider's interface: \<open>None\<close> when it has none, otherwise the
  call that returns the instance type of a node.\<close>

definition NewNodeInfo ::
    "(string \<times> NodeInfo) list \<Rightarrow> (string \<Rightarrow> string res) option \<Rightarrow> string \<Rightarrow> NodeInfo res" where
  "NewNodeInfo NodeInfoMap Instances nodeID =
     (case Instances of
        None \<Rightarrow> Err (StatusErr Internal
          ''NewNodeInfo: Failed to get instances from Azure cloud provider'')
      | Some InstanceType \<Rightarrow>
         (case InstanceType nodeID of
            Err err \<Rightarrow> Err (Errorf
              (''NewNodeInfo: Failed to get instance type from Azure cloud provider, nodeName: '' @
               nodeID @ '', error: '' @ Error err))
          | Panic \<Rightarrow> Panic
          | Ok instanceType \<Rightarrow>
             (let nodeSkuNameLower = ToLower instanceType
              in case map_of NodeInfoMap nodeSkuNameLower of
                   None \<Rightarrow> Err (Errorf (''NewNodeInfo: Could not find SKU '' @ nodeSkuNameLower @
                     '' in the sku map''))
                 | Some vmSku \<Rightarrow> Ok (vmSku\<lparr>ni_SkuName := instanceType\<rparr>))))"

definition meetsRequest :: "DiskSkuInfo \<Rightarrow> int \<Rightarrow> int \<Rightarrow> int \<Rightarrow> bool" where
  "meetsRequest sku diskSizeGb diskIops diskBwMbps \<longleftrightarrow>
     MaxSizeGiB sku \<ge> diskSizeGb \<and> MaxBwMbps sku \<ge> diskBwMbps \<and> MaxIops sku \<ge> diskIops"

text \<open>One iteration of the loop over the SKUs of the account.\<close>

definition match_step :: "int \<Rightarrow> int \<Rightarrow> int \<Rightarrow> DiskSkuInfo \<Rightarrow> DiskSkuInfo option \<Rightarrow> DiskSkuInfo option" where
  "match_step diskSizeGb diskIops diskBwMbps sku matchingSku =
     (if meetsRequest sku diskSizeGb diskIops diskBwMbps then
        (case matchingSku of
           None \<Rightarrow> Some sku
         | Some m \<Rightarrow> if MaxSizeGiB sku < MaxSizeGiB m then Some sku else matchingSku)
      else matchingSku)"

definition atoi_or_zero :: "string \<Rightarrow> int" where
  "atoi_or_zero s = (case Atoi s of Ok n \<Rightarrow> n | _ \<Rightarrow> 0)"

definition getMatchingDiskSku ::
    "sku_map \<Rightarrow> string \<Rightarrow> string \<Rightarrow> string \<Rightarrow> string \<Rightarrow> DiskSkuInfo option res" where
  "getMatchingDiskSku diskSkus accountType diskSizeGibStr diskIopsStr diskBwMbpsStr =
     (let accountTypeLower = ToLower accountType
      in case map_of diskSkus accountTypeLower of
           None \<Rightarrow> Err (Errorf (''could not find sku for account '' @ accountType @
                     ''. Error: sku not found''))
         | Some skus \<Rightarrow>
            if skus = [] then
              Err (Errorf (''could not find sku for account '' @ accountType @ ''. Error: sku not found''))
            else (case Atoi diskSizeGibStr of
              Ok diskSizeGb \<Rightarrow>
                (let diskIops = atoi_or_zero diskIopsStr; diskBwMbps = atoi_or_zero diskBwMbpsStr
                 in Ok (fold (match_step diskSizeGb diskIops diskBwMbps) (map snd skus) None))
            | _ \<Rightarrow> Err (Errorf (''could not parse disk size '' @ diskSizeGibStr @
                     ''. Error: incorrect sku size''))))"

section \<open>Writing the settings\<close>

definition getDeviceSettingsForAdvancedProfile :: "string \<Rightarrow> str_map \<Rightarrow> str_map" where
  "getDeviceSettingsForAdvancedProfile deviceRoot deviceSettingsFromCtx =
     fold (\<lambda>(setting, value). AList.update (filepath_Join deviceRoot setting) value)
       deviceSettingsFromCtx []"

record 'w device_fs =
  EvalSymlinks :: "string \<Rightarrow> ('w, string) io"
  os_Create :: "string \<Rightarrow> ('w, unit) io"
  exec_echo :: "string \<Rightarrow> string \<Rightarrow> ('w, unit) io"
  os_Getwd :: "string res"

definition getDeviceName :: "'w device_fs \<Rightarrow> string \<Rightarrow> ('w, string) io" where
  "getDeviceName fs lunPath =
     call (EvalSymlinks fs lunPath)
       (\<lambda>err. fail (Errorf (''path '' @ lunPath @ '' is not a symlink. Error: '' @ Error err)))
       (\<lambda>devicePath. ret (Base devicePath))"

definition echoToFile :: "'w device_fs \<Rightarrow> string \<Rightarrow> string \<Rightarrow> ('w, unit) io" where
  "echoToFile fs content filePath =
     bind (os_Create fs filePath) (\<lambda>_. exec_echo fs content filePath)"

fun apply_settings_loop :: "'w device_fs \<Rightarrow> str_map \<Rightarrow> ('w, unit) io" where
  "apply_settings_loop fs [] = ret ()"
| "apply_settings_loop fs ((setting, value) # rest) =
     call (echoToFile fs value setting)
       (\<lambda>err. fail (Errorf (''applyDeviceSettings: Could not set '' @ setting @ '' with value '' @
                value @ ''. Error: '' @ Error err)))
       (\<lambda>_. apply_settings_loop fs rest)"

definition applyDeviceSettings :: "'w device_fs \<Rightarrow> string \<Rightarrow> str_map \<Rightarrow> ('w, unit) io" where
  "applyDeviceSettings fs deviceRoot deviceSettings =
     bind (lift (AreDeviceSettingsValid (os_Getwd fs) deviceRoot deviceSettings))
       (\<lambda>_. apply_settings_loop fs deviceSettings)"

end
