(* ===== verification/DiskUtils.thy ===== *)
theory DiskUtils
  imports DevicePerf VolumeHelper
begin

text \<open>
  The file \<open>pkg/azureutils/azure_disk_utils.go\<close>: parsing of storage class parameters, names and
  URIs of disks, normalisation of the enumerated options, availability zones, volume capabilities,
  throttling and the properties copied to a publish context.
\<close>

section \<open>Constants and expressions\<close>

definition azureStackCloud :: string where
  "azureStackCloud = ''AZURESTACKCLOUD''"

definition diskNameMinLength :: nat where
  "diskNameMinLength = 1"

definition diskNameMaxLength :: nat where
  "diskNameMaxLength = 80"

definition diskNameGenerateMaxLength :: int where
  "diskNameGenerateMaxLength = 76"

definition diskSnapshotPath :: "string \<Rightarrow> string \<Rightarrow> string \<Rightarrow> string" where
  "diskSnapshotPath subs rg name =
     ''/subscriptions/'' @ subs @ ''/resourceGroups/'' @ rg @
     ''/providers/Microsoft.Compute/snapshots/'' @ name"

definition diskSnapshotPathRE :: "ritem list" where
  "diskSnapshotPathRE = managed_prefix litsF ''snapshots/'' @ [Cap not_nl]"

definition diskURISupportedManaged :: "string list" where
  "diskURISupportedManaged =
     [''/subscriptions/{sub-id}/resourcegroups/{group-name}/providers/microsoft.compute/disks/{disk-id}'']"

text \<open>\<open>/dev(?:.*)/disk/azure/scsi(?:.*)/lun(.+)\<close>\<close>

definition lunPathRE :: "ritem list" where
  "lunPathRE = (lits ''/dev'' @ Many not_nl # lits ''/disk/azure/scsi'' @ Many not_nl # lits ''/lun'') @
     [Cap not_nl]"

definition supportedCachingModes :: "sdk \<Rightarrow> string list" where
  "supportedCachingModes S =
     [AzureDataDiskCachingNone S, AzureDataDiskCachingReadOnly S, AzureDataDiskCachingReadWrite S]"

definition volumeCaps :: "access_mode list" where
  "volumeCaps =
     [SINGLE_NODE_WRITER, SINGLE_NODE_READER_ONLY, SINGLE_NODE_SINGLE_WRITER,
      SINGLE_NODE_MULTI_WRITER, MULTI_NODE_READER_ONLY, MULTI_NODE_SINGLE_WRITER,
      MULTI_NODE_MULTI_WRITER]"

text \<open>The verb \<open>%v\<close> on a list of strings.\<close>

definition fmt_list :: "string list \<Rightarrow> string" where
  "fmt_list xs = ''['' @ Join xs (CHR '' '') @ '']''"

section \<open>Normalisation of enumerated options\<close>

definition IsAzureStackCloud :: "string \<Rightarrow> bool \<Rightarrow> bool" where
  "IsAzureStackCloud cloud disableAzureStackCloud \<longleftrightarrow>
     \<not> disableAzureStackCloud \<and> EqualFold cloud azureStackCloud"

definition NormalizeCachingMode :: "sdk \<Rightarrow> string \<Rightarrow> string res" where
  "NormalizeCachingMode S cachingMode =
     (if cachingMode = [] then Ok (AzureDataDiskCachingReadOnly S)
      else if cachingMode \<notin> set (supportedCachingModes S) then
        Err (Errorf (''azureDisk - '' @ cachingMode @ '' is not supported cachingmode. Supported values are '' @
              fmt_list (supportedCachingModes S)))
      else Ok cachingMode)"

definition NormalizeNetworkAccessPolicy :: "sdk \<Rightarrow> string \<Rightarrow> string res" where
  "NormalizeNetworkAccessPolicy S networkAccessPolicy =
     (if networkAccessPolicy = [] then Ok networkAccessPolicy
      else if list_ex (\<lambda>s. networkAccessPolicy = s) (PossibleNetworkAccessPolicyValues S) then
        Ok networkAccessPolicy
      else Err (Errorf (''azureDisk - '' @ networkAccessPolicy @
             '' is not supported NetworkAccessPolicy. Supported values are '' @
             fmt_list (PossibleNetworkAccessPolicyValues S))))"

definition NormalizePublicNetworkAccess :: "sdk \<Rightarrow> string \<Rightarrow> string res" where
  "NormalizePublicNetworkAccess S publicNetworkAccess =
     (if publicNetworkAccess = [] then Ok publicNetworkAccess
      else if list_ex (\<lambda>s. publicNetworkAccess = s) (PossiblePublicNetworkAccessValues S) then
        Ok publicNetworkAccess
      else Err (Errorf (''azureDisk - '' @ publicNetworkAccess @
             '' is not supported PublicNetworkAccess. Supported values are '' @
             fmt_list (PossiblePublicNetworkAccessValues S))))"

definition supported_sku_names :: "sdk \<Rightarrow> string \<Rightarrow> bool \<Rightarrow> string list" where
  "supported_sku_names S cloud disableAzureStackCloud =
     (if IsAzureStackCloud cloud disableAzureStackCloud then
        [DiskStorageAccountTypesStandardLRS S, DiskStorageAccountTypesPremiumLRS S]
      else PossibleDiskStorageAccountTypesValues S)"

definition NormalizeStorageAccountType :: "sdk \<Rightarrow> string \<Rightarrow> string \<Rightarrow> bool \<Rightarrow> string res" where
  "NormalizeStorageAccountType S storageAccountType cloud disableAzureStackCloud =
     (if storageAccountType = [] then
        (if IsAzureStackCloud cloud disableAzureStackCloud
         then Ok (DiskStorageAccountTypesStandardLRS S)
         else Ok (DiskStorageAccountTypesStandardSSDLRS S))
      else
        (let supportedSkuNames = supported_sku_names S cloud disableAzureStackCloud
         in if list_ex (\<lambda>s. storageAccountType = s) supportedSkuNames then Ok storageAccountType
            else Err (Errorf (''azureDisk - '' @ storageAccountType @
                   '' is not supported sku/storageaccounttype. Supported values are '' @
                   fmt_list supportedSkuNames))))"

definition ValidateDiskEncryptionType :: "sdk \<Rightarrow> string \<Rightarrow> unit res" where
  "ValidateDiskEncryptionType S encryptionType =
     (if encryptionType = [] then Ok ()
      else if list_ex (\<lambda>s. encryptionType = s) (PossibleEncryptionTypeValues S) then Ok ()
      else Err (Errorf (''DiskEncryptionType('' @ encryptionType @ '') is not supported'')))"

definition ValidateDataAccessAuthMode :: "sdk \<Rightarrow> string \<Rightarrow> unit res" where
  "ValidateDataAccessAuthMode S dataAccessAuthMode =
     (if dataAccessAuthMode = [] then Ok ()
      else if list_ex (\<lambda>s. dataAccessAuthMode = s) (PossibleDataAccessAuthModeValues S) then Ok ()
      else Err (Errorf (''dataAccessAuthMode('' @ dataAccessAuthMode @ '') is not supported'')))"

section \<open>Attributes of a volume\<close>

fun caching_attribute :: "str_map \<Rightarrow> string" where
  "caching_attribute [] = []"
| "caching_attribute ((k, v) # rest) =
     (if EqualFold k CachingModeField then v else caching_attribute rest)"

definition GetCachingMode :: "sdk \<Rightarrow> str_map \<Rightarrow> string res" where
  "GetCachingMode S attributes = NormalizeCachingMode S (caching_attribute attributes)"

fun GetAttachDiskInitialDelay :: "str_map \<Rightarrow> int" where
  "GetAttachDiskInitialDelay [] = - 1"
| "GetAttachDiskInitialDelay ((k, v) # rest) =
     (if ToLower k = AttachDiskInitialDelayField then
        (case Atoi v of Ok n \<Rightarrow> n | _ \<Rightarrow> GetAttachDiskInitialDelay rest)
      else GetAttachDiskInitialDelay rest)"

fun GetFStype :: "str_map \<Rightarrow> string" where
  "GetFStype [] = []"
| "GetFStype ((k, v) # rest) =
     (if ToLower k = FsTypeField then ToLower v else GetFStype rest)"

fun GetMaxShares :: "str_map \<Rightarrow> int res" where
  "GetMaxShares [] = Ok 1"
| "GetMaxShares ((k, v) # rest) =
     (if ToLower k = MaxSharesField then
        (case Atoi v of
           Ok maxShares \<Rightarrow>
             if maxShares < 1 then
               Err (Errorf (''parse '' @ v @ '' returned with invalid value: '' @ Itoa maxShares))
             else Ok maxShares
         | Err err \<Rightarrow> Err (Errorf (''parse '' @ v @ '' failed with error: '' @ Error err))
         | Panic \<Rightarrow> Panic)
      else GetMaxShares rest)"

section \<open>Names and URIs\<close>

definition GetDiskLUN :: "string \<Rightarrow> int res" where
  "GetDiskLUN deviceInfo =
     (let parse = (\<lambda>diskLUN. case Atoi diskLUN of
                     Ok lun \<Rightarrow> Ok (to_int32 lun) | Err err \<Rightarrow> Err err | Panic \<Rightarrow> Panic)
      in if length deviceInfo \<le> 2 then parse deviceInfo
         else (case FindStringSubmatch lunPathRE deviceInfo of
                 Some diskLUN \<Rightarrow> parse diskLUN
               | None \<Rightarrow> Err (Errorf (''cannot parse deviceInfo: '' @ deviceInfo))))"

definition GetDiskName :: "string \<Rightarrow> string res" where
  "GetDiskName diskURI =
     (case FindStringSubmatch ManagedDiskPathRE diskURI of
        Some name \<Rightarrow> Ok name
      | None \<Rightarrow> Err (Errorf (''could not get disk name from '' @ diskURI @ '', correct format: '' @
                  managed_RE_String ''disks'')))"

definition name_char :: "char \<Rightarrow> bool" where
  "name_char v \<longleftrightarrow> IsLetter v \<or> IsDigit v \<or> v = CHR ''_'' \<or> v = CHR ''.'' \<or> v = CHR ''-''"

text \<open>The loop over the characters of the name from index \<open>i\<close> on.\<close>

fun check_disk_name_from :: "nat \<Rightarrow> nat \<Rightarrow> string \<Rightarrow> bool" where
  "check_disk_name_from len i [] = True"
| "check_disk_name_from len i (v # rest) =
     (if \<not> name_char v \<or>
         (i = 0 \<and> \<not> (IsLetter v \<or> IsDigit v)) \<or>
         (i + 1 = len \<and> \<not> (IsLetter v \<or> IsDigit v \<or> v = CHR ''_''))
      then False else check_disk_name_from len (i + 1) rest)"

definition checkDiskName :: "string \<Rightarrow> bool" where
  "checkDiskName diskName = check_disk_name_from (length diskName) 0 diskName"

definition GenerateVolumeName :: "string \<Rightarrow> string \<Rightarrow> int \<Rightarrow> string res" where
  "GenerateVolumeName clusterName pvName maxLength =
     (let prefix = clusterName @ ''-dynamic''; pvLen = int (length pvName)
      in if pvLen + 1 + int (length prefix) > maxLength then
           (let n = maxLength - pvLen - 1
            in if n < 0 then Panic else Ok (take (nat n) prefix @ ''-'' @ pvName))
         else Ok (prefix @ ''-'' @ pvName))"

text \<open>\<open>newUUID\<close> is the string \<open>uuid.NewUUID()\<close> returns.\<close>

definition CreateValidDiskName :: "string \<Rightarrow> string \<Rightarrow> string res" where
  "CreateValidDiskName newUUID volumeName =
     (let diskName = (if length volumeName > diskNameMaxLength
                      then take diskNameMaxLength volumeName else volumeName)
      in if \<not> checkDiskName diskName \<or> length diskName < diskNameMinLength
         then GenerateVolumeName ''pvc-disk'' newUUID diskNameGenerateMaxLength
         else Ok diskName)"

definition GetResourceGroupFromURI :: "string \<Rightarrow> string res" where
  "GetResourceGroupFromURI diskURI =
     (let fields = Split diskURI (CHR ''/'')
      in if length fields \<noteq> 9 \<or> ToLower (fields ! 3) \<noteq> ''resourcegroups''
         then Err (Errorf (''invalid disk URI: '' @ diskURI))
         else Ok (fields ! 4))"

fun subscription_after :: "string list \<Rightarrow> string" where
  "subscription_after (v # w # rest) =
     (if EqualFold v ''subscriptions'' then w else subscription_after (w # rest))"
| "subscription_after _ = []"

definition GetSubscriptionIDFromURI :: "string \<Rightarrow> string" where
  "GetSubscriptionIDFromURI diskURI = subscription_after (Split diskURI (CHR ''/''))"

definition empty_creation :: creation_data where
  "empty_creation = \<lparr>cd_CreateOption = CreateOptionEmpty, cd_SourceResourceID = None,
     cd_LogicalSectorSize = None, cd_PerformancePlus = None\<rparr>"

definition GetValidCreationData :: "string \<Rightarrow> string \<Rightarrow> string \<Rightarrow> string \<Rightarrow> creation_data res" where
  "GetValidCreationData subscriptionID resourceGroup sourceResourceID sourceType =
     (if sourceResourceID = [] then Ok empty_creation
      else if sourceType \<noteq> SourceSnapshot \<and> sourceType \<noteq> SourceVolume then Ok empty_creation
      else
        (let source =
               (if sourceType = SourceSnapshot then
                  (if \<not> MatchFound diskSnapshotPathRE sourceResourceID
                   then diskSnapshotPath subscriptionID resourceGroup sourceResourceID
                   else sourceResourceID)
                else
                  (if \<not> MatchFound ManagedDiskPathRE sourceResourceID
                   then ManagedDiskPath subscriptionID resourceGroup sourceResourceID
                   else sourceResourceID));
             splits = Split source (CHR ''/'')
         in if length splits > 9 then
              (if sourceType = SourceSnapshot then
                 Err (Errorf (''sourceResourceID('' @ source @ '') is invalid, correct format: '' @
                       managed_RE_String ''snapshots''))
               else
                 Err (Errorf (''sourceResourceID('' @ source @ '') is invalid, correct format: '' @
                       managed_RE_String ''disks'')))
            else Ok (empty_creation\<lparr>cd_CreateOption := CreateOptionCopy,
                                    cd_SourceResourceID := Some source\<rparr>)))"

definition IsARMResourceID :: "string \<Rightarrow> bool" where
  "IsARMResourceID resourceID = Contains (ToLower resourceID) ''/subscriptions/''"

definition IsValidDiskURI :: "string \<Rightarrow> unit res" where
  "IsValidDiskURI diskURI =
     (if Index (ToLower diskURI) ''/subscriptions/'' \<noteq> 0 then
        Err (Errorf (''invalid DiskURI: '' @ diskURI @ '', correct format: '' @
              fmt_list diskURISupportedManaged))
      else Ok ())"

section \<open>Zones and capabilities\<close>

definition IsValidAvailabilityZone :: "string \<Rightarrow> string \<Rightarrow> bool" where
  "IsValidAvailabilityZone zone region =
     (if region = [] then
        (let index = Index zone ''-'' in index > 0 \<and> index < int (length zone) - 1)
      else HasPrefix zone (region @ ''-''))"

fun zone_in :: "string \<Rightarrow> string \<Rightarrow> str_map list \<Rightarrow> string option" where
  "zone_in region topologyKey [] = None"
| "zone_in region topologyKey (topology # rest) =
     (let valid = (\<lambda>key. case map_of topology key of
                     Some zone \<Rightarrow> if IsValidAvailabilityZone zone region then Some zone else None
                   | None \<Rightarrow> None)
      in case valid WellKnownTopologyKey of
           Some zone \<Rightarrow> Some zone
         | None \<Rightarrow> (case valid topologyKey of
             Some zone \<Rightarrow> Some zone
           | None \<Rightarrow> zone_in region topologyKey rest))"

definition PickAvailabilityZone :: "topology_requirement option \<Rightarrow> string \<Rightarrow> string \<Rightarrow> string" where
  "PickAvailabilityZone requirement region topologyKey =
     (case requirement of
        None \<Rightarrow> []
      | Some req \<Rightarrow>
         (case zone_in region topologyKey (req_Preferred req) of
            Some zone \<Rightarrow> zone
          | None \<Rightarrow> (case zone_in region topologyKey (req_Requisite req) of
              Some zone \<Rightarrow> zone
            | None \<Rightarrow> [])))"

definition IsValidAccessModes :: "volume_capability list \<Rightarrow> bool" where
  "IsValidAccessModes volCaps = list_all (\<lambda>cap. list_ex (\<lambda>m. m = GetMode cap) volumeCaps) volCaps"

definition multi_node :: "access_mode \<Rightarrow> bool" where
  "multi_node accessMode \<longleftrightarrow>
     accessMode = MULTI_NODE_MULTI_WRITER \<or> accessMode = MULTI_NODE_READER_ONLY \<or>
     accessMode = MULTI_NODE_SINGLE_WRITER"

fun capabilities_loop :: "int \<Rightarrow> volume_capability list \<Rightarrow> unit res" where
  "capabilities_loop maxShares [] = Ok ()"
| "capabilities_loop maxShares (c # rest) =
     (let blockVolume = GetBlock c; mountVolume = (GetMount c \<noteq> None); accessMode = GetMode c
      in if \<not> blockVolume \<and> \<not> mountVolume then
           Err (Errorf ''blockVolume and mountVolume are both nil'')
         else if blockVolume \<and> mountVolume then
           Err (Errorf ''blockVolume and mountVolume are both not nil'')
         else if mountVolume \<and> multi_node accessMode then
           Err (Errorf (''mountVolume is not supported for access mode: '' @ access_mode_String accessMode))
         else if maxShares < 2 \<and> multi_node accessMode then
           Err (Errorf (''access mode: '' @ access_mode_String accessMode @
                 '' is not supported for non-shared disk''))
         else capabilities_loop maxShares rest)"

text \<open>The message of an invalid access mode quotes the request; the quotation is left out.\<close>

definition IsValidVolumeCapabilities :: "volume_capability list \<Rightarrow> int \<Rightarrow> unit res" where
  "IsValidVolumeCapabilities volCaps maxShares =
     (if \<not> IsValidAccessModes volCaps then Err (Errorf ''invalid access mode: '')
      else capabilities_loop maxShares volCaps)"

section \<open>Storage class parameters\<close>

record ManagedDiskParameters =
  mdp_AccountType :: string
  mdp_CachingMode :: string
  mdp_DeviceSettings :: str_map
  mdp_DiskAccessID :: string
  mdp_DiskEncryptionSetID :: string
  mdp_DiskEncryptionType :: string
  mdp_DiskIOPSReadWrite :: string
  mdp_DiskMBPSReadWrite :: string
  mdp_DiskName :: string
  mdp_EnableBursting :: "bool option"
  mdp_PerformancePlus :: "bool option"
  mdp_FsType :: string
  mdp_Location :: string
  mdp_LogicalSectorSize :: int
  mdp_MaxShares :: int
  mdp_NetworkAccessPolicy :: string
  mdp_PublicNetworkAccess :: string
  mdp_PerfProfile :: string
  mdp_SubscriptionID :: string
  mdp_ResourceGroup :: string
  mdp_Tags :: str_map
  mdp_UserAgent :: string
  mdp_VolumeContext :: str_map
  mdp_WriteAcceleratorEnabled :: string
  mdp_Zoned :: string

definition init_params :: "str_map \<Rightarrow> ManagedDiskParameters" where
  "init_params parameters =
     \<lparr>mdp_AccountType = [], mdp_CachingMode = [], mdp_DeviceSettings = [], mdp_DiskAccessID = [],
      mdp_DiskEncryptionSetID = [], mdp_DiskEncryptionType = [], mdp_DiskIOPSReadWrite = [],
      mdp_DiskMBPSReadWrite = [], mdp_DiskName = [], mdp_EnableBursting = None,
      mdp_PerformancePlus = None, mdp_FsType = [], mdp_Location = [], mdp_LogicalSectorSize = 0,
      mdp_MaxShares = 0, mdp_NetworkAccessPolicy = [], mdp_PublicNetworkAccess = [],
      mdp_PerfProfile = [], mdp_SubscriptionID = [], mdp_ResourceGroup = [], mdp_Tags = [],
      mdp_UserAgent = [], mdp_VolumeContext = parameters, mdp_WriteAcceleratorEnabled = [],
      mdp_Zoned = []\<rparr>"

definition parse_failed :: "string \<Rightarrow> go_error \<Rightarrow> go_error" where
  "parse_failed v err = Errorf (''parse '' @ v @ '' failed with error: '' @ Error err)"

text \<open>
  One iteration of the loop over the parameters: the cases of the \<open>switch\<close> in their order.
  \<open>VolumeContext\<close> is the map of parameters itself, so the case \<open>kind\<close> writes to the map the loop
  iterates over; visiting that entry (again) has no further effect.
\<close>

definition parse_param :: "sdk \<Rightarrow> string \<times> string \<Rightarrow> ManagedDiskParameters \<Rightarrow> ManagedDiskParameters res" where
  "parse_param S kv p =
     (let (k, v) = kv; key = ToLower k
      in if key = SkuNameField then Ok (p\<lparr>mdp_AccountType := v\<rparr>)
         else if key = LocationField then Ok (p\<lparr>mdp_Location := v\<rparr>)
         else if key = StorageAccountTypeField then Ok (p\<lparr>mdp_AccountType := v\<rparr>)
         else if key = CachingModeField then Ok (p\<lparr>mdp_CachingMode := v\<rparr>)
         else if key = SubscriptionIDField then Ok (p\<lparr>mdp_SubscriptionID := v\<rparr>)
         else if key = ResourceGroupField then Ok (p\<lparr>mdp_ResourceGroup := v\<rparr>)
         else if key = DiskIOPSReadWriteField then Ok (p\<lparr>mdp_DiskIOPSReadWrite := v\<rparr>)
         else if key = DiskMBPSReadWriteField then Ok (p\<lparr>mdp_DiskMBPSReadWrite := v\<rparr>)
         else if key = LogicalSectorSizeField then
           (case Atoi v of
              Ok n \<Rightarrow> Ok (p\<lparr>mdp_LogicalSectorSize := n\<rparr>)
            | Err err \<Rightarrow> Err (parse_failed v err)
            | Panic \<Rightarrow> Panic)
         else if key = DiskNameField then Ok (p\<lparr>mdp_DiskName := v\<rparr>)
         else if key = DesIDField then Ok (p\<lparr>mdp_DiskEncryptionSetID := v\<rparr>)
         else if key = DiskEncryptionTypeField then Ok (p\<lparr>mdp_DiskEncryptionType := v\<rparr>)
         else if key = TagsField then
           (case ConvertTagsToMap v of
              Ok customTagsMap \<Rightarrow>
                Ok (p\<lparr>mdp_Tags := fold (\<lambda>(k, v). AList.update k v) customTagsMap (mdp_Tags p)\<rparr>)
            | Err err \<Rightarrow> Err err
            | Panic \<Rightarrow> Panic)
         else if key = azure_WriteAcceleratorEnabled S then Ok (p\<lparr>mdp_WriteAcceleratorEnabled := v\<rparr>)
         else if key = MaxSharesField then
           (case Atoi v of
              Ok n \<Rightarrow>
                if n < 1 then Err (Errorf (''parse '' @ v @ '' returned with invalid value: '' @ Itoa n))
                else Ok (p\<lparr>mdp_MaxShares := n\<rparr>)
            | Err err \<Rightarrow> Err (parse_failed v err)
            | Panic \<Rightarrow> Panic)
         else if key = PvcNameKey then Ok (p\<lparr>mdp_Tags := AList.update PvcNameTag v (mdp_Tags p)\<rparr>)
         else if key = PvcNamespaceKey then
           Ok (p\<lparr>mdp_Tags := AList.update PvcNamespaceTag v (mdp_Tags p)\<rparr>)
         else if key = PvNameKey then Ok (p\<lparr>mdp_Tags := AList.update PvNameTag v (mdp_Tags p)\<rparr>)
         else if key = FsTypeField then Ok (p\<lparr>mdp_FsType := ToLower v\<rparr>)
         else if key = KindField then
           Ok (p\<lparr>mdp_VolumeContext := AList.update KindField (AzureManagedDisk S) (mdp_VolumeContext p)\<rparr>)
         else if key = PerfProfileField then
           (if \<not> IsValidPerfProfile v then
              Err (Errorf (''perf profile '' @ v @
                    '' is not supported, supported tuning modes are none and basic''))
            else Ok (p\<lparr>mdp_PerfProfile := v\<rparr>))
         else if key = NetworkAccessPolicyField then Ok (p\<lparr>mdp_NetworkAccessPolicy := v\<rparr>)
         else if key = PublicNetworkAccessField then Ok (p\<lparr>mdp_PublicNetworkAccess := v\<rparr>)
         else if key = DiskAccessIDField then Ok (p\<lparr>mdp_DiskAccessID := v\<rparr>)
         else if key = EnableBurstingField then
           (if EqualFold v TrueValue then Ok (p\<lparr>mdp_EnableBursting := Some True\<rparr>) else Ok p)
         else if key = UserAgentField then Ok (p\<lparr>mdp_UserAgent := v\<rparr>)
         else if key = EnableAsyncAttachField then Ok p
         else if key = ZonedField then Ok p
         else if key = PerformancePlusField then
           (case ParseBool v of
              Ok value \<Rightarrow> Ok (p\<lparr>mdp_PerformancePlus := Some value\<rparr>)
            | Err err \<Rightarrow> Err (Errorf (''invalid '' @ PerformancePlusField @ '': '' @ v @ '' in storage class''))
            | Panic \<Rightarrow> Panic)
         else if key = AttachDiskInitialDelayField then
           (case Atoi v of
              Ok _ \<Rightarrow> Ok p
            | Err err \<Rightarrow> Err (parse_failed v err)
            | Panic \<Rightarrow> Panic)
         else
           (case GetDeviceSettingFromAttribute k of
              Ok deviceSettings \<Rightarrow>
                Ok (p\<lparr>mdp_DeviceSettings :=
                       AList.update (filepath_Join DummyBlockDevicePathLinux deviceSettings) v
                         (mdp_DeviceSettings p)\<rparr>)
            | Err err \<Rightarrow> Err (Errorf (''invalid parameter '' @ k @ '' in storage class''))
            | Panic \<Rightarrow> Panic))"

fun parse_params :: "sdk \<Rightarrow> str_map \<Rightarrow> ManagedDiskParameters \<Rightarrow> ManagedDiskParameters res" where
  "parse_params S [] p = Ok p"
| "parse_params S (kv # rest) p =
     (case parse_param S kv p of
        Ok p' \<Rightarrow> parse_params S rest p'
      | Err e \<Rightarrow> Err e
      | Panic \<Rightarrow> Panic)"

definition ParseDiskParameters :: "sdk \<Rightarrow> str_map \<Rightarrow> ManagedDiskParameters res" where
  "ParseDiskParameters S parameters =
     (case parse_params S parameters (init_params parameters) of
        Ok p \<Rightarrow>
          if EqualFold (mdp_AccountType p) (DiskStorageAccountTypesPremiumV2LRS S) \<and>
             mdp_CachingMode p \<noteq> [] \<and> \<not> EqualFold (mdp_CachingMode p) (AzureDataDiskCachingNone S)
          then Err (Errorf (''cachingMode '' @ mdp_CachingMode p @ '' is not supported for '' @
                      DiskStorageAccountTypesPremiumV2LRS S))
          else Ok p
      | Err e \<Rightarrow> Err e
      | Panic \<Rightarrow> Panic)"

section \<open>Properties of a disk\<close>

definition put_some :: "string \<Rightarrow> string option \<Rightarrow> str_map \<Rightarrow> str_map" where
  "put_some key v m = (case v of None \<Rightarrow> m | Some s \<Rightarrow> AList.update key s m)"

text \<open>The context after the call; it is updated in place, and left as it is when it or the disk is
  nil. A disk with properties but without a network access policy is a nil dereference.\<close>

definition InsertDiskProperties :: "disk option \<Rightarrow> str_map option \<Rightarrow> str_map option res" where
  "InsertDiskProperties dsk publishContext =
     (case (dsk, publishContext) of
        (Some d, Some m) \<Rightarrow>
          (let m1 = put_some SkuNameField (disk_SKU d) m
           in case disk_Properties d of
                None \<Rightarrow> Ok (Some m1)
              | Some prop \<Rightarrow>
                 (case prop_NetworkAccessPolicy prop of
                    None \<Rightarrow> Panic
                  | Some policy \<Rightarrow>
                     (let m2 = AList.update NetworkAccessPolicyField policy m1;
                          m3 = put_some DiskIOPSReadWriteField (map_option Itoa (prop_DiskIOPSReadWrite prop)) m2;
                          m4 = put_some DiskMBPSReadWriteField (map_option Itoa (prop_DiskMBpsReadWrite prop)) m3;
                          m5 = put_some LogicalSectorSizeField
                                 (map_option Itoa (Option.bind (prop_CreationData prop) cd_LogicalSectorSize)) m4;
                          m6 = put_some DesIDField
                                 (Option.bind (prop_Encryption prop) enc_DiskEncryptionSetID) m5;
                          m7 = put_some MaxSharesField (map_option Itoa (prop_MaxShares prop)) m6
                      in Ok (Some m7))))
      | _ \<Rightarrow> Ok publishContext)"

section \<open>Throttling\<close>

definition IsThrottlingError :: "go_error option \<Rightarrow> bool" where
  "IsThrottlingError err =
     (case err of
        None \<Rightarrow> False
      | Some e \<Rightarrow>
         (let errMsg = ToLower (Error e)
          in Contains errMsg (ToLower TooManyRequests) \<or> Contains errMsg ClientThrottled))"

text \<open>\<open>RetryAfter: (\d+)s\<close>\<close>

definition retryAfterRE :: "ritem list" where
  "retryAfterRE = lits ''RetryAfter: '' @ Cap IsDigit # lits ''s''"

definition getRetryAfterSeconds :: "go_error option \<Rightarrow> int" where
  "getRetryAfterSeconds err =
     (case err of
        None \<Rightarrow> 0
      | Some e \<Rightarrow>
         (case FindStringSubmatch retryAfterRE (Error e) of
            None \<Rightarrow> 0
          | Some m \<Rightarrow>
             (case Atoi m of
                Ok retryAfter \<Rightarrow>
                  if retryAfter > MaxThrottlingSleepSec then MaxThrottlingSleepSec else retryAfter
              | _ \<Rightarrow> 0)))"

text \<open>The number of seconds \<open>SleepIfThrottled\<close> sleeps.\<close>

definition SleepIfThrottled :: "go_error option \<Rightarrow> int \<Rightarrow> int" where
  "SleepIfThrottled err defaultSleepSec =
     (if err \<noteq> None \<and> IsThrottlingError err then
        (let retryAfter = getRetryAfterSeconds err
         in if retryAfter = 0 then defaultSleepSec else retryAfter)
      else 0)"

section \<open>Case-insensitive maps\<close>

fun key_like :: "str_map \<Rightarrow> string \<Rightarrow> string option" where
  "key_like [] key = None"
| "key_like ((k, v) # rest) key = (if EqualFold k key then Some k else key_like rest key)"

definition SetKeyValueInMap :: "str_map option \<Rightarrow> string \<Rightarrow> string \<Rightarrow> str_map option" where
  "SetKeyValueInMap m key val =
     (case m of
        None \<Rightarrow> None
      | Some kvs \<Rightarrow>
         (case key_like kvs key of
            Some k \<Rightarrow> Some (AList.update k val kvs)
          | None \<Rightarrow> Some (AList.update key val kvs)))"

end
