(* ===== verification/DiskUtilsCorrect.thy ===== *)
theory DiskUtilsCorrect
  imports DiskUtils
begin

text \<open>
  What the helpers of \<open>azure_disk_utils.go\<close> guarantee: the readers of a disk URI agree on the URI
  the driver builds, generated disk names are valid, the enumerated options share one contract, a
  storage class is accepted exactly when each of its parameters is, and zones, capabilities, LUNs
  and throttling delays stay within their bounds.
\<close>

section \<open>Disk URIs\<close>

definition uri_part :: "string \<Rightarrow> bool" where
  "uri_part s \<longleftrightarrow> s \<noteq> [] \<and> CHR ''/'' \<notin> set s \<and> list_all not_ws s"

lemma not_ws_not_nl: "not_ws c \<Longrightarrow> not_nl c"
  by (simp add: not_ws_def not_nl_def)

lemma uri_part_nl: "uri_part s \<Longrightarrow> list_all not_nl s"
  by (auto simp: uri_part_def list_all_iff not_ws_not_nl)

lemma lang_Many: "lang (Many p # is) u \<longleftrightarrow> (\<exists>v w. u = v @ w \<and> list_all p v \<and> lang is w)"
  by simp

lemma Split_ManagedDiskPath:
  assumes "uri_part subs" "uri_part rg" "uri_part n"
  shows "Split (ManagedDiskPath subs rg n) (CHR ''/'') =
    [[], ''subscriptions'', subs, ''resourceGroups'', rg, ''providers'', ''Microsoft.Compute'', ''disks'', n]"
proof -
  have "ManagedDiskPath subs rg n =
    Join [[], ''subscriptions'', subs, ''resourceGroups'', rg, ''providers'', ''Microsoft.Compute'', ''disks'', n]
      (CHR ''/'')"
    by (simp add: ManagedDiskPath_def)
  moreover have "Split (Join [[], ''subscriptions'', subs, ''resourceGroups'', rg, ''providers'',
      ''Microsoft.Compute'', ''disks'', n] (CHR ''/'')) (CHR ''/'') =
      [[], ''subscriptions'', subs, ''resourceGroups'', rg, ''providers'', ''Microsoft.Compute'', ''disks'', n]"
    by (rule Split_Join) (use assms in \<open>auto simp: uri_part_def\<close>)
  ultimately show ?thesis by simp
qed

lemma managed_prefix_lang:
  assumes "uri_part subs" "uri_part rg"
  shows "lang (managed_prefix litsF kind)
    (''/subscriptions/'' @ subs @ ''/resourceGroups/'' @ rg @ ''/providers/Microsoft.Compute/'' @ kind)"
proof -
  have one: "lang (One (AnyOf not_nl) # is) (CHR ''.'' # u) \<longleftrightarrow> lang is u" for "is" u
    by (simp add: not_nl_def)
  have "lang (One (AnyOf not_nl) # litsF (''Compute/'' @ kind)) (''.'' @ ''Compute/'' @ kind)"
    by (simp only: one append_Cons append_Nil lang_litsF EqualFold_refl)
  then have 1: "lang (litsF ''/providers/Microsoft'' @ One (AnyOf not_nl) # litsF (''Compute/'' @ kind))
      (''/providers/Microsoft'' @ ''.'' @ ''Compute/'' @ kind)"
    unfolding lang_append lang_litsF by blast
  then have 2: "lang (litsF ''/resourceGroups/'' @ Many not_nl # litsF ''/providers/Microsoft'' @
      One (AnyOf not_nl) # litsF (''Compute/'' @ kind))
      (''/resourceGroups/'' @ rg @ ''/providers/Microsoft'' @ ''.'' @ ''Compute/'' @ kind)"
    unfolding lang_append [of "litsF ''/resourceGroups/''"] lang_litsF lang_Many
    using uri_part_nl [OF assms(2)] by blast
  then have "lang (Many not_nl # litsF ''/subscriptions/'' @ Many not_nl # litsF ''/resourceGroups/'' @
      Many not_nl # litsF ''/providers/Microsoft'' @ One (AnyOf not_nl) # litsF (''Compute/'' @ kind))
      ([] @ ''/subscriptions/'' @ subs @ ''/resourceGroups/'' @ rg @ ''/providers/Microsoft'' @ ''.'' @
       ''Compute/'' @ kind)"
    unfolding lang_Many [of not_nl "litsF ''/subscriptions/'' @ _"] lang_append [of "litsF ''/subscriptions/''"]
      lang_litsF lang_Many
    using uri_part_nl [OF assms(1)] by (metis EqualFold_refl list.pred_inject(1))
  then show ?thesis by (simp add: managed_prefix_def)
qed

lemma no_cap_prefix: "list_all no_cap (managed_prefix litsF kind)"
  by (simp add: managed_prefix_def)

lemma EqualFold_snoc_slash: "EqualFold u (s @ ''/'') \<Longrightarrow> \<exists>w. u = w @ ''/''"
proof -
  assume "EqualFold u (s @ ''/'')"
  then have e: "map lower_char u = map lower_char s @ [CHR ''/'']"
    by (simp add: EqualFold_def ToLower_def)
  then obtain w c where u: "u = w @ [c]" by (cases u rule: rev_cases) auto
  with e have "lower_char c = CHR ''/''" by simp
  with u show ?thesis by simp
qed

lemma managed_prefix_slash: "lang (managed_prefix litsF (kind @ ''/'')) u \<Longrightarrow> \<exists>w. u = w @ ''/''"
proof -
  assume "lang (managed_prefix litsF (kind @ ''/'')) u"
  then have "lang ((Many not_nl # litsF ''/subscriptions/'' @ Many not_nl # litsF ''/resourceGroups/'' @
     Many not_nl # litsF ''/providers/Microsoft'' @ [One (AnyOf not_nl)]) @
     litsF ((''Compute/'' @ kind) @ ''/'')) u"
    by (simp add: managed_prefix_def)
  then obtain v w where "u = v @ w" "EqualFold w ((''Compute/'' @ kind) @ ''/'')"
    unfolding lang_append lang_litsF by blast
  then show ?thesis using EqualFold_snoc_slash [of w "''Compute/'' @ kind"] by auto
qed

lemma GetDiskName_path:
  assumes "uri_part subs" "uri_part rg" "uri_part n"
  shows "GetDiskName (ManagedDiskPath subs rg n) = Ok n"
proof -
  let ?u = "''/subscriptions/'' @ subs @ ''/resourceGroups/'' @ rg @ ''/providers/Microsoft.Compute/'' @ ''disks/''"
  have "count_list ?u (CHR ''/'') = sum_list (map item_slashes (managed_prefix litsF ''disks/''))"
    using assms by (simp add: managed_prefix_def litsF_def uri_part_def count_notin)
  moreover have "\<And>u. lang (managed_prefix litsF ''disks/'') u \<Longrightarrow> \<exists>w. u = w @ ''/''"
    using managed_prefix_slash [of "''disks''"] by simp
  ultimately have "FindStringSubmatch (managed_prefix litsF ''disks/'' @ [Cap not_nl]) (?u @ n) = Some n"
    using assms managed_prefix_lang [OF assms(1,2), of "''disks/''"] uri_part_nl [OF assms(3)]
    by (intro FindStringSubmatch_last_elem) (auto simp: no_cap_prefix uri_part_def)
  then show ?thesis by (simp add: GetDiskName_def ManagedDiskPathRE_def ManagedDiskPath_def)
qed

lemma Split_last_suffix: "c \<notin> set s \<Longrightarrow> \<exists>e. last (Split (a @ s) c) = e @ s"
proof (induction a)
  case (Cons x a)
  then show ?case
    by (auto split: list.splits)
qed (simp add: Split_no_sep)

lemma GetVolumeName_path:
  assumes "uri_part subs" "uri_part rg" "uri_part n"
  shows "GetVolumeName (ManagedDiskPath subs rg n) = Ok n"
proof -
  let ?p = "''/subscriptions/'' @ subs @ ''/resourceGroups/'' @ rg @ ''/providers/''"
  obtain c t where n: "n = c # t" "not_ws c" using assms(3) by (cases n) (auto simp: uri_part_def)
  have e: "ManagedDiskPath subs rg n = ?p @ ''Microsoft.Compute/disks/'' @ n"
    by (simp add: ManagedDiskPath_def)
  obtain m where m: "GetVolumeName (ManagedDiskPath subs rg n) = Ok m"
    using GetVolumeName_complete [of c ?p t] n e by auto
  then obtain a v where av: "ManagedDiskPath subs rg n = a @ ''Microsoft.Compute/disks/'' @ v"
    "m = takeWhile not_ws v" "m \<noteq> []" using GetVolumeName_sound by blast
  have "Split (ManagedDiskPath subs rg n) (CHR ''/'') =
      Split ((a @ ''Microsoft.Compute'') @ CHR ''/'' # ''disks'' @ CHR ''/'' # v) (CHR ''/'')"
    using av(1) by simp
  also have "\<dots> = Split (a @ ''Microsoft.Compute'') (CHR ''/'') @ ''disks'' # Split v (CHR ''/'')"
    by (subst Split_append) (simp add: Split_append_sep)
  finally have sp: "Split (a @ ''Microsoft.Compute'') (CHR ''/'') @ ''disks'' # Split v (CHR ''/'') =
    [[], ''subscriptions'', subs, ''resourceGroups'', rg, ''providers'', ''Microsoft.Compute'', ''disks'', n]"
    using Split_ManagedDiskPath [OF assms] by simp
  let ?l = "Split (a @ ''Microsoft.Compute'') (CHR ''/'')"
  obtain e where e: "last ?l = e @ ''Microsoft.Compute''"
    using Split_last_suffix [of "CHR ''/''" "''Microsoft.Compute''" a] by auto
  have l: "?l \<noteq> []" by simp
  have "Split v (CHR ''/'') = [n]"
    using sp e l by (auto simp: append_eq_Cons_conv Cons_eq_append_conv)
  then have "v = n" using Join_Split [of v "CHR ''/''"] by simp
  with av(2) m assms(3) show ?thesis by (simp add: uri_part_def takeWhile_eq_all_conv list_all_iff)
qed

text \<open>C37. On the URI the driver builds for a managed disk, all the readers of URIs agree: both
  expressions find the disk name, and the resource group and the subscription come back as they
  were given.\<close>

theorem disk_uri_roundtrip:
  assumes "uri_part subs" "uri_part rg" "uri_part n"
  shows "GetDiskName (ManagedDiskPath subs rg n) = Ok n \<and>
    GetVolumeName (ManagedDiskPath subs rg n) = Ok n \<and>
    GetResourceGroupFromURI (ManagedDiskPath subs rg n) = Ok rg \<and>
    GetSubscriptionIDFromURI (ManagedDiskPath subs rg n) = subs \<and>
    IsValidDiskURI (ManagedDiskPath subs rg n) = Ok () \<and>
    IsARMResourceID (ManagedDiskPath subs rg n)"
proof -
  have lower: "HasPrefix (ToLower (ManagedDiskPath subs rg n)) ''/subscriptions/''"
    by (simp add: ManagedDiskPath_def HasPrefix_def ToLower_def lower_char_def is_upper_def)
  then have "Contains (ToLower (ManagedDiskPath subs rg n)) ''/subscriptions/''"
    by (simp add: Contains_def)
  moreover have "ToLower ''resourceGroups'' = ''resourcegroups''" by code_simp
  moreover have "EqualFold ''subscriptions'' ''subscriptions''" "\<not> EqualFold [] ''subscriptions''"
    by simp_all
  ultimately show ?thesis
    using lower GetDiskName_path [OF assms] GetVolumeName_path [OF assms]
    by (simp add: GetResourceGroupFromURI_def GetSubscriptionIDFromURI_def Split_ManagedDiskPath [OF assms]
        IsValidDiskURI_def Index_zero IsARMResourceID_def)
qed

theorem disk_uri_roundtrip_witness:
  "GetDiskName (ManagedDiskPath ''sub-1'' ''rg'' ''pvc-7'') = Ok ''pvc-7'' \<and>
   GetResourceGroupFromURI (ManagedDiskPath ''sub-1'' ''rg'' ''pvc-7'') = Ok ''rg''"
  using disk_uri_roundtrip [of "''sub-1''" "''rg''" "''pvc-7''"]
  by (simp add: uri_part_def not_ws_def)

section \<open>Disk names\<close>

text \<open>The rule the comment of \<open>CreateValidDiskName\<close> gives.\<close>

definition valid_disk_name :: "string \<Rightarrow> bool" where
  "valid_disk_name s \<longleftrightarrow> s \<noteq> [] \<and> length s \<le> 80 \<and> list_all name_char s \<and>
     (IsLetter (hd s) \<or> IsDigit (hd s)) \<and> (IsLetter (last s) \<or> IsDigit (last s) \<or> last s = CHR ''_'')"

lemma check_disk_name_pos:
  "0 < i \<Longrightarrow> i + length s = n \<Longrightarrow>
   check_disk_name_from n i s \<longleftrightarrow> list_all name_char s \<and>
     (s \<noteq> [] \<longrightarrow> IsLetter (last s) \<or> IsDigit (last s) \<or> last s = CHR ''_'')"
  by (induction s arbitrary: i) auto

lemma checkDiskName_iff:
  "checkDiskName s \<longleftrightarrow> list_all name_char s \<and>
     (s \<noteq> [] \<longrightarrow> (IsLetter (hd s) \<or> IsDigit (hd s)) \<and>
       (IsLetter (last s) \<or> IsDigit (last s) \<or> last s = CHR ''_''))"
  by (cases s) (auto simp: checkDiskName_def check_disk_name_pos)

text \<open>What \<open>uuid.NewUUID\<close> documents of its result: 36 hexadecimal digits and hyphens, ending in a
  digit.\<close>

definition uuid_text :: "string \<Rightarrow> bool" where
  "uuid_text u \<longleftrightarrow> length u = 36 \<and> list_all (\<lambda>c. IsLetter c \<or> IsDigit c \<or> c = CHR ''-'') u \<and>
     (IsLetter (last u) \<or> IsDigit (last u))"

text \<open>The name created for a disk is always valid by Azure's rule: it starts with a letter or
  digit, ends with a letter, digit or underscore, holds only the allowed characters and has 1 to 80
  of them. A name that is valid already is kept.\<close>

theorem CreateValidDiskName_valid:
  assumes "uuid_text u"
  shows "\<exists>n. CreateValidDiskName u volumeName = Ok n \<and> valid_disk_name n \<and>
           (valid_disk_name volumeName \<longrightarrow> n = volumeName)"
proof -
  let ?d = "if length volumeName > diskNameMaxLength then take diskNameMaxLength volumeName else volumeName"
  show ?thesis
  proof (cases "\<not> checkDiskName ?d \<or> length ?d < diskNameMinLength")
    case True
    have u: "length u = 36" "list_all name_char u" "u \<noteq> []" "IsLetter (last u) \<or> IsDigit (last u)"
      using assms by (auto simp: uuid_text_def list_all_iff name_char_def)
    have g: "GenerateVolumeName ''pvc-disk'' u diskNameGenerateMaxLength = Ok (''pvc-disk-dynamic-'' @ u)"
      using u by (simp add: GenerateVolumeName_def diskNameGenerateMaxLength_def)
    have "valid_disk_name (''pvc-disk-dynamic-'' @ u)"
      using u by (auto simp: valid_disk_name_def name_char_def IsLetter_def is_lower_def)
    moreover have "\<not> valid_disk_name volumeName"
      using True by (auto simp: valid_disk_name_def checkDiskName_iff diskNameMaxLength_def
          diskNameMinLength_def Suc_le_eq split: if_splits)
    ultimately show ?thesis using True g by (simp add: CreateValidDiskName_def Let_def)
  next
    case False
    then have "valid_disk_name ?d"
      by (auto simp: valid_disk_name_def checkDiskName_iff diskNameMaxLength_def diskNameMinLength_def)
    with False show ?thesis
      by (auto simp: CreateValidDiskName_def Let_def valid_disk_name_def diskNameMaxLength_def)
  qed
qed

theorem CreateValidDiskName_valid_witness:
  "\<exists>n. CreateValidDiskName ''123e4567-e89b-12d3-a456-426614174000'' ''-bad-'' = Ok n \<and> valid_disk_name n"
proof -
  have "uuid_text ''123e4567-e89b-12d3-a456-426614174000''" by code_simp
  from CreateValidDiskName_valid [OF this, of "''-bad-''"] show ?thesis by blast
qed

section \<open>Enumerated options\<close>

text \<open>
  The contract of the normalisers: the empty option becomes the default, a supported one stays, any
  other is refused with an error that names it.
\<close>

locale enum_option =
  fixes norm :: "string \<Rightarrow> string res"
    and default :: string
    and supported :: "string \<Rightarrow> bool"
  assumes norm_empty: "norm [] = Ok default"
    and norm_supported: "v \<noteq> [] \<Longrightarrow> supported v \<Longrightarrow> norm v = Ok v"
    and norm_refused: "v \<noteq> [] \<Longrightarrow> \<not> supported v \<Longrightarrow> \<exists>m. norm v = Err (Errorf m) \<and> Contains m v"
begin

lemma norm_Ok: "norm v = Ok w \<longleftrightarrow> (v = [] \<and> w = default) \<or> (v \<noteq> [] \<and> supported v \<and> w = v)"
  using norm_empty norm_supported [of v] norm_refused [of v] by (cases "v = []"; cases "supported v") auto

lemma norm_not_Panic: "norm v \<noteq> Panic"
  using norm_empty norm_supported [of v] norm_refused [of v] by (cases "v = []"; cases "supported v") auto

lemma norm_idem: "default = [] \<or> supported default \<Longrightarrow> norm v = Ok w \<Longrightarrow> norm w = Ok w"
  by (auto simp: norm_Ok)

end

lemma Contains_mid [simp]: "Contains (p @ v @ q) v"
  unfolding Contains_iff by blast

lemma Contains_Cons [simp]: "Contains s v \<Longrightarrow> Contains (c # s) v"
  using Contains_append [of s v "[c]"] by simp

lemma Contains_start [simp]: "Contains (v @ q) v"
  using Contains_mid [of "[]"] by simp

interpretation caching: enum_option "NormalizeCachingMode S" "AzureDataDiskCachingReadOnly S"
  "\<lambda>v. v \<in> set (supportedCachingModes S)" for S
  by unfold_locales (auto simp: NormalizeCachingMode_def)

interpretation policy: enum_option "NormalizeNetworkAccessPolicy S" "[]"
  "\<lambda>v. v \<in> set (PossibleNetworkAccessPolicyValues S)" for S
  by unfold_locales (auto simp: NormalizeNetworkAccessPolicy_def list_ex_iff)

interpretation public_access: enum_option "NormalizePublicNetworkAccess S" "[]"
  "\<lambda>v. v \<in> set (PossiblePublicNetworkAccessValues S)" for S
  by unfold_locales (auto simp: NormalizePublicNetworkAccess_def list_ex_iff)

interpretation account: enum_option "\<lambda>v. NormalizeStorageAccountType S v cloud disable"
  "if IsAzureStackCloud cloud disable then DiskStorageAccountTypesStandardLRS S
   else DiskStorageAccountTypesStandardSSDLRS S"
  "\<lambda>v. v \<in> set (supported_sku_names S cloud disable)" for S cloud disable
  by unfold_locales (auto simp: NormalizeStorageAccountType_def list_ex_iff Let_def)

text \<open>A validator refuses exactly what the corresponding normaliser with an empty default would.\<close>

definition keep_valid :: "(string \<Rightarrow> unit res) \<Rightarrow> string \<Rightarrow> string res" where
  "keep_valid validate v = (case validate v of Ok _ \<Rightarrow> Ok v | Err e \<Rightarrow> Err e | Panic \<Rightarrow> Panic)"

interpretation enc_type: enum_option "keep_valid (ValidateDiskEncryptionType S)" "[]"
  "\<lambda>v. v \<in> set (PossibleEncryptionTypeValues S)" for S
  by unfold_locales (auto simp: keep_valid_def ValidateDiskEncryptionType_def list_ex_iff)

interpretation auth_mode: enum_option "keep_valid (ValidateDataAccessAuthMode S)" "[]"
  "\<lambda>v. v \<in> set (PossibleDataAccessAuthModeValues S)" for S
  by unfold_locales (auto simp: keep_valid_def ValidateDataAccessAuthMode_def list_ex_iff)

text \<open>What the documentation of the SDK says of its lists: the default account types are in them.\<close>

definition sdk_lists_ok :: "sdk \<Rightarrow> bool" where
  "sdk_lists_ok S \<longleftrightarrow> DiskStorageAccountTypesStandardSSDLRS S \<in> set (PossibleDiskStorageAccountTypesValues S)"

text \<open>C40. Normalising a storage account type, a caching mode, a network access policy or a public
  network access option yields a supported value (or leaves the option unset), never panics, and
  normalising the result again changes nothing.\<close>

theorem normalize_options:
  assumes "sdk_lists_ok S"
  shows "(NormalizeStorageAccountType S v cloud dis = Ok w \<longrightarrow>
            w \<in> set (supported_sku_names S cloud dis) \<and> NormalizeStorageAccountType S w cloud dis = Ok w) \<and>
         (NormalizeCachingMode S v = Ok w \<longrightarrow>
            w \<in> set (supportedCachingModes S) \<and> NormalizeCachingMode S w = Ok w) \<and>
         (NormalizeNetworkAccessPolicy S v = Ok w \<longrightarrow>
            w = v \<and> (w = [] \<or> w \<in> set (PossibleNetworkAccessPolicyValues S))) \<and>
         (NormalizePublicNetworkAccess S v = Ok w \<longrightarrow>
            w = v \<and> (w = [] \<or> w \<in> set (PossiblePublicNetworkAccessValues S))) \<and>
         NormalizeStorageAccountType S v cloud dis \<noteq> Panic \<and> NormalizeCachingMode S v \<noteq> Panic \<and>
         NormalizeNetworkAccessPolicy S v \<noteq> Panic \<and> NormalizePublicNetworkAccess S v \<noteq> Panic"
proof (intro conjI impI)
  have d: "(if IsAzureStackCloud cloud dis then DiskStorageAccountTypesStandardLRS S
      else DiskStorageAccountTypesStandardSSDLRS S) \<in> set (supported_sku_names S cloud dis)"
    using assms by (simp add: supported_sku_names_def sdk_lists_ok_def)
  assume a: "NormalizeStorageAccountType S v cloud dis = Ok w"
  then show "w \<in> set (supported_sku_names S cloud dis)" using d by (auto simp: account.norm_Ok)
  show "NormalizeStorageAccountType S w cloud dis = Ok w" using account.norm_idem [OF _ a] d by blast
next
  assume c: "NormalizeCachingMode S v = Ok w"
  then show "w \<in> set (supportedCachingModes S)" by (auto simp: caching.norm_Ok supportedCachingModes_def)
  show "NormalizeCachingMode S w = Ok w"
    using caching.norm_idem [OF _ c] by (simp add: supportedCachingModes_def)
qed (auto simp: policy.norm_Ok public_access.norm_Ok account.norm_not_Panic caching.norm_not_Panic
    policy.norm_not_Panic public_access.norm_not_Panic)

theorem normalize_options_witness:
  "NormalizeStorageAccountType sdk0 [] ''AZUREPUBLICCLOUD'' False = Ok ''StandardSSD_LRS'' \<and>
   ''StandardSSD_LRS'' \<in> set (supported_sku_names sdk0 ''AZUREPUBLICCLOUD'' False)"
proof -
  have ok: "sdk_lists_ok sdk0" by code_simp
  have n: "NormalizeStorageAccountType sdk0 [] ''AZUREPUBLICCLOUD'' False = Ok ''StandardSSD_LRS''"
    by code_simp
  from normalize_options [OF ok, of "[]" "''AZUREPUBLICCLOUD''" False "''StandardSSD_LRS''"] n show ?thesis by simp
qed

section \<open>Storage class parameters\<close>

text \<open>When a parameter is acceptable: the parameters with a syntax of their own follow it, and
  a parameter with no name of the driver's starts with the prefix of device settings.\<close>

definition checked_keys :: "string list" where
  "checked_keys = [LogicalSectorSizeField, AttachDiskInitialDelayField, TagsField, MaxSharesField,
     PerfProfileField, PerformancePlusField]"

definition free_keys :: "sdk \<Rightarrow> string list" where
  "free_keys S = [SkuNameField, LocationField, StorageAccountTypeField, CachingModeField,
     SubscriptionIDField, ResourceGroupField, DiskIOPSReadWriteField, DiskMBPSReadWriteField,
     DiskNameField, DesIDField, DiskEncryptionTypeField, azure_WriteAcceleratorEnabled S, PvcNameKey,
     PvcNamespaceKey, PvNameKey, FsTypeField, KindField, NetworkAccessPolicyField,
     PublicNetworkAccessField, DiskAccessIDField, EnableBurstingField, UserAgentField,
     EnableAsyncAttachField, ZonedField]"

definition param_ok :: "sdk \<Rightarrow> string \<times> string \<Rightarrow> bool" where
  "param_ok S kv \<longleftrightarrow>
     (let key = ToLower (fst kv); v = snd kv
      in (key \<in> {LogicalSectorSizeField, AttachDiskInitialDelayField} \<longrightarrow> is_Ok (Atoi v)) \<and>
         (key = TagsField \<longrightarrow> is_Ok (ConvertTagsToMap v)) \<and>
         (key = MaxSharesField \<longrightarrow> (\<exists>n\<ge>1. Atoi v = Ok n)) \<and>
         (key = PerfProfileField \<longrightarrow> IsValidPerfProfile v) \<and>
         (key = PerformancePlusField \<longrightarrow> is_Ok (ParseBool v)) \<and>
         (key \<notin> set checked_keys \<union> set (free_keys S) \<longrightarrow> HasPrefix (fst kv) DeviceSettingsKeyPrefix))"

definition accelerator_key_ok :: "sdk \<Rightarrow> bool" where
  "accelerator_key_ok S \<longleftrightarrow>
     azure_WriteAcceleratorEnabled S \<notin> set (checked_keys @ [SkuNameField, StorageAccountTypeField, CachingModeField])"

lemma is_Ok_iff: "is_Ok r \<longleftrightarrow> (\<exists>x. r = Ok x)"
  by (cases r) auto

lemma parse_param_free:
  assumes "ToLower k \<notin> set checked_keys" "ToLower k \<in> set (free_keys S)"
  shows "\<exists>p'. parse_param S (k, v) p = Ok p'"
proof -
  define key where "key = ToLower k"
  have "key \<noteq> LogicalSectorSizeField" "key \<noteq> AttachDiskInitialDelayField" "key \<noteq> TagsField"
    "key \<noteq> MaxSharesField" "key \<noteq> PerfProfileField" "key \<noteq> PerformancePlusField"
    using assms(1) by (auto simp: checked_keys_def key_def)
  then show ?thesis using assms(2) unfolding parse_param_def Let_def split_beta fst_conv snd_conv
    free_keys_def by (auto simp flip: key_def)
qed

lemma accelerator_ne:
  "accelerator_key_ok S \<Longrightarrow>
   \<forall>x \<in> set (checked_keys @ [SkuNameField, StorageAccountTypeField, CachingModeField]).
     x \<noteq> azure_WriteAcceleratorEnabled S"
  by (auto simp: accelerator_key_ok_def)

lemma parse_param_checked:
  assumes "accelerator_key_ok S"
  shows "ToLower k = LogicalSectorSizeField \<Longrightarrow> parse_param S (k, v) p =
      (case Atoi v of Ok n \<Rightarrow> Ok (p\<lparr>mdp_LogicalSectorSize := n\<rparr>)
       | Err err \<Rightarrow> Err (parse_failed v err) | Panic \<Rightarrow> Panic)"
    and "ToLower k = AttachDiskInitialDelayField \<Longrightarrow> parse_param S (k, v) p =
      (case Atoi v of Ok _ \<Rightarrow> Ok p | Err err \<Rightarrow> Err (parse_failed v err) | Panic \<Rightarrow> Panic)"
    and "ToLower k = TagsField \<Longrightarrow> parse_param S (k, v) p =
      (case ConvertTagsToMap v of
         Ok m \<Rightarrow> Ok (p\<lparr>mdp_Tags := fold (\<lambda>(k, v). AList.update k v) m (mdp_Tags p)\<rparr>)
       | Err err \<Rightarrow> Err err | Panic \<Rightarrow> Panic)"
    and "ToLower k = MaxSharesField \<Longrightarrow> parse_param S (k, v) p =
      (case Atoi v of
         Ok n \<Rightarrow> if n < 1 then Err (Errorf (''parse '' @ v @ '' returned with invalid value: '' @ Itoa n))
                 else Ok (p\<lparr>mdp_MaxShares := n\<rparr>)
       | Err err \<Rightarrow> Err (parse_failed v err) | Panic \<Rightarrow> Panic)"
    and "ToLower k = PerfProfileField \<Longrightarrow> parse_param S (k, v) p =
      (if IsValidPerfProfile v then Ok (p\<lparr>mdp_PerfProfile := v\<rparr>)
       else Err (Errorf (''perf profile '' @ v @
              '' is not supported, supported tuning modes are none and basic'')))"
    and "ToLower k = PerformancePlusField \<Longrightarrow> parse_param S (k, v) p =
      (case ParseBool v of
         Ok b \<Rightarrow> Ok (p\<lparr>mdp_PerformancePlus := Some b\<rparr>)
       | Err err \<Rightarrow> Err (Errorf (''invalid '' @ PerformancePlusField @ '': '' @ v @ '' in storage class''))
       | Panic \<Rightarrow> Panic)"
  using accelerator_ne [OF assms] by (simp_all add: parse_param_def Let_def azure_consts checked_keys_def)

lemma param_ok_checked:
  "ToLower k = LogicalSectorSizeField \<Longrightarrow> param_ok S (k, v) \<longleftrightarrow> is_Ok (Atoi v)"
  "ToLower k = AttachDiskInitialDelayField \<Longrightarrow> param_ok S (k, v) \<longleftrightarrow> is_Ok (Atoi v)"
  "ToLower k = TagsField \<Longrightarrow> param_ok S (k, v) \<longleftrightarrow> is_Ok (ConvertTagsToMap v)"
  "ToLower k = MaxSharesField \<Longrightarrow> param_ok S (k, v) \<longleftrightarrow> (\<exists>n\<ge>1. Atoi v = Ok n)"
  "ToLower k = PerfProfileField \<Longrightarrow> param_ok S (k, v) \<longleftrightarrow> IsValidPerfProfile v"
  "ToLower k = PerformancePlusField \<Longrightarrow> param_ok S (k, v) \<longleftrightarrow> is_Ok (ParseBool v)"
  by (simp_all add: param_ok_def Let_def checked_keys_def azure_consts)

lemma parse_param_accepts:
  assumes "accelerator_key_ok S"
  shows "(\<exists>p'. parse_param S (k, v) p = Ok p') \<longleftrightarrow> param_ok S (k, v)"
proof -
  consider (a) "ToLower k = LogicalSectorSizeField" | (b) "ToLower k = AttachDiskInitialDelayField"
    | (c) "ToLower k = TagsField" | (d) "ToLower k = MaxSharesField" | (e) "ToLower k = PerfProfileField"
    | (f) "ToLower k = PerformancePlusField"
    | (g) "ToLower k \<notin> set checked_keys" "ToLower k \<in> set (free_keys S)"
    | (h) "ToLower k \<notin> set checked_keys \<union> set (free_keys S)"
    by (auto simp: checked_keys_def)
  then show ?thesis
  proof cases
    case g
    moreover have "param_ok S (k, v)" using g by (auto simp: param_ok_def checked_keys_def Let_def)
    ultimately show ?thesis using parse_param_free by blast
  next
    case h
    then show ?thesis
      by (simp add: parse_param_def param_ok_def Let_def checked_keys_def free_keys_def
          GetDeviceSettingFromAttribute_def)
  qed (auto simp: parse_param_checked [OF assms] param_ok_checked is_Ok_iff split: res.split)
qed

definition last_value :: "string list \<Rightarrow> str_map \<Rightarrow> string" where
  "last_value keys m = fold (\<lambda>(k, v) r. if ToLower k \<in> set keys then v else r) m []"

lemma early_keys_distinct:
  "SkuNameField \<noteq> CachingModeField" "LocationField \<noteq> CachingModeField" "StorageAccountTypeField \<noteq> CachingModeField"
  "LocationField \<noteq> StorageAccountTypeField"
  by (simp_all add: azure_consts)

lemma parse_param_account:
  assumes "parse_param S (k, v) p = Ok p'"
  shows "mdp_AccountType p' =
    (if ToLower k \<in> {SkuNameField, StorageAccountTypeField} then v else mdp_AccountType p)"
  using assms early_keys_distinct(4)
  by (simp add: parse_param_def Let_def split: if_split_asm res.split_asm; fastforce)

lemma parse_param_caching:
  assumes "parse_param S (k, v) p = Ok p'"
  shows "mdp_CachingMode p' = (if ToLower k = CachingModeField then v else mdp_CachingMode p)"
  using assms early_keys_distinct(1-3)
  by (simp add: parse_param_def Let_def split: if_split_asm res.split_asm; fastforce)

lemma parse_param_shares:
  assumes "parse_param S (k, v) p = Ok p'"
  shows "(mdp_MaxShares p' = mdp_MaxShares p \<or> 1 \<le> mdp_MaxShares p') \<and>
    (mdp_PerfProfile p' = mdp_PerfProfile p \<or> IsValidPerfProfile (mdp_PerfProfile p'))"
  using assms by (simp add: parse_param_def Let_def split: if_split_asm res.split_asm; fastforce)

lemma parse_param_not_Panic: "parse_param S (k, v) p \<noteq> Panic"
proof
  assume "parse_param S (k, v) p = Panic"
  then show False
    by (simp add: parse_param_def Let_def GetDeviceSettingFromAttribute_def
        split: if_split_asm res.split_asm)
qed

lemma parse_params_accepts:
  assumes "accelerator_key_ok S"
  shows "(\<exists>p'. parse_params S ps p = Ok p') \<longleftrightarrow> list_all (param_ok S) ps"
proof (induction ps arbitrary: p)
  case (Cons kv ps)
  obtain k v where kv: "kv = (k, v)" by fastforce
  show ?case
    using Cons parse_param_accepts [OF assms, of k v p] parse_param_not_Panic [of S k v p]
    by (cases "parse_param S kv p") (auto simp: kv)
qed simp

lemma parse_params_result:
  assumes "parse_params S ps p = Ok p'"
  shows "mdp_AccountType p' = fold (\<lambda>(k, v) r. if ToLower k \<in> {SkuNameField, StorageAccountTypeField} then v else r)
           ps (mdp_AccountType p) \<and>
         mdp_CachingMode p' = fold (\<lambda>(k, v) r. if ToLower k \<in> {CachingModeField} then v else r)
           ps (mdp_CachingMode p) \<and>
         (mdp_MaxShares p' = mdp_MaxShares p \<or> 1 \<le> mdp_MaxShares p') \<and>
         (mdp_PerfProfile p' = mdp_PerfProfile p \<or> IsValidPerfProfile (mdp_PerfProfile p'))"
  using assms
proof (induction ps arbitrary: p)
  case (Cons kv ps)
  obtain k v where kv: "kv = (k, v)" by fastforce
  from Cons.prems obtain q where q: "parse_param S (k, v) p = Ok q" "parse_params S ps q = Ok p'"
    by (auto simp: kv split: res.splits)
  show ?case
    using Cons.IH [OF q(2)] parse_param_account [OF q(1)] parse_param_caching [OF q(1)]
      parse_param_shares [OF q(1)]
    by (auto simp: kv)
qed simp

lemma parse_params_not_Panic: "parse_params S ps p \<noteq> Panic"
proof (induction ps arbitrary: p)
  case (Cons kv ps)
  then show ?case using parse_param_not_Panic by (cases kv) (auto split: res.splits)
qed simp

text \<open>C36. The parameters of a storage class are accepted exactly when every single one of them is
  acceptable and a PremiumV2 account does not ask for host caching; the account type and caching
  mode are the values read last, an accepted maxShares is at least 1 and an accepted perf profile
  is a known one. A parameter that is neither in the lists of known ones nor a device setting is always refused;
  maxMountReplicaCount, which the documentation lists for the second driver, is such a parameter (the witness).\<close>

theorem ParseDiskParameters_accepts:
  assumes "accelerator_key_ok S"
  defines "account \<equiv> \<lambda>ps. last_value [SkuNameField, StorageAccountTypeField] ps"
    and "caching \<equiv> \<lambda>ps. last_value [CachingModeField] ps"
  shows "((\<exists>p. ParseDiskParameters S ps = Ok p) \<longleftrightarrow>
           list_all (param_ok S) ps \<and>
           (EqualFold (account ps) (DiskStorageAccountTypesPremiumV2LRS S) \<longrightarrow>
              caching ps = [] \<or> EqualFold (caching ps) (AzureDataDiskCachingNone S))) \<and>
         (\<forall>p. ParseDiskParameters S ps = Ok p \<longrightarrow>
           mdp_AccountType p = account ps \<and> mdp_CachingMode p = caching ps \<and>
           (mdp_MaxShares p = 0 \<or> 1 \<le> mdp_MaxShares p) \<and>
           (mdp_PerfProfile p = [] \<or> IsValidPerfProfile (mdp_PerfProfile p))) \<and>
         (\<forall>kv \<in> set ps. ToLower (fst kv) \<notin> set checked_keys \<union> set (free_keys S) \<and>
           \<not> HasPrefix (fst kv) DeviceSettingsKeyPrefix \<longrightarrow> \<not> (\<exists>p. ParseDiskParameters S ps = Ok p))"
proof -
  have unknown: "\<not> list_all (param_ok S) ps"
    if "kv \<in> set ps" "ToLower (fst kv) \<notin> set checked_keys \<union> set (free_keys S)" "\<not> HasPrefix (fst kv) DeviceSettingsKeyPrefix" for kv
    using that by (auto simp: list_all_iff param_ok_def Let_def)
  have res: "mdp_AccountType p = account ps \<and> mdp_CachingMode p = caching ps \<and>
      (mdp_MaxShares p = 0 \<or> 1 \<le> mdp_MaxShares p) \<and>
      (mdp_PerfProfile p = [] \<or> IsValidPerfProfile (mdp_PerfProfile p))"
    if "parse_params S ps (init_params ps) = Ok p" for p
    using parse_params_result [OF that]
    by (simp add: account_def caching_def last_value_def init_params_def)
  show ?thesis
  proof (cases "parse_params S ps (init_params ps)")
    case (Ok p)
    then have "list_all (param_ok S) ps" using parse_params_accepts [OF assms(1)] by blast
    with Ok res [OF Ok] unknown show ?thesis unfolding ParseDiskParameters_def by (auto simp del: Un_iff)
  next
    case (Err e)
    then have "\<not> list_all (param_ok S) ps"
      using parse_params_accepts [OF assms(1), of ps "init_params ps"] by auto
    with Err show ?thesis by (simp add: ParseDiskParameters_def)
  qed (simp add: parse_params_not_Panic)
qed

theorem ParseDiskParameters_accepts_witness:
  "(\<exists>p. ParseDiskParameters sdk0 [(''skuName'', ''Premium_LRS''), (''maxShares'', ''2'')] = Ok p \<and>
     mdp_AccountType p = ''Premium_LRS'' \<and> mdp_MaxShares p \<noteq> - 1) \<and>
   (\<forall>p. ParseDiskParameters sdk0 [(''maxShares'', ''2''), (''maxMountReplicaCount'', ''1'')] \<noteq> Ok p)"
proof -
  have ok: "accelerator_key_ok sdk0" by code_simp
  let ?ps = "[(''skuName'', ''Premium_LRS''), (''maxShares'', ''2'')]"
  have "is_Ok (ParseDiskParameters sdk0 ?ps)" by code_simp
  then obtain p where p: "ParseDiskParameters sdk0 ?ps = Ok p" by (auto simp: is_Ok_iff)
  have l: "last_value [SkuNameField, StorageAccountTypeField] ?ps = ''Premium_LRS''" by code_simp
  have "ToLower ''maxMountReplicaCount'' \<notin> set checked_keys \<union> set (free_keys sdk0)"
    "\<not> HasPrefix ''maxMountReplicaCount'' DeviceSettingsKeyPrefix" by code_simp+
  then have "\<forall>p. ParseDiskParameters sdk0 [(''maxShares'', ''2''), (''maxMountReplicaCount'', ''1'')] \<noteq> Ok p"
    using ParseDiskParameters_accepts [OF ok, of "[(''maxShares'', ''2''), (''maxMountReplicaCount'', ''1'')]"] by simp
  with p l show ?thesis using ParseDiskParameters_accepts [OF ok, of ?ps] by auto
qed

section \<open>Capabilities and zones\<close>

text \<open>A request's capabilities are valid exactly when each of them has a known access mode, asks
  for a block or a mounted volume, and asks for access from several nodes only as a block volume on
  a disk that can be shared at least twice.\<close>

theorem IsValidVolumeCapabilities_iff:
  "IsValidVolumeCapabilities caps maxShares = Ok () \<longleftrightarrow>
     (\<forall>c \<in> set caps. GetMode c \<noteq> UNKNOWN \<and> cap_AccessType c \<noteq> None \<and>
        (multi_node (GetMode c) \<longrightarrow> cap_AccessType c = Some Block \<and> 2 \<le> maxShares))"
proof -
  have known: "list_ex (\<lambda>m. m = GetMode c) volumeCaps \<longleftrightarrow> GetMode c \<noteq> UNKNOWN" for c
    by (cases "GetMode c") (simp_all add: volumeCaps_def)
  have "capabilities_loop maxShares caps = Ok () \<longleftrightarrow>
     (\<forall>c \<in> set caps. cap_AccessType c \<noteq> None \<and>
        (multi_node (GetMode c) \<longrightarrow> cap_AccessType c = Some Block \<and> 2 \<le> maxShares))"
    by (induction maxShares caps rule: capabilities_loop.induct)
      (auto simp: GetBlock_def GetMount_def Let_def split: option.splits access_type.splits)
  then show ?thesis
    by (auto simp: IsValidVolumeCapabilities_def IsValidAccessModes_def known list_all_iff)
qed

theorem IsValidVolumeCapabilities_iff_witness:
  "IsValidVolumeCapabilities
     [\<lparr>cap_AccessType = Some Block, cap_AccessMode = Some MULTI_NODE_MULTI_WRITER\<rparr>] 2 = Ok ()"
  using IsValidVolumeCapabilities_iff
    [of "[\<lparr>cap_AccessType = Some Block, cap_AccessMode = Some MULTI_NODE_MULTI_WRITER\<rparr>]" 2]
  by (simp add: GetMode_def multi_node_def)

definition zone_offered :: "string \<Rightarrow> string \<Rightarrow> str_map list \<Rightarrow> string \<Rightarrow> bool" where
  "zone_offered region topologyKey ts zone \<longleftrightarrow>
     (\<exists>t \<in> set ts. (map_of t WellKnownTopologyKey = Some zone \<or> map_of t topologyKey = Some zone) \<and>
        IsValidAvailabilityZone zone region)"

lemma zone_in_Some: "zone_in region key ts = Some z \<Longrightarrow> zone_offered region key ts z"
  by (induction region key ts rule: zone_in.induct)
    (auto simp: zone_offered_def Let_def split: option.splits if_splits)

lemma zone_in_None: "zone_in region key ts = None \<longleftrightarrow> (\<forall>z. \<not> zone_offered region key ts z)"
proof (induction region key ts rule: zone_in.induct)
  case (2 region key t ts)
  then show ?case
    by (auto simp: zone_offered_def Let_def split: option.splits if_splits)
qed (simp add: zone_offered_def)

lemma valid_zone_nonempty [simp]: "\<not> IsValidAvailabilityZone [] region"
  by (simp add: IsValidAvailabilityZone_def Let_def Index_def HasPrefix_def)

text \<open>The zone picked for a volume is one the request offers and is valid for the region;
  a preferred topology wins over a required one; and no zone is picked only when none is offered.\<close>

theorem PickAvailabilityZone_correct:
  defines "pick req region key \<equiv> PickAvailabilityZone (Some req) region key"
  shows "(pick req region key \<noteq> [] \<longrightarrow>
            zone_offered region key (req_Preferred req @ req_Requisite req) (pick req region key)) \<and>
         (pick req region key = [] \<longleftrightarrow>
            (\<forall>z. \<not> zone_offered region key (req_Preferred req @ req_Requisite req) z)) \<and>
         ((\<exists>z. zone_offered region key (req_Preferred req) z) \<longrightarrow>
            zone_offered region key (req_Preferred req) (pick req region key))"
proof -
  have app: "zone_offered region key (xs @ ys) z \<longleftrightarrow>
      zone_offered region key xs z \<or> zone_offered region key ys z" for xs ys z
    by (auto simp: zone_offered_def)
  have ne: "zone_offered region key ts z \<Longrightarrow> z \<noteq> []" for ts z
    by (auto simp: zone_offered_def)
  show ?thesis
  proof (cases "zone_in region key (req_Preferred req)")
    case (Some z)
    then show ?thesis using zone_in_Some [OF Some] ne
      by (auto simp: pick_def PickAvailabilityZone_def app)
  next
    case None
    note no_pref = None
    then have p: "\<forall>z. \<not> zone_offered region key (req_Preferred req) z" by (simp add: zone_in_None)
    show ?thesis
    proof (cases "zone_in region key (req_Requisite req)")
      case None
      then have "\<forall>z. \<not> zone_offered region key (req_Requisite req) z" by (simp add: zone_in_None)
      with None no_pref p show ?thesis by (simp add: pick_def PickAvailabilityZone_def app)
    next
      case (Some z)
      then show ?thesis using zone_in_Some [OF Some] no_pref p ne
        by (auto simp: pick_def PickAvailabilityZone_def app)
    qed
  qed
qed

theorem PickAvailabilityZone_correct_witness:
  "PickAvailabilityZone (Some \<lparr>req_Requisite = [[(''topology.kubernetes.io/zone'', ''eastus-1'')]],
      req_Preferred = [[(''topology.disk'', ''eastus-2'')]]\<rparr>) ''eastus'' ''topology.disk'' = ''eastus-2'' \<and>
   zone_offered ''eastus'' ''topology.disk'' [[(''topology.disk'', ''eastus-2'')]] ''eastus-2''"
proof -
  let ?r = "\<lparr>req_Requisite = [[(''topology.kubernetes.io/zone'', ''eastus-1'')]],
      req_Preferred = [[(''topology.disk'', ''eastus-2'')]]\<rparr>"
  have p: "PickAvailabilityZone (Some ?r) ''eastus'' ''topology.disk'' = ''eastus-2''" by code_simp
  have "zone_offered ''eastus'' ''topology.disk'' [[(''topology.disk'', ''eastus-2'')]] ''eastus-2''"
    by (simp add: zone_offered_def IsValidAvailabilityZone_def HasPrefix_def)
  with p PickAvailabilityZone_correct [of ?r "''eastus''" "''topology.disk''"] show ?thesis by auto
qed

section \<open>LUNs\<close>

lemma lunPath_lang: "lang (lits ''/dev'' @ Many not_nl # lits ''/disk/azure/scsi'' @ Many not_nl # lits ''/lun'')
    ''/dev/disk/azure/scsi1/lun''"
proof -
  have "lang (Many not_nl # lits ''/lun'') (''1'' @ ''/lun'')"
    unfolding lang_Many lang_lits by (intro exI conjI) (auto simp: not_nl_def)
  then have "lang (Many not_nl # lits ''/disk/azure/scsi'' @ Many not_nl # lits ''/lun'')
      ([] @ ''/disk/azure/scsi'' @ ''1'' @ ''/lun'')"
    unfolding lang_Many [of not_nl "lits ''/disk/azure/scsi'' @ _"] lang_append lang_lits
    by (metis list.pred_inject(1))
  then show ?thesis unfolding lang_append [of "lits ''/dev''"] lang_lits by force
qed

lemma nat_str_short: "n < 100 \<Longrightarrow> length (nat_str n) \<le> 2"
  by (subst nat_str.simps, subst nat_str.simps) auto

lemma digits_no_slash: "list_all IsDigit s \<Longrightarrow> CHR ''/'' \<notin> set s \<and> list_all not_nl s"
  by (auto simp: list_all_iff IsDigit_def not_nl_def)

lemma nat_str_digit: "c \<in> set (nat_str n) \<Longrightarrow> IsDigit c"
  using nat_str_digits [of n] by (simp add: list_all_iff)

lemma lunPathRE_lun:
  assumes "d \<noteq> []" "list_all not_nl d" "CHR ''n'' \<notin> set d"
  shows "FindStringSubmatch lunPathRE (''/dev/disk/azure/scsi1/lun'' @ d) = Some d"
proof -
  let ?is = "lits ''/dev'' @ Many not_nl # lits ''/disk/azure/scsi'' @ Many not_nl # lits ''/lun''"
  let ?s = "''/dev/disk/azure/scsi1/lun'' @ d"
  obtain c t where c: "d = c # t" using assms(1) by (cases d) auto
  obtain r where r: "FindStringSubmatch (?is @ [Cap not_nl]) ?s = Some r"
    using FindStringSubmatch_complete [OF lunPath_lang, of not_nl c "[]" t] assms(2) c by auto
  have "list_all no_cap ?is" by simp
  from FindStringSubmatch_sound [OF this r] obtain a u v
    where uv: "?s = a @ u @ v" "lang ?is u" "r = takeWhile not_nl v" by blast
  have "lang ((lits ''/dev'' @ Many not_nl # lits ''/disk/azure/scsi'' @ [Many not_nl]) @ lits ''/lun'') u"
    using uv(2) by simp
  then obtain w where "u = w @ ''/lun''" unfolding lang_append lang_lits by blast
  then have "''/dev/disk/azure/scsi1/lu'' @ CHR ''n'' # d = (a @ w @ ''/lu'') @ CHR ''n'' # v"
    using uv(1) by simp
  then have "d = v" using assms(3) by (subst (asm) append_Cons_eq_iff) auto
  then show ?thesis using r uv(3) assms(2) by (simp add: lunPathRE_def takeWhile_eq_all_conv list_all_iff)
qed

text \<open>A LUN below 100 survives the trip through the publish context: the driver reads it back
  from its decimal text and from the device path the Azure rules give it.\<close>

theorem GetDiskLUN_roundtrip:
  assumes "0 \<le> n" "n < 100"
  shows "GetDiskLUN (Itoa n) = Ok n \<and> GetDiskLUN (''/dev/disk/azure/scsi1/lun'' @ Itoa n) = Ok n"
proof -
  have i: "Itoa n = nat_str (nat n)" using assms by (simp add: Itoa_def)
  have r: "int64_range n" "int32_range n" using assms by (simp_all add: int64_range_def int32_range_def)
  have "length (Itoa n) \<le> 2" using nat_str_short [of "nat n"] assms i by simp
  then have 1: "GetDiskLUN (Itoa n) = Ok n" using r by (simp add: GetDiskLUN_def Let_def)
  have d: "Itoa n \<noteq> []" "list_all not_nl (Itoa n)" "CHR ''/'' \<notin> set (Itoa n)"
    using digits_no_slash [OF nat_str_digits [of "nat n"]] by (simp_all add: i)
  have "FindStringSubmatch lunPathRE (''/dev/disk/azure/scsi1/lun'' @ Itoa n) = Some (Itoa n)"
    using d by (intro lunPathRE_lun) (auto simp: i list_all_iff IsDigit_def dest: nat_str_digit)
  then have "GetDiskLUN (''/dev/disk/azure/scsi1/lun'' @ Itoa n) = Ok n"
    using r by (simp add: GetDiskLUN_def Let_def)
  with 1 show ?thesis by simp
qed

theorem GetDiskLUN_roundtrip_witness:
  "GetDiskLUN (Itoa 63) = Ok 63 \<and> GetDiskLUN (''/dev/disk/azure/scsi1/lun'' @ Itoa 63) = Ok 63"
  by (rule GetDiskLUN_roundtrip) simp_all

section \<open>Creation data\<close>

text \<open>Creation data that copies a resource names a source of at most nine path segments that
  the expression for its kind recognises; a bare name becomes the full path in the given
  subscription and resource group.\<close>

theorem GetValidCreationData_copy:
  assumes "GetValidCreationData subs rg src kind = Ok cd" "cd_CreateOption cd = CreateOptionCopy"
    "uri_part subs" "uri_part rg" "list_all not_nl src"
  shows "\<exists>path. cd_SourceResourceID cd = Some path \<and> length (Split path (CHR ''/'')) \<le> 9 \<and>
    ((kind = SourceSnapshot \<and> MatchFound diskSnapshotPathRE path) \<or>
     (kind = SourceVolume \<and> MatchFound ManagedDiskPathRE path)) \<and>
    (path = src \<or> path = diskSnapshotPath subs rg src \<or> path = ManagedDiskPath subs rg src)"
proof -
  have src: "src \<noteq> []" "kind = SourceSnapshot \<or> kind = SourceVolume"
    using assms(1,2) by (auto simp: GetValidCreationData_def empty_creation_def split: if_splits)
  obtain c t where ct: "src = c # t" "not_nl c" using src(1) assms(5) by (cases src) auto
  have found: "MatchFound (managed_prefix litsF k @ [Cap not_nl])
      (''/subscriptions/'' @ subs @ ''/resourceGroups/'' @ rg @ ''/providers/Microsoft.Compute/'' @ k @ src)" for k
    using FindStringSubmatch_complete [OF managed_prefix_lang [OF assms(3,4), of k], of not_nl c "[]" t] ct
    by (simp add: MatchFound_def)
  have "MatchFound ManagedDiskPathRE (ManagedDiskPath subs rg src)"
    "MatchFound diskSnapshotPathRE (diskSnapshotPath subs rg src)"
    using found [of "''disks/''"] found [of "''snapshots/''"]
    by (simp_all add: ManagedDiskPathRE_def ManagedDiskPath_def diskSnapshotPathRE_def diskSnapshotPath_def)
  then show ?thesis using assms(1) src
    by (auto simp: GetValidCreationData_def Let_def SourceSnapshot_def SourceVolume_def split: if_splits)
qed

theorem GetValidCreationData_copy_witness:
  "\<exists>path. GetValidCreationData ''s'' ''g'' ''snap'' ''snapshot'' =
     Ok (empty_creation\<lparr>cd_CreateOption := CreateOptionCopy, cd_SourceResourceID := Some path\<rparr>) \<and>
     MatchFound diskSnapshotPathRE path"
proof -
  let ?cd = "empty_creation\<lparr>cd_CreateOption := CreateOptionCopy,
      cd_SourceResourceID := Some (diskSnapshotPath ''s'' ''g'' ''snap'')\<rparr>"
  have e: "GetValidCreationData ''s'' ''g'' ''snap'' ''snapshot'' = Ok ?cd" by code_simp
  have "uri_part ''s''" "uri_part ''g''" "list_all not_nl ''snap''"
    by (simp_all add: uri_part_def not_ws_def not_nl_def)
  from GetValidCreationData_copy [OF e _ this] e show ?thesis
    by (auto simp: SourceSnapshot_def SourceVolume_def)
qed

section \<open>Throttling\<close>

definition captures :: "(char \<Rightarrow> bool) \<Rightarrow> ritem list \<Rightarrow> bool" where
  "captures p is \<longleftrightarrow> (\<forall>i \<in> set is. case i of Cap q \<Rightarrow> q = p | CapMore q \<Rightarrow> q = p | _ \<Rightarrow> True)"

lemma rmatch_class: "rmatch cap is s = Some r \<Longrightarrow> list_all p cap \<Longrightarrow> captures p is \<Longrightarrow> list_all p r"
proof (induction cap "is" s rule: rmatch.induct)
  case (4 cap q "is" s)
  then show ?case by (cases s) (auto simp: captures_def rmatch.simps(4) split: if_splits)
next
  case (5 cap q "is" s)
  then show ?case by (cases s) (auto simp: captures_def rmatch.simps(5) split: if_splits option.splits)
next
  case (3 cap q "is" s)
  then show ?case by (cases s) (auto simp: captures_def split: if_splits option.splits)
qed (auto simp: captures_def split: list.splits if_splits)

lemma FindStringSubmatch_class:
  "FindStringSubmatch is s = Some r \<Longrightarrow> captures p is \<Longrightarrow> list_all p r"
proof (induction s)
  case (Cons c s)
  then show ?case using rmatch_class [of "[]" "is" "c # s" r p] by (auto split: option.splits)
qed (use rmatch_class [of "[]" "is" "[]" r p] in auto)

lemma Atoi_digits_nonneg: "list_all IsDigit s \<Longrightarrow> Atoi s = Ok n \<Longrightarrow> 0 \<le> n"
  by (cases s) (auto simp: Atoi_def parse_int_def IsDigit_def Let_def split: option.splits if_splits)

text \<open>The delay read from a throttling error lies between 0 and 1200 seconds whatever the text
  of the error, and the driver sleeps only for an error that says so: for the delay it names, or for
  the default when it names none.\<close>

theorem SleepIfThrottled_bounds:
  "0 \<le> getRetryAfterSeconds err \<and> getRetryAfterSeconds err \<le> 1200 \<and>
   (\<not> IsThrottlingError err \<longrightarrow> SleepIfThrottled err d = 0) \<and>
   (IsThrottlingError err \<longrightarrow>
      SleepIfThrottled err d = (if getRetryAfterSeconds err = 0 then d else getRetryAfterSeconds err))"
proof -
  have "captures IsDigit retryAfterRE" by (auto simp: captures_def retryAfterRE_def lits_def)
  then have "0 \<le> n" if "FindStringSubmatch retryAfterRE s = Some m" "Atoi m = Ok n" for s m n
    using FindStringSubmatch_class that Atoi_digits_nonneg by blast
  then have "0 \<le> getRetryAfterSeconds err \<and> getRetryAfterSeconds err \<le> 1200"
    by (auto simp: getRetryAfterSeconds_def MaxThrottlingSleepSec_def split: option.splits res.splits)
  moreover have "IsThrottlingError err \<Longrightarrow> err \<noteq> None" by (auto simp: IsThrottlingError_def split: option.splits)
  ultimately show ?thesis by (auto simp: SleepIfThrottled_def Let_def)
qed

theorem SleepIfThrottled_bounds_witness:
  "SleepIfThrottled (Some (Errorf ''TooManyRequests, RetryAfter: 217s'')) 50 = 217"
proof -
  have "IsThrottlingError (Some (Errorf ''TooManyRequests, RetryAfter: 217s''))" by code_simp
  moreover have "getRetryAfterSeconds (Some (Errorf ''TooManyRequests, RetryAfter: 217s'')) = 217" by code_simp
  ultimately show ?thesis
    using SleepIfThrottled_bounds [of "Some (Errorf ''TooManyRequests, RetryAfter: 217s'')" 50] by auto
qed

section \<open>Case-insensitive maps\<close>

definition fold_distinct :: "str_map \<Rightarrow> bool" where
  "fold_distinct m \<longleftrightarrow> distinct (map (ToLower \<circ> fst) m)"

definition fold_lookup :: "str_map \<Rightarrow> string \<Rightarrow> string option" where
  "fold_lookup m key = map_of (map (\<lambda>(k, v). (ToLower k, v)) m) (ToLower key)"

lemma key_like_Some: "key_like m key = Some k \<Longrightarrow> EqualFold k key \<and> k \<in> fst ` set m"
  by (induction m key rule: key_like.induct) (auto split: if_splits)

lemma key_like_None: "key_like m key = None \<longleftrightarrow> (\<forall>k \<in> fst ` set m. \<not> EqualFold k key)"
  by (induction m key rule: key_like.induct) auto

lemma update_fold_distinct:
  assumes "fold_distinct m" "k \<in> fst ` set m \<or> (\<forall>j \<in> fst ` set m. \<not> EqualFold j k)"
  shows "fold_distinct (AList.update k v m) \<and>
    fold_lookup (AList.update k v m) j = (if EqualFold j k then Some v else fold_lookup m j)"
  using assms
proof (induction m)
  case Nil
  then show ?case by (auto simp: fold_distinct_def fold_lookup_def EqualFold_def)
next
  case (Cons kv m)
  obtain a b where kv: "kv = (a, b)" by fastforce
  show ?case
  proof (cases "a = k")
    case True
    with Cons.prems show ?thesis
      by (auto simp: kv fold_distinct_def fold_lookup_def EqualFold_def)
  next
    case False
    have *: "fold_distinct m" "k \<in> fst ` set m \<or> (\<forall>j \<in> fst ` set m. \<not> EqualFold j k)"
      using Cons.prems False by (auto simp: kv fold_distinct_def)
    have "ToLower a \<noteq> ToLower k"
      using Cons.prems False by (auto simp: kv fold_distinct_def EqualFold_def image_iff)
    moreover have "set (map (ToLower \<circ> fst) (AList.update k v m)) = insert (ToLower k) (set (map (ToLower \<circ> fst) m))"
      by (simp add: image_image [of ToLower fst, symmetric] dom_update)
    ultimately show ?thesis using Cons.IH [OF *] False Cons.prems
      by (auto simp: kv fold_distinct_def fold_lookup_def EqualFold_def)
  qed
qed

text \<open>Setting a key in a map whose keys differ by more than case keeps them so: afterwards any
  spelling of the key reads the new value, every other key reads what it read before, and no second
  spelling of the key is created.\<close>

theorem SetKeyValueInMap_lookup:
  assumes "fold_distinct m"
  shows "\<exists>m'. SetKeyValueInMap (Some m) key v = Some m' \<and> fold_distinct m' \<and>
    (\<forall>j. fold_lookup m' j = (if EqualFold j key then Some v else fold_lookup m j))"
proof (cases "key_like m key")
  case None
  then have "\<forall>j \<in> fst ` set m. \<not> EqualFold j key" by (simp add: key_like_None)
  with None update_fold_distinct [OF assms, of key v] show ?thesis
    by (simp add: SetKeyValueInMap_def)
next
  case (Some k)
  then have "EqualFold k key" "k \<in> fst ` set m" using key_like_Some by blast+
  with Some update_fold_distinct [OF assms, of k v] show ?thesis
    by (auto simp: SetKeyValueInMap_def EqualFold_def)
qed

theorem SetKeyValueInMap_lookup_witness:
  "\<exists>m'. SetKeyValueInMap (Some [(''CachingMode'', ''None'')]) ''cachingmode'' ''ReadOnly'' = Some m' \<and>
     fold_lookup m' ''CACHINGMODE'' = Some ''ReadOnly''"
proof -
  have "fold_distinct [(''CachingMode'', ''None'')]" by (simp add: fold_distinct_def)
  moreover have "EqualFold ''CACHINGMODE'' ''cachingmode''" by code_simp
  ultimately show ?thesis
    using SetKeyValueInMap_lookup [of "[(''CachingMode'', ''None'')]" "''cachingmode''" "''ReadOnly''"] by fastforce
qed

section \<open>Behaviours the code may not intend\<close>

text \<open>The properties of a disk that the service returns without a network access policy cannot be
  inserted: the pointer is dereferenced unconditionally.\<close>

lemma InsertDiskProperties_Panic_iff:
  "InsertDiskProperties dsk ctx = Panic \<longleftrightarrow>
     (\<exists>d m prop. dsk = Some d \<and> ctx = Some m \<and> disk_Properties d = Some prop \<and>
        prop_NetworkAccessPolicy prop = None)"
  by (auto simp: InsertDiskProperties_def Let_def split: option.splits)

text \<open>Two parameters set the account type, so the result depends on the order in which the map is
  visited, which Go leaves open.\<close>

lemma ParseDiskParameters_order:
  "ParseDiskParameters sdk0 [(''skuName'', ''Premium_LRS''), (''storageAccountType'', ''Standard_LRS'')] \<noteq>
   ParseDiskParameters sdk0 [(''storageAccountType'', ''Standard_LRS''), (''skuName'', ''Premium_LRS'')]"
  by code_simp

end
