(* ===== verification/ControllerCommon.thy ===== *)
theory ControllerCommon
  imports DiskUtils
begin

text \<open>
  The file \<open>pkg/azuredisk/azure_controller_common.go\<close>: the queues of attach and detach requests per
  node, the allocation of LUNs, attaching, detaching and updating a machine, and the checks of a
  disk's LUN before and after. The fields of \<open>controllerCommon\<close> that change are a record, together
  with the world the cloud acts on; the cloud itself is an argument.

  A mutex that is held makes \<open>cc_lock\<close> not return. The messages quote requests with \<open>%v\<close>; those
  quotations are left out.
\<close>

section \<open>State\<close>

definition diskCachingLimit :: int where
  "diskCachingLimit = 4096"

definition maxLUN :: nat where
  "maxLUN = 64"

definition errStatusCode400 :: string where
  "errStatusCode400 = ''statuscode=400''"

definition errInvalidParameter :: string where
  "errInvalidParameter = ''code='' @ dquoted ''invalidparameter''"

definition errTargetInstanceIds :: string where
  "errTargetInstanceIds = ''target='' @ dquoted ''instanceids''"

definition attachDiskMapKeySuffix :: string where
  "attachDiskMapKeySuffix = ''attachdiskmap''"

definition detachDiskMapKeySuffix :: string where
  "detachDiskMapKeySuffix = ''detachdiskmap''"

definition defaultAttachDetachInitialDelayInMs :: int where
  "defaultAttachDetachInitialDelayInMs = 1000"

definition WriteAcceleratorEnabled :: string where
  "WriteAcceleratorEnabled = ''writeacceleratorenabled''"

text \<open>The keys of \<open>diskStateMap\<close>: a \<open>sync.Map\<close> takes any value, and the code uses both the address
  of a disk and a URI.\<close>

datatype state_key = DiskPtr "nat option" | URIKey string

type_synonym disk_ptr = "(nat \<times> disk) option"

record 'w controllerCommon =
  diskStateMap :: "(state_key \<times> string) list"
  cc_lockMap :: lockMap
  attachDiskMap :: "(string \<times> attach_map) list"
  detachDiskMap :: "(string \<times> detach_map) list"
  DisableUpdateCache :: bool
  DisableDiskLunCheck :: bool
  AttachDetachInitialDelayInMs :: int
  ForceDetachBackoff :: bool
  world :: 'w

type_synonym ('w, 'a) cc_io = "('w controllerCommon, 'a) io"

definition on_world :: "('w, 'a) io \<Rightarrow> ('w, 'a) cc_io" where
  "on_world m s = (case m (world s) of (r, w') \<Rightarrow> (r, s\<lparr>world := w'\<rparr>))"

definition cc_lock :: "string \<Rightarrow> ('w, unit) cc_io" where
  "cc_lock entry s =
     (case LockEntry (cc_lockMap s) entry of
        Some lm \<Rightarrow> (Ok (), s\<lparr>cc_lockMap := lm\<rparr>)
      | None \<Rightarrow> (Panic, s))"

definition cc_unlock :: "string \<Rightarrow> ('w, unit) cc_io" where
  "cc_unlock entry s =
     (case UnlockEntry (cc_lockMap s) entry of
        Ok lm \<Rightarrow> (Ok (), s\<lparr>cc_lockMap := lm\<rparr>)
      | Err e \<Rightarrow> (Err e, s)
      | Panic \<Rightarrow> (Panic, s))"

text \<open>\<open>LockEntry(entry); defer UnlockEntry(entry); ...\<close>\<close>

definition with_lock :: "string \<Rightarrow> ('w, 'a) cc_io \<Rightarrow> ('w, 'a) cc_io" where
  "with_lock entry m = bind (cc_lock entry) (\<lambda>_. deferred (cc_unlock entry) m)"

definition set_disk_state :: "state_key \<Rightarrow> string \<Rightarrow> ('w, unit) cc_io" where
  "set_disk_state key v s = (Ok (), s\<lparr>diskStateMap := AList.update key v (diskStateMap s)\<rparr>)"

definition delete_disk_state :: "state_key \<Rightarrow> ('w, unit) cc_io" where
  "delete_disk_state key s = (Ok (), s\<lparr>diskStateMap := AList.delete key (diskStateMap s)\<rparr>)"

section \<open>The request queues\<close>

definition insertAttachDiskRequest :: "string \<Rightarrow> string \<Rightarrow> attach_options option \<Rightarrow> ('w, int) cc_io" where
  "insertAttachDiskRequest diskURI nodeName options =
     with_lock (nodeName @ attachDiskMapKeySuffix)
       (\<lambda>s. let diskMap = (case map_of (attachDiskMap s) nodeName of Some m \<Rightarrow> m | None \<Rightarrow> []);
                diskMap' = (case map_of diskMap diskURI of
                              Some _ \<Rightarrow> diskMap
                            | None \<Rightarrow> AList.update diskURI options diskMap)
            in (Ok (int (length diskMap')),
                s\<lparr>attachDiskMap := AList.update nodeName diskMap' (attachDiskMap s)\<rparr>))"

definition cleanAttachDiskRequests :: "string \<Rightarrow> ('w, attach_map) cc_io" where
  "cleanAttachDiskRequests nodeName =
     with_lock (nodeName @ attachDiskMapKeySuffix)
       (\<lambda>s. case map_of (attachDiskMap s) nodeName of
              None \<Rightarrow> (Ok [], s)
            | Some diskMap \<Rightarrow>
                (Ok diskMap, s\<lparr>attachDiskMap := AList.update nodeName [] (attachDiskMap s)\<rparr>))"

definition insertDetachDiskRequest :: "string \<Rightarrow> string \<Rightarrow> string \<Rightarrow> ('w, int) cc_io" where
  "insertDetachDiskRequest diskName diskURI nodeName =
     with_lock (nodeName @ detachDiskMapKeySuffix)
       (\<lambda>s. let diskMap = (case map_of (detachDiskMap s) nodeName of Some m \<Rightarrow> m | None \<Rightarrow> []);
                diskMap' = (case map_of diskMap diskURI of
                              Some _ \<Rightarrow> diskMap
                            | None \<Rightarrow> AList.update diskURI diskName diskMap)
            in (Ok (int (length diskMap')),
                s\<lparr>detachDiskMap := AList.update nodeName diskMap' (detachDiskMap s)\<rparr>))"

definition cleanDetachDiskRequests :: "string \<Rightarrow> ('w, detach_map) cc_io" where
  "cleanDetachDiskRequests nodeName =
     with_lock (nodeName @ detachDiskMapKeySuffix)
       (\<lambda>s. case map_of (detachDiskMap s) nodeName of
              None \<Rightarrow> (Ok [], s)
            | Some diskMap \<Rightarrow>
                (Ok diskMap, s\<lparr>detachDiskMap := AList.update nodeName [] (detachDiskMap s)\<rparr>))"

section \<open>LUNs\<close>

definition GetNodeDataDisks ::
    "'w cloud \<Rightarrow> string \<Rightarrow> cache_read_type \<Rightarrow> ('w, data_disk list \<times> string option \<times> go_error option) cc_io" where
  "GetNodeDataDisks C nodeName crt =
     call (on_world (cl_GetNodeVMSet C nodeName crt))
       (\<lambda>err. ret ([], None, Some err))
       (\<lambda>vmset. on_world (\<lambda>w. case vs_GetDataDisks vmset nodeName crt w of (r, w') \<Rightarrow> (Ok r, w')))"

text \<open>
  The condition of the loop in \<open>GetDiskLun\<close>, as the operators associate in Go: the test of \<open>Lun\<close>
  guards the comparison of names only.
\<close>

definition disk_matches :: "string \<Rightarrow> string \<Rightarrow> data_disk \<Rightarrow> bool res" where
  "disk_matches diskName diskURI d =
     (if dd_Lun d \<noteq> None \<and>
         (case dd_Name d of Some n \<Rightarrow> diskName \<noteq> [] \<and> EqualFold n diskName | None \<Rightarrow> False) then Ok True
      else if (case dd_VhdURI d of Some u \<Rightarrow> diskURI \<noteq> [] \<and> EqualFold u diskURI | None \<Rightarrow> False) then Ok True
      else (case dd_ManagedDisk d of
              None \<Rightarrow> Ok False
            | Some None \<Rightarrow> Panic
            | Some (Some i) \<Rightarrow> Ok (EqualFold i diskURI)))"

fun find_lun :: "string \<Rightarrow> string \<Rightarrow> data_disk list \<Rightarrow> int option res" where
  "find_lun diskName diskURI [] = Ok None"
| "find_lun diskName diskURI (d # ds) =
     (case disk_matches diskName diskURI d of
        Panic \<Rightarrow> Panic
      | Err e \<Rightarrow> Err e
      | Ok found \<Rightarrow>
          if found then
            (case dd_Lun d of
               None \<Rightarrow> Panic
             | Some lun \<Rightarrow>
                 if dd_ToBeDetached d = Some True then find_lun diskName diskURI ds
                 else Ok (Some lun))
          else find_lun diskName diskURI ds)"

definition GetDiskLun ::
    "sdk \<Rightarrow> 'w cloud \<Rightarrow> string \<Rightarrow> string \<Rightarrow> string \<Rightarrow> ('w, int \<times> string option \<times> go_error option) cc_io" where
  "GetDiskLun S C diskName diskURI nodeName =
     bind (GetNodeDataDisks C nodeName CacheReadTypeDefault)
       (\<lambda>(disks, provisioningState, err).
          case err of
            Some e \<Rightarrow> ret (- 1, provisioningState, Some e)
          | None \<Rightarrow>
              bind (lift (find_lun diskName diskURI disks))
                (\<lambda>found. case found of
                     Some lun \<Rightarrow> ret (lun, provisioningState, None)
                   | None \<Rightarrow> ret (- 1, provisioningState,
                       Some (Errorf (CannotFindDiskLUN S @ '' for disk '' @ diskName)))))"

text \<open>The loop over the machine's disks in \<open>SetDiskLun\<close>: \<open>used\<close> has \<open>maxLUN\<close> entries, and a LUN
  beyond them is an index out of range.\<close>

fun scan_disks :: "bool \<Rightarrow> string \<Rightarrow> data_disk list \<Rightarrow> bool list \<Rightarrow> int \<Rightarrow> (bool list \<times> int) res" where
  "scan_disks isDiskInMap diskURI [] used lun = Ok (used, lun)"
| "scan_disks isDiskInMap diskURI (d # ds) used lun =
     (case dd_Lun d of
        None \<Rightarrow> scan_disks isDiskInMap diskURI ds used lun
      | Some l \<Rightarrow>
          if l < 0 \<or> int (length used) \<le> l then Panic
          else let used' = used[nat l := True]
               in if isDiskInMap then scan_disks isDiskInMap diskURI ds used' lun
                  else (case dd_ManagedDisk d of
                          None \<Rightarrow> scan_disks isDiskInMap diskURI ds used' lun
                        | Some None \<Rightarrow> Panic
                        | Some (Some i) \<Rightarrow>
                            scan_disks isDiskInMap diskURI ds used' (if EqualFold i diskURI then l else lun)))"

fun mark_occupied :: "int list \<Rightarrow> bool list \<Rightarrow> bool list res" where
  "mark_occupied [] used = Ok used"
| "mark_occupied (lun # rest) used =
     (if 0 \<le> lun \<and> lun \<le> int maxLUN then
        (if int (length used) \<le> lun then Panic else mark_occupied rest (used[nat lun := True]))
      else mark_occupied rest used)"

text \<open>The first \<open>n\<close> free LUNs from \<open>k\<close> on.\<close>

fun pick_luns :: "nat \<Rightarrow> int \<Rightarrow> bool list \<Rightarrow> int list" where
  "pick_luns n k [] = []"
| "pick_luns n k (v # vs) =
     (if \<not> v then k # (if n \<le> 1 then [] else pick_luns (n - 1) (k + 1) vs)
      else pick_luns n (k + 1) vs)"

fun assign_luns :: "string \<Rightarrow> attach_map \<Rightarrow> int list \<Rightarrow> int \<Rightarrow> (attach_map \<times> int) res" where
  "assign_luns diskURI ((uri, opt) # rest) (l # ls) lun =
     (case opt of
        None \<Rightarrow> Err (Errorf (''unexpected nil pointer in diskMap(), diskURI('' @ diskURI @ '')''))
      | Some o' \<Rightarrow>
          (case assign_luns diskURI rest ls (if EqualFold uri diskURI then l else lun) of
             Ok (m, r) \<Rightarrow> Ok ((uri, Some (o'\<lparr>ao_Lun := l\<rparr>)) # m, r)
           | Err e \<Rightarrow> Err e
           | Panic \<Rightarrow> Panic))"
| "assign_luns diskURI m _ lun = Ok (m, lun)"

text \<open>The part of \<open>SetDiskLun\<close> after the disks of the machine are known. The options in the map are
  updated in place, so the map is part of the result.\<close>

definition set_disk_lun ::
    "data_disk list \<Rightarrow> string \<Rightarrow> attach_map \<Rightarrow> int list \<Rightarrow> (int \<times> attach_map) res" where
  "set_disk_lun disks diskURI diskMap occupiedLuns =
     (let isDiskInMap = (map_of diskMap diskURI \<noteq> None)
      in case scan_disks isDiskInMap diskURI disks (replicate maxLUN False) (- 1) of
           Panic \<Rightarrow> Panic
         | Err e \<Rightarrow> Err e
         | Ok (used, lun) \<Rightarrow>
             if \<not> isDiskInMap \<and> lun < 0 then
               Err (Errorf (''could not find disk('' @ diskURI @ '') in current disk list(len: '' @
                     Itoa (int (length disks)) @ '') nor in diskMap()''))
             else if diskMap = [] then Ok (lun, diskMap)
             else (case mark_occupied occupiedLuns used of
               Panic \<Rightarrow> Panic
             | Err e \<Rightarrow> Err e
             | Ok used' \<Rightarrow>
                 (let diskLuns = pick_luns (length diskMap) 0 used'
                  in if length diskLuns \<noteq> length diskMap then
                       Err (Errorf (''could not find enough disk luns(current: '' @
                         Itoa (int (length diskLuns)) @ '') for diskMap(, len='' @
                         Itoa (int (length diskMap)) @ ''), diskURI('' @ diskURI @ '')''))
                     else (case assign_luns diskURI diskMap diskLuns lun of
                       Panic \<Rightarrow> Panic
                     | Err e \<Rightarrow> Err e
                     | Ok (diskMap', lun') \<Rightarrow>
                         if lun' < 0 then
                           Err (Errorf (''could not find lun of diskURI('' @ diskURI @ ''), diskMap()''))
                         else Ok (lun', diskMap')))))"

definition SetDiskLun ::
    "'w cloud \<Rightarrow> string \<Rightarrow> string \<Rightarrow> attach_map \<Rightarrow> int list \<Rightarrow> ('w, int \<times> attach_map) cc_io" where
  "SetDiskLun C nodeName diskURI diskMap occupiedLuns =
     bind (GetNodeDataDisks C nodeName CacheReadTypeDefault)
       (\<lambda>(disks, _, err).
          case err of
            Some e \<Rightarrow> fail e
          | None \<Rightarrow> lift (set_disk_lun disks diskURI diskMap occupiedLuns))"

section \<open>Attaching\<close>

definition IsOperationPreempted :: "sdk \<Rightarrow> go_error \<Rightarrow> bool" where
  "IsOperationPreempted S err = Contains (Error err) (OperationPreemptedErrorCode S)"

definition UpdateVM :: "'w cloud \<Rightarrow> string \<Rightarrow> ('w, unit) cc_io" where
  "UpdateVM C nodeName =
     bind (on_world (cl_GetNodeVMSet C nodeName CacheReadTypeUnsafe))
       (\<lambda>vmset. with_lock (ToLower nodeName)
          (deferred (on_world (vs_DeleteCacheForNode vmset nodeName))
             (on_world (vs_UpdateVM vmset nodeName))))"

text \<open>Whether the disk can be attached to one machine only.\<close>

definition single_share :: "disk_properties option \<Rightarrow> bool" where
  "single_share props =
     (case props of
        None \<Rightarrow> True
      | Some p \<Rightarrow> (case prop_MaxShares p of None \<Rightarrow> True | Some n \<Rightarrow> n \<le> 1))"

text \<open>The disk is managed by a machine already: by this node (then its LUN is returned) or by
  another one.\<close>

definition attached_elsewhere ::
    "sdk \<Rightarrow> 'w cloud \<Rightarrow> string \<Rightarrow> string \<Rightarrow> string \<Rightarrow> string \<Rightarrow> ('w, int) cc_io" where
  "attached_elsewhere S C diskName diskURI nodeName managedBy =
     bind (on_world (cl_GetNodeVMSet C nodeName CacheReadTypeUnsafe))
       (\<lambda>vmset. bind (on_world (vs_GetNodeNameByProviderID vmset managedBy))
          (\<lambda>attachedNode.
             if EqualFold nodeName attachedNode then
               bind (UpdateVM C nodeName)
                 (\<lambda>_. bind (GetDiskLun S C diskName diskURI nodeName)
                    (\<lambda>(lun, _, err). case err of Some e \<Rightarrow> fail e | None \<Rightarrow> ret lun))
             else
               fail (DanglingAttachError
                 (''disk('' @ diskURI @ '') already attached to node('' @ managedBy @
                  ''), could not be attached to node('' @ nodeName @ '')'') attachedNode)))"

definition attach_options_of :: "string \<Rightarrow> string \<Rightarrow> string \<Rightarrow> bool \<Rightarrow> attach_options" where
  "attach_options_of diskName cachingMode diskEncryptionSetID writeAcceleratorEnabled =
     \<lparr>ao_Lun = - 1, ao_DiskName = diskName, ao_CachingMode = cachingMode,
      ao_DiskEncryptionSetID = diskEncryptionSetID,
      ao_WriteAcceleratorEnabled = writeAcceleratorEnabled\<rparr>"

text \<open>The options of the request, from the disk when it is known.\<close>

definition disk_attach_options ::
    "sdk \<Rightarrow> string \<Rightarrow> string \<Rightarrow> string \<Rightarrow> disk_ptr \<Rightarrow> attach_options res" where
  "disk_attach_options S diskName diskURI cachingMode dsk =
     (case dsk of
        None \<Rightarrow> Ok (attach_options_of diskName cachingMode [] False)
      | Some (_, d) \<Rightarrow>
         (let writeAcc = (case map_of (disk_Tags d) WriteAcceleratorEnabled of
                            Some v \<Rightarrow> EqualFold v ''true'' | None \<Rightarrow> False)
          in case disk_Properties d of
               None \<Rightarrow> Ok (attach_options_of diskName cachingMode [] writeAcc)
             | Some p \<Rightarrow>
                (let caching = (case prop_DiskSizeGB p of
                                  Some gb \<Rightarrow> if gb \<ge> diskCachingLimit \<and> cachingMode \<noteq> CachingTypesNone S
                                             then CachingTypesNone S else cachingMode
                                | None \<Rightarrow> cachingMode);
                     des = (case Option.bind (prop_Encryption p) enc_DiskEncryptionSetID of
                              Some i \<Rightarrow> i | None \<Rightarrow> [])
                 in case prop_DiskState p of
                      Some st \<Rightarrow>
                        if st \<noteq> DiskStateUnattached S \<and> single_share (Some p) then
                          Err (Errorf (''state of disk('' @ diskURI @ '') is '' @ st @
                                '', not in expected '' @ DiskStateUnattached S @ '' state''))
                        else Ok (attach_options_of diskName caching des writeAcc)
                    | None \<Rightarrow> Ok (attach_options_of diskName caching des writeAcc))))"

text \<open>The check of the LUN after an attach.\<close>

definition check_attached ::
    "sdk \<Rightarrow> 'w cloud \<Rightarrow> string \<Rightarrow> string \<Rightarrow> string \<Rightarrow> int \<Rightarrow> ('w, int) cc_io" where
  "check_attached S C diskName diskURI nodeName lun =
     bind get_state (\<lambda>s. if \<not> DisableDiskLunCheck s then
        bind (GetDiskLun S C diskName diskURI nodeName)
          (\<lambda>(diskLun, vmState, errGetLun).
             case errGetLun of
               Some e \<Rightarrow> fail (Wrapped
                 (''disk('' @ diskURI @ '') could not be found on node('' @ nodeName @ ''), vmState: '' @
                  (case vmState of Some v \<Rightarrow> v | None \<Rightarrow> []) @ '', error: '') e)
             | None \<Rightarrow> ret diskLun)
      else ret lun)"

text \<open>\<open>vmset.AttachDisk\<close>, with one retry as an update of the machine when it was preempted, and the
  machine's cache dropped when it failed.\<close>

definition attach_with_retry :: "sdk \<Rightarrow> 'w vmset \<Rightarrow> string \<Rightarrow> attach_map \<Rightarrow> ('w, unit) cc_io" where
  "attach_with_retry S vmset nodeName diskMap =
     on_error (on_world (vs_DeleteCacheForNode vmset nodeName))
       (call (on_world (vs_AttachDisk vmset nodeName diskMap))
          (\<lambda>err. if IsOperationPreempted S err then on_world (vs_UpdateVM vmset nodeName) else fail err)
          (\<lambda>_. ret ()))"

definition initial_delay :: "'w cloud \<Rightarrow> int \<Rightarrow> ('w, unit) cc_io" where
  "initial_delay C requestNum s =
     (if AttachDetachInitialDelayInMs s > 0 \<and> requestNum = 1
      then (Ok (), s\<lparr>world := cl_Sleep C (AttachDetachInitialDelayInMs s) (world s)\<rparr>)
      else (Ok (), s))"

text \<open>What \<open>AttachDisk\<close> does while it holds the lock of the node: it takes all waiting requests,
  allocates their LUNs and attaches them in one call.\<close>

definition attach_batch ::
    "sdk \<Rightarrow> 'w cloud \<Rightarrow> string \<Rightarrow> string \<Rightarrow> string \<Rightarrow> disk_ptr \<Rightarrow> int list \<Rightarrow> ('w, int) cc_io" where
  "attach_batch S C diskName diskURI nodeName dsk occupiedLuns =
     bind (cleanAttachDiskRequests (ToLower nodeName))
       (\<lambda>diskMap0. bind (SetDiskLun C nodeName (ToLower diskURI) diskMap0 occupiedLuns)
          (\<lambda>(lun, diskMap).
             if diskMap = [] then check_attached S C diskName diskURI nodeName lun
             else
               bind (on_world (cl_GetNodeVMSet C nodeName CacheReadTypeUnsafe))
                 (\<lambda>vmset.
                    let key = DiskPtr (map_option fst dsk)
                    in bind (set_disk_state key ''attaching'')
                         (\<lambda>_. deferred (delete_disk_state key)
                            (bind (attach_with_retry S vmset nodeName diskMap)
                               (\<lambda>_. check_attached S C diskName diskURI nodeName lun))))))"

definition AttachDisk ::
    "sdk \<Rightarrow> 'w cloud \<Rightarrow> string \<Rightarrow> string \<Rightarrow> string \<Rightarrow> string \<Rightarrow> disk_ptr \<Rightarrow> int list \<Rightarrow> ('w, int) cc_io" where
  "AttachDisk S C diskName diskURI nodeName cachingMode dsk occupiedLuns =
     (let go =
        bind (lift (disk_attach_options S diskName diskURI cachingMode dsk))
          (\<lambda>options. bind (insertAttachDiskRequest (ToLower diskURI) (ToLower nodeName) (Some options))
             (\<lambda>requestNum. with_lock (ToLower nodeName)
                (bind (initial_delay C requestNum)
                   (\<lambda>_. attach_batch S C diskName diskURI nodeName dsk occupiedLuns))))
      in case dsk of
           None \<Rightarrow> go
         | Some (_, d) \<Rightarrow>
            (case disk_ManagedBy d of
               Some managedBy \<Rightarrow>
                 if single_share (disk_Properties d)
                 then attached_elsewhere S C diskName diskURI nodeName managedBy
                 else go
             | None \<Rightarrow> go))"

section \<open>Detaching\<close>

definition isInstanceNotFoundError :: "sdk \<Rightarrow> go_error \<Rightarrow> bool" where
  "isInstanceNotFoundError S err =
     (let errMsg = ToLower (Error err)
      in if Contains errMsg (ToLower (VmssVMNotActiveErrorMessage S)) then True
         else Contains errMsg errStatusCode400 \<and> Contains errMsg errInvalidParameter \<and>
              Contains errMsg errTargetInstanceIds)"

text \<open>The check of the LUN after a detach. A nil error under \<open>%w\<close> prints as \<open>%!w(<nil>)\<close>.\<close>

definition check_detached :: "sdk \<Rightarrow> 'w cloud \<Rightarrow> string \<Rightarrow> string \<Rightarrow> string \<Rightarrow> ('w, unit) cc_io" where
  "check_detached S C diskName diskURI nodeName =
     bind get_state (\<lambda>s. if \<not> DisableDiskLunCheck s then
        bind (GetDiskLun S C diskName diskURI nodeName)
          (\<lambda>(lun, vmState, errGetLun).
             let still = (\<lambda>text e. fail (Wrapped
                   (''disk('' @ diskURI @ '') is still attached to node('' @ nodeName @ '') on lun('' @
                    Itoa lun @ ''), vmState: '' @ (case vmState of Some v \<Rightarrow> v | None \<Rightarrow> []) @ '', error: '' @ text) e))
             in case errGetLun of
                  None \<Rightarrow> still ''%!w(<nil>)'' (Errorf [])
                | Some e \<Rightarrow>
                    if \<not> Contains (Error e) (CannotFindDiskLUN S) then still [] e else ret ())
      else ret ())"

text \<open>What \<open>DetachDisk\<close> does while it holds the lock of the node.\<close>

definition detach_batch ::
    "sdk \<Rightarrow> 'w cloud \<Rightarrow> 'w vmset \<Rightarrow> string \<Rightarrow> string \<Rightarrow> string \<Rightarrow> ('w, unit) cc_io" where
  "detach_batch S C vmset diskName diskURI nodeName =
     bind (cleanDetachDiskRequests (ToLower nodeName))
       (\<lambda>diskMap.
          if diskMap \<noteq> [] then
            bind (set_disk_state (URIKey (ToLower diskURI)) ''detaching'')
              (\<lambda>_. deferred (delete_disk_state (URIKey (ToLower diskURI)))
                 (call (on_world (vs_DetachDisk vmset nodeName diskMap False))
                    (\<lambda>err. bind get_state (\<lambda>s.
                       if isInstanceNotFoundError S err then ret ()
                       else if ForceDetachBackoff s \<and> \<not> IsThrottlingError (Some err) then
                         bind (on_world (vs_DetachDisk vmset nodeName diskMap True))
                           (\<lambda>_. check_detached S C diskName diskURI nodeName)
                       else fail err))
                    (\<lambda>_. check_detached S C diskName diskURI nodeName)))
          else check_detached S C diskName diskURI nodeName)"

definition DetachDisk :: "sdk \<Rightarrow> 'w cloud \<Rightarrow> string \<Rightarrow> string \<Rightarrow> string \<Rightarrow> ('w, unit) cc_io" where
  "DetachDisk S C diskName diskURI nodeName =
     call (on_world (cl_InstanceID C nodeName))
       (\<lambda>err. if is_InstanceNotFound err then ret ()
              else fail (Wrapped (''failed to get azure instance id for node '' @ dquoted nodeName @ '': '') err))
       (\<lambda>_. bind (on_world (cl_GetNodeVMSet C nodeName CacheReadTypeUnsafe))
          (\<lambda>vmset. bind (insertDetachDiskRequest diskName (ToLower diskURI) (ToLower nodeName))
             (\<lambda>requestNum. with_lock (ToLower nodeName)
                (bind (initial_delay C requestNum)
                   (\<lambda>_. detach_batch S C vmset diskName diskURI nodeName)))))"

section \<open>Attached disks\<close>

definition mark_attached :: "string list \<Rightarrow> data_disk \<Rightarrow> (string \<times> bool) list \<Rightarrow> (string \<times> bool) list" where
  "mark_attached diskNames d attached =
     fold (\<lambda>diskName m. case dd_Name d of
              Some n \<Rightarrow> if diskName \<noteq> [] \<and> EqualFold n diskName then AList.update diskName True m else m
            | None \<Rightarrow> m) diskNames attached"

text \<open>The map is returned even with an error.\<close>

definition DisksAreAttached ::
    "'w cloud \<Rightarrow> string list \<Rightarrow> string \<Rightarrow> ('w, (string \<times> bool) list \<times> go_error option) cc_io" where
  "DisksAreAttached C diskNames nodeName =
     (let attached = fold (\<lambda>diskName. AList.update diskName False) diskNames []
      in bind (GetNodeDataDisks C nodeName CacheReadTypeUnsafe)
           (\<lambda>(disks, _, err).
              case err of
                Some e \<Rightarrow> if is_InstanceNotFound e then ret (attached, None) else ret (attached, Some e)
              | None \<Rightarrow> ret (fold (mark_attached diskNames) disks attached, None)))"

end
