(* ===== verification/ControllerCommonCorrect.thy ===== *)
theory ControllerCommonCorrect
  imports ControllerCommon
begin

text \<open>
  What attaching and detaching guarantee: the LUNs given to the disks of a batch are free and
  different, no queued request is lost, an attach that succeeds names a LUN the machine reports, a
  detach that succeeds leaves the disk off the machine, and both give back every lock and every
  mark they took.
\<close>

section \<open>Allocation of LUNs\<close>

lemma scan_disks_used:
  "scan_disks b uri ds used l = Ok (used', l') \<Longrightarrow>
   length used' = length used \<and>
   (\<forall>i < length used. used' ! i \<longleftrightarrow> used ! i \<or> (\<exists>d \<in> set ds. dd_Lun d = Some (int i)))"
proof (induction b uri ds used l rule: scan_disks.induct)
  case (2 b uri d ds used lun)
  show ?case
  proof (cases "dd_Lun d")
    case None
    with 2 show ?thesis by auto
  next
    case (Some l)
    with 2(5) have r: "0 \<le> l" "l < int (length used)" by (auto split: if_splits)
    let ?u = "used[nat l := True]"
    have nth: "?u ! i \<longleftrightarrow> used ! i \<or> l = int i" if "i < length used" for i
      using that r by (cases "i = nat l") auto
    have "\<exists>l2. scan_disks b uri ds ?u l2 = Ok (used', l') \<and>
        (scan_disks b uri ds ?u l2 = Ok (used', l') \<longrightarrow> length used' = length ?u \<and>
          (\<forall>i < length ?u. used' ! i \<longleftrightarrow> ?u ! i \<or> (\<exists>d \<in> set ds. dd_Lun d = Some (int i))))"
      using 2 Some r by (auto simp: Let_def split: if_splits option.splits)
    then have "length used' = length used"
      "\<forall>i < length used. used' ! i \<longleftrightarrow> ?u ! i \<or> (\<exists>d \<in> set ds. dd_Lun d = Some (int i))" by auto
    with nth Some show ?thesis by auto
  qed
qed auto

lemma scan_disks_lun:
  "scan_disks b uri ds used l = Ok (used', l') \<Longrightarrow>
   l' = l \<or> (\<not> b \<and> (\<exists>d \<in> set ds. \<exists>i. dd_Lun d = Some l' \<and> dd_ManagedDisk d = Some (Some i) \<and> EqualFold i uri))"
proof (induction b uri ds used l rule: scan_disks.induct)
  case (2 b uri d ds used lun)
  then show ?case by (auto simp: Let_def split: option.splits if_splits) metis+
qed auto

lemma mark_occupied_used:
  "mark_occupied occ used = Ok used' \<Longrightarrow> length used = maxLUN \<Longrightarrow>
   length used' = maxLUN \<and> (\<forall>i < maxLUN. used' ! i \<longleftrightarrow> used ! i \<or> int i \<in> set occ)"
proof (induction occ used rule: mark_occupied.induct)
  case (2 lun rest used)
  show ?case
  proof (cases "0 \<le> lun \<and> lun \<le> int maxLUN")
    case True
    with 2 have r: "lun < int (length used)" "mark_occupied rest (used[nat lun := True]) = Ok used'"
      by (auto split: if_splits)
    with 2 True have "length used' = maxLUN"
      "\<forall>i < maxLUN. used' ! i \<longleftrightarrow> used[nat lun := True] ! i \<or> int i \<in> set rest" by auto
    with True r 2(4) show ?thesis by (auto simp: nth_list_update)
  next
    case False
    with 2 have "length used' = maxLUN" "\<forall>i < maxLUN. used' ! i \<longleftrightarrow> used ! i \<or> int i \<in> set rest"
      by auto
    with False show ?thesis by auto
  qed
qed auto

lemma pick_luns_free:
  "x \<in> set (pick_luns n k vs) \<Longrightarrow> \<exists>i < length vs. x = k + int i \<and> \<not> vs ! i"
proof (induction n k vs rule: pick_luns.induct)
  case (2 n k v vs)
  have "x = k \<and> \<not> v \<or> (\<exists>i < length vs. x = k + 1 + int i \<and> \<not> vs ! i)"
    using 2 by (auto split: if_splits)
  then show ?case
  proof
    assume "x = k \<and> \<not> v"
    then show ?thesis by (intro exI [of _ 0]) simp
  next
    assume "\<exists>i < length vs. x = k + 1 + int i \<and> \<not> vs ! i"
    then obtain i where "i < length vs" "x = k + 1 + int i" "\<not> vs ! i" by blast
    then show ?thesis by (intro exI [of _ "Suc i"]) simp
  qed
qed simp

lemma pick_luns_distinct: "distinct (pick_luns n k vs)"
proof (induction n k vs rule: pick_luns.induct)
  case (2 n k v vs)
  have "k \<notin> set (pick_luns m (k + 1) vs)" for m
    using pick_luns_free [of k m "k + 1" vs] by auto
  with 2 show ?case by auto
qed simp

lemma length_pick_luns:
  "1 \<le> n \<Longrightarrow> length (pick_luns n k vs) = min n (length (filter (\<lambda>v. \<not> v) vs))"
proof (induction n k vs rule: pick_luns.induct)
  case (2 n k v vs)
  then show ?case by (cases "n \<le> 1") (auto simp: le_Suc_eq)
qed simp

lemma assign_luns_result:
  assumes "assign_luns uri m ls l = Ok (m', l')" "length ls = length m"
  shows "map fst m' = map fst m \<and> (\<forall>o' \<in> snd ` set m'. o' \<noteq> None) \<and>
    map (\<lambda>(u, o'). ao_Lun (the o')) m' = ls"
  using assms
proof (induction uri m ls l arbitrary: m' rule: assign_luns.induct)
  case (1 uri u opt rest l ls lun)
  then show ?case by (auto split: option.splits res.splits prod.splits)
qed auto

lemma assign_luns_lun:
  assumes "assign_luns uri m ls l = Ok (m', l')" "length ls = length m"
    "distinct (map (\<lambda>(u, o'). ToLower u) m)"
  shows "if (\<exists>u \<in> fst ` set m. EqualFold u uri)
    then \<exists>u o'. (u, Some o') \<in> set m' \<and> EqualFold u uri \<and> ao_Lun o' = l' else l' = l"
  using assms
proof (induction uri m ls l arbitrary: m' rule: assign_luns.induct)
  case (1 uri u opt rest l ls lun)
  obtain o' m2 where o: "opt = Some o'" "m' = (u, Some (o'\<lparr>ao_Lun := l\<rparr>)) # m2"
    "assign_luns uri rest ls (if EqualFold u uri then l else lun) = Ok (m2, l')"
    using 1(2) by (auto split: option.splits res.splits prod.splits)
  have IH: "if (\<exists>u \<in> fst ` set rest. EqualFold u uri)
    then \<exists>u o'. (u, Some o') \<in> set m2 \<and> EqualFold u uri \<and> ao_Lun o' = l'
    else l' = (if EqualFold u uri then l else lun)"
    using 1(1) [OF o(1) o(3)] 1(3,4) by simp
  show ?case
  proof (cases "EqualFold u uri")
    case True
    then have "\<not> (\<exists>v \<in> fst ` set rest. EqualFold v uri)"
      using 1(4) by (force simp: EqualFold_def)
    with IH True have "l' = l" by simp
    then have "(u, Some (o'\<lparr>ao_Lun := l\<rparr>)) \<in> set m' \<and> EqualFold u uri \<and> ao_Lun (o'\<lparr>ao_Lun := l\<rparr>) = l'"
      using True o(2) by simp
    then show ?thesis using True by (simp, blast)
  next
    case False
    with IH o(2) show ?thesis by (auto split: if_splits)
  qed
qed auto

text \<open>The LUNs a machine's disks use.\<close>

definition disk_luns :: "data_disk list \<Rightarrow> int set" where
  "disk_luns disks = {l. \<exists>d \<in> set disks. dd_Lun d = Some l}"

definition batch_luns :: "attach_map \<Rightarrow> int list" where
  "batch_luns m = map (\<lambda>(u, o'). ao_Lun (the o')) m"

lemma set_disk_lun_cases:
  assumes "set_disk_lun disks uri m occ = Ok (lun, m')" "m \<noteq> []"
  obtains used lun0 used' where
    "scan_disks (map_of m uri \<noteq> None) uri disks (replicate maxLUN False) (- 1) = Ok (used, lun0)"
    "map_of m uri = None \<Longrightarrow> 0 \<le> lun0"
    "mark_occupied occ used = Ok used'"
    "length (pick_luns (length m) 0 used') = length m"
    "assign_luns uri m (pick_luns (length m) 0 used') lun0 = Ok (m', lun)" "0 \<le> lun"
  using assms by (auto simp: set_disk_lun_def Let_def split: res.splits if_splits)

text \<open>C1. When LUNs are allocated for a batch of disks, every disk of the batch gets a LUN of its own
  between 0 and 63 that no disk of the machine uses and that is not reserved by another volume
  attachment; the LUN returned is the one given to the requested disk or, when that disk was in an
  earlier batch, the one the machine reports for it.\<close>

theorem SetDiskLun_correct:
  assumes "set_disk_lun disks uri m occ = Ok (lun, m')" "distinct (map (\<lambda>(u, o'). ToLower u) m)"
  shows "map fst m' = map fst m \<and>
    (m \<noteq> [] \<longrightarrow> distinct (batch_luns m') \<and>
       (\<forall>l \<in> set (batch_luns m'). 0 \<le> l \<and> l < 64 \<and> l \<notin> disk_luns disks \<and> l \<notin> set occ)) \<and>
    (if \<exists>u \<in> fst ` set m. EqualFold u uri
     then \<exists>u o'. (u, Some o') \<in> set m' \<and> EqualFold u uri \<and> ao_Lun o' = lun
     else \<exists>d \<in> set disks. \<exists>i. dd_Lun d = Some lun \<and> dd_ManagedDisk d = Some (Some i) \<and> EqualFold i uri)"
proof (cases "m = []")
  case True
  then have r: "scan_disks False uri disks (replicate maxLUN False) (- 1) \<in> {Ok (u, lun) | u. 0 \<le> lun}" "m' = []"
    using assms(1) by (auto simp: set_disk_lun_def Let_def split: res.splits if_splits)
  then obtain used where "scan_disks False uri disks (replicate maxLUN False) (- 1) = Ok (used, lun)" "0 \<le> lun"
    by auto
  from scan_disks_lun [OF this(1)] this(2) True r(2) show ?thesis by auto
next
  case False
  then obtain used lun0 used' where s:
    "scan_disks (map_of m uri \<noteq> None) uri disks (replicate maxLUN False) (- 1) = Ok (used, lun0)"
    "map_of m uri = None \<Longrightarrow> 0 \<le> lun0"
    "mark_occupied occ used = Ok used'"
    "length (pick_luns (length m) 0 used') = length m"
    "assign_luns uri m (pick_luns (length m) 0 used') lun0 = Ok (m', lun)" "0 \<le> lun"
    using set_disk_lun_cases [OF assms(1)] by metis
  have u: "length used = maxLUN" "\<forall>i < maxLUN. used ! i \<longleftrightarrow> int i \<in> disk_luns disks"
    using scan_disks_used [OF s(1)] by (auto simp: disk_luns_def)
  have u': "length used' = maxLUN" "\<forall>i < maxLUN. used' ! i \<longleftrightarrow> int i \<in> disk_luns disks \<or> int i \<in> set occ"
    using mark_occupied_used [OF s(3) u(1)] u(2) by auto
  note a = assign_luns_result [OF s(5) s(4)]
  have "0 \<le> l \<and> l < 64 \<and> l \<notin> disk_luns disks \<and> l \<notin> set occ" if "l \<in> set (batch_luns m')" for l
  proof -
    have "l \<in> set (pick_luns (length m) 0 used')" using a that by (simp add: batch_luns_def)
    then obtain i where "i < length used'" "l = int i" "\<not> used' ! i" using pick_luns_free by fastforce
    with u' show ?thesis by (auto simp: maxLUN_def)
  qed
  moreover have "distinct (batch_luns m')" using a pick_luns_distinct by (simp add: batch_luns_def)
  moreover have "if \<exists>u \<in> fst ` set m. EqualFold u uri
     then \<exists>u o'. (u, Some o') \<in> set m' \<and> EqualFold u uri \<and> ao_Lun o' = lun
     else \<exists>d \<in> set disks. \<exists>i. dd_Lun d = Some lun \<and> dd_ManagedDisk d = Some (Some i) \<and> EqualFold i uri"
  proof -
    note l = assign_luns_lun [OF s(5) s(4) assms(2)]
    have "\<exists>u \<in> fst ` set m. EqualFold u uri" if "map_of m uri \<noteq> None"
      using that by (metis EqualFold_refl map_of_eq_None_iff)
    with l s(2) scan_disks_lun [OF s(1)] show ?thesis
      by (cases "map_of m uri = None") (auto split: if_splits)
  qed
  ultimately show ?thesis using a by blast
qed

definition lun_disk :: "int \<Rightarrow> string \<Rightarrow> data_disk" where
  "lun_disk l uri = \<lparr>dd_Lun = Some l, dd_Name = None, dd_VhdURI = None, dd_ManagedDisk = Some (Some uri),
     dd_Caching = None, dd_ToBeDetached = None, dd_WriteAcceleratorEnabled = None,
     dd_DiskEncryptionSetID = None\<rparr>"

theorem SetDiskLun_correct_witness:
  "\<exists>m'. set_disk_lun [lun_disk 0 ''/a''] ''/b'' [(''/b'', Some (attach_options_of ''b'' [] [] False))] [1] = Ok (2, m') \<and>
     distinct (batch_luns m')"
proof -
  let ?m = "[(''/b'', Some (attach_options_of ''b'' [] [] False))]"
  let ?m' = "[(''/b'', Some ((attach_options_of ''b'' [] [] False)\<lparr>ao_Lun := 2\<rparr>))]"
  have e: "set_disk_lun [lun_disk 0 ''/a''] ''/b'' ?m [1] = Ok (2, ?m')" by code_simp
  have d: "distinct (map (\<lambda>(u, o'). ToLower u) ?m)" by simp
  from SetDiskLun_correct [OF e d] e show ?thesis by auto
qed

text \<open>A disk of the machine whose LUN is outside of the table of the driver.\<close>

definition lun_outside :: "data_disk list \<Rightarrow> bool" where
  "lun_outside disks \<longleftrightarrow> (\<exists>d \<in> set disks. \<exists>l. dd_Lun d = Some l \<and> \<not> (0 \<le> l \<and> l < 64))"

lemma scan_disks_in_map:
  "length used = 64 \<Longrightarrow> if lun_outside ds then scan_disks True uri ds used l = Panic
     else \<exists>used'. scan_disks True uri ds used l = Ok (used', l)"
proof (induction True uri ds used l rule: scan_disks.induct)
  case (2 uri d ds used lun)
  then show ?case by (cases "dd_Lun d") (auto simp: lun_outside_def Let_def)
qed (simp add: lun_outside_def)

lemma mark_occupied_total:
  "length used = maxLUN \<Longrightarrow>
   (if int maxLUN \<in> set occ then mark_occupied occ used = Panic else \<exists>used'. mark_occupied occ used = Ok used')"
proof (induction occ used rule: mark_occupied.induct)
  case (2 lun rest used)
  then show ?case by (cases "0 \<le> lun \<and> lun \<le> int maxLUN") (auto simp: le_less)
qed simp

lemma assign_luns_total:
  "length ls = length m \<Longrightarrow> \<forall>o' \<in> snd ` set m. o' \<noteq> None \<Longrightarrow> \<exists>m' l'. assign_luns uri m ls l = Ok (m', l')"
proof (induction uri m ls l rule: assign_luns.induct)
  case (1 uri u opt rest l ls lun)
  then show ?case by (cases opt) auto
qed auto

definition free_lun_count :: "data_disk list \<Rightarrow> int list \<Rightarrow> nat" where
  "free_lun_count disks occ = card {i. i < maxLUN \<and> int i \<notin> disk_luns disks \<and> int i \<notin> set occ}"

lemma length_filter_card: "length (filter (\<lambda>v. \<not> v) vs) = card {i. i < length vs \<and> \<not> vs ! i}"
  by (rule length_filter_conv_card)

text \<open>C8. The outcome of the allocation for a batch that contains the requested disk, each disk once and with
  its options. The driver indexes past the end of its table and panics in two cases: the machine reports
  a disk at a LUN outside of 0 to 63, or a volume attachment reserves LUN 64, because the bound check
  admits maxLUN itself. In every other case it answers: with a LUN when enough LUNs are free, and with an
  error when they are not.\<close>

theorem SetDiskLun_returns:
  assumes "map_of m uri \<noteq> None" "\<forall>o' \<in> snd ` set m. o' \<noteq> None"
    "distinct (map (\<lambda>(u, o'). ToLower u) m)"
  shows "if lun_outside disks \<or> 64 \<in> set occ then set_disk_lun disks uri m occ = Panic
    else if length m \<le> free_lun_count disks occ then \<exists>lun m'. set_disk_lun disks uri m occ = Ok (lun, m')
    else \<exists>msg. set_disk_lun disks uri m occ = Err (Errorf msg)"
proof (cases "lun_outside disks")
  case True
  with scan_disks_in_map [of "replicate maxLUN False" disks uri "- 1"] assms(1) show ?thesis
    by (auto simp: set_disk_lun_def maxLUN_def)
next
  case out: False
  have ne: "m \<noteq> []" using assms(1) by auto
  obtain used where s: "scan_disks True uri disks (replicate maxLUN False) (- 1) = Ok (used, - 1)"
    using scan_disks_in_map [of "replicate maxLUN False" disks uri "- 1"] out by (auto simp: maxLUN_def)
  have u: "length used = maxLUN" "\<forall>i < maxLUN. used ! i \<longleftrightarrow> int i \<in> disk_luns disks"
    using scan_disks_used [OF s] by (auto simp: disk_luns_def)
  note t = mark_occupied_total [OF u(1), of occ]
  show ?thesis
  proof (cases "64 \<in> set occ")
    case True
    then have "mark_occupied occ used = Panic" using t by (simp add: maxLUN_def)
    with True s assms(1) ne show ?thesis by (simp add: set_disk_lun_def)
  next
    case False
    then obtain used' where u': "mark_occupied occ used = Ok used'" using t by (auto simp: maxLUN_def)
    note v = mark_occupied_used [OF u' u(1)]
    have "{i. i < length used' \<and> \<not> used' ! i} = {i. i < maxLUN \<and> int i \<notin> disk_luns disks \<and> int i \<notin> set occ}"
      using v u(2) by auto
    then have "length (filter (\<lambda>v. \<not> v) used') = free_lun_count disks occ"
      by (simp add: length_filter_card free_lun_count_def)
    then have len: "length (pick_luns (length m) 0 used') = min (length m) (free_lun_count disks occ)"
      using length_pick_luns [of "length m" 0 used'] ne by (simp add: Suc_le_eq)
    show ?thesis
    proof (cases "length m \<le> free_lun_count disks occ")
      case few: False
      with len out False s u' assms(1) ne show ?thesis by (simp add: set_disk_lun_def Let_def)
    next
      case enough: True
      with len have len: "length (pick_luns (length m) 0 used') = length m" by simp
      then obtain m' lun where a: "assign_luns uri m (pick_luns (length m) 0 used') (- 1) = Ok (m', lun)"
        using assign_luns_total [OF _ assms(2)] by metis
      have "\<exists>u \<in> fst ` set m. EqualFold u uri" using assms(1) by (metis EqualFold_refl map_of_eq_None_iff)
      then obtain w o' where w: "(w, Some o') \<in> set m'" "ao_Lun o' = lun"
        using assign_luns_lun [OF a len assms(3)] by auto
      have "lun \<in> set (pick_luns (length m) 0 used')"
        using assign_luns_result [OF a len] w by (metis (mono_tags, lifting) case_prod_conv image_eqI list.set_map option.sel)
      then have "0 \<le> lun" using pick_luns_free by fastforce
      with out False enough s u' len a assms(1) ne show ?thesis by (simp add: set_disk_lun_def)
    qed
  qed
qed

theorem SetDiskLun_returns_witness:
  "set_disk_lun [] ''/b'' [(''/b'', Some (attach_options_of ''b'' [] [] False))] [64] = Panic \<and>
   set_disk_lun [lun_disk 64 ''/a''] ''/b'' [(''/b'', Some (attach_options_of ''b'' [] [] False))] [] = Panic \<and>
   is_Ok (set_disk_lun [] ''/b'' [(''/b'', Some (attach_options_of ''b'' [] [] False))] [])"
proof -
  let ?m = "[(''/b'', Some (attach_options_of ''b'' [] [] False))]"
  have "card {i. i < maxLUN \<and> int i \<notin> disk_luns [] \<and> int i \<notin> set []} = card {..<maxLUN}"
    by (rule arg_cong [where f = card]) (auto simp: disk_luns_def)
  then have "length ?m \<le> free_lun_count [] []" by (simp add: free_lun_count_def maxLUN_def)
  moreover have "lun_outside [lun_disk 64 ''/a'']" "\<not> lun_outside []" by (simp_all add: lun_outside_def lun_disk_def)
  ultimately show ?thesis
    using SetDiskLun_returns [of ?m "''/b''" "[]" "[64]"] SetDiskLun_returns [of ?m "''/b''" "[lun_disk 64 ''/a'']" "[]"]
      SetDiskLun_returns [of ?m "''/b''" "[]" "[]"] by auto
qed

section \<open>The queues of requests\<close>

text \<open>Any interleaving of requests that enter a queue and of batches that are taken from it.\<close>

datatype 'v queue_event = QInsert string string 'v | QTake string

fun queue_run ::
    "(string \<Rightarrow> string \<Rightarrow> 'v \<Rightarrow> 's \<Rightarrow> 's option) \<Rightarrow> (string \<Rightarrow> 's \<Rightarrow> ((string \<times> 'v) list \<times> 's) option) \<Rightarrow>
     'v queue_event list \<Rightarrow> 's \<Rightarrow> ('s \<times> (string \<times> (string \<times> 'v) list) list) option" where
  "queue_run ins tk [] s = Some (s, [])"
| "queue_run ins tk (QInsert u n v # es) s =
     (case ins u n v s of None \<Rightarrow> None | Some s' \<Rightarrow> queue_run ins tk es s')"
| "queue_run ins tk (QTake n # es) s =
     (case tk n s of
        None \<Rightarrow> None
      | Some (b, s') \<Rightarrow>
          (case queue_run ins tk es s' of
             None \<Rightarrow> None
           | Some (s'', batches) \<Rightarrow> Some (s'', (n, b) # batches)))"

locale request_queue =
  fixes pending :: "'s \<Rightarrow> string \<Rightarrow> (string \<times> 'v) list"
    and ins :: "string \<Rightarrow> string \<Rightarrow> 'v \<Rightarrow> 's \<Rightarrow> 's option"
    and tk :: "string \<Rightarrow> 's \<Rightarrow> ((string \<times> 'v) list \<times> 's) option"
  assumes ins_pending: "ins u n v s = Some s' \<Longrightarrow> pending s' j =
      (if j = n \<and> map_of (pending s n) u = None then pending s n @ [(u, v)] else pending s j)"
    and tk_pending: "tk n s = Some (b, s') \<Longrightarrow> b = pending s n \<and> pending s' j = (if j = n then [] else pending s j)"
begin

lemma ins_waiting: "ins u n v s = Some s' \<Longrightarrow> u \<in> fst ` set (pending s' n)"
  using ins_pending [of u n v s s' n] by (auto simp: map_of_eq_None_iff)

lemma ins_keeps: "ins u n v s = Some s' \<Longrightarrow> x \<in> fst ` set (pending s j) \<Longrightarrow> x \<in> fst ` set (pending s' j)"
  using ins_pending [of u n v s s' j] by auto

lemma waiting_or_taken:
  "queue_run ins tk es s = Some (s', batches) \<Longrightarrow> u \<in> fst ` set (pending s n) \<Longrightarrow>
   u \<in> fst ` set (pending s' n) \<or> (\<exists>b. (n, b) \<in> set batches \<and> u \<in> fst ` set b)"
proof (induction es arbitrary: s batches)
  case (Cons e es)
  show ?case
  proof (cases e)
    case (QInsert u' n' v)
    with Cons.prems(1) obtain s1 where s1: "ins u' n' v s = Some s1" "queue_run ins tk es s1 = Some (s', batches)"
      by (auto split: option.splits)
    from Cons.IH [OF s1(2)] ins_keeps [OF s1(1) Cons.prems(2)] show ?thesis .
  next
    case (QTake n')
    with Cons.prems(1) obtain b s1 log1 where s1: "tk n' s = Some (b, s1)"
      "queue_run ins tk es s1 = Some (s', log1)" "batches = (n', b) # log1"
      by (auto split: option.splits)
    show ?thesis
    proof (cases "n = n'")
      case True
      with tk_pending [OF s1(1)] Cons.prems(2) s1(3) show ?thesis by auto
    next
      case False
      then have "u \<in> fst ` set (pending s1 n)" using tk_pending [OF s1(1), of n] Cons.prems(2) by simp
      from Cons.IH [OF s1(2) this] s1(3) show ?thesis by auto
    qed
  qed
qed simp

lemma batches_distinct:
  "queue_run ins tk es s = Some (s', batches) \<Longrightarrow> \<forall>n. distinct (map fst (pending s n)) \<Longrightarrow>
   (\<forall>(n, b) \<in> set batches. distinct (map fst b)) \<and> (\<forall>n. distinct (map fst (pending s' n)))"
proof (induction es arbitrary: s batches)
  case (Cons e es)
  show ?case
  proof (cases e)
    case (QInsert u' n' v)
    with Cons.prems(1) obtain s1 where s1: "ins u' n' v s = Some s1" "queue_run ins tk es s1 = Some (s', batches)"
      by (auto split: option.splits)
    have "\<forall>n. distinct (map fst (pending s1 n))"
      using ins_pending [OF s1(1)] Cons.prems(2) by (auto simp: map_of_eq_None_iff)
    from Cons.IH [OF s1(2) this] show ?thesis .
  next
    case (QTake n')
    with Cons.prems(1) obtain b s1 log1 where s1: "tk n' s = Some (b, s1)"
      "queue_run ins tk es s1 = Some (s', log1)" "batches = (n', b) # log1"
      by (auto split: option.splits)
    have "\<forall>n. distinct (map fst (pending s1 n))" "distinct (map fst b)"
      using tk_pending [OF s1(1)] Cons.prems(2) by auto
    with Cons.IH [OF s1(2)] s1(3) show ?thesis by auto
  qed
qed simp

end

text \<open>The two queues of the driver.\<close>

definition attach_pending :: "'w controllerCommon \<Rightarrow> string \<Rightarrow> attach_map" where
  "attach_pending s n = (case map_of (attachDiskMap s) n of Some m \<Rightarrow> m | None \<Rightarrow> [])"

definition attach_insert :: "string \<Rightarrow> string \<Rightarrow> attach_options option \<Rightarrow> 'w controllerCommon \<Rightarrow> 'w controllerCommon option" where
  "attach_insert u n v s = (case insertAttachDiskRequest u n v s of (Ok _, s') \<Rightarrow> Some s' | _ \<Rightarrow> None)"

definition attach_take :: "string \<Rightarrow> 'w controllerCommon \<Rightarrow> (attach_map \<times> 'w controllerCommon) option" where
  "attach_take n s = (case cleanAttachDiskRequests n s of (Ok m, s') \<Rightarrow> Some (m, s') | _ \<Rightarrow> None)"

definition detach_pending :: "'w controllerCommon \<Rightarrow> string \<Rightarrow> detach_map" where
  "detach_pending s n = (case map_of (detachDiskMap s) n of Some m \<Rightarrow> m | None \<Rightarrow> [])"

definition detach_insert :: "string \<Rightarrow> string \<Rightarrow> string \<Rightarrow> 'w controllerCommon \<Rightarrow> 'w controllerCommon option" where
  "detach_insert u n v s = (case insertDetachDiskRequest v u n s of (Ok _, s') \<Rightarrow> Some s' | _ \<Rightarrow> None)"

definition detach_take :: "string \<Rightarrow> 'w controllerCommon \<Rightarrow> (detach_map \<times> 'w controllerCommon) option" where
  "detach_take n s = (case cleanDetachDiskRequests n s of (Ok m, s') \<Rightarrow> Some (m, s') | _ \<Rightarrow> None)"

lemma with_lock_Ok:
  assumes "with_lock k m s = (Ok x, s')"
  obtains lm s1 lm' where "LockEntry (cc_lockMap s) k = Some lm" "m (s\<lparr>cc_lockMap := lm\<rparr>) = (Ok x, s1)"
    "UnlockEntry (cc_lockMap s1) k = Ok lm'" "s' = s1\<lparr>cc_lockMap := lm'\<rparr>"
  using assms
  by (auto simp: with_lock_def bind_def call_def cc_lock_def cc_unlock_def deferred_def
      UnlockEntry_def split: option.splits prod.splits res.splits if_splits)

lemma update_new: "map_of m u = None \<Longrightarrow> AList.update u v m = m @ [(u, v)]"
  by (induction m) (auto split: if_splits)

interpretation aq: request_queue attach_pending attach_insert attach_take
proof
  fix u n and v :: "attach_options option" and s s' :: "'a controllerCommon" and j
  assume "attach_insert u n v s = Some s'"
  then obtain k where "insertAttachDiskRequest u n v s = (Ok k, s')"
    by (auto simp: attach_insert_def split: prod.splits res.splits)
  then show "attach_pending s' j = (if j = n \<and> map_of (attach_pending s n) u = None
      then attach_pending s n @ [(u, v)] else attach_pending s j)"
    unfolding insertAttachDiskRequest_def
    by (rule with_lock_Ok) (auto simp: attach_pending_def Let_def update_conv' update_new split: option.splits)
next
  fix n and s s' :: "'a controllerCommon" and b j
  assume "attach_take n s = Some (b, s')"
  then have "cleanAttachDiskRequests n s = (Ok b, s')"
    by (auto simp: attach_take_def split: prod.splits res.splits)
  then show "b = attach_pending s n \<and> attach_pending s' j = (if j = n then [] else attach_pending s j)"
    unfolding cleanAttachDiskRequests_def
    by (rule with_lock_Ok) (auto simp: attach_pending_def update_conv' split: option.splits)
qed

interpretation dq: request_queue detach_pending detach_insert detach_take
proof
  fix u n v and s s' :: "'a controllerCommon" and j
  assume "detach_insert u n v s = Some s'"
  then obtain k where "insertDetachDiskRequest v u n s = (Ok k, s')"
    by (auto simp: detach_insert_def split: prod.splits res.splits)
  then show "detach_pending s' j = (if j = n \<and> map_of (detach_pending s n) u = None
      then detach_pending s n @ [(u, v)] else detach_pending s j)"
    unfolding insertDetachDiskRequest_def
    by (rule with_lock_Ok) (auto simp: detach_pending_def Let_def update_conv' update_new split: option.splits)
next
  fix n and s s' :: "'a controllerCommon" and b j
  assume "detach_take n s = Some (b, s')"
  then have "cleanDetachDiskRequests n s = (Ok b, s')"
    by (auto simp: detach_take_def split: prod.splits res.splits)
  then show "b = detach_pending s n \<and> detach_pending s' j = (if j = n then [] else detach_pending s j)"
    unfolding cleanDetachDiskRequests_def
    by (rule with_lock_Ok) (auto simp: detach_pending_def update_conv' split: option.splits)
qed

definition cc0 :: "unit controllerCommon" where
  "cc0 = \<lparr>diskStateMap = [], cc_lockMap = newLockMap, attachDiskMap = [], detachDiskMap = [],
     DisableUpdateCache = False, DisableDiskLunCheck = False,
     AttachDetachInitialDelayInMs = defaultAttachDetachInitialDelayInMs, ForceDetachBackoff = False,
     world = ()\<rparr>"

text \<open>C3. No attach or detach request is lost, in any interleaving of requests and batches on any
  nodes: a request that entered the queue of its node is still waiting there or was in a batch taken
  since for that node. A disk is in a batch once, to attach or to detach, however often it was
  requested, when it was in no queue twice at the start.\<close>

theorem requests_not_lost:
  "(insertAttachDiskRequest u n v s = (Ok k, s1) \<and> queue_run attach_insert attach_take es s1 = Some (s2, batches) \<longrightarrow>
      u \<in> fst ` set (attach_pending s2 n) \<or> (\<exists>b. (n, b) \<in> set batches \<and> u \<in> fst ` set b)) \<and>
   (insertDetachDiskRequest d u n s = (Ok k, s1) \<and> queue_run detach_insert detach_take es' s1 = Some (s2, batches') \<longrightarrow>
      u \<in> fst ` set (detach_pending s2 n) \<or> (\<exists>b. (n, b) \<in> set batches' \<and> u \<in> fst ` set b)) \<and>
   ((\<forall>n. distinct (map fst (attach_pending s n))) \<and> queue_run attach_insert attach_take es s = Some (s2, batches) \<longrightarrow>
      (\<forall>(n, b) \<in> set batches. distinct (map fst b))) \<and>
   ((\<forall>n. distinct (map fst (detach_pending s n))) \<and> queue_run detach_insert detach_take es' s = Some (s2, batches') \<longrightarrow>
      (\<forall>(n, b) \<in> set batches'. distinct (map fst b)))"
proof (intro conjI impI)
  assume a: "insertAttachDiskRequest u n v s = (Ok k, s1) \<and> queue_run attach_insert attach_take es s1 = Some (s2, batches)"
  then have "attach_insert u n v s = Some s1" by (simp add: attach_insert_def)
  from aq.waiting_or_taken [OF conjunct2 [OF a] aq.ins_waiting [OF this]]
  show "u \<in> fst ` set (attach_pending s2 n) \<or> (\<exists>b. (n, b) \<in> set batches \<and> u \<in> fst ` set b)" .
next
  assume a: "insertDetachDiskRequest d u n s = (Ok k, s1) \<and> queue_run detach_insert detach_take es' s1 = Some (s2, batches')"
  then have "detach_insert u n d s = Some s1" by (simp add: detach_insert_def)
  from dq.waiting_or_taken [OF conjunct2 [OF a] dq.ins_waiting [OF this]]
  show "u \<in> fst ` set (detach_pending s2 n) \<or> (\<exists>b. (n, b) \<in> set batches' \<and> u \<in> fst ` set b)" .
next
  assume "(\<forall>n. distinct (map fst (attach_pending s n))) \<and> queue_run attach_insert attach_take es s = Some (s2, batches)"
  then show "\<forall>(n, b) \<in> set batches. distinct (map fst b)" using aq.batches_distinct by blast
next
  assume "(\<forall>n. distinct (map fst (detach_pending s n))) \<and> queue_run detach_insert detach_take es' s = Some (s2, batches')"
  then show "\<forall>(n, b) \<in> set batches'. distinct (map fst b)" using dq.batches_distinct by blast
qed

theorem requests_not_lost_witness:
  "\<exists>s1 s2 batches. insertAttachDiskRequest ''/a'' ''node'' None cc0 = (Ok 1, s1) \<and>
     queue_run attach_insert attach_take [QInsert ''/b'' ''node'' None, QTake ''node''] s1 = Some (s2, batches) \<and>
     (\<exists>b. (''node'', b) \<in> set batches \<and> ''/a'' \<in> fst ` set b)"
proof -
  let ?r = "insertAttachDiskRequest ''/a'' ''node'' None cc0"
  let ?q = "queue_run attach_insert attach_take [QInsert ''/b'' ''node'' None, QTake ''node''] (snd ?r)"
  have 1: "fst ?r = Ok 1" by code_simp
  have 2: "map_option snd ?q = Some [(''node'', [(''/a'', None), (''/b'', None)])]" by code_simp
  have 3: "map_option (\<lambda>p. attach_pending (fst p) ''node'') ?q = Some []" by code_simp
  obtain s2 batches where q: "?q = Some (s2, batches)" "attach_pending s2 ''node'' = []" using 2 3 by auto
  obtain s1 where r: "?r = (Ok 1, s1)" using 1 by (cases ?r) auto
  from requests_not_lost [of "''/a''" "''node''" None cc0 1 s1 "[QInsert ''/b'' ''node'' None, QTake ''node'']" s2 batches]
    r q show ?thesis by auto
qed

section \<open>Locks and marks are given back\<close>

definition gives_back :: "'w controllerCommon \<Rightarrow> 'w controllerCommon \<Rightarrow> bool" where
  "gives_back s s' \<longleftrightarrow>
     (\<forall>k. entry_locked (cc_lockMap s') k = entry_locked (cc_lockMap s) k) \<and>
     (\<forall>k. map_of (diskStateMap s') k = map_of (diskStateMap s) k \<or> map_of (diskStateMap s') k = None) \<and>
     DisableDiskLunCheck s' = DisableDiskLunCheck s \<and> ForceDetachBackoff s' = ForceDetachBackoff s"

lemma gives_back_refl [simp, intro]: "reflp gives_back"
  by (simp add: reflp_def gives_back_def)

lemma gives_back_trans [simp, intro]: "transp gives_back"
  unfolding transp_def gives_back_def by metis

lemma keeps_on_world [simp, intro]: "keeps gives_back (on_world m)"
  by (auto simp: keeps_def on_world_def gives_back_def split: prod.splits)

lemma keeps_with_lock [intro]:
  assumes "keeps gives_back m"
  shows "keeps gives_back (with_lock k m)"
  unfolding keeps_def
proof (intro allI impI)
  fix s r s' assume e: "with_lock k m s = (r, s')" and r: "r \<noteq> Panic"
  obtain lm where lm: "LockEntry (cc_lockMap s) k = Some lm"
    using e r by (auto simp: with_lock_def bind_def call_def cc_lock_def split: option.splits)
  let ?s1 = "s\<lparr>cc_lockMap := lm\<rparr>"
  obtain r2 s2 where m: "m ?s1 = (r2, s2)" by fastforce
  have d: "deferred (cc_unlock k) m ?s1 = (r, s')"
    using e lm by (simp add: with_lock_def bind_def call_def cc_lock_def)
  then have r2: "r2 \<noteq> Panic" using r m by (auto simp: deferred_def)
  have g: "gives_back ?s1 s2" using keepsD [OF assms m r2] .
  have l: "\<And>j. entry_locked (cc_lockMap s2) j \<longleftrightarrow> j = k \<or> entry_locked (cc_lockMap s) j"
    using g nlock.acquire_held [OF lm] by (auto simp: gives_back_def)
  then have "map_of (mutexMap (cc_lockMap s2)) k = Some True" by (simp add: entry_locked_def)
  then obtain lm' where u: "UnlockEntry (cc_lockMap s2) k = Ok lm'" "unlock_entry (cc_lockMap s2) k = lm'"
    by (simp add: UnlockEntry_def unlock_entry_def)
  have s': "s' = s2\<lparr>cc_lockMap := lm'\<rparr>"
    using d m r2 u(1) by (auto simp: deferred_def cc_unlock_def split: res.splits)
  have "\<not> entry_locked (cc_lockMap s) k" using nlock.acquire_None [of "cc_lockMap s" k] lm by simp
  moreover have "\<And>j. entry_locked lm' j \<longleftrightarrow> j \<noteq> k \<and> entry_locked (cc_lockMap s2) j"
    using nlock.release_held [of "cc_lockMap s2" k] l u(2) by auto
  ultimately show "gives_back s s'" using g s' l by (auto simp: gives_back_def)
qed

lemma keeps_marked [intro]:
  assumes "keeps gives_back m"
  shows "keeps gives_back (bind (set_disk_state key v) (\<lambda>_. deferred (delete_disk_state key) m))"
  unfolding keeps_def
proof (intro allI impI)
  fix s r s' assume e: "bind (set_disk_state key v) (\<lambda>_. deferred (delete_disk_state key) m) s = (r, s')"
    and r: "r \<noteq> Panic"
  let ?s1 = "s\<lparr>diskStateMap := AList.update key v (diskStateMap s)\<rparr>"
  obtain r2 s2 where m: "m ?s1 = (r2, s2)" by fastforce
  have d: "deferred (delete_disk_state key) m ?s1 = (r, s')"
    using e by (simp add: bind_def call_def set_disk_state_def)
  then have r2: "r2 \<noteq> Panic" using r m by (auto simp: deferred_def)
  have s': "s' = s2\<lparr>diskStateMap := AList.delete key (diskStateMap s2)\<rparr>"
    using d m r2 by (auto simp: deferred_def delete_disk_state_def split: res.splits)
  have "gives_back ?s1 s2" using keepsD [OF assms m r2] .
  then show "gives_back s s'"
    by (auto simp: gives_back_def s' update_conv' delete_conv' split: if_splits)
qed

lemma keeps_state_fun [intro]:
  "(\<And>s r s'. m s = (r, s') \<Longrightarrow> gives_back s s') \<Longrightarrow> keeps gives_back m"
  by (simp add: keeps_def)

lemma keeps_queues [simp, intro]:
  "keeps gives_back (insertAttachDiskRequest u n v)" "keeps gives_back (cleanAttachDiskRequests n)"
  "keeps gives_back (insertDetachDiskRequest d u n)" "keeps gives_back (cleanDetachDiskRequests n)"
  unfolding insertAttachDiskRequest_def cleanAttachDiskRequests_def insertDetachDiskRequest_def
    cleanDetachDiskRequests_def
  by (rule keeps_with_lock, rule keeps_state_fun,
      force simp: gives_back_def Let_def split: option.splits)+

lemmas keeps_rules = keeps_bind keeps_call keeps_deferred keeps_on_error keeps_with_lock keeps_ite

lemma keeps_data_disks [simp, intro]: "keeps gives_back (GetNodeDataDisks C n crt)"
  unfolding GetNodeDataDisks_def by (intro keeps_call) simp_all

lemma keeps_luns [simp, intro]:
  "keeps gives_back (GetDiskLun S C d u n)" "keeps gives_back (SetDiskLun C n u m occ)"
  unfolding GetDiskLun_def SetDiskLun_def by (auto intro!: keeps_rules split: option.split)

lemma keeps_checks [simp, intro]:
  "keeps gives_back (check_attached S C d u n l)" "keeps gives_back (check_detached S C d u n)"
  unfolding check_attached_def check_detached_def
  by (auto intro!: keeps_rules simp: Let_def split: option.split)

lemma keeps_delay [simp, intro]: "keeps gives_back (initial_delay C k)"
  by (auto simp: keeps_def initial_delay_def gives_back_def split: if_splits)

lemma keeps_vm [simp, intro]:
  "keeps gives_back (UpdateVM C n)" "keeps gives_back (attach_with_retry S vs n m)"
  unfolding UpdateVM_def attach_with_retry_def by (auto intro!: keeps_rules)

lemma keeps_attach [simp, intro]:
  "keeps gives_back (attached_elsewhere S C d u n mb)" "keeps gives_back (attach_batch S C d u n dsk occ)"
  unfolding attached_elsewhere_def attach_batch_def Let_def
  by (auto intro!: keeps_marked keeps_rules split: option.split prod.split)

lemma keeps_AttachDisk [simp, intro]: "keeps gives_back (AttachDisk S C d u n cm dsk occ)"
  unfolding AttachDisk_def Let_def by (auto intro!: keeps_rules split: option.split prod.split)

lemma keeps_DetachDisk [simp, intro]: "keeps gives_back (DetachDisk S C d u n)"
  unfolding DetachDisk_def detach_batch_def
  by (auto intro!: keeps_marked keeps_rules)

section \<open>What a successful attach or detach means\<close>

text \<open>The disks the cloud reported for a node, in the last call before the world became \<open>w\<close>.\<close>

definition reported :: "'w cloud \<Rightarrow> string \<Rightarrow> 'w \<Rightarrow> data_disk list \<Rightarrow> go_error option \<Rightarrow> bool" where
  "reported C n w disks err \<longleftrightarrow>
     (\<exists>w0 w1 vmset st. cl_GetNodeVMSet C n CacheReadTypeDefault w0 = (Ok vmset, w1) \<and>
        vs_GetDataDisks vmset n CacheReadTypeDefault w1 = ((disks, st, err), w)) \<or>
     (\<exists>w0 e. disks = [] \<and> err = Some e \<and> cl_GetNodeVMSet C n CacheReadTypeDefault w0 = (Err e, w))"

lemma on_world_res: "on_world m s = (r, s') \<Longrightarrow> m (world s) = (r, world s')"
  by (auto simp: on_world_def split: prod.splits)

lemma GetNodeDataDisks_reported:
  assumes "GetNodeDataDisks C n CacheReadTypeDefault s = (Ok (disks, st, err), s')"
  shows "reported C n (world s') disks err"
  using assms unfolding GetNodeDataDisks_def
proof (cases rule: call_cases)
  case (1 vmset s1)
  then have "cl_GetNodeVMSet C n CacheReadTypeDefault (world s) = (Ok vmset, world s1)"
    "vs_GetDataDisks vmset n CacheReadTypeDefault (world s1) = ((disks, st, err), world s')"
    by (auto dest!: on_world_res split: prod.splits)
  then show ?thesis by (auto simp: reported_def)
next
  case (2 e s1)
  then have "cl_GetNodeVMSet C n CacheReadTypeDefault (world s) = (Err e, world s')" "disks = []" "err = Some e"
    by (auto dest!: on_world_res)
  then show ?thesis by (auto simp: reported_def)
qed simp

lemma GetDiskLun_found:
  assumes "GetDiskLun S C d u n s = (Ok (lun, st, None), s')"
  shows "\<exists>disks. reported C n (world s') disks None \<and> find_lun d u disks = Ok (Some lun)"
  using assms unfolding GetDiskLun_def
proof (rule bind_OkE)
  fix r s1
  assume r: "GetNodeDataDisks C n CacheReadTypeDefault s = (Ok r, s1)"
    and k: "(case r of (disks, provisioningState, err) \<Rightarrow>
          case err of Some e \<Rightarrow> ret (- 1, provisioningState, Some e)
          | None \<Rightarrow> bind (lift (find_lun d u disks))
                (\<lambda>found. case found of Some lun \<Rightarrow> ret (lun, provisioningState, None)
                   | None \<Rightarrow> ret (- 1, provisioningState, Some (Errorf (CannotFindDiskLUN S @ '' for disk '' @ d)))))
          s1 = (Ok (lun, st, None), s')"
  obtain disks st' err where rr: "r = (disks, st', err)" by (cases r)
  with k have "err = None" by (auto split: option.splits)
  with k rr have "find_lun d u disks = Ok (Some lun)" "s' = s1"
    by (auto simp: bind_def call_def split: res.splits option.splits)
  with GetNodeDataDisks_reported r rr \<open>err = None\<close> show ?thesis by blast
qed

lemma GetDiskLun_not_found:
  assumes "GetDiskLun S C d u n s = (Ok (lun, st, Some e), s')"
  shows "\<exists>disks err. reported C n (world s') disks err \<and>
    (err = None \<and> find_lun d u disks = Ok None \<or> err = Some e)"
  using assms unfolding GetDiskLun_def
proof (rule bind_OkE)
  fix r s1
  assume r: "GetNodeDataDisks C n CacheReadTypeDefault s = (Ok r, s1)"
    and k: "(case r of (disks, provisioningState, err) \<Rightarrow>
          case err of Some e \<Rightarrow> ret (- 1, provisioningState, Some e)
          | None \<Rightarrow> bind (lift (find_lun d u disks))
                (\<lambda>found. case found of Some lun \<Rightarrow> ret (lun, provisioningState, None)
                   | None \<Rightarrow> ret (- 1, provisioningState, Some (Errorf (CannotFindDiskLUN S @ '' for disk '' @ d)))))
          s1 = (Ok (lun, st, Some e), s')"
  obtain disks st' err where rr: "r = (disks, st', err)" by (cases r)
  with k have "s' = s1 \<and> (err = None \<and> find_lun d u disks = Ok None \<or> err = Some e)"
    by (auto simp: bind_def call_def split: res.splits option.splits)
  with GetNodeDataDisks_reported r rr show ?thesis by blast
qed

lemma find_lun_Some:
  "find_lun d u disks = Ok (Some lun) \<Longrightarrow>
   \<exists>x \<in> set disks. disk_matches d u x = Ok True \<and> dd_Lun x = Some lun \<and> dd_ToBeDetached x \<noteq> Some True"
  by (induction d u disks rule: find_lun.induct) (auto split: res.splits option.splits if_splits)

lemma find_lun_None:
  "find_lun d u disks = Ok None \<Longrightarrow> x \<in> set disks \<Longrightarrow>
   disk_matches d u x = Ok True \<Longrightarrow> dd_ToBeDetached x = Some True"
  by (induction d u disks rule: find_lun.induct) (auto split: res.splits option.splits if_splits)

text \<open>The machine reports the disk at the LUN, and not as one to be detached.\<close>

definition attached_at :: "'w cloud \<Rightarrow> string \<Rightarrow> 'w \<Rightarrow> string \<Rightarrow> string \<Rightarrow> int \<Rightarrow> bool" where
  "attached_at C n w d u lun \<longleftrightarrow>
     (\<exists>disks. reported C n w disks None \<and>
        (\<exists>x \<in> set disks. disk_matches d u x = Ok True \<and> dd_Lun x = Some lun \<and> dd_ToBeDetached x \<noteq> Some True))"

lemma check_attached_at:
  assumes "check_attached S C d u n l s = (Ok lun, s')" "\<not> DisableDiskLunCheck s"
  shows "attached_at C n (world s') d u lun"
proof -
  obtain st where "GetDiskLun S C d u n s = (Ok (lun, st, None), s')"
    using assms by (auto simp: check_attached_def elim!: bind_OkE split: option.splits)
  then show ?thesis using GetDiskLun_found find_lun_Some by (fastforce simp: attached_at_def)
qed

lemma deferred_Ok:
  assumes "deferred d m s = (Ok x, s')"
  obtains s1 r where "m s = (Ok x, s1)" "d s1 = (r, s')"
  using assms by (auto simp: deferred_def split: prod.splits res.splits)

lemma gives_back_check: "keeps gives_back m \<Longrightarrow> m s = (Ok x, s') \<Longrightarrow> DisableDiskLunCheck s' = DisableDiskLunCheck s"
  by (auto simp: gives_back_def dest!: keepsD)

lemma attach_batch_at:
  assumes "attach_batch S C d u n dsk occ s = (Ok lun, s')" "\<not> DisableDiskLunCheck s"
  shows "attached_at C n (world s') d u lun"
proof -
  obtain m0 s1 where 1: "cleanAttachDiskRequests (ToLower n) s = (Ok m0, s1)"
    and rest: "bind (SetDiskLun C n (ToLower u) m0 occ)
          (\<lambda>(lun, diskMap).
             if diskMap = [] then check_attached S C d u n lun
             else bind (on_world (cl_GetNodeVMSet C n CacheReadTypeUnsafe))
                 (\<lambda>vmset.
                    let key = DiskPtr (map_option fst dsk)
                    in bind (set_disk_state key ''attaching'')
                         (\<lambda>_. deferred (delete_disk_state key)
                            (bind (attach_with_retry S vmset n diskMap)
                               (\<lambda>_. check_attached S C d u n lun))))) s1 = (Ok lun, s')"
    using assms(1) unfolding attach_batch_def by (rule bind_OkE)
  have c1: "\<not> DisableDiskLunCheck s1" using gives_back_check [OF keeps_queues(2) 1] assms(2) by simp
  from rest obtain l m s2 where 2: "SetDiskLun C n (ToLower u) m0 occ s1 = (Ok (l, m), s2)"
    and k: "(if m = [] then check_attached S C d u n l
             else bind (on_world (cl_GetNodeVMSet C n CacheReadTypeUnsafe))
                 (\<lambda>vmset.
                    let key = DiskPtr (map_option fst dsk)
                    in bind (set_disk_state key ''attaching'')
                         (\<lambda>_. deferred (delete_disk_state key)
                            (bind (attach_with_retry S vmset n m)
                               (\<lambda>_. check_attached S C d u n l))))) s2 = (Ok lun, s')"
    by (auto elim!: bind_OkE split: prod.splits)
  have c2: "\<not> DisableDiskLunCheck s2" using gives_back_check [OF keeps_luns(2) 2] c1 by simp
  show ?thesis
  proof (cases "m = []")
    case True
    with k have "check_attached S C d u n l s2 = (Ok lun, s')" by simp
    then show ?thesis using c2 by (rule check_attached_at)
  next
    case False
    let ?key = "DiskPtr (map_option fst dsk)"
    from k False obtain vmset s3 where 3: "on_world (cl_GetNodeVMSet C n CacheReadTypeUnsafe) s2 = (Ok vmset, s3)"
      "deferred (delete_disk_state ?key) (bind (attach_with_retry S vmset n m) (\<lambda>_. check_attached S C d u n l))
        (s3\<lparr>diskStateMap := AList.update ?key ''attaching'' (diskStateMap s3)\<rparr>) = (Ok lun, s')"
      by (auto simp: Let_def set_disk_state_def elim!: bind_OkE)
    then obtain s4 r where 4: "bind (attach_with_retry S vmset n m) (\<lambda>_. check_attached S C d u n l)
        (s3\<lparr>diskStateMap := AList.update ?key ''attaching'' (diskStateMap s3)\<rparr>) = (Ok lun, s4)"
      "delete_disk_state ?key s4 = (r, s')" by (elim deferred_Ok)
    then obtain s5 where 5: "attach_with_retry S vmset n m
        (s3\<lparr>diskStateMap := AList.update ?key ''attaching'' (diskStateMap s3)\<rparr>) = (Ok (), s5)"
      "check_attached S C d u n l s5 = (Ok lun, s4)" by (auto elim!: bind_OkE)
    have "\<not> DisableDiskLunCheck s3" using gives_back_check [OF keeps_on_world 3(1)] c2 by simp
    then have "\<not> DisableDiskLunCheck s5" using gives_back_check [OF keeps_vm(2) 5(1)] by simp
    from check_attached_at [OF 5(2) this] 4(2) show ?thesis by (auto simp: delete_disk_state_def)
  qed
qed

lemma AttachDisk_sound_aux:
  assumes "AttachDisk S C d u n cm dsk occ s = (Ok lun, s')" "\<not> DisableDiskLunCheck s"
  shows "attached_at C n (world s') d u lun"
proof -
  let ?go = "\<lambda>options. bind (insertAttachDiskRequest (ToLower u) (ToLower n) (Some options))
      (\<lambda>requestNum. with_lock (ToLower n)
         (bind (initial_delay C requestNum) (\<lambda>_. attach_batch S C d u n dsk occ)))"
  have "(\<exists>mb. attached_elsewhere S C d u n mb s = (Ok lun, s')) \<or>
    bind (lift (disk_attach_options S d u cm dsk)) ?go s = (Ok lun, s')"
    using assms(1) unfolding AttachDisk_def Let_def by (auto split: option.splits if_splits)
  then have "(\<exists>mb. attached_elsewhere S C d u n mb s = (Ok lun, s')) \<or> (\<exists>opts. ?go opts s = (Ok lun, s'))"
    unfolding bind_lift_Ok by blast
  then show ?thesis
  proof (elim disjE exE)
    fix mb assume "attached_elsewhere S C d u n mb s = (Ok lun, s')"
    then obtain st s1 where "GetDiskLun S C d u n s1 = (Ok (lun, st, None), s')"
      unfolding attached_elsewhere_def by (auto elim!: bind_OkE split: if_splits option.splits)
    then show ?thesis using GetDiskLun_found find_lun_Some by (fastforce simp: attached_at_def)
  next
    fix opts assume a: "bind (insertAttachDiskRequest (ToLower u) (ToLower n) (Some opts))
      (\<lambda>requestNum. with_lock (ToLower n)
         (bind (initial_delay C requestNum) (\<lambda>_. attach_batch S C d u n dsk occ))) s = (Ok lun, s')"
    then obtain k s1 where 1: "insertAttachDiskRequest (ToLower u) (ToLower n) (Some opts) s = (Ok k, s1)"
      "with_lock (ToLower n) (bind (initial_delay C k) (\<lambda>_. attach_batch S C d u n dsk occ)) s1 = (Ok lun, s')"
      by (rule bind_OkE)
    from 1(2) obtain lm s2 lm' where 2: "bind (initial_delay C k) (\<lambda>_. attach_batch S C d u n dsk occ)
        (s1\<lparr>cc_lockMap := lm\<rparr>) = (Ok lun, s2)" "s' = s2\<lparr>cc_lockMap := lm'\<rparr>" by (rule with_lock_Ok)
    then obtain s3 where 3: "initial_delay C k (s1\<lparr>cc_lockMap := lm\<rparr>) = (Ok (), s3)"
      "attach_batch S C d u n dsk occ s3 = (Ok lun, s2)" by (auto elim!: bind_OkE)
    have "\<not> DisableDiskLunCheck s1" using gives_back_check [OF keeps_queues(1) 1(1)] assms(2) by simp
    then have "\<not> DisableDiskLunCheck s3" using gives_back_check [OF keeps_delay 3(1)] by simp
    from attach_batch_at [OF 3(2) this] 2(2) show ?thesis by simp
  qed
qed

text \<open>C2. An attach that succeeds (with the LUN check on, as it is by default) returns a LUN at which
  the machine itself reports the disk, as the last thing the driver asked; the disk is not one that
  is being detached. The report is of the node asked for, whichever batch attached the disk.\<close>

theorem AttachDisk_sound:
  assumes "AttachDisk S C d u n cm dsk occ s = (Ok lun, s')" "\<not> DisableDiskLunCheck s"
  shows "attached_at C n (world s') d u lun"
  using AttachDisk_sound_aux [OF assms] .

text \<open>A cloud with one machine, whose disks are the world.\<close>

definition vmset1 :: "data_disk list vmset" where
  "vmset1 = \<lparr>
     vs_AttachDisk = (\<lambda>n m w. (Ok (), w @ map (\<lambda>(u, o'). lun_disk (ao_Lun (the o')) u) m)),
     vs_DetachDisk = (\<lambda>n m force w.
       (Ok (), filter (\<lambda>d. \<forall>u \<in> fst ` set m. dd_ManagedDisk d \<noteq> Some (Some u)) w)),
     vs_UpdateVM = (\<lambda>n w. (Ok (), w)),
     vs_GetDataDisks = (\<lambda>n crt w. ((w, Some ''Succeeded'', None), w)),
     vs_GetNodeNameByProviderID = (\<lambda>p w. (Ok p, w)),
     vs_DeleteCacheForNode = (\<lambda>n w. (Ok (), w))\<rparr>"

definition no_disk_client :: "'w disk_client" where
  "no_disk_client = \<lparr>
     dc_Get = (\<lambda>rg n. fail (Errorf ''no client'')), dc_CreateOrUpdate = (\<lambda>rg n d. fail (Errorf ''no client'')),
     dc_Delete = (\<lambda>rg n. fail (Errorf ''no client'')), dc_Patch = (\<lambda>rg n gb. fail (Errorf ''no client'')),
     dc_ListByResourceGroup = (\<lambda>rg. fail (Errorf ''no client''))\<rparr>"

definition no_snapshot_client :: "'w snapshot_client" where
  "no_snapshot_client = \<lparr>
     sc_Get = (\<lambda>rg n. fail (Errorf ''no client'')), sc_CreateOrUpdate = (\<lambda>rg n s. fail (Errorf ''no client'')),
     sc_Delete = (\<lambda>rg n. fail (Errorf ''no client'')), sc_List = (\<lambda>rg. fail (Errorf ''no client''))\<rparr>"

definition cloud1 :: "data_disk list cloud" where
  "cloud1 = \<lparr>cl_ResourceGroup = ''rg'', cl_SubscriptionID = ''sub'', cl_Location = ''eastus'',
     cl_HasExtendedLocation = False, cl_ExtendedLocationName = [], cl_ExtendedLocationType = [],
     cl_GetZoneID = (\<lambda>z. z), cl_GetNodeVMSet = (\<lambda>n crt w. (Ok vmset1, w)),
     cl_InstanceID = (\<lambda>n w. (Ok n, w)),
     cl_GetDiskClientForSub = (\<lambda>subs. Err (Errorf ''no client'')),
     cl_Sleep = (\<lambda>ms w. w), cl_Cloud = ''AzurePublicCloud'', cl_DisableAzureStackCloud = False,
     cl_KubeClient = None, cl_VMSet_GetNodeNameByProviderID = (\<lambda>p w. (Ok p, w)),
     cl_GetDiskClient = no_disk_client, cl_GetSnapshotClient = no_snapshot_client,
     cl_GetSnapshotClientForSub = (\<lambda>subs. Err (Errorf ''no client''))\<rparr>"

definition cc1 :: "data_disk list \<Rightarrow> data_disk list controllerCommon" where
  "cc1 w = \<lparr>diskStateMap = [], cc_lockMap = newLockMap, attachDiskMap = [], detachDiskMap = [],
     DisableUpdateCache = False, DisableDiskLunCheck = False,
     AttachDetachInitialDelayInMs = defaultAttachDetachInitialDelayInMs, ForceDetachBackoff = False,
     world = w\<rparr>"

theorem AttachDisk_sound_witness:
  "\<exists>s'. AttachDisk sdk0 cloud1 ''d'' ''/Disks/D'' ''node'' ''None'' None [0] (cc1 [lun_disk 1 ''/disks/x'']) = (Ok 2, s') \<and>
     attached_at cloud1 ''node'' (world s') ''d'' ''/Disks/D'' 2"
proof -
  let ?r = "AttachDisk sdk0 cloud1 ''d'' ''/Disks/D'' ''node'' ''None'' None [0] (cc1 [lun_disk 1 ''/disks/x''])"
  have "fst ?r = Ok 2" by code_simp
  then obtain s' where r: "?r = (Ok 2, s')" by (cases ?r) auto
  have "\<not> DisableDiskLunCheck (cc1 [lun_disk 1 ''/disks/x''])" by (simp add: cc1_def)
  from AttachDisk_sound [OF r this] r show ?thesis by blast
qed

text \<open>The machine does not report the disk any more, or only as one that is being detached.\<close>

definition not_reported :: "'w cloud \<Rightarrow> string \<Rightarrow> 'w \<Rightarrow> string \<Rightarrow> string \<Rightarrow> bool" where
  "not_reported C n w d u \<longleftrightarrow>
     (\<exists>disks. reported C n w disks None \<and>
        (\<forall>x \<in> set disks. disk_matches d u x = Ok True \<longrightarrow> dd_ToBeDetached x = Some True))"

text \<open>The question itself failed, with a text that the driver takes for the absence of the disk.\<close>

definition report_fails_as_absent :: "sdk \<Rightarrow> 'w cloud \<Rightarrow> string \<Rightarrow> 'w \<Rightarrow> bool" where
  "report_fails_as_absent S C n w \<longleftrightarrow>
     (\<exists>disks e. reported C n w disks (Some e) \<and> Contains (Error e) (CannotFindDiskLUN S))"

text \<open>What the driver takes for the absence of the disk.\<close>

definition detached_from :: "sdk \<Rightarrow> 'w cloud \<Rightarrow> string \<Rightarrow> 'w \<Rightarrow> string \<Rightarrow> string \<Rightarrow> bool" where
  "detached_from S C n w d u \<longleftrightarrow> not_reported C n w d u \<or> report_fails_as_absent S C n w"

lemma check_detached_from:
  assumes "check_detached S C d u n s = (Ok (), s')" "\<not> DisableDiskLunCheck s"
  shows "detached_from S C n (world s') d u"
proof -
  obtain lun st e where g: "GetDiskLun S C d u n s = (Ok (lun, st, Some e), s')"
    and e: "Contains (Error e) (CannotFindDiskLUN S)"
    using assms by (auto simp: check_detached_def Let_def elim!: bind_OkE split: option.splits if_splits)
  obtain disks err where r: "reported C n (world s') disks err"
    "err = None \<and> find_lun d u disks = Ok None \<or> err = Some e"
    using GetDiskLun_not_found [OF g] by blast
  from r(2) show ?thesis
  proof
    assume "err = None \<and> find_lun d u disks = Ok None"
    with r(1) find_lun_None show ?thesis unfolding detached_from_def not_reported_def by blast
  next
    assume "err = Some e"
    with r(1) e show ?thesis unfolding detached_from_def report_fails_as_absent_def by blast
  qed
qed

lemma detach_batch_from:
  assumes "detach_batch S C vs d u n s = (Ok (), s')" "\<not> DisableDiskLunCheck s"
  shows "detached_from S C n (world s') d u \<or>
    (\<exists>m e w. vs_DetachDisk vs n m False w = (Err e, world s') \<and> isInstanceNotFoundError S e)"
proof -
  obtain m s1 where 1: "cleanDetachDiskRequests (ToLower n) s = (Ok m, s1)"
    and k: "(if m \<noteq> [] then
            bind (set_disk_state (URIKey (ToLower u)) ''detaching'')
              (\<lambda>_. deferred (delete_disk_state (URIKey (ToLower u)))
                 (call (on_world (vs_DetachDisk vs n m False))
                    (\<lambda>err. bind get_state (\<lambda>s.
                       if isInstanceNotFoundError S err then ret ()
                       else if ForceDetachBackoff s \<and> \<not> IsThrottlingError (Some err) then
                         bind (on_world (vs_DetachDisk vs n m True)) (\<lambda>_. check_detached S C d u n)
                       else fail err))
                    (\<lambda>_. check_detached S C d u n)))
          else check_detached S C d u n) s1 = (Ok (), s')"
    using assms(1) unfolding detach_batch_def by (rule bind_OkE)
  have c1: "\<not> DisableDiskLunCheck s1" using gives_back_check [OF keeps_queues(4) 1] assms(2) by simp
  show ?thesis
  proof (cases "m = []")
    case True
    with k c1 check_detached_from show ?thesis by auto
  next
    case False
    let ?s2 = "s1\<lparr>diskStateMap := AList.update (URIKey (ToLower u)) ''detaching'' (diskStateMap s1)\<rparr>"
    from k False obtain s3 r where 3: "call (on_world (vs_DetachDisk vs n m False))
                    (\<lambda>err. bind get_state (\<lambda>s.
                       if isInstanceNotFoundError S err then ret ()
                       else if ForceDetachBackoff s \<and> \<not> IsThrottlingError (Some err) then
                         bind (on_world (vs_DetachDisk vs n m True)) (\<lambda>_. check_detached S C d u n)
                       else fail err))
                    (\<lambda>_. check_detached S C d u n) ?s2 = (Ok (), s3)"
      "delete_disk_state (URIKey (ToLower u)) s3 = (r, s')"
      by (auto simp: set_disk_state_def elim!: bind_OkE deferred_Ok)
    have w: "world s' = world s3" using 3(2) by (auto simp: delete_disk_state_def)
    have c2: "\<not> DisableDiskLunCheck ?s2" using c1 by simp
    from 3(1) show ?thesis
    proof (cases rule: call_cases)
      case (1 x s4)
      then have "\<not> DisableDiskLunCheck s4" using gives_back_check [OF keeps_on_world 1(1)] c2 by simp
      with 1(2) w check_detached_from show ?thesis by metis
    next
      case (2 e s4)
      show ?thesis
      proof (cases "isInstanceNotFoundError S e")
        case True
        with 2 w have "vs_DetachDisk vs n m False (world ?s2) = (Err e, world s')"
          by (auto dest: on_world_res)
        with True show ?thesis by blast
      next
        case False
        with 2(2) obtain s5 where 5: "on_world (vs_DetachDisk vs n m True) s4 = (Ok (), s5)"
          "check_detached S C d u n s5 = (Ok (), s3)"
          by (auto elim!: bind_OkE split: if_splits)
        have "gives_back ?s2 s4" using keepsD [OF keeps_on_world 2(1)] by simp
        then have "\<not> DisableDiskLunCheck s5"
          using gives_back_check [OF keeps_on_world 5(1)] c2 by (simp add: gives_back_def)
        with 5(2) w check_detached_from show ?thesis by metis
      qed
    qed simp
  qed
qed

lemma DetachDisk_sound_aux:
  assumes "DetachDisk S C d u n s = (Ok (), s')" "\<not> DisableDiskLunCheck s"
  shows "detached_from S C n (world s') d u \<or>
    (\<exists>e w. cl_InstanceID C n w = (Err e, world s') \<and> is_InstanceNotFound e) \<or>
    (\<exists>vs w0 w1 m e w. cl_GetNodeVMSet C n CacheReadTypeUnsafe w0 = (Ok vs, w1) \<and>
       vs_DetachDisk vs n m False w = (Err e, world s') \<and> isInstanceNotFoundError S e)"
  using assms(1) unfolding DetachDisk_def
proof (cases rule: call_cases)
  case (1 i s1)
  obtain vs s2 k s3 where 2: "on_world (cl_GetNodeVMSet C n CacheReadTypeUnsafe) s1 = (Ok vs, s2)"
    "insertDetachDiskRequest d (ToLower u) (ToLower n) s2 = (Ok k, s3)"
    "with_lock (ToLower n) (bind (initial_delay C k) (\<lambda>_. detach_batch S C vs d u n)) s3 = (Ok (), s')"
    using 1(2) by (auto elim!: bind_OkE)
  from 2(3) obtain lm s4 lm' where 3: "bind (initial_delay C k) (\<lambda>_. detach_batch S C vs d u n)
      (s3\<lparr>cc_lockMap := lm\<rparr>) = (Ok (), s4)" "s' = s4\<lparr>cc_lockMap := lm'\<rparr>" by (rule with_lock_Ok)
  then obtain s5 where 4: "initial_delay C k (s3\<lparr>cc_lockMap := lm\<rparr>) = (Ok (), s5)"
    "detach_batch S C vs d u n s5 = (Ok (), s4)" by (auto elim!: bind_OkE)
  have "\<not> DisableDiskLunCheck s3"
    using gives_back_check [OF keeps_on_world 1(1)] gives_back_check [OF keeps_on_world 2(1)]
      gives_back_check [OF keeps_queues(3) 2(2)] assms(2) by simp
  then have "\<not> DisableDiskLunCheck s5" using gives_back_check [OF keeps_delay 4(1)] by simp
  from detach_batch_from [OF 4(2) this] 3(2)
  consider "detached_from S C n (world s') d u"
    | m e w where "vs_DetachDisk vs n m False w = (Err e, world s')" "isInstanceNotFoundError S e" by auto
  then show ?thesis using on_world_res [OF 2(1)] by cases blast+
next
  case (2 e s1)
  then have "is_InstanceNotFound e" "s' = s1" by (auto split: if_splits)
  with on_world_res [OF 2(1)] show ?thesis by blast
qed simp

text \<open>C5. What a detach that succeeds (with the LUN check on) has found out at its end: the machine does not
  report the disk, or reports it as being detached. There are only three other ways to succeed, none of
  which is a report of absence: the report itself failed with an error whose text is the one the driver
  uses for a disk that is not there; the cloud did not know the machine when it was asked for its
  identity; or it did not know the machine when it was asked to detach.\<close>

theorem DetachDisk_sound:
  assumes "DetachDisk S C d u n s = (Ok (), s')" "\<not> DisableDiskLunCheck s"
  shows "not_reported C n (world s') d u \<or>
    report_fails_as_absent S C n (world s') \<or>
    (\<exists>e w. cl_InstanceID C n w = (Err e, world s') \<and> is_InstanceNotFound e) \<or>
    (\<exists>vs w0 w1 m e w. cl_GetNodeVMSet C n CacheReadTypeUnsafe w0 = (Ok vs, w1) \<and>
       vs_DetachDisk vs n m False w = (Err e, world s') \<and> isInstanceNotFoundError S e)"
  using DetachDisk_sound_aux [OF assms] unfolding detached_from_def by blast

theorem DetachDisk_sound_witness:
  "\<exists>s'. DetachDisk sdk0 cloud1 ''d'' ''/disks/d'' ''node'' (cc1 [lun_disk 1 ''/disks/d'']) = (Ok (), s') \<and> world s' = []"
proof -
  let ?r = "DetachDisk sdk0 cloud1 ''d'' ''/disks/d'' ''node'' (cc1 [lun_disk 1 ''/disks/d''])"
  have "fst ?r = Ok ()" "world (snd ?r) = []" by code_simp+
  then obtain s' where r: "?r = (Ok (), s')" "world s' = []" by (cases ?r) auto
  have "\<not> DisableDiskLunCheck (cc1 [lun_disk 1 ''/disks/d''])" by (simp add: cc1_def)
  from DetachDisk_sound [OF r(1) this] r show ?thesis by blast
qed

text \<open>C6. Attaching, detaching and updating a machine give back what they take: when they return,
  exactly the locks are held that were held before, and no disk carries an attaching or detaching
  mark it did not carry before, on success and on every error.\<close>

theorem attach_detach_give_back:
  "(AttachDisk S C d u n cm dsk occ s = (r, s') \<and> r \<noteq> Panic \<longrightarrow> gives_back s s') \<and>
   (DetachDisk S C d u n s = (r', s'') \<and> r' \<noteq> Panic \<longrightarrow> gives_back s s'') \<and>
   (UpdateVM C n s = (r', s'') \<and> r' \<noteq> Panic \<longrightarrow> gives_back s s'')"
  using keepsD [OF keeps_AttachDisk, of S C d u n cm dsk occ s r s']
    keepsD [OF keeps_DetachDisk, of S C d u n s r' s''] keepsD [OF keeps_vm(1), of C n s r' s''] by blast

theorem attach_detach_give_back_witness:
  "\<exists>s'. DetachDisk sdk0 cloud1 ''d'' ''/disks/d'' ''node'' (cc1 []) = (Ok (), s') \<and> gives_back (cc1 []) s'"
proof -
  let ?r = "DetachDisk sdk0 cloud1 ''d'' ''/disks/d'' ''node'' (cc1 [])"
  have "fst ?r = Ok ()" by code_simp
  then obtain s' where r: "?r = (Ok (), s')" by (cases ?r) auto
  with attach_detach_give_back [where S = sdk0 and C = cloud1 and d = "''d''" and u = "''/disks/d''" and
      n = "''node''" and s = "cc1 []" and r' = "Ok ()" and s'' = s'] show ?thesis by auto
qed

end
