(* ===== verification/ManagedDisk.thy ===== *)
theory ManagedDisk
  imports ControllerCommon
begin

text \<open>
  The file \<open>pkg/azuredisk/azure_managedDiskController.go\<close> and the parts of
  \<open>azure_controller_common.go\<close> that use the disk client: creating, reading, deleting and resizing a
  managed disk, and whether a disk exists. A \<open>resource.Quantity\<close> is its number of bytes.
\<close>

section \<open>Options and URIs\<close>

record ManagedDiskOptions =
  mdo_StorageAccountType :: string
  mdo_DiskName :: string
  mdo_PVCName :: string
  mdo_ResourceGroup :: string
  mdo_AvailabilityZone :: string
  mdo_Tags :: str_map
  mdo_DiskIOPSReadWrite :: string
  mdo_DiskMBpsReadWrite :: string
  mdo_SourceResourceID :: string
  mdo_SourceType :: string
  mdo_DiskEncryptionSetID :: string
  mdo_DiskEncryptionType :: string
  mdo_SizeGB :: int
  mdo_MaxShares :: int
  mdo_LogicalSectorSize :: int
  mdo_SkipGetDiskOperation :: bool
  mdo_PublicNetworkAccess :: string
  mdo_NetworkAccessPolicy :: string
  mdo_DiskAccessID :: "string option"
  mdo_BurstingEnabled :: "bool option"
  mdo_SubscriptionID :: string
  mdo_Location :: string
  mdo_PerformancePlus :: "bool option"

definition NewManagedDiskController :: "'w \<Rightarrow> 'w controllerCommon" where
  "NewManagedDiskController w =
     \<lparr>diskStateMap = [], cc_lockMap = newLockMap, attachDiskMap = [], detachDiskMap = [],
      DisableUpdateCache = False, DisableDiskLunCheck = False,
      AttachDetachInitialDelayInMs = defaultAttachDetachInitialDelayInMs, ForceDetachBackoff = False,
      world = w\<rparr>"

text \<open>The resource group and the subscription of a disk URI.\<close>

definition getInfoFromDiskURI :: "string \<Rightarrow> (string \<times> string) res" where
  "getInfoFromDiskURI diskURI =
     (let fields = Split diskURI (CHR ''/'')
      in if length fields \<noteq> 9 \<or> ToLower (fields ! 3) \<noteq> ''resourcegroups''
         then Err (Errorf (''invalid disk URI: '' @ diskURI))
         else Ok (fields ! 4, fields ! 2))"

definition sourceSnapshot :: string where
  "sourceSnapshot = ''snapshot''"

definition sourceVolume :: string where
  "sourceVolume = ''volume''"

text \<open>The expressions of this package, which distinguish case.\<close>

definition managedDiskPathRE :: "ritem list" where
  "managedDiskPathRE = managed_prefix lits ''disks/'' @ [Cap not_nl]"

definition diskSnapshotPathRE_cs :: "ritem list" where
  "diskSnapshotPathRE_cs = managed_prefix lits ''snapshots/'' @ [Cap not_nl]"

definition managedDiskPath :: "string \<Rightarrow> string \<Rightarrow> string \<Rightarrow> string" where
  "managedDiskPath subs rg name =
     ''/subscriptions/'' @ subs @ ''/resourceGroups/'' @ rg @
     ''/providers/Microsoft.Compute/disks/'' @ name"

definition cs_RE_String :: "string \<Rightarrow> string" where
  "cs_RE_String kind =
     ''.*/subscriptions/(?:.*)/resourceGroups/(?:.*)/providers/Microsoft.Compute/'' @ kind @ ''/(.+)''"

definition getValidCreationData :: "string \<Rightarrow> string \<Rightarrow> ManagedDiskOptions \<Rightarrow> creation_data res" where
  "getValidCreationData subscriptionID resourceGroup options =
     (let empty = empty_creation\<lparr>cd_PerformancePlus := mdo_PerformancePlus options\<rparr>;
          src = mdo_SourceResourceID options; sourceType = mdo_SourceType options
      in if src = [] then Ok empty
         else if sourceType \<noteq> sourceSnapshot \<and> sourceType \<noteq> sourceVolume then Ok empty
         else
           (let source =
                  (if sourceType = sourceSnapshot then
                     (if \<not> MatchFound diskSnapshotPathRE_cs src
                      then diskSnapshotPath subscriptionID resourceGroup src else src)
                   else
                     (if \<not> MatchFound managedDiskPathRE src
                      then managedDiskPath subscriptionID resourceGroup src else src));
                splits = Split source (CHR ''/'')
            in if length splits > 9 then
                 (if sourceType = sourceSnapshot then
                    Err (Errorf (''sourceResourceID('' @ source @ '') is invalid, correct format: '' @
                          cs_RE_String ''snapshots''))
                  else
                    Err (Errorf (''sourceResourceID('' @ source @ '') is invalid, correct format: '' @
                          cs_RE_String ''disks'')))
               else Ok (empty\<lparr>cd_CreateOption := CreateOptionCopy, cd_SourceResourceID := Some source\<rparr>)))"

section \<open>Existence of a disk\<close>

definition checkDiskExists :: "'w cloud \<Rightarrow> string \<Rightarrow> ('w, bool) cc_io" where
  "checkDiskExists C diskURI =
     bind (lift (getInfoFromDiskURI diskURI))
       (\<lambda>(resourceGroup, subsID). bind (lift (cl_GetDiskClientForSub C subsID))
          (\<lambda>diskClient. call (on_world (dc_Get diskClient resourceGroup (Base diskURI)))
             (\<lambda>err. if as_ResponseError err = Some StatusNotFound then ret False else fail err)
             (\<lambda>_. ret True)))"

fun filterNonExistingDisks :: "'w cloud \<Rightarrow> data_disk list \<Rightarrow> ('w, data_disk list) cc_io" where
  "filterNonExistingDisks C [] = ret []"
| "filterNonExistingDisks C (d # ds) =
     (let keep = bind (filterNonExistingDisks C ds) (\<lambda>rest. ret (d # rest))
      in case dd_ManagedDisk d of
           Some (Some diskURI) \<Rightarrow>
             call (checkDiskExists C diskURI)
               (\<lambda>err. keep)
               (\<lambda>exist. if \<not> exist then filterNonExistingDisks C ds else keep)
         | _ \<Rightarrow> keep)"

section \<open>Creating a disk\<close>

text \<open>The network options.\<close>

definition network_properties ::
    "sdk \<Rightarrow> ManagedDiskOptions \<Rightarrow> disk_properties \<Rightarrow> disk_properties res" where
  "network_properties S options p =
     (let p1 = (if mdo_PublicNetworkAccess options \<noteq> []
                then p\<lparr>prop_PublicNetworkAccess := Some (mdo_PublicNetworkAccess options)\<rparr> else p);
          policy = mdo_NetworkAccessPolicy options
      in if policy = [] then Ok p1
         else if policy = NetworkAccessPolicyAllowPrivate S then
           (case mdo_DiskAccessID options of
              None \<Rightarrow> Err (Errorf ''DiskAccessID should not be empty when NetworkAccessPolicy is AllowPrivate'')
            | Some i \<Rightarrow> Ok (p1\<lparr>prop_NetworkAccessPolicy := Some policy, prop_DiskAccessID := Some i\<rparr>))
         else
           (case mdo_DiskAccessID options of
              Some i \<Rightarrow> Err (Errorf (''DiskAccessID('' @ i @ '') must be empty when NetworkAccessPolicy('' @
                          policy @ '') is not AllowPrivate''))
            | None \<Rightarrow> Ok (p1\<lparr>prop_NetworkAccessPolicy := Some policy\<rparr>)))"

text \<open>A provisioned performance figure: given, or the default of an ultra disk.\<close>

definition provisioned :: "string \<Rightarrow> string \<Rightarrow> bool \<Rightarrow> int \<Rightarrow> int option res" where
  "provisioned field given isUltra deflt =
     (if given = [] then Ok (if isUltra then Some deflt else None)
      else (case Atoi given of
              Ok v \<Rightarrow> Ok (Some v)
            | Err err \<Rightarrow> Err (Wrapped (''AzureDisk - failed to parse '' @ field @ '': '') err)
            | Panic \<Rightarrow> Panic))"

definition performance_properties ::
    "sdk \<Rightarrow> ManagedDiskOptions \<Rightarrow> disk_properties \<Rightarrow> disk_properties res" where
  "performance_properties S options p =
     (let diskSku = mdo_StorageAccountType options;
          isUltra = (diskSku = DiskStorageAccountTypesUltraSSDLRS S)
      in if isUltra \<or> diskSku = DiskStorageAccountTypesPremiumV2LRS S then
           (case provisioned ''DiskIOPSReadWrite'' (mdo_DiskIOPSReadWrite options) isUltra (DefaultDiskIOPSReadWrite S) of
              Err e \<Rightarrow> Err e | Panic \<Rightarrow> Panic
            | Ok iops \<Rightarrow>
               (case provisioned ''DiskMBpsReadWrite'' (mdo_DiskMBpsReadWrite options) isUltra (DefaultDiskMBpsReadWrite S) of
                  Err e \<Rightarrow> Err e | Panic \<Rightarrow> Panic
                | Ok mbps \<Rightarrow>
                   Ok (p\<lparr>prop_DiskIOPSReadWrite := iops, prop_DiskMBpsReadWrite := mbps,
                         prop_CreationData :=
                           (if mdo_LogicalSectorSize options \<noteq> 0
                            then map_option (\<lambda>cd. cd\<lparr>cd_LogicalSectorSize := Some (mdo_LogicalSectorSize options)\<rparr>)
                                   (prop_CreationData p)
                            else prop_CreationData p)\<rparr>)))
         else if mdo_DiskIOPSReadWrite options \<noteq> [] then
           Err (Errorf ''AzureDisk - DiskIOPSReadWrite parameter is only applicable in UltraSSD_LRS disk type'')
         else if mdo_DiskMBpsReadWrite options \<noteq> [] then
           Err (Errorf ''AzureDisk - DiskMBpsReadWrite parameter is only applicable in UltraSSD_LRS disk type'')
         else if mdo_LogicalSectorSize options \<noteq> 0 then
           Err (Errorf ''AzureDisk - LogicalSectorSize parameter is only applicable in UltraSSD_LRS disk type'')
         else Ok p)"

definition encryption_properties ::
    "sdk \<Rightarrow> ManagedDiskOptions \<Rightarrow> disk_properties \<Rightarrow> disk_properties res" where
  "encryption_properties S options p =
     (let des = mdo_DiskEncryptionSetID options; encType = mdo_DiskEncryptionType options
      in if des \<noteq> [] then
           (if Index (ToLower des) ''/subscriptions/'' \<noteq> 0 then
              Err (Errorf (''AzureDisk - format of DiskEncryptionSetID('' @ des @
                    '') is incorrect, correct format: '' @ DiskEncryptionSetIDFormat S))
            else Ok (p\<lparr>prop_Encryption := Some
                   \<lparr>enc_DiskEncryptionSetID = Some des,
                    enc_Type = Some (if encType \<noteq> [] then encType
                                     else EncryptionTypeEncryptionAtRestWithCustomerKey S)\<rparr>\<rparr>))
         else if encType \<noteq> [] then
           Err (Errorf (''AzureDisk - DiskEncryptionType('' @ encType @
                 '') should be empty when DiskEncryptionSetID is not set''))
         else Ok p)"

definition base_properties :: "ManagedDiskOptions \<Rightarrow> creation_data \<Rightarrow> disk_properties" where
  "base_properties options creationData =
     \<lparr>prop_DiskSizeGB = Some (to_int32 (mdo_SizeGB options)), prop_DiskState = None,
      prop_ProvisioningState = None, prop_CreationData = Some creationData, prop_Encryption = None,
      prop_DiskIOPSReadWrite = None, prop_DiskMBpsReadWrite = None, prop_MaxShares = None,
      prop_NetworkAccessPolicy = None, prop_PublicNetworkAccess = None, prop_DiskAccessID = None,
      prop_BurstingEnabled = mdo_BurstingEnabled options, prop_DataAccessAuthMode = None,
      prop_HyperVGeneration = None\<rparr>"

text \<open>The properties of the new disk, checked in the order of the code.\<close>

definition disk_properties_of ::
    "sdk \<Rightarrow> ManagedDiskOptions \<Rightarrow> creation_data \<Rightarrow> disk_properties res" where
  "disk_properties_of S options creationData =
     (case network_properties S options (base_properties options creationData) of
        Err e \<Rightarrow> Err e | Panic \<Rightarrow> Panic
      | Ok p1 \<Rightarrow>
         (case performance_properties S options p1 of
            Err e \<Rightarrow> Err e | Panic \<Rightarrow> Panic
          | Ok p2 \<Rightarrow>
             (case encryption_properties S options p2 of
                Err e \<Rightarrow> Err e | Panic \<Rightarrow> Panic
              | Ok p3 \<Rightarrow>
                 Ok (if mdo_MaxShares options > 1
                     then p3\<lparr>prop_MaxShares := Some (mdo_MaxShares options)\<rparr> else p3))))"

definition create_zones :: "'w cloud \<Rightarrow> ManagedDiskOptions \<Rightarrow> string list" where
  "create_zones C options =
     (if mdo_AvailabilityZone options \<noteq> [] then
        (let requestedZone = cl_GetZoneID C (mdo_AvailabilityZone options)
         in if requestedZone \<noteq> [] then [requestedZone] else [])
      else [])"

definition new_tags :: "sdk \<Rightarrow> ManagedDiskOptions \<Rightarrow> str_map" where
  "new_tags S options =
     fold (\<lambda>(k, v). AList.update k v) (mdo_Tags options) [(CreatedByTag S, ''kubernetes-azure-dd'')]"

definition disk_model :: "sdk \<Rightarrow> 'w cloud \<Rightarrow> ManagedDiskOptions \<Rightarrow> disk_properties \<Rightarrow> disk" where
  "disk_model S C options p =
     \<lparr>disk_ID = None, disk_Name = None,
      disk_Location = Some (if mdo_Location options \<noteq> [] then mdo_Location options else cl_Location C),
      disk_SKU = Some (mdo_StorageAccountType options), disk_ManagedBy = None,
      disk_ManagedByExtended = [], disk_Zones = create_zones C options,
      disk_ExtendedLocation = (if cl_HasExtendedLocation C
        then Some (cl_ExtendedLocationName C, cl_ExtendedLocationType C) else None),
      disk_Tags = new_tags S options, disk_Properties = Some p\<rparr>"

text \<open>The provisioning state and the id of a disk.\<close>

definition GetDisk :: "'w cloud \<Rightarrow> string \<Rightarrow> string \<Rightarrow> string \<Rightarrow> ('w, string \<times> string) cc_io" where
  "GetDisk C subsID resourceGroup diskName =
     bind (lift (cl_GetDiskClientForSub C subsID))
       (\<lambda>diskclient. bind (on_world (dc_Get diskclient resourceGroup diskName))
          (\<lambda>result.
             case disk_Properties result of
               Some p \<Rightarrow>
                 (case prop_ProvisioningState p of
                    Some st \<Rightarrow> (case disk_ID result of Some i \<Rightarrow> ret (st, i) | None \<Rightarrow> panic)
                  | None \<Rightarrow> ret ([], []))
             | None \<Rightarrow> ret ([], [])))"

text \<open>
  The polling of the new disk until it is provisioned: \<open>attempts\<close> is the number of times the backoff
  calls its condition at most, 20 by \<open>defaultBackOff\<close>, less when the context ends before. The
  result is the id of the disk; an error of the polling is only logged.
\<close>

fun poll_disk :: "nat \<Rightarrow> 'w cloud \<Rightarrow> string \<Rightarrow> string \<Rightarrow> string \<Rightarrow> string \<Rightarrow> ('w, string) cc_io" where
  "poll_disk 0 C subsID rg diskName diskID = ret diskID"
| "poll_disk (Suc attempts) C subsID rg diskName diskID =
     call (GetDisk C subsID rg diskName)
       (\<lambda>err. ret diskID)
       (\<lambda>(provisionState, i).
          let diskID' = (if i \<noteq> [] then i else diskID)
          in if ToLower provisionState = ''succeeded'' then ret diskID'
             else poll_disk attempts C subsID rg diskName diskID')"

definition CreateManagedDisk ::
    "sdk \<Rightarrow> 'w cloud \<Rightarrow> nat \<Rightarrow> ManagedDiskOptions \<Rightarrow> ('w, string) cc_io" where
  "CreateManagedDisk S C attempts options =
     (let rg = (if mdo_ResourceGroup options \<noteq> [] then mdo_ResourceGroup options else cl_ResourceGroup C);
          subsID = (if mdo_SubscriptionID options \<noteq> [] then mdo_SubscriptionID options else cl_SubscriptionID C)
      in if mdo_SubscriptionID options \<noteq> [] \<and>
            \<not> EqualFold (mdo_SubscriptionID options) (cl_SubscriptionID C) \<and> mdo_ResourceGroup options = []
         then fail (Errorf (''resourceGroup must be specified when subscriptionID('' @
                     mdo_SubscriptionID options @ '') is not empty''))
         else
           bind (lift (getValidCreationData subsID rg options))
             (\<lambda>creationData. bind (lift (disk_properties_of S options creationData))
                (\<lambda>p. bind (lift (cl_GetDiskClientForSub C subsID))
                   (\<lambda>diskClient.
                      bind (on_world (dc_CreateOrUpdate diskClient rg (mdo_DiskName options) (disk_model S C options p)))
                        (\<lambda>_.
                           let diskID = managedDiskPath subsID rg (mdo_DiskName options)
                           in if mdo_SkipGetDiskOperation options then ret diskID
                              else poll_disk attempts C subsID rg (mdo_DiskName options) diskID)))))"

section \<open>Deleting and resizing a disk\<close>

definition DeleteManagedDisk :: "'w cloud \<Rightarrow> string \<Rightarrow> ('w, unit) cc_io" where
  "DeleteManagedDisk C diskURI =
     bind (lift (getInfoFromDiskURI diskURI))
       (\<lambda>(resourceGroup, subsID). bind get_state
          (\<lambda>s. case map_of (diskStateMap s) (URIKey (ToLower diskURI)) of
             Some st \<Rightarrow> fail (Errorf (''failed to delete disk('' @ diskURI @ '') since it's in '' @ st @ '' state''))
           | None \<Rightarrow>
               bind (lift (cl_GetDiskClientForSub C subsID))
                 (\<lambda>diskClient.
                    call (on_world (dc_Get diskClient resourceGroup (Base diskURI)))
                      (\<lambda>err. if as_ResponseError err = Some StatusNotFound then ret () else fail err)
                      (\<lambda>d. case disk_ManagedBy d of
                           Some node \<Rightarrow> fail (Errorf (''disk('' @ diskURI @ '') already attached to node('' @
                             node @ ''), could not be deleted''))
                         | None \<Rightarrow> on_world (dc_Delete diskClient resourceGroup (Base diskURI))))))"

text \<open>\<open>RoundUpToGiBInt32\<close> is the function of \<open>k8s.io/cloud-provider/volume/helpers\<close>. The size that
  comes with an error is the old one and is not part of the result.\<close>

definition ResizeDisk ::
    "sdk \<Rightarrow> 'w cloud \<Rightarrow> (int \<Rightarrow> int res) \<Rightarrow> string \<Rightarrow> int \<Rightarrow> bool \<Rightarrow> ('w, int) cc_io" where
  "ResizeDisk S C RoundUpToGiBInt32 diskURI newSize supportOnlineResize =
     bind (lift (getInfoFromDiskURI diskURI))
       (\<lambda>(resourceGroup, subsID). bind (lift (cl_GetDiskClientForSub C subsID))
          (\<lambda>diskClient. bind (on_world (dc_Get diskClient resourceGroup (Base diskURI)))
             (\<lambda>result.
                case Option.bind (disk_Properties result) prop_DiskSizeGB of
                  None \<Rightarrow> fail (Errorf (''DiskProperties of disk('' @ Base diskURI @ '') is nil''))
                | Some gb \<Rightarrow>
                    bind (lift (RoundUpToGiBInt32 newSize))
                      (\<lambda>requestGiB.
                         let newSizeQuant = requestGiB * GiB;
                             patch = bind (on_world (dc_Patch diskClient resourceGroup (Base diskURI) requestGiB))
                                       (\<lambda>_. ret newSizeQuant)
                         in if gb \<ge> requestGiB then ret newSizeQuant
                            else if \<not> supportOnlineResize then
                              (case Option.bind (disk_Properties result) prop_DiskState of
                                 None \<Rightarrow> panic
                               | Some st \<Rightarrow>
                                   if st \<noteq> DiskStateUnattached S then
                                     fail (Errorf (''azureDisk - disk resize is only supported on Unattached disk, current disk state: '' @
                                       st @ '', already attached to '' @
                                       (case disk_ManagedBy result of Some n \<Rightarrow> n | None \<Rightarrow> [])))
                                   else patch)
                            else patch))))"

end
