(* ===== verification/ManagedDiskCorrect.thy ===== *)
theory ManagedDiskCorrect
  imports ManagedDisk ControllerCommonCorrect DiskUtilsCorrect
begin

text \<open>
  What the managed disk controller guarantees: an attached disk is never deleted, the options of a
  new disk are consistent, the id it returns can be read back, and a disk is never shrunk.
\<close>

section \<open>URIs\<close>

lemma managedDiskPath_eq: "managedDiskPath = ManagedDiskPath"
  by (simp add: fun_eq_iff managedDiskPath_def ManagedDiskPath_def)

lemma getInfoFromDiskURI_path:
  assumes "uri_part subs" "uri_part rg" "uri_part n"
  shows "getInfoFromDiskURI (managedDiskPath subs rg n) = Ok (rg, subs)"
proof -
  have "ToLower ''resourceGroups'' = ''resourcegroups''" by code_simp
  then show ?thesis
    by (simp add: getInfoFromDiskURI_def managedDiskPath_eq Split_ManagedDiskPath [OF assms])
qed

lemma Base_last:
  assumes "n \<noteq> []" "CHR ''/'' \<notin> set n"
  shows "Base (a @ ''/'' @ n) = n"
proof -
  have "rev (a @ ''/'' @ n) = rev n @ CHR ''/'' # rev a" by simp
  moreover have "dropWhile (\<lambda>c. c = CHR ''/'') (rev n @ CHR ''/'' # rev a) = rev n @ CHR ''/'' # rev a"
    using assms by (cases n rule: rev_cases) auto
  moreover have "takeWhile (\<lambda>c. c \<noteq> CHR ''/'') (rev n @ CHR ''/'' # rev a) = rev n"
    using assms by (subst takeWhile_append2) auto
  ultimately show ?thesis using assms(1) by (simp add: Base_def Let_def)
qed

section \<open>Deleting\<close>

text \<open>The cloud with another delete operation.\<close>

definition with_delete :: "'w cloud \<Rightarrow> (string \<Rightarrow> string \<Rightarrow> ('w, unit) io) \<Rightarrow> 'w cloud" where
  "with_delete C del = C\<lparr>cl_GetDiskClientForSub := (\<lambda>subs.
     case cl_GetDiskClientForSub C subs of
       Ok dc \<Rightarrow> Ok (dc\<lparr>dc_Delete := del\<rparr>) | Err e \<Rightarrow> Err e | Panic \<Rightarrow> Panic)\<rparr>"

text \<open>C4. A disk that the service reports as attached, or that is being detached by this driver, is
  not deleted: the call fails and the delete operation of the service is not invoked, whatever it
  would do. A disk the service does not know counts as deleted.\<close>

theorem DeleteManagedDisk_guarded:
  assumes "getInfoFromDiskURI u = Ok (rg, subs)" "cl_GetDiskClientForSub C subs = Ok dc"
  shows "(map_of (diskStateMap s) (URIKey (ToLower u)) \<noteq> None \<or>
          (\<exists>d w. dc_Get dc rg (Base u) (world s) = (Ok d, w) \<and> disk_ManagedBy d \<noteq> None) \<longrightarrow>
            (\<exists>e s'. \<forall>del. DeleteManagedDisk (with_delete C del) u s = (Err e, s'))) \<and>
         (\<forall>e w. map_of (diskStateMap s) (URIKey (ToLower u)) = None \<longrightarrow>
            dc_Get dc rg (Base u) (world s) = (Err e, w) \<longrightarrow> as_ResponseError e = Some StatusNotFound \<longrightarrow>
            (\<forall>del. DeleteManagedDisk (with_delete C del) u s = (Ok (), s\<lparr>world := w\<rparr>)))"
proof (intro conjI impI allI)
  have client: "cl_GetDiskClientForSub (with_delete C del) subs = Ok (dc\<lparr>dc_Delete := del\<rparr>)" for del
    using assms(2) by (simp add: with_delete_def)
  assume a: "map_of (diskStateMap s) (URIKey (ToLower u)) \<noteq> None \<or>
          (\<exists>d w. dc_Get dc rg (Base u) (world s) = (Ok d, w) \<and> disk_ManagedBy d \<noteq> None)"
  show "\<exists>e s'. \<forall>del. DeleteManagedDisk (with_delete C del) u s = (Err e, s')"
  proof (cases "map_of (diskStateMap s) (URIKey (ToLower u))")
    case (Some st)
    then show ?thesis using assms(1) by (simp add: DeleteManagedDisk_def)
  next
    case None
    with a obtain d w node where d: "dc_Get dc rg (Base u) (world s) = (Ok d, w)" "disk_ManagedBy d = Some node"
      by auto
    then have "call (on_world (dc_Get dc rg (Base u))) h k s = k d (s\<lparr>world := w\<rparr>)" for h and k :: "disk \<Rightarrow> ('a, unit) cc_io"
      by (simp add: call_def on_world_def)
    with None d(2) assms(1) client show ?thesis by (simp add: DeleteManagedDisk_def)
  qed
next
  fix e w del
  assume "map_of (diskStateMap s) (URIKey (ToLower u)) = None"
    "dc_Get dc rg (Base u) (world s) = (Err e, w)" "as_ResponseError e = Some StatusNotFound"
  then show "DeleteManagedDisk (with_delete C del) u s = (Ok (), s\<lparr>world := w\<rparr>)"
    using assms by (simp add: DeleteManagedDisk_def with_delete_def call_def on_world_def)
qed

text \<open>A service with one disk, whose deletion empties the world.\<close>

definition disk1 :: "string option \<Rightarrow> disk" where
  "disk1 node = \<lparr>disk_ID = Some ''id'', disk_Name = Some ''d'', disk_Location = None, disk_SKU = None,
     disk_ManagedBy = node, disk_ManagedByExtended = [], disk_Zones = [], disk_ExtendedLocation = None,
     disk_Tags = [], disk_Properties = None\<rparr>"

definition client2 :: "disk option disk_client" where
  "client2 = \<lparr>
     dc_Get = (\<lambda>rg n w. case w of Some d \<Rightarrow> (Ok d, w) | None \<Rightarrow> (Err (ResponseError 404 ''gone''), w)),
     dc_CreateOrUpdate = (\<lambda>rg n d w. (Ok (), Some d)),
     dc_Delete = (\<lambda>rg n w. (Ok (), None)),
     dc_Patch = (\<lambda>rg n gb w. (Ok (), map_option (\<lambda>d. d\<lparr>disk_Properties :=
        map_option (\<lambda>p. p\<lparr>prop_DiskSizeGB := Some gb\<rparr>) (disk_Properties d)\<rparr>) w)),
     dc_ListByResourceGroup = (\<lambda>rg w. (Ok (case w of Some d \<Rightarrow> [d] | None \<Rightarrow> []), w))\<rparr>"

definition cloud2 :: "disk option cloud" where
  "cloud2 = \<lparr>cl_ResourceGroup = ''rg'', cl_SubscriptionID = ''sub'', cl_Location = ''eastus'',
     cl_HasExtendedLocation = False, cl_ExtendedLocationName = [], cl_ExtendedLocationType = [],
     cl_GetZoneID = (\<lambda>z. z), cl_GetNodeVMSet = (\<lambda>n crt w. (Err InstanceNotFound, w)),
     cl_InstanceID = (\<lambda>n w. (Err InstanceNotFound, w)),
     cl_GetDiskClientForSub = (\<lambda>subs. Ok client2), cl_Sleep = (\<lambda>ms w. w),
     cl_Cloud = ''AzurePublicCloud'', cl_DisableAzureStackCloud = False,
     cl_KubeClient = None, cl_VMSet_GetNodeNameByProviderID = (\<lambda>p w. (Ok p, w)),
     cl_GetDiskClient = client2, cl_GetSnapshotClient = no_snapshot_client,
     cl_GetSnapshotClientForSub = (\<lambda>subs. Err (Errorf ''no client''))\<rparr>"

theorem DeleteManagedDisk_guarded_witness:
  "\<exists>e s'. DeleteManagedDisk (with_delete cloud2 (dc_Delete client2))
     (managedDiskPath ''sub'' ''rg'' ''d'') (NewManagedDiskController (Some (disk1 (Some ''vm'')))) = (Err e, s')"
proof -
  let ?u = "managedDiskPath ''sub'' ''rg'' ''d''"
  let ?s = "NewManagedDiskController (Some (disk1 (Some ''vm'')))"
  have i: "getInfoFromDiskURI ?u = Ok (''rg'', ''sub'')"
    by (rule getInfoFromDiskURI_path) (simp_all add: uri_part_def not_ws_def)
  have c: "cl_GetDiskClientForSub cloud2 ''sub'' = Ok client2" by (simp add: cloud2_def)
  have "dc_Get client2 ''rg'' (Base ?u) (world ?s) = (Ok (disk1 (Some ''vm'')), world ?s)"
    by (simp add: client2_def NewManagedDiskController_def)
  then have "\<exists>d w. dc_Get client2 ''rg'' (Base ?u) (world ?s) = (Ok d, w) \<and> disk_ManagedBy d \<noteq> None"
    by (auto simp: disk1_def)
  then show ?thesis using conjunct1 [OF DeleteManagedDisk_guarded [OF i c, of ?s]] by blast
qed

text \<open>The mark an attach leaves while it runs does not protect the disk: the mark is stored under
  the address of the disk, and a delete looks the disk up by its URI. Deleting behaves as if nobody
  were attaching the disk, while the mark of a detach makes it fail.\<close>

theorem attaching_mark_not_seen:
  "fst (DeleteManagedDisk C u (s\<lparr>diskStateMap := AList.update (DiskPtr p) ''attaching'' (diskStateMap s)\<rparr>)) =
     fst (DeleteManagedDisk C u s) \<and>
   world (snd (DeleteManagedDisk C u (s\<lparr>diskStateMap := AList.update (DiskPtr p) ''attaching'' (diskStateMap s)\<rparr>))) =
     world (snd (DeleteManagedDisk C u s)) \<and>
   \<not> is_Ok (fst (DeleteManagedDisk C u
       (s\<lparr>diskStateMap := AList.update (URIKey (ToLower u)) ''detaching'' (diskStateMap s)\<rparr>)))"
proof (intro conjI)
  let ?m = "AList.update (DiskPtr p) ''attaching'' (diskStateMap s)"
  have no: "map_of ?m (URIKey (ToLower u)) = map_of (diskStateMap s) (URIKey (ToLower u))"
    by (simp add: update_conv')
  show "fst (DeleteManagedDisk C u (s\<lparr>diskStateMap := ?m\<rparr>)) = fst (DeleteManagedDisk C u s)"
    "world (snd (DeleteManagedDisk C u (s\<lparr>diskStateMap := ?m\<rparr>))) = world (snd (DeleteManagedDisk C u s))"
    using no by (auto simp: DeleteManagedDisk_def bind_def call_def on_world_def
        split: res.split prod.split option.split)
  show "\<not> is_Ok (fst (DeleteManagedDisk C u
       (s\<lparr>diskStateMap := AList.update (URIKey (ToLower u)) ''detaching'' (diskStateMap s)\<rparr>)))"
    by (auto simp: DeleteManagedDisk_def bind_def call_def update_conv' split: res.split prod.split)
qed

section \<open>Creating\<close>

definition tunable :: "sdk \<Rightarrow> string \<Rightarrow> bool" where
  "tunable S sku \<longleftrightarrow> sku = DiskStorageAccountTypesUltraSSDLRS S \<or> sku = DiskStorageAccountTypesPremiumV2LRS S"

lemma network_properties_Ok:
  assumes "network_properties S o' p = Ok q" "prop_DiskAccessID p = None" "prop_NetworkAccessPolicy p = None"
  shows "(prop_DiskAccessID q \<noteq> None \<longleftrightarrow> mdo_NetworkAccessPolicy o' \<noteq> [] \<and>
            mdo_NetworkAccessPolicy o' = NetworkAccessPolicyAllowPrivate S) \<and>
         prop_DiskSizeGB q = prop_DiskSizeGB p \<and> prop_CreationData q = prop_CreationData p \<and>
         prop_Encryption q = prop_Encryption p \<and> prop_DiskIOPSReadWrite q = prop_DiskIOPSReadWrite p \<and>
         prop_DiskMBpsReadWrite q = prop_DiskMBpsReadWrite p"
  using assms by (auto simp: network_properties_def Let_def split: if_splits option.splits)

lemma performance_properties_Ok:
  assumes "performance_properties S o' p = Ok q" "prop_DiskIOPSReadWrite p = None" "prop_DiskMBpsReadWrite p = None"
  shows "(prop_DiskIOPSReadWrite q \<noteq> None \<or> prop_DiskMBpsReadWrite q \<noteq> None \<longrightarrow> tunable S (mdo_StorageAccountType o')) \<and>
         (mdo_StorageAccountType o' = DiskStorageAccountTypesUltraSSDLRS S \<longrightarrow>
            prop_DiskIOPSReadWrite q \<noteq> None \<and> prop_DiskMBpsReadWrite q \<noteq> None) \<and>
         (mdo_LogicalSectorSize o' \<noteq> 0 \<longrightarrow> tunable S (mdo_StorageAccountType o')) \<and>
         prop_DiskSizeGB q = prop_DiskSizeGB p \<and> prop_Encryption q = prop_Encryption p \<and>
         prop_DiskAccessID q = prop_DiskAccessID p \<and>
         map_option cd_SourceResourceID (prop_CreationData q) = map_option cd_SourceResourceID (prop_CreationData p)"
  using assms
  by (auto simp: performance_properties_def tunable_def provisioned_def Let_def option.map_comp comp_def
      split: if_splits res.splits)

lemma encryption_properties_Ok:
  assumes "encryption_properties S o' p = Ok q" "prop_Encryption p = None"
  shows "(case prop_Encryption q of
            None \<Rightarrow> mdo_DiskEncryptionSetID o' = [] \<and> mdo_DiskEncryptionType o' = []
          | Some e \<Rightarrow> enc_DiskEncryptionSetID e = Some (mdo_DiskEncryptionSetID o') \<and>
              HasPrefix (ToLower (mdo_DiskEncryptionSetID o')) ''/subscriptions/'' \<and> enc_Type e \<noteq> None) \<and>
         prop_DiskSizeGB q = prop_DiskSizeGB p \<and> prop_DiskIOPSReadWrite q = prop_DiskIOPSReadWrite p \<and>
         prop_DiskMBpsReadWrite q = prop_DiskMBpsReadWrite p \<and> prop_DiskAccessID q = prop_DiskAccessID p \<and>
         prop_CreationData q = prop_CreationData p"
  using assms by (auto simp: encryption_properties_def Let_def Index_zero split: if_splits)

text \<open>A disk is only created with consistent properties: provisioned IOPS, bandwidth and sector
  size only on UltraSSD and PremiumV2 disks (an ultra disk always has IOPS and bandwidth), a disk
  access id exactly with the AllowPrivate policy, an encryption type only with an encryption set
  whose id is an ARM id, shares only above one, and the requested size reduced to 32 bits.\<close>

theorem disk_properties_consistent:
  assumes "disk_properties_of S o' cd = Ok p"
  shows "prop_DiskSizeGB p = Some (to_int32 (mdo_SizeGB o')) \<and>
    (prop_DiskIOPSReadWrite p \<noteq> None \<or> prop_DiskMBpsReadWrite p \<noteq> None \<or> mdo_LogicalSectorSize o' \<noteq> 0 \<longrightarrow>
       tunable S (mdo_StorageAccountType o')) \<and>
    (mdo_StorageAccountType o' = DiskStorageAccountTypesUltraSSDLRS S \<longrightarrow>
       prop_DiskIOPSReadWrite p \<noteq> None \<and> prop_DiskMBpsReadWrite p \<noteq> None) \<and>
    (prop_DiskAccessID p \<noteq> None \<longleftrightarrow> mdo_NetworkAccessPolicy o' \<noteq> [] \<and>
       mdo_NetworkAccessPolicy o' = NetworkAccessPolicyAllowPrivate S) \<and>
    (case prop_Encryption p of
       None \<Rightarrow> mdo_DiskEncryptionSetID o' = [] \<and> mdo_DiskEncryptionType o' = []
     | Some e \<Rightarrow> enc_DiskEncryptionSetID e = Some (mdo_DiskEncryptionSetID o') \<and>
         HasPrefix (ToLower (mdo_DiskEncryptionSetID o')) ''/subscriptions/'' \<and> enc_Type e \<noteq> None) \<and>
    (mdo_MaxShares o' > 1 \<longrightarrow> prop_MaxShares p = Some (mdo_MaxShares o')) \<and>
    map_option cd_SourceResourceID (prop_CreationData p) = Some (cd_SourceResourceID cd)"
proof -
  let ?b = "base_properties o' cd"
  obtain p1 p2 p3 where p: "network_properties S o' ?b = Ok p1" "performance_properties S o' p1 = Ok p2"
    "encryption_properties S o' p2 = Ok p3"
    "p = (if mdo_MaxShares o' > 1 then p3\<lparr>prop_MaxShares := Some (mdo_MaxShares o')\<rparr> else p3)"
    using assms by (auto simp: disk_properties_of_def split: res.splits)
  have b: "prop_DiskAccessID ?b = None" "prop_NetworkAccessPolicy ?b = None" "prop_Encryption ?b = None"
    "prop_DiskIOPSReadWrite ?b = None" "prop_DiskMBpsReadWrite ?b = None"
    "prop_DiskSizeGB ?b = Some (to_int32 (mdo_SizeGB o'))" "prop_CreationData ?b = Some cd"
    by (simp_all add: base_properties_def)
  note n = network_properties_Ok [OF p(1) b(1,2)]
  have "prop_DiskIOPSReadWrite p1 = None" "prop_DiskMBpsReadWrite p1 = None" using n b by simp_all
  note f = performance_properties_Ok [OF p(2) this]
  have "prop_Encryption p2 = None" using n f b by simp
  note e = encryption_properties_Ok [OF p(3) this]
  show ?thesis unfolding p(4) using n f e b
    by (cases "mdo_MaxShares o' > 1") (simp_all split: option.splits)
qed

definition options1 :: ManagedDiskOptions where
  "options1 = \<lparr>mdo_StorageAccountType = ''UltraSSD_LRS'', mdo_DiskName = ''d'', mdo_PVCName = [],
     mdo_ResourceGroup = [], mdo_AvailabilityZone = [], mdo_Tags = [], mdo_DiskIOPSReadWrite = ''2000'',
     mdo_DiskMBpsReadWrite = [], mdo_SourceResourceID = [], mdo_SourceType = [],
     mdo_DiskEncryptionSetID = [], mdo_DiskEncryptionType = [], mdo_SizeGB = 100, mdo_MaxShares = 2,
     mdo_LogicalSectorSize = 512, mdo_SkipGetDiskOperation = True, mdo_PublicNetworkAccess = [],
     mdo_NetworkAccessPolicy = [], mdo_DiskAccessID = None, mdo_BurstingEnabled = None,
     mdo_SubscriptionID = [], mdo_Location = [], mdo_PerformancePlus = None\<rparr>"

theorem disk_properties_consistent_witness:
  "\<exists>p. disk_properties_of sdk0 options1 empty_creation = Ok p \<and> prop_DiskSizeGB p = Some 100 \<and>
     prop_DiskMBpsReadWrite p \<noteq> None \<and> prop_MaxShares p = Some 2"
proof -
  have "is_Ok (disk_properties_of sdk0 options1 empty_creation)" by code_simp
  then obtain p where p: "disk_properties_of sdk0 options1 empty_creation = Ok p" by (auto simp: is_Ok_iff)
  from disk_properties_consistent [OF p] p show ?thesis
    by (auto simp: options1_def sdk0_def to_int32_def)
qed

text \<open>C9. When the driver creates a disk without waiting for it, the id it returns is the path of the
  disk in the resource group and subscription it was created in, and the deleting and resizing
  operations read the same resource group, subscription and name back from it.\<close>

theorem CreateManagedDisk_id:
  assumes "CreateManagedDisk S C attempts o' s = (Ok i, s')" "mdo_SkipGetDiskOperation o'"
    "uri_part (cl_SubscriptionID C)" "uri_part (cl_ResourceGroup C)" "uri_part (mdo_DiskName o')"
    "mdo_SubscriptionID o' = [] \<or> uri_part (mdo_SubscriptionID o')"
    "mdo_ResourceGroup o' = [] \<or> uri_part (mdo_ResourceGroup o')"
  shows "\<exists>rg subs dc m w. getInfoFromDiskURI i = Ok (rg, subs) \<and> Base i = mdo_DiskName o' \<and>
    cl_GetDiskClientForSub C subs = Ok dc \<and>
    dc_CreateOrUpdate dc rg (mdo_DiskName o') m (world s) = (Ok (), w) \<and> world s' = w \<and>
    GetDiskName i = Ok (mdo_DiskName o') \<and> GetVolumeName i = Ok (mdo_DiskName o')"
proof -
  define rg where "rg = (if mdo_ResourceGroup o' \<noteq> [] then mdo_ResourceGroup o' else cl_ResourceGroup C)"
  define subs where "subs = (if mdo_SubscriptionID o' \<noteq> [] then mdo_SubscriptionID o' else cl_SubscriptionID C)"
  have u: "uri_part subs" "uri_part rg" using assms(3-7) by (auto simp: rg_def subs_def uri_part_def)
  obtain cd p dc where c: "getValidCreationData subs rg o' = Ok cd" "disk_properties_of S o' cd = Ok p"
    "cl_GetDiskClientForSub C subs = Ok dc"
    "bind (on_world (dc_CreateOrUpdate dc rg (mdo_DiskName o') (disk_model S C o' p)))
       (\<lambda>_. ret (managedDiskPath subs rg (mdo_DiskName o'))) s = (Ok i, s')"
    using assms(1,2) unfolding CreateManagedDisk_def Let_def rg_def [symmetric] subs_def [symmetric]
    by (auto simp: bind_lift_Ok split: if_splits)
  then have d: "on_world (dc_CreateOrUpdate dc rg (mdo_DiskName o') (disk_model S C o' p)) s = (Ok (), s')"
    "i = managedDiskPath subs rg (mdo_DiskName o')" by (auto elim!: bind_OkE)
  have "Base i = mdo_DiskName o'"
    using Base_last [of "mdo_DiskName o'" "''/subscriptions/'' @ subs @ ''/resourceGroups/'' @ rg @
        ''/providers/Microsoft.Compute/disks''"] assms(5) d(2)
    by (simp add: managedDiskPath_def uri_part_def)
  with on_world_res [OF d(1)] c(3) d(2) getInfoFromDiskURI_path [OF u assms(5)]
    GetDiskName_path [OF u assms(5)] GetVolumeName_path [OF u assms(5)]
  show ?thesis by (auto simp: managedDiskPath_eq)
qed

theorem CreateManagedDisk_id_witness:
  "\<exists>i s'. CreateManagedDisk sdk0 cloud2 20 options1 (NewManagedDiskController None) = (Ok i, s') \<and>
     getInfoFromDiskURI i = Ok (''rg'', ''sub'') \<and> Base i = ''d''"
proof -
  let ?r = "CreateManagedDisk sdk0 cloud2 20 options1 (NewManagedDiskController None)"
  have "fst ?r = Ok (managedDiskPath ''sub'' ''rg'' ''d'')" by code_simp
  then obtain s' where r: "?r = (Ok (managedDiskPath ''sub'' ''rg'' ''d''), s')" by (cases ?r) auto
  have "getInfoFromDiskURI (managedDiskPath ''sub'' ''rg'' ''d'') = Ok (''rg'', ''sub'')"
    by (rule getInfoFromDiskURI_path) (simp_all add: uri_part_def not_ws_def)
  then show ?thesis using CreateManagedDisk_id [OF r] r
    by (simp add: options1_def cloud2_def uri_part_def not_ws_def)
qed

section \<open>Resizing\<close>

text \<open>What \<open>RoundUpToGiBInt32\<close> documents: the least number of GiB that holds the size, in 32 bits.\<close>

definition rounds_up :: "(int \<Rightarrow> int res) \<Rightarrow> bool" where
  "rounds_up f \<longleftrightarrow> (\<forall>b n. f b = Ok n \<longrightarrow> int32_range n \<and> b \<le> n * GiB \<and> (n - 1) * GiB < b)"

text \<open>C7. Resizing never shrinks a disk and never changes one that is large enough, whether the call succeeds,
  fails or panics. In every run the driver either reads the disk and does nothing else to the world, or it
  also asks the service, once, to patch the disk, with a size above the current one, on a disk that is
  not attached unless online resizing is on. It succeeds only if that patch succeeded or the disk was
  already large enough, and then the size reported back is the request rounded up to GiB.\<close>

theorem ResizeDisk_never_shrinks:
  assumes "rounds_up f" "ResizeDisk S C f u new online s = (r, s')"
  shows "((\<exists>rg subs dc d w p gb n x. getInfoFromDiskURI u = Ok (rg, subs) \<and> cl_GetDiskClientForSub C subs = Ok dc \<and>
      dc_Get dc rg (Base u) (world s) = (Ok d, w) \<and> disk_Properties d = Some p \<and> prop_DiskSizeGB p = Some gb \<and>
      f new = Ok n \<and> gb < n \<and> (online \<or> prop_DiskState p = Some (DiskStateUnattached S)) \<and>
      dc_Patch dc rg (Base u) n w = (x, world s') \<and> (is_Ok r \<longleftrightarrow> is_Ok x)) \<or>
    (\<exists>rg subs dc g. getInfoFromDiskURI u = Ok (rg, subs) \<and> cl_GetDiskClientForSub C subs = Ok dc \<and>
      dc_Get dc rg (Base u) (world s) = (g, world s') \<and>
      (is_Ok r \<longrightarrow> (\<exists>d p gb n. g = Ok d \<and> disk_Properties d = Some p \<and> prop_DiskSizeGB p = Some gb \<and> f new = Ok n \<and> n \<le> gb))) \<or>
    (world s' = world s \<and> \<not> is_Ok r)) \<and>
    (\<forall>q. r = Ok q \<longrightarrow> (\<exists>n. f new = Ok n \<and> q = n * GiB \<and> new \<le> q \<and> q < new + GiB))"
proof -
  have patched: "q = n * GiB" if "bind (on_world m) (\<lambda>_. ret (n * GiB)) s1 = (Ok q, s2)" for m :: "('a, unit) io" and n s1 s2 q
    using that by (auto elim!: bind_OkE)
  have q: "\<exists>n. f new = Ok n \<and> q = n * GiB" if "r = Ok q" for q
    using assms(2) that unfolding ResizeDisk_def
    by (cases "f new") (auto simp: bind_lift_Ok Let_def elim!: bind_OkE split: option.split_asm if_split_asm dest!: patched)
  have size: "\<forall>q. r = Ok q \<longrightarrow> (\<exists>n. f new = Ok n \<and> q = n * GiB \<and> new \<le> q \<and> q < new + GiB)"
    using q assms(1) by (fastforce simp: rounds_up_def algebra_simps)
  show ?thesis
  proof (cases "\<exists>rg subs dc. getInfoFromDiskURI u = Ok (rg, subs) \<and> cl_GetDiskClientForSub C subs = Ok dc")
    case False
    then have "world s' = world s \<and> \<not> is_Ok r"
      using assms(2) by (auto simp: ResizeDisk_def bind_def call_def split: res.splits)
    with size show ?thesis by blast
  next
    case True
    then obtain rg subs dc where c: "getInfoFromDiskURI u = Ok (rg, subs)" "cl_GetDiskClientForSub C subs = Ok dc"
      by blast
    obtain g w where g: "dc_Get dc rg (Base u) (world s) = (g, w)" by fastforce
    show ?thesis
    proof (cases "\<exists>d p gb n. g = Ok d \<and> disk_Properties d = Some p \<and> prop_DiskSizeGB p = Some gb \<and> f new = Ok n \<and>
        gb < n \<and> (online \<or> prop_DiskState p = Some (DiskStateUnattached S))")
      case True
      then obtain d p gb n where d: "g = Ok d" "disk_Properties d = Some p" "prop_DiskSizeGB p = Some gb" "f new = Ok n"
        "gb < n" "online \<or> prop_DiskState p = Some (DiskStateUnattached S)" by blast
      obtain x w' where x: "dc_Patch dc rg (Base u) n w = (x, w')" by fastforce
      have "world s' = w' \<and> (is_Ok r \<longleftrightarrow> is_Ok x)"
        using assms(2) c g d x by (cases x; cases online) (auto simp: ResizeDisk_def on_world_def bind_def call_def Let_def)
      with c g d x have "dc_Patch dc rg (Base u) n w = (x, world s') \<and> (is_Ok r \<longleftrightarrow> is_Ok x)" by simp
      with c g d show ?thesis
        by (intro conjI [OF _ size] disjI1 exI [of _ rg] exI [of _ subs] exI [of _ dc] exI [of _ d] exI [of _ w] exI [of _ p]
            exI [of _ gb] exI [of _ n] exI [of _ x]) simp
    next
      case False
      note run = assms(2) [unfolded ResizeDisk_def]
      have "world s' = w \<and> (is_Ok r \<longrightarrow> (\<exists>d p gb n. g = Ok d \<and> disk_Properties d = Some p \<and>
          prop_DiskSizeGB p = Some gb \<and> f new = Ok n \<and> n \<le> gb))"
      proof (cases "\<exists>d p gb n. g = Ok d \<and> disk_Properties d = Some p \<and> prop_DiskSizeGB p = Some gb \<and> f new = Ok n")
        case True
        then obtain d p gb n where d: "g = Ok d" "disk_Properties d = Some p" "prop_DiskSizeGB p = Some gb" "f new = Ok n"
          by blast
        with False have "n \<le> gb \<or> \<not> online \<and> prop_DiskState p \<noteq> Some (DiskStateUnattached S)" by force
        with run c g d show ?thesis
          by (auto simp: on_world_def bind_def call_def Let_def split: option.split_asm if_split_asm)
      next
        case no: False
        show ?thesis
        proof (cases g)
          case (Ok d)
          with no consider "Option.bind (disk_Properties d) prop_DiskSizeGB = None"
            | gb e where "Option.bind (disk_Properties d) prop_DiskSizeGB = Some gb" "f new = Err e"
            | gb where "Option.bind (disk_Properties d) prop_DiskSizeGB = Some gb" "f new = Panic"
            by (cases "Option.bind (disk_Properties d) prop_DiskSizeGB"; cases "f new") (auto simp: bind_eq_Some_conv)
          then show ?thesis using run c g Ok by cases (auto simp: on_world_def bind_def call_def elim!: is_Ok.elims)
        qed (use run c g in \<open>auto simp: on_world_def bind_def call_def\<close>)
      qed
      with c g show ?thesis
        by (intro conjI [OF _ size] disjI2 disjI1 exI [of _ rg] exI [of _ subs] exI [of _ dc] exI [of _ g]) simp
    qed
  qed
qed

definition round_gib :: "int \<Rightarrow> int res" where
  "round_gib b = (if 0 \<le> b \<and> RoundUpGiB b \<le> 2147483647 then Ok (RoundUpGiB b) else Err (Errorf ''out of range''))"

lemma rounds_up_round_gib: "rounds_up round_gib"
proof -
  have "int32_range n \<and> b \<le> n * GiB \<and> (n - 1) * GiB < b" if "round_gib b = Ok n" for b n
  proof -
    have n: "0 \<le> b" "n = RoundUpGiB b" "n \<le> 2147483647" using that by (auto simp: round_gib_def split: if_splits)
    have "0 < GiB" by (simp add: GiB_def)
    from RoundUpSize_bounds [OF n(1) this] n show ?thesis
      by (simp add: RoundUpGiB_def int32_range_def algebra_simps)
  qed
  then show ?thesis by (simp add: rounds_up_def)
qed

definition disk100 :: disk where
  "disk100 = (disk1 None)\<lparr>disk_Properties := Some (base_properties options1 empty_creation)\<rparr>"

theorem ResizeDisk_never_shrinks_witness:
  "\<exists>s'. ResizeDisk sdk0 cloud2 round_gib (managedDiskPath ''sub'' ''rg'' ''d'') 1073741824 False
     (NewManagedDiskController (Some disk100)) = (Ok 1073741824, s') \<and> world s' = Some disk100"
proof -
  let ?u = "managedDiskPath ''sub'' ''rg'' ''d''"
  let ?r = "ResizeDisk sdk0 cloud2 round_gib ?u 1073741824 False (NewManagedDiskController (Some disk100))"
  have "fst ?r = Ok 1073741824" by code_simp
  then obtain s' where r: "?r = (Ok 1073741824, s')" by (cases ?r) auto
  have i: "getInfoFromDiskURI ?u = Ok (''rg'', ''sub'')"
    by (rule getInfoFromDiskURI_path) (simp_all add: uri_part_def not_ws_def)
  have c: "cl_GetDiskClientForSub cloud2 ''sub'' = Ok client2" by (simp add: cloud2_def)
  have g: "dc_Get client2 ''rg'' (Base ?u) (world (NewManagedDiskController (Some disk100))) = (Ok disk100, Some disk100)"
    by (simp add: client2_def NewManagedDiskController_def)
  have p: "disk_Properties disk100 = Some (base_properties options1 empty_creation)"
    "prop_DiskSizeGB (base_properties options1 empty_creation) = Some 100"
    by (simp_all add: disk100_def base_properties_def options1_def to_int32_def)
  have "round_gib 1073741824 = Ok 1" by code_simp
  with ResizeDisk_never_shrinks [OF rounds_up_round_gib r] i c g p r show ?thesis by auto
qed

end
