(* ===== verification/SnapshotUtils.thy ===== *)
theory SnapshotUtils
  imports DiskUtils
begin

text \<open>
  The file \<open>pkg/azureutils/azure_snapshot_utils.go\<close>: the CSI view of a snapshot and the pages of
  \<open>ListSnapshots\<close>.
\<close>

record csi_snapshot =
  cs_SizeBytes :: int
  cs_SnapshotId :: string
  cs_SourceVolumeId :: string
  cs_CreationTime :: int
  cs_ReadyToUse :: bool

record list_snapshots_request =
  ls_StartingToken :: string
  ls_MaxEntries :: int
  ls_SourceVolumeId :: string
  ls_SnapshotId :: string

definition isCSISnapshotReady :: "string \<Rightarrow> bool" where
  "isCSISnapshotReady state \<longleftrightarrow> ToLower state = ''succeeded''"

definition GetSourceVolumeID :: "snapshot option \<Rightarrow> string" where
  "GetSourceVolumeID snap =
     (case Option.bind (Option.bind (Option.bind snap snap_Properties) snp_CreationData) cd_SourceResourceID of
        Some i \<Rightarrow> i
      | None \<Rightarrow> [])"

text \<open>A snapshot without a provisioning state or without an id is a nil dereference.\<close>

definition GenerateCSISnapshot :: "string \<Rightarrow> snapshot option \<Rightarrow> csi_snapshot res" where
  "GenerateCSISnapshot sourceVolumeID snap =
     (case Option.bind snap snap_Properties of
        None \<Rightarrow> Err (Errorf ''snapshot property is nil'')
      | Some p \<Rightarrow>
         (case snp_TimeCreated p of
            None \<Rightarrow> Err (Errorf ''TimeCreated of snapshot property is nil'')
          | Some time \<Rightarrow>
             (case snp_DiskSizeGB p of
                None \<Rightarrow> Err (Errorf ''diskSizeGB of snapshot property is nil'')
              | Some gb \<Rightarrow>
                 (case (snp_ProvisioningState p, Option.bind snap snap_ID) of
                    (Some st, Some i) \<Rightarrow>
                      Ok \<lparr>cs_SizeBytes = GiBToBytes gb, cs_SnapshotId = i,
                          cs_SourceVolumeId = (if sourceVolumeID = [] then GetSourceVolumeID snap
                                               else sourceVolumeID),
                          cs_CreationTime = time, cs_ReadyToUse = isCSISnapshotReady st\<rparr>
                  | _ \<Rightarrow> Panic))))"

text \<open>The loop over the snapshots from \<open>start\<close> on, which collects at most \<open>room\<close> entries of the source
  volume and returns the index it stopped at.\<close>

fun list_entries :: "string \<Rightarrow> nat \<Rightarrow> nat \<Rightarrow> snapshot list \<Rightarrow> (csi_snapshot list \<times> nat) res" where
  "list_entries source room start [] = Ok ([], start)"
| "list_entries source room start (s # rest) =
     (if room = 0 then Ok ([], start)
      else if source = [] \<or> source = GetSourceVolumeID (Some s) then
        (case GenerateCSISnapshot source (Some s) of
           Ok e \<Rightarrow>
             (case list_entries source (room - 1) (start + 1) rest of
                Ok (es, next) \<Rightarrow> Ok (e # es, next)
              | Err err \<Rightarrow> Err err
              | Panic \<Rightarrow> Panic)
         | Err err \<Rightarrow> Err (Errorf (''failed to generate snapshot entry: '' @ Error err))
         | Panic \<Rightarrow> Panic)
      else list_entries source room (start + 1) rest)"

definition starting_token :: "string \<Rightarrow> nat \<Rightarrow> int res" where
  "starting_token token n =
     (if token = [] then Ok 0
      else (case Atoi token of
              Err err \<Rightarrow> Err (StatusErr Aborted (''ListSnapshots starting token('' @ token @
                           '') parsing with error: '' @ Error err))
            | Panic \<Rightarrow> Panic
            | Ok start \<Rightarrow>
                if start \<ge> int n then
                  Err (StatusErr Aborted (''ListSnapshots starting token('' @ Itoa start @
                        '') is greater than total number of snapshots''))
                else if start < 0 then
                  Err (StatusErr Aborted (''ListSnapshots starting token('' @ Itoa start @
                        '') can not be negative''))
                else Ok start))"

text \<open>The number of entries of one page.\<close>

definition page_room :: "int \<Rightarrow> nat \<Rightarrow> nat" where
  "page_room maxEntries left =
     (if maxEntries > 0 \<and> maxEntries < int left then nat maxEntries else left)"

definition GetEntriesAndNextToken ::
    "list_snapshots_request option \<Rightarrow> snapshot list \<Rightarrow> (csi_snapshot list \<times> string) res" where
  "GetEntriesAndNextToken req snapshots =
     (case req of
        None \<Rightarrow> Err (StatusErr Aborted ''request is nil'')
      | Some r \<Rightarrow>
         (case starting_token (ls_StartingToken r) (length snapshots) of
            Err e \<Rightarrow> Err e
          | Panic \<Rightarrow> Panic
          | Ok start \<Rightarrow>
             (case list_entries (ls_SourceVolumeId r)
                     (page_room (ls_MaxEntries r) (length snapshots - nat start)) (nat start)
                     (drop (nat start) snapshots) of
                Err e \<Rightarrow> Err e
              | Panic \<Rightarrow> Panic
              | Ok (entries, next) \<Rightarrow>
                  Ok (entries, Itoa (int (if next < length snapshots then next else length snapshots))))))"

definition GetSnapshotNameFromURI :: "string \<Rightarrow> string res" where
  "GetSnapshotNameFromURI snapshotURI =
     (case FindStringSubmatch diskSnapshotPathRE snapshotURI of
        Some name \<Rightarrow> Ok name
      | None \<Rightarrow> Err (Errorf (''could not get snapshot name from '' @ snapshotURI @ '', correct format: '' @
                  managed_RE_String ''snapshots'')))"

end
