(* ===== verification/SnapshotUtilsCorrect.thy ===== *)
theory SnapshotUtilsCorrect
  imports SnapshotUtils ManagedDiskCorrect
begin

text \<open>
  Following the tokens of \<open>ListSnapshots\<close> visits every snapshot of the request once and ends; and the
  name of a snapshot is read back from its URI.
\<close>

definition of_source :: "string \<Rightarrow> snapshot \<Rightarrow> bool" where
  "of_source source s \<longleftrightarrow> source = [] \<or> source = GetSourceVolumeID (Some s)"

definition entry_of :: "string \<Rightarrow> snapshot \<Rightarrow> csi_snapshot \<Rightarrow> bool" where
  "entry_of source s e \<longleftrightarrow> GenerateCSISnapshot source (Some s) = Ok e"

lemma list_entries_spec:
  "list_entries source room start ss = Ok (es, next) \<Longrightarrow>
   \<exists>k \<le> length ss. next = start + k \<and> list_all2 (entry_of source) (filter (of_source source) (take k ss)) es \<and>
     length es \<le> room \<and> (k < length ss \<longrightarrow> length es = room) \<and> (0 < room \<and> ss \<noteq> [] \<longrightarrow> 0 < k)"
proof (induction source room start ss arbitrary: es "next" rule: list_entries.induct)
  case (1 source room start)
  then show ?case by simp
next
  case (2 source room start s rest)
  show ?case
  proof (cases "room = 0")
    case True
    then show ?thesis using 2(3) by (intro exI [of _ 0]) simp
  next
    case room: False
    show ?thesis
    proof (cases "of_source source s")
      case m: True
      then have c: "source = [] \<or> source = GetSourceVolumeID (Some s)" by (simp add: of_source_def)
      obtain e es' where e: "GenerateCSISnapshot source (Some s) = Ok e"
        "list_entries source (room - 1) (start + 1) rest = Ok (es', next)" "es = e # es'"
        using 2(3) room c by (auto split: res.splits)
      from 2(1) [OF room c e(1,2)] obtain k where k: "k \<le> length rest" "next = start + 1 + k"
        "list_all2 (entry_of source) (filter (of_source source) (take k rest)) es'" "length es' \<le> room - 1"
        "k < length rest \<longrightarrow> length es' = room - 1" by blast
      show ?thesis
        by (rule exI [of _ "Suc k"]) (use k e m room entry_of_def [of source s e] in auto)
    next
      case m: False
      then have c: "\<not> (source = [] \<or> source = GetSourceVolumeID (Some s))" by (simp add: of_source_def)
      then have "list_entries source room (start + 1) rest = Ok (es, next)" using 2(3) room by simp
      from 2(2) [OF room c this] obtain k where k: "k \<le> length rest" "next = start + 1 + k"
        "list_all2 (entry_of source) (filter (of_source source) (take k rest)) es" "length es \<le> room"
        "k < length rest \<longrightarrow> length es = room" by blast
      show ?thesis by (rule exI [of _ "Suc k"]) (use k m room in auto)
    qed
  qed
qed

lemma list_entries_total:
  "\<forall>s \<in> set ss. of_source source s \<longrightarrow> (\<exists>e. entry_of source s e) \<Longrightarrow>
   \<exists>r. list_entries source room start ss = Ok r"
proof (induction source room start ss rule: list_entries.induct)
  case (2 source room start s rest)
  have rest: "\<forall>s \<in> set rest. of_source source s \<longrightarrow> (\<exists>e. entry_of source s e)" using 2(3) by simp
  show ?case
  proof (cases "room = 0")
    case room: False
    show ?thesis
    proof (cases "source = [] \<or> source = GetSourceVolumeID (Some s)")
      case c: True
      then obtain e where e: "GenerateCSISnapshot source (Some s) = Ok e"
        using 2(3) by (auto simp: of_source_def entry_of_def)
      from 2(1) [OF room c e rest] c e room show ?thesis by auto
    next
      case c: False
      from 2(2) [OF room c rest] c room show ?thesis by auto
    qed
  qed simp
qed simp

lemma page_room_pos: "0 < left \<Longrightarrow> 0 < page_room m left"
  by (auto simp: page_room_def)

section \<open>Pages\<close>

text \<open>A client that follows the tokens, at most \<open>n\<close> times, and stops at the token that equals the
  number of snapshots.\<close>

fun follow_pages :: "nat \<Rightarrow> list_snapshots_request \<Rightarrow> snapshot list \<Rightarrow> csi_snapshot list res" where
  "follow_pages 0 req snapshots = Err (Errorf ''too many pages'')"
| "follow_pages (Suc n) req snapshots =
     (case GetEntriesAndNextToken (Some req) snapshots of
        Err e \<Rightarrow> Err e
      | Panic \<Rightarrow> Panic
      | Ok (es, token) \<Rightarrow>
          if token = Itoa (int (length snapshots)) then Ok es
          else (case follow_pages n (req\<lparr>ls_StartingToken := token\<rparr>) snapshots of
                  Ok rest \<Rightarrow> Ok (es @ rest)
                | Err e \<Rightarrow> Err e
                | Panic \<Rightarrow> Panic))"

text \<open>One page, from the index its token stands for.\<close>

lemma one_page:
  assumes tok: "starting_token (ls_StartingToken r) (length ss) = Ok (int start)" "start < length ss"
    and complete: "\<forall>s \<in> set ss. of_source (ls_SourceVolumeId r) s \<longrightarrow> (\<exists>e. entry_of (ls_SourceVolumeId r) s e)"
  shows "\<exists>es k. GetEntriesAndNextToken (Some r) ss = Ok (es, Itoa (int (start + k))) \<and> 0 < k \<and>
    start + k \<le> length ss \<and>
    list_all2 (entry_of (ls_SourceVolumeId r)) (filter (of_source (ls_SourceVolumeId r)) (take k (drop start ss))) es"
proof -
  let ?room = "page_room (ls_MaxEntries r) (length ss - start)"
  obtain es "next" where e: "list_entries (ls_SourceVolumeId r) ?room start (drop start ss) = Ok (es, next)"
    using list_entries_total [of "drop start ss" "ls_SourceVolumeId r" ?room start] complete
    by (metis in_set_dropD surj_pair)
  from list_entries_spec [OF e] obtain k where k: "k \<le> length ss - start" "next = start + k" "0 < k"
    "list_all2 (entry_of (ls_SourceVolumeId r)) (filter (of_source (ls_SourceVolumeId r)) (take k (drop start ss))) es"
    using page_room_pos [of "length ss - start" "ls_MaxEntries r"] tok(2) by auto
  have "(if next < length ss then next else length ss) = start + k" using k(1,2) tok(2) by auto
  then have "GetEntriesAndNextToken (Some r) ss = Ok (es, Itoa (int (start + k)))"
    using tok(1) e by (simp add: GetEntriesAndNextToken_def)
  with k show ?thesis using tok(2) by (intro exI [of _ es] exI [of _ k]) auto
qed

lemma Itoa_inj_range:
  assumes "int64_range a" "int64_range b"
  shows "Itoa a = Itoa b \<longleftrightarrow> a = b"
  by (metis assms Atoi_Itoa res.inject(1))

lemma starting_token_Itoa:
  "a < n \<Longrightarrow> int64_range (int n) \<Longrightarrow> starting_token (Itoa (int a)) n = Ok (int a)"
proof -
  assume a: "a < n" "int64_range (int n)"
  then have r: "int64_range (int a)" by (simp add: int64_range_def)
  have "Itoa (int a) \<noteq> []" by (simp add: Itoa_def)
  with Atoi_Itoa [OF r] a(1) show ?thesis by (simp add: starting_token_def)
qed

lemma follow_pages_from:
  assumes "int64_range (int (length ss))"
    and "\<forall>s \<in> set ss. of_source src s \<longrightarrow> (\<exists>e. entry_of src s e)"
  shows "starting_token (ls_StartingToken r) (length ss) = Ok (int start) \<Longrightarrow> start < length ss \<Longrightarrow>
    ls_SourceVolumeId r = src \<Longrightarrow> length ss - start \<le> n \<Longrightarrow>
    \<exists>es. follow_pages n r ss = Ok es \<and> list_all2 (entry_of src) (filter (of_source src) (drop start ss)) es"
proof (induction n arbitrary: r start)
  case (Suc n)
  then obtain es k where p: "GetEntriesAndNextToken (Some r) ss = Ok (es, Itoa (int (start + k)))" "0 < k"
    "start + k \<le> length ss" "list_all2 (entry_of src) (filter (of_source src) (take k (drop start ss))) es"
    using one_page [OF Suc.prems(1,2)] assms(2) by blast
  have r: "int64_range (int (start + k))" using p(3) assms(1) by (simp add: int64_range_def)
  show ?case
  proof (cases "start + k = length ss")
    case True
    then show ?thesis using p by auto
  next
    case False
    then have lt: "start + k < length ss" using p(3) by simp
    from Suc.IH [of "r\<lparr>ls_StartingToken := Itoa (int (start + k))\<rparr>" "start + k"] obtain es' where
      es': "follow_pages n (r\<lparr>ls_StartingToken := Itoa (int (start + k))\<rparr>) ss = Ok es'"
        "list_all2 (entry_of src) (filter (of_source src) (drop (start + k) ss)) es'"
      using starting_token_Itoa [OF lt assms(1)] lt Suc.prems(3,4) p(2) by force
    have "Itoa (int (start + k)) \<noteq> Itoa (int (length ss))"
      using Itoa_inj_range [OF r assms(1)] False by simp
    then have 1: "follow_pages (Suc n) r ss = Ok (es @ es')" using p(1) es'(1) by simp
    have "drop start ss = take k (drop start ss) @ drop (start + k) ss"
      by (metis add.commute append_take_drop_id drop_drop)
    then have "filter (of_source src) (drop start ss) =
      filter (of_source src) (take k (drop start ss)) @ filter (of_source src) (drop (start + k) ss)"
      by (metis filter_append)
    then show ?thesis using 1 list_all2_appendI [OF p(4) es'(2)] by auto
  qed
qed simp

text \<open>Paging over snapshots is complete and ends: for every page size, a client that starts without a
  token and follows the tokens it gets receives, in at most as many calls as there are snapshots,
  exactly the entries of the snapshots of the requested source volume, each once and in order. The
  last token is the number of snapshots, not the empty string, and a call with it is refused.\<close>

theorem ListSnapshots_pages:
  assumes "ss \<noteq> []" "int64_range (int (length ss))" "ls_StartingToken r = []"
    and "\<forall>s \<in> set ss. of_source (ls_SourceVolumeId r) s \<longrightarrow> is_Ok (GenerateCSISnapshot (ls_SourceVolumeId r) (Some s))"
  shows "(\<exists>es. follow_pages (length ss) r ss = Ok es \<and>
      list_all2 (\<lambda>s e. GenerateCSISnapshot (ls_SourceVolumeId r) (Some s) = Ok e)
        (filter (of_source (ls_SourceVolumeId r)) ss) es) \<and>
    (\<exists>m. GetEntriesAndNextToken (Some (r\<lparr>ls_StartingToken := Itoa (int (length ss))\<rparr>)) ss = Err (StatusErr Aborted m))"
proof
  have c: "\<forall>s \<in> set ss. of_source (ls_SourceVolumeId r) s \<longrightarrow> (\<exists>e. entry_of (ls_SourceVolumeId r) s e)"
    using assms(4) by (simp add: entry_of_def is_Ok_iff)
  have "starting_token (ls_StartingToken r) (length ss) = Ok (int 0)"
    using assms(3) by (simp add: starting_token_def)
  from follow_pages_from [OF assms(2) c this, of "length ss"] assms(1)
  show "\<exists>es. follow_pages (length ss) r ss = Ok es \<and>
      list_all2 (\<lambda>s e. GenerateCSISnapshot (ls_SourceVolumeId r) (Some s) = Ok e)
        (filter (of_source (ls_SourceVolumeId r)) ss) es"
    unfolding entry_of_def by simp
  have "Itoa (int (length ss)) \<noteq> []" by (simp add: Itoa_def)
  then show "\<exists>m. GetEntriesAndNextToken (Some (r\<lparr>ls_StartingToken := Itoa (int (length ss))\<rparr>)) ss = Err (StatusErr Aborted m)"
    using Atoi_Itoa [OF assms(2)] by (simp add: GetEntriesAndNextToken_def starting_token_def)
qed

definition snap1 :: "string \<Rightarrow> snapshot" where
  "snap1 i = \<lparr>snap_ID = Some i, snap_Location = None, snap_Tags = [], snap_Properties = Some
     \<lparr>snp_TimeCreated = Some 0, snp_DiskSizeGB = Some 1, snp_ProvisioningState = Some ''Succeeded'',
      snp_CreationData = None, snp_CompletionPercent = None, snp_Incremental = None,
      snp_DataAccessAuthMode = None\<rparr>\<rparr>"

definition list_req1 :: list_snapshots_request where
  "list_req1 = \<lparr>ls_StartingToken = [], ls_MaxEntries = 1, ls_SourceVolumeId = [], ls_SnapshotId = []\<rparr>"

theorem ListSnapshots_pages_witness:
  "(\<exists>es. follow_pages 2 list_req1 [snap1 ''a'', snap1 ''b''] = Ok es \<and> length es = 2) \<and>
   (\<exists>m. GetEntriesAndNextToken (Some (list_req1\<lparr>ls_StartingToken := Itoa 2\<rparr>)) [snap1 ''a'', snap1 ''b''] =
      Err (StatusErr Aborted m))"
proof -
  have "int64_range (int (length [snap1 ''a'', snap1 ''b'']))" by (simp add: int64_range_def)
  moreover have "is_Ok (GenerateCSISnapshot [] (Some (snap1 x)))" for x
    by (simp add: GenerateCSISnapshot_def snap1_def)
  ultimately have "(\<exists>es. follow_pages 2 list_req1 [snap1 ''a'', snap1 ''b''] = Ok es \<and>
      list_all2 (\<lambda>s e. GenerateCSISnapshot [] (Some s) = Ok e) [snap1 ''a'', snap1 ''b''] es) \<and>
    (\<exists>m. GetEntriesAndNextToken (Some (list_req1\<lparr>ls_StartingToken := Itoa 2\<rparr>)) [snap1 ''a'', snap1 ''b''] =
      Err (StatusErr Aborted m))"
    using ListSnapshots_pages [of "[snap1 ''a'', snap1 ''b'']" list_req1]
    by (simp add: list_req1_def of_source_def numeral_2_eq_2 del: follow_pages.simps)
  then show ?thesis by (fastforce dest: list_all2_lengthD simp del: follow_pages.simps)
qed

section \<open>Names\<close>

lemma diskSnapshotPath_uri:
  assumes "uri_part subs" "uri_part rg" "uri_part n"
  shows "getInfoFromDiskURI (diskSnapshotPath subs rg n) = Ok (rg, subs)"
proof -
  have j: "diskSnapshotPath subs rg n = Join [[], ''subscriptions'', subs, ''resourceGroups'', rg, ''providers'',
      ''Microsoft.Compute'', ''snapshots'', n] (CHR ''/'')"
    by (simp add: diskSnapshotPath_def)
  have "Split (diskSnapshotPath subs rg n) (CHR ''/'') = [[], ''subscriptions'', subs, ''resourceGroups'', rg, ''providers'',
      ''Microsoft.Compute'', ''snapshots'', n]"
    unfolding j by (rule Split_Join) (use assms in \<open>auto simp: uri_part_def\<close>)
  moreover have "ToLower ''resourceGroups'' = ''resourcegroups''" by code_simp
  ultimately show ?thesis by (simp add: getInfoFromDiskURI_def)
qed

end
