(* ===== verification/DriverCore.thy ===== *)
theory DriverCore
  imports ManagedDisk SnapshotUtils
begin

text \<open>
  The files \<open>pkg/azuredisk/azuredisk.go\<close>, \<open>pkg/azuredisk/azuredisk_option.go\<close> and
  \<open>pkg/csi-common/driver.go\<close>: the options of the driver, its construction, its state, the
  throttling caches, the checks of a disk the controller shares, and the LUNs in use on a node.

  The configuration (\<open>DriverCore\<close>, which embeds \<open>CSIDriver\<close>) does not change after the
  construction. What changes is the record \<open>driver\<close>: the volume locks and the disk controller, with
  the world inside. The services of other packages are the record \<open>services\<close>.
\<close>

section \<open>Capabilities of the driver\<close>

datatype controller_rpc =
    RPC_UNKNOWN | CREATE_DELETE_VOLUME | PUBLISH_UNPUBLISH_VOLUME | CREATE_DELETE_SNAPSHOT
  | CLONE_VOLUME | EXPAND_VOLUME | LIST_VOLUMES | LIST_VOLUMES_PUBLISHED_NODES | LIST_SNAPSHOTS
  | RPC_SINGLE_NODE_MULTI_WRITER

fun controller_rpc_String :: "controller_rpc \<Rightarrow> string" where
  "controller_rpc_String RPC_UNKNOWN = ''UNKNOWN''"
| "controller_rpc_String CREATE_DELETE_VOLUME = ''CREATE_DELETE_VOLUME''"
| "controller_rpc_String PUBLISH_UNPUBLISH_VOLUME = ''PUBLISH_UNPUBLISH_VOLUME''"
| "controller_rpc_String CREATE_DELETE_SNAPSHOT = ''CREATE_DELETE_SNAPSHOT''"
| "controller_rpc_String CLONE_VOLUME = ''CLONE_VOLUME''"
| "controller_rpc_String EXPAND_VOLUME = ''EXPAND_VOLUME''"
| "controller_rpc_String LIST_VOLUMES = ''LIST_VOLUMES''"
| "controller_rpc_String LIST_VOLUMES_PUBLISHED_NODES = ''LIST_VOLUMES_PUBLISHED_NODES''"
| "controller_rpc_String LIST_SNAPSHOTS = ''LIST_SNAPSHOTS''"
| "controller_rpc_String RPC_SINGLE_NODE_MULTI_WRITER = ''SINGLE_NODE_MULTI_WRITER''"

datatype node_rpc =
    STAGE_UNSTAGE_VOLUME | NODE_EXPAND_VOLUME | GET_VOLUME_STATS | NODE_SINGLE_NODE_MULTI_WRITER

record CSIDriver =
  csi_Name :: string
  csi_NodeID :: string
  csi_Version :: string
  csi_VolumeAttachLimit :: int
  csi_ReservedDataDiskSlotNum :: int
  csi_Cap :: "controller_rpc list"
  csi_VC :: "access_mode list"
  csi_NSCap :: "node_rpc list"

definition empty_csi_driver :: "string \<Rightarrow> string \<Rightarrow> string \<Rightarrow> CSIDriver" where
  "empty_csi_driver name v nodeID =
     \<lparr>csi_Name = name, csi_NodeID = nodeID, csi_Version = v, csi_VolumeAttachLimit = 0,
      csi_ReservedDataDiskSlotNum = 0, csi_Cap = [], csi_VC = [], csi_NSCap = []\<rparr>"

definition NewCSIDriver :: "string \<Rightarrow> string \<Rightarrow> string \<Rightarrow> CSIDriver option" where
  "NewCSIDriver name v nodeID =
     (if name = [] then None
      else if nodeID = [] then None
      else Some (empty_csi_driver name v nodeID))"

definition ValidateControllerServiceRequest :: "'a CSIDriver_scheme \<Rightarrow> controller_rpc \<Rightarrow> unit res" where
  "ValidateControllerServiceRequest d c =
     (if c = RPC_UNKNOWN then Ok ()
      else if list_ex (\<lambda>cap. c = cap) (csi_Cap d) then Ok ()
      else Err (StatusErr InvalidArgument (controller_rpc_String c)))"

definition AddControllerServiceCapabilities ::
    "controller_rpc list \<Rightarrow> 'a CSIDriver_scheme \<Rightarrow> 'a CSIDriver_scheme" where
  "AddControllerServiceCapabilities cl d = d\<lparr>csi_Cap := cl\<rparr>"

definition AddNodeServiceCapabilities :: "node_rpc list \<Rightarrow> 'a CSIDriver_scheme \<Rightarrow> 'a CSIDriver_scheme" where
  "AddNodeServiceCapabilities nl d = d\<lparr>csi_NSCap := nl\<rparr>"

definition AddVolumeCapabilityAccessModes ::
    "access_mode list \<Rightarrow> 'a CSIDriver_scheme \<Rightarrow> access_mode list \<times> 'a CSIDriver_scheme" where
  "AddVolumeCapabilityAccessModes vc d = (vc, d\<lparr>csi_VC := vc\<rparr>)"

definition GetVolumeCapabilityAccessModes :: "'a CSIDriver_scheme \<Rightarrow> access_mode list" where
  "GetVolumeCapabilityAccessModes d = csi_VC d"

section \<open>Options\<close>

record DriverOptions =
  opt_NodeID :: string
  opt_DriverName :: string
  opt_VolumeAttachLimit :: int
  opt_ReservedDataDiskSlotNum :: int
  opt_EnablePerfOptimization :: bool
  opt_CloudConfigSecretName :: string
  opt_CloudConfigSecretNamespace :: string
  opt_CustomUserAgent :: string
  opt_UserAgentSuffix :: string
  opt_UseCSIProxyGAInterface :: bool
  opt_EnableOtelTracing :: bool
  opt_EnableDiskOnlineResize :: bool
  opt_AllowEmptyCloudConfig :: bool
  opt_EnableListVolumes :: bool
  opt_EnableListSnapshots :: bool
  opt_SupportZone :: bool
  opt_GetNodeInfoFromLabels :: bool
  opt_EnableDiskCapacityCheck :: bool
  opt_DisableUpdateCache :: bool
  opt_EnableTrafficManager :: bool
  opt_TrafficManagerPort :: int
  opt_AttachDetachInitialDelayInMs :: int
  opt_VMSSCacheTTLInSeconds :: int
  opt_VolStatsCacheExpireInMinutes :: int
  opt_VMType :: string
  opt_EnableWindowsHostProcess :: bool
  opt_GetNodeIDFromIMDS :: bool
  opt_WaitForSnapshotReady :: bool
  opt_CheckDiskLUNCollision :: bool
  opt_ForceDetachBackoff :: bool
  opt_Kubeconfig :: string
  opt_Endpoint :: string
  opt_DisableAVSetNodes :: bool
  opt_KMSAddr :: string

text \<open>The values the flags have when they are not given.\<close>

definition AddFlags :: DriverOptions where
  "AddFlags = \<lparr>
     opt_NodeID = [],
     opt_DriverName = DefaultDriverName,
     opt_VolumeAttachLimit = - 1,
     opt_ReservedDataDiskSlotNum = 0,
     opt_EnablePerfOptimization = False,
     opt_CloudConfigSecretName = ''azure-cloud-provider'',
     opt_CloudConfigSecretNamespace = ''kube-system'',
     opt_CustomUserAgent = [],
     opt_UserAgentSuffix = [],
     opt_UseCSIProxyGAInterface = True,
     opt_EnableOtelTracing = False,
     opt_EnableDiskOnlineResize = True,
     opt_AllowEmptyCloudConfig = True,
     opt_EnableListVolumes = False,
     opt_EnableListSnapshots = False,
     opt_SupportZone = True,
     opt_GetNodeInfoFromLabels = False,
     opt_EnableDiskCapacityCheck = False,
     opt_DisableUpdateCache = False,
     opt_EnableTrafficManager = False,
     opt_TrafficManagerPort = 7788,
     opt_AttachDetachInitialDelayInMs = 1000,
     opt_VMSSCacheTTLInSeconds = - 1,
     opt_VolStatsCacheExpireInMinutes = 10,
     opt_VMType = [],
     opt_EnableWindowsHostProcess = False,
     opt_GetNodeIDFromIMDS = False,
     opt_WaitForSnapshotReady = True,
     opt_CheckDiskLUNCollision = True,
     opt_ForceDetachBackoff = True,
     opt_Kubeconfig = [],
     opt_Endpoint = ''unix://tmp/csi.sock'',
     opt_DisableAVSetNodes = False,
     opt_KMSAddr = ''kms-service.kube-system:9000''\<rparr>"

section \<open>Construction\<close>

record DriverCore = CSIDriver +
  perfOptimizationEnabled :: bool
  cloudConfigSecretName :: string
  cloudConfigSecretNamespace :: string
  customUserAgent :: string
  userAgentSuffix :: string
  useCSIProxyGAInterface :: bool
  enableDiskOnlineResize :: bool
  allowEmptyCloudConfig :: bool
  enableListVolumes :: bool
  enableListSnapshots :: bool
  supportZone :: bool
  getNodeInfoFromLabels_opt :: bool
  enableDiskCapacityCheck :: bool
  disableUpdateCache :: bool
  enableTrafficManager :: bool
  trafficManagerPort :: int
  vmssCacheTTLInSeconds :: int
  volStatsCacheExpireInMinutes :: int
  attachDetachInitialDelayInMs :: int
  vmType :: string
  enableWindowsHostProcess :: bool
  getNodeIDFromIMDS :: bool
  enableOtelTracing :: bool
  shouldWaitForSnapshotReady :: bool
  checkDiskLUNCollision :: bool
  forceDetachBackoff :: bool
  endpoint :: string
  disableAVSetNodes :: bool

text \<open>The capabilities by the options.\<close>

definition controllerCap :: "bool \<Rightarrow> bool \<Rightarrow> controller_rpc list" where
  "controllerCap listVolumes listSnapshots =
     [CREATE_DELETE_VOLUME, PUBLISH_UNPUBLISH_VOLUME, CREATE_DELETE_SNAPSHOT, CLONE_VOLUME, EXPAND_VOLUME] @
     (if listVolumes then [LIST_VOLUMES, LIST_VOLUMES_PUBLISHED_NODES] else []) @
     (if listSnapshots then [LIST_SNAPSHOTS] else [])"

text \<open>The options copied to the driver, and its capabilities. \<open>enableListSnapshots\<close> is set from
  \<open>EnableListVolumes\<close>, and \<open>ReservedDataDiskSlotNum\<close> is not set.\<close>

definition newDriverV1 :: "string \<Rightarrow> DriverOptions \<Rightarrow> DriverCore" where
  "newDriverV1 driverVersion options =
     AddNodeServiceCapabilities [STAGE_UNSTAGE_VOLUME, NODE_EXPAND_VOLUME, GET_VOLUME_STATS]
       (snd (AddVolumeCapabilityAccessModes
         [SINGLE_NODE_WRITER, SINGLE_NODE_READER_ONLY, SINGLE_NODE_SINGLE_WRITER]
         (AddControllerServiceCapabilities
           (controllerCap (opt_EnableListVolumes options) (opt_EnableListVolumes options))
           \<lparr>csi_Name = opt_DriverName options,
            csi_NodeID = opt_NodeID options,
            csi_Version = driverVersion,
            csi_VolumeAttachLimit = opt_VolumeAttachLimit options,
            csi_ReservedDataDiskSlotNum = 0,
            csi_Cap = [], csi_VC = [], csi_NSCap = [],
            perfOptimizationEnabled = opt_EnablePerfOptimization options,
            cloudConfigSecretName = opt_CloudConfigSecretName options,
            cloudConfigSecretNamespace = opt_CloudConfigSecretNamespace options,
            customUserAgent = opt_CustomUserAgent options,
            userAgentSuffix = opt_UserAgentSuffix options,
            useCSIProxyGAInterface = opt_UseCSIProxyGAInterface options,
            enableDiskOnlineResize = opt_EnableDiskOnlineResize options,
            allowEmptyCloudConfig = opt_AllowEmptyCloudConfig options,
            enableListVolumes = opt_EnableListVolumes options,
            enableListSnapshots = opt_EnableListVolumes options,
            supportZone = opt_SupportZone options,
            getNodeInfoFromLabels_opt = opt_GetNodeInfoFromLabels options,
            enableDiskCapacityCheck = opt_EnableDiskCapacityCheck options,
            disableUpdateCache = opt_DisableUpdateCache options,
            enableTrafficManager = opt_EnableTrafficManager options,
            trafficManagerPort = opt_TrafficManagerPort options,
            vmssCacheTTLInSeconds = opt_VMSSCacheTTLInSeconds options,
            volStatsCacheExpireInMinutes = opt_VolStatsCacheExpireInMinutes options,
            attachDetachInitialDelayInMs = opt_AttachDetachInitialDelayInMs options,
            vmType = opt_VMType options,
            enableWindowsHostProcess = opt_EnableWindowsHostProcess options,
            getNodeIDFromIMDS = opt_GetNodeIDFromIMDS options,
            enableOtelTracing = opt_EnableOtelTracing options,
            shouldWaitForSnapshotReady = opt_WaitForSnapshotReady options,
            checkDiskLUNCollision = opt_CheckDiskLUNCollision options,
            forceDetachBackoff = opt_ForceDetachBackoff options,
            endpoint = opt_Endpoint options,
            disableAVSetNodes = opt_DisableAVSetNodes options\<rparr>)))"

definition topologyKey :: "DriverCore \<Rightarrow> string" where
  "topologyKey D = ''topology.'' @ csi_Name D @ ''/zone''"

text \<open>The fields of the cloud configuration that the construction changes. \<open>vmss\<close> and \<open>standard\<close> are
  the machine types of the cloud provider.\<close>

record cloud_settings =
  cs_VMType :: string
  cs_UseInstanceMetadata :: bool
  cs_DisableAvailabilitySetNodes :: bool
  cs_VMCacheTTLInSeconds :: int
  cs_VmssCacheTTLInSeconds :: int

definition configure_cloud :: "string \<Rightarrow> string \<Rightarrow> DriverCore \<Rightarrow> cloud_settings \<Rightarrow> cloud_settings" where
  "configure_cloud VMTypeStandard VMTypeVMSS D c =
     (let c1 = (if vmType D \<noteq> [] then c\<lparr>cs_VMType := vmType D\<rparr> else c);
          c2 = (if csi_NodeID D = [] then
                  (let m = c1\<lparr>cs_UseInstanceMetadata := False\<rparr>;
                       m1 = (if cs_VMType m = VMTypeStandard \<and> cs_DisableAvailabilitySetNodes m
                             then m\<lparr>cs_DisableAvailabilitySetNodes := False\<rparr> else m)
                   in if cs_VMType m1 = VMTypeVMSS \<and> \<not> cs_DisableAvailabilitySetNodes m1 \<and> disableAVSetNodes D
                      then m1\<lparr>cs_DisableAvailabilitySetNodes := True\<rparr> else m1)
                else c1)
      in if vmssCacheTTLInSeconds D > 0
         then c2\<lparr>cs_VMCacheTTLInSeconds := vmssCacheTTLInSeconds D,
                 cs_VmssCacheTTLInSeconds := vmssCacheTTLInSeconds D\<rparr>
         else c2)"

section \<open>State and services\<close>

record 'w timed_cache =
  tc_Get :: "string \<Rightarrow> ('w, string option) io"
  tc_Set :: "string \<Rightarrow> string \<Rightarrow> 'w \<Rightarrow> 'w"

text \<open>
  The cloud, the two throttling caches, the construction of a cloud for another user agent, the time
  in milliseconds, the working directory, \<open>uuid.NewUUID\<close>, \<open>RoundUpToGiBInt32\<close>, the number of attempts of the polling in
  \<open>CreateManagedDisk\<close> and the number of ticks before the timeout in \<open>waitForSnapshotReady\<close>.
\<close>

record 'w services =
  sv_cloud :: "'w cloud"
  sv_throttlingCache :: "'w timed_cache"
  sv_checkDiskLunThrottlingCache :: "'w timed_cache"
  sv_GetCloudProviderFromClient :: "string \<Rightarrow> ('w, 'w cloud) io"
  sv_Now :: "'w \<Rightarrow> int"
  sv_Getwd :: "string res"
  sv_NewUUID :: "'w \<Rightarrow> string"
  sv_RoundUpToGiBInt32 :: "int \<Rightarrow> int res"
  sv_attempts :: nat
  sv_ticks :: nat

record 'w driver =
  volumeLocks :: volume_locks
  diskController :: "'w controllerCommon"

type_synonym ('w, 'a) drv_io = "('w driver, 'a) io"

definition on_controller :: "('w, 'a) cc_io \<Rightarrow> ('w, 'a) drv_io" where
  "on_controller m s = (case m (diskController s) of (r, c) \<Rightarrow> (r, s\<lparr>diskController := c\<rparr>))"

definition in_world :: "('w, 'a) io \<Rightarrow> ('w, 'a) drv_io" where
  "in_world m = on_controller (on_world m)"

definition new_driver :: "DriverCore \<Rightarrow> 'w \<Rightarrow> 'w driver" where
  "new_driver D w =
     \<lparr>volumeLocks = NewVolumeLocks,
      diskController = (NewManagedDiskController w)
        \<lparr>DisableUpdateCache := disableUpdateCache D,
         AttachDetachInitialDelayInMs := attachDetachInitialDelayInMs D,
         ForceDetachBackoff := forceDetachBackoff D\<rparr>\<rparr>"

definition release_volume :: "string \<Rightarrow> ('w, unit) drv_io" where
  "release_volume volumeID s = (Ok (), s\<lparr>volumeLocks := Release (volumeLocks s) volumeID\<rparr>)"

text \<open>\<open>if acquired := d.volumeLocks.TryAcquire(id); !acquired { return Aborted }; defer Release(id)\<close>\<close>

definition with_volume_lock :: "string \<Rightarrow> ('w, 'a) drv_io \<Rightarrow> ('w, 'a) drv_io" where
  "with_volume_lock volumeID m s =
     (case TryAcquire (volumeLocks s) volumeID of
        (acquired, vl) \<Rightarrow>
          if \<not> acquired then
            (Err (StatusErr Aborted (''An operation with the given Volume ID '' @ volumeID @ '' already exists'')),
             s\<lparr>volumeLocks := vl\<rparr>)
          else deferred (release_volume volumeID) m (s\<lparr>volumeLocks := vl\<rparr>))"

section \<open>Throttling and checks of a disk\<close>

definition isGetDiskThrottled :: "'w services \<Rightarrow> ('w, bool) drv_io" where
  "isGetDiskThrottled V =
     call (in_world (tc_Get (sv_throttlingCache V) GetDiskThrottlingKey))
       (\<lambda>err. ret False) (\<lambda>cache. ret (cache \<noteq> None))"

text \<open>This reads \<open>throttlingCache\<close>, not \<open>checkDiskLunThrottlingCache\<close>.\<close>

definition isCheckDiskLunThrottled :: "'w services \<Rightarrow> ('w, bool) drv_io" where
  "isCheckDiskLunThrottled V =
     call (in_world (tc_Get (sv_throttlingCache V) CheckDiskLunThrottlingKey))
       (\<lambda>err. ret False) (\<lambda>cache. ret (cache \<noteq> None))"

text \<open>The disk of a URI; \<open>None\<close> without an error when reading is throttled.\<close>

definition driver_checkDiskExists :: "'w services \<Rightarrow> string \<Rightarrow> ('w, disk option) drv_io" where
  "driver_checkDiskExists V diskURI =
     bind (lift (GetDiskName diskURI))
       (\<lambda>diskName. bind (lift (GetResourceGroupFromURI diskURI))
          (\<lambda>resourceGroup. bind (isGetDiskThrottled V)
             (\<lambda>throttled.
                if throttled then ret None
                else bind (lift (cl_GetDiskClientForSub (sv_cloud V) (GetSubscriptionIDFromURI diskURI)))
                       (\<lambda>diskClient. bind (in_world (dc_Get diskClient resourceGroup diskName))
                          (\<lambda>d. ret (Some d))))))"

text \<open>\<open>reflect.DeepEqual\<close> compares a pointer with a struct, so its negation always holds and a disk
  without properties is a nil dereference.\<close>

definition checkDiskCapacity ::
    "'w services \<Rightarrow> string \<Rightarrow> string \<Rightarrow> string \<Rightarrow> int \<Rightarrow> ('w, unit) drv_io" where
  "checkDiskCapacity V subsID resourceGroup diskName requestGiB =
     bind (isGetDiskThrottled V)
       (\<lambda>throttled.
          if throttled then ret ()
          else bind (lift (cl_GetDiskClientForSub (sv_cloud V) subsID))
                 (\<lambda>diskClient. call (in_world (dc_Get diskClient resourceGroup diskName))
                    (\<lambda>err. ret ())
                    (\<lambda>d. case disk_Properties d of
                         None \<Rightarrow> panic
                       | Some p \<Rightarrow>
                          (case prop_DiskSizeGB p of
                             None \<Rightarrow> ret ()
                           | Some gb \<Rightarrow>
                               if gb \<noteq> requestGiB then
                                 fail (StatusErr AlreadyExists
                                   (''the request volume already exists, but its capacity('' @ Itoa gb @
                                    '') is different from ('' @ Itoa requestGiB @ '')''))
                               else ret ()))))"

section \<open>Snapshots\<close>

definition getSnapshotCompletionPercent ::
    "'w services \<Rightarrow> string \<Rightarrow> string \<Rightarrow> string \<Rightarrow> ('w, rat) drv_io" where
  "getSnapshotCompletionPercent V subsID resourceGroup snapshotName =
     bind (lift (cl_GetSnapshotClientForSub (sv_cloud V) subsID))
       (\<lambda>snapshotClient. bind (in_world (sc_Get snapshotClient resourceGroup snapshotName))
          (\<lambda>copySnapshot.
             case Option.bind (snap_Properties copySnapshot) snp_CompletionPercent of
               None \<Rightarrow> ret 100
             | Some percent \<Rightarrow> ret percent))"

definition waitForSnapshotReadyInterval :: int where
  "waitForSnapshotReadyInterval = 5000"

text \<open>The loop of \<open>waitForSnapshotReady\<close>, with the number of ticks left before the timeout.\<close>

fun wait_ticks :: "'w services \<Rightarrow> nat \<Rightarrow> string \<Rightarrow> string \<Rightarrow> string \<Rightarrow> ('w, unit) drv_io" where
  "wait_ticks V 0 subsID resourceGroup snapshotName =
     fail (Errorf (''timeout waiting for snapshot('' @ snapshotName @ '') under rg('' @ resourceGroup @ '')''))"
| "wait_ticks V (Suc n) subsID resourceGroup snapshotName =
     bind (in_world (\<lambda>w. (Ok (), cl_Sleep (sv_cloud V) waitForSnapshotReadyInterval w)))
       (\<lambda>_. bind (getSnapshotCompletionPercent V subsID resourceGroup snapshotName)
          (\<lambda>completionPercent. if completionPercent \<ge> 100 then ret ()
             else wait_ticks V n subsID resourceGroup snapshotName))"

definition waitForSnapshotReady :: "'w services \<Rightarrow> string \<Rightarrow> string \<Rightarrow> string \<Rightarrow> ('w, unit) drv_io" where
  "waitForSnapshotReady V subsID resourceGroup snapshotName =
     bind (getSnapshotCompletionPercent V subsID resourceGroup snapshotName)
       (\<lambda>completionPercent. if completionPercent \<ge> 100 then ret ()
          else wait_ticks V (sv_ticks V) subsID resourceGroup snapshotName)"

section \<open>LUNs in use\<close>

fun attachment_luns :: "string \<Rightarrow> volume_attachment list \<Rightarrow> int list" where
  "attachment_luns nodeName [] = []"
| "attachment_luns nodeName (va # rest) =
     (if va_Attacher va = DefaultDriverName \<and> EqualFold (va_NodeName va) nodeName \<and> va_Attached va then
        (case map_of (va_AttachmentMetadata va) LUN of
           Some k \<Rightarrow> (case Atoi k of Ok lun \<Rightarrow> lun # attachment_luns nodeName rest
                                  | _ \<Rightarrow> attachment_luns nodeName rest)
         | None \<Rightarrow> attachment_luns nodeName rest)
      else attachment_luns nodeName rest)"

definition getUsedLunsFromVolumeAttachments :: "'w services \<Rightarrow> string \<Rightarrow> ('w, int list) drv_io" where
  "getUsedLunsFromVolumeAttachments V nodeName =
     (case Option.bind (cl_KubeClient (sv_cloud V)) kc_VolumeAttachments of
        None \<Rightarrow> fail (Errorf ''kubeClient or kubeClient.StorageV1() or kubeClient.StorageV1().VolumeAttachments() is nil'')
      | Some list \<Rightarrow> bind (in_world list) (\<lambda>items. ret (attachment_luns nodeName items)))"

text \<open>A disk without a LUN is skipped; the warning about it reads its name.\<close>

fun node_luns :: "data_disk list \<Rightarrow> int list res" where
  "node_luns [] = Ok []"
| "node_luns (d # ds) =
     (case dd_Lun d of
        None \<Rightarrow> (case dd_Name d of None \<Rightarrow> Panic | Some _ \<Rightarrow> node_luns ds)
      | Some lun \<Rightarrow> (case node_luns ds of Ok luns \<Rightarrow> Ok (lun # luns) | Err e \<Rightarrow> Err e | Panic \<Rightarrow> Panic))"

definition getUsedLunsFromNode :: "'w services \<Rightarrow> string \<Rightarrow> ('w, int list) drv_io" where
  "getUsedLunsFromNode V nodeName =
     bind (on_controller (GetNodeDataDisks (sv_cloud V) nodeName CacheReadTypeDefault))
       (\<lambda>(disks, _, err). case err of Some e \<Rightarrow> fail e | None \<Rightarrow> lift (node_luns disks))"

section \<open>Nodes and sizes\<close>

definition getNodeInfoFromLabels :: "string \<Rightarrow> 'w kube_client option \<Rightarrow> ('w, string \<times> string) io" where
  "getNodeInfoFromLabels nodeName kubeClient =
     (case Option.bind kubeClient kc_NodeLabels of
        None \<Rightarrow> fail (Errorf ''kubeClient is nil'')
      | Some get \<Rightarrow>
          call (get nodeName)
            (\<lambda>err. fail (Errorf (''get node('' @ nodeName @ '') failed with '' @ Error err)))
            (\<lambda>labels.
               if labels = [] then fail (Errorf (''node('' @ nodeName @ '') label is empty''))
               else ret (case map_of labels WellKnownTopologyKey of Some v \<Rightarrow> v | None \<Rightarrow> [],
                         case map_of labels InstanceTypeKey of Some v \<Rightarrow> v | None \<Rightarrow> [])))"

definition getDefaultDiskIOPSReadWrite :: "sdk \<Rightarrow> int \<Rightarrow> int" where
  "getDefaultDiskIOPSReadWrite S requestGiB =
     (let iops = DefaultDiskIOPSReadWrite S;
          iops1 = (if requestGiB > iops then requestGiB else iops)
      in if iops1 > 160000 then 160000 else iops1)"

definition getDefaultDiskMBPSReadWrite :: "sdk \<Rightarrow> int \<Rightarrow> int" where
  "getDefaultDiskMBPSReadWrite S requestGiB =
     (let bandwidth = DefaultDiskMBpsReadWrite S;
          iops = getDefaultDiskIOPSReadWrite S requestGiB;
          b1 = (if iops sdiv 256 > bandwidth then RoundUpSize iops 256 else bandwidth);
          b2 = (if b1 > iops sdiv 4 then RoundUpSize iops 4 else b1)
      in if b2 > 4000 then 4000 else b2)"

text \<open>\<open>strconv.FormatInt(n, 36)\<close> and the verb \<open>%06s\<close>, which fills up with zeros on the left.\<close>

definition digit36 :: "nat \<Rightarrow> char" where
  "digit36 n = (if n < 10 then char_of (48 + n) else char_of (87 + n))"

fun nat_base36 :: "nat \<Rightarrow> string" where
  "nat_base36 n = (if n < 36 then [digit36 n] else nat_base36 (n div 36) @ [digit36 (n mod 36)])"

definition FormatInt36 :: "int \<Rightarrow> string" where
  "FormatInt36 n = (if n < 0 then CHR ''-'' # nat_base36 (nat (- n)) else nat_base36 (nat n))"

definition pad06 :: "string \<Rightarrow> string" where
  "pad06 s = replicate (6 - length s) (CHR ''0'') @ s"

definition getVMSSInstanceName :: "string \<Rightarrow> string res" where
  "getVMSSInstanceName computeName =
     (let names = Split computeName (CHR ''_'')
      in if length names \<noteq> 2 then Err (Errorf (''invalid vmss compute name: '' @ computeName))
         else (case Atoi (names ! 1) of
                 Err err \<Rightarrow> Err (Errorf (''parsing vmss compute name('' @ computeName @ '') failed with '' @ Error err))
               | Panic \<Rightarrow> Panic
               | Ok instanceID \<Rightarrow> Ok (names ! 0 @ pad06 (FormatInt36 instanceID))))"

end
