(* ===== verification/ControllerServer.thy ===== *)
theory ControllerServer
  imports DriverCore "HOL-Library.List_Lexorder" "HOL-Library.Char_ord"
begin

text \<open>
  The file \<open>pkg/azuredisk/controllerserver.go\<close>: the CSI controller service. Each RPC is a definition
  on the driver's state; an error is a gRPC status unless the code returns another one. Logging and
  metrics are left out, and so are requests quoted with \<open>%v\<close> in messages. A text passed to
  \<open>status.Errorf\<close> as the format is the message as it is.
\<close>

section \<open>Messages\<close>

datatype content_source = EmptySource | SnapshotSource string | VolumeSource string

record create_volume_request =
  cv_Name :: string
  cv_Parameters :: str_map
  cv_VolumeCapabilities :: "volume_capability list"
  cv_RequiredBytes :: int
  cv_LimitBytes :: int
  cv_AccessibilityRequirements :: "topology_requirement option"
  cv_VolumeContentSource :: "content_source option"

record csi_volume =
  vol_VolumeId :: string
  vol_CapacityBytes :: int
  vol_VolumeContext :: str_map
  vol_ContentSource :: content_source
  vol_AccessibleTopology :: "str_map list"

definition maxErrMsgLength :: nat where
  "maxErrMsgLength = 990"

definition checkDiskLunThrottleLatency :: int where
  "checkDiskLunThrottleLatency = 1000"

text \<open>\<open>if err != nil { return nil, status.Error(code, err.Error()) }\<close>\<close>

definition or_status :: "code \<Rightarrow> 'a res \<Rightarrow> ('a \<Rightarrow> ('w, 'b) io) \<Rightarrow> ('w, 'b) io" where
  "or_status c r k = call (lift r) (\<lambda>err. fail (StatusErr c (Error err))) k"

section \<open>CreateVolume\<close>

text \<open>The checks before the lock of the volume is taken.\<close>

definition validate_create ::
    "sdk \<Rightarrow> DriverCore \<Rightarrow> 'w services \<Rightarrow> create_volume_request \<Rightarrow> ManagedDiskParameters res" where
  "validate_create S D V req =
     (case ValidateControllerServiceRequest D CREATE_DELETE_VOLUME of
        Err e \<Rightarrow> Err e
      | Panic \<Rightarrow> Panic
      | Ok _ \<Rightarrow>
     (case ParseDiskParameters S (cv_Parameters req) of
        Err err \<Rightarrow> Err (StatusErr InvalidArgument (''Failed parsing disk parameters: '' @ Error err))
      | Panic \<Rightarrow> Panic
      | Ok p \<Rightarrow>
          if cv_Name req = [] then Err (StatusErr InvalidArgument ''CreateVolume Name must be provided'')
          else if cv_VolumeCapabilities req = [] then
            Err (StatusErr InvalidArgument ''CreateVolume Volume capabilities must be provided'')
          else (case IsValidVolumeCapabilities (cv_VolumeCapabilities req) (mdp_MaxShares p) of
                  Err err \<Rightarrow> Err (StatusErr InvalidArgument (Error err))
                | Panic \<Rightarrow> Panic
                | Ok _ \<Rightarrow>
                    if perfOptimizationEnabled D \<and> EqualFold (mdp_PerfProfile p) PerfProfileAdvanced then
                      (case AreDeviceSettingsValid (sv_Getwd V) DummyBlockDevicePathLinux (mdp_DeviceSettings p) of
                         Err err \<Rightarrow> Err (StatusErr InvalidArgument (Error err))
                       | Panic \<Rightarrow> Panic
                       | Ok _ \<Rightarrow> Ok p)
                    else Ok p)))"

text \<open>The size of the new disk in GiB: the request rounded up, at least the minimum, within the limit.\<close>

definition requested_size :: "ManagedDiskParameters \<Rightarrow> int \<Rightarrow> int \<Rightarrow> int res" where
  "requested_size p requiredBytes limitBytes =
     (let requestGiB = RoundUpGiB requiredBytes;
          r1 = (if mdp_PerformancePlus p = Some True \<and> requestGiB < PerformancePlusMinimumDiskSizeGiB
                then PerformancePlusMinimumDiskSizeGiB else requestGiB);
          r2 = (if r1 < MinimumDiskSizeGiB then MinimumDiskSizeGiB else r1);
          maxVolSize = RoundUpGiB limitBytes
      in if maxVolSize > 0 \<and> maxVolSize < r2
         then Err (StatusErr InvalidArgument ''After round-up, volume size exceeds the limit specified'')
         else Ok r2)"

text \<open>The cloud the disk is created with: the driver's own, or one for the user agent.\<close>

definition local_cloud :: "'w services \<Rightarrow> string \<Rightarrow> ('w, 'w cloud) drv_io" where
  "local_cloud V userAgent =
     (if userAgent \<noteq> [] then
        call (in_world (sv_GetCloudProviderFromClient V userAgent))
          (\<lambda>err. fail (StatusErr Internal (''create cloud with UserAgent('' @ userAgent @
                   '') failed with: ('' @ Error err @ '')''))) ret
      else ret (sv_cloud V))"

text \<open>A disk controller of its own for a user agent: it shares the world and nothing else with the
  driver's.\<close>

definition local_controller :: "DriverCore \<Rightarrow> 'w \<Rightarrow> 'w controllerCommon" where
  "local_controller D w =
     \<lparr>diskStateMap = [], cc_lockMap = newLockMap, attachDiskMap = [], detachDiskMap = [],
      DisableUpdateCache = disableUpdateCache D, DisableDiskLunCheck = True,
      AttachDetachInitialDelayInMs = attachDetachInitialDelayInMs D,
      ForceDetachBackoff = forceDetachBackoff D, world = w\<rparr>"

definition on_local_controller :: "DriverCore \<Rightarrow> string \<Rightarrow> ('w, 'a) cc_io \<Rightarrow> ('w, 'a) drv_io" where
  "on_local_controller D userAgent m =
     (if userAgent \<noteq> [] then
        in_world (\<lambda>w. case m (local_controller D w) of (r, c) \<Rightarrow> (r, world c))
      else on_controller m)"

text \<open>The defaults and the normal form of the parameters.\<close>

definition normalize_create ::
    "sdk \<Rightarrow> 'w services \<Rightarrow> 'w cloud \<Rightarrow> string \<Rightarrow> ManagedDiskParameters \<Rightarrow>
     ('w, ManagedDiskParameters \<times> string \<times> string \<times> string) drv_io" where
  "normalize_create S V localCloud name p0 =
     (let stack = IsAzureStackCloud (cl_Cloud localCloud) (cl_DisableAzureStackCloud localCloud)
      in if stack \<and> mdp_MaxShares p0 > 1 then
           fail (StatusErr InvalidArgument (''Invalid maxShares value: '' @ Itoa (mdp_MaxShares p0) @
                   '' as Azure Stack does not support shared disk.''))
         else
           bind get_state
             (\<lambda>s. bind (lift (CreateValidDiskName (sv_NewUUID V (world (diskController s)))
                            (if mdp_DiskName p0 = [] then name else mdp_DiskName p0)))
                (\<lambda>diskName.
                   let p1 = p0\<lparr>mdp_DiskName := diskName,
                              mdp_ResourceGroup := (if mdp_ResourceGroup p0 = [] then cl_ResourceGroup (sv_cloud V)
                                                    else mdp_ResourceGroup p0)\<rparr>
                   in or_status InvalidArgument
                        (NormalizeStorageAccountType S (mdp_AccountType p1) (cl_Cloud localCloud)
                           (cl_DisableAzureStackCloud localCloud))
                        (\<lambda>skuName. or_status InvalidArgument (NormalizeCachingMode S (mdp_CachingMode p1))
                           (\<lambda>_.
                              let p2 = (if skuName = DiskStorageAccountTypesPremiumV2LRS S
                                        then p1\<lparr>mdp_VolumeContext :=
                                               (case SetKeyValueInMap (Some (mdp_VolumeContext p1)) CachingModeField
                                                       (AzureDataDiskCachingNone S) of
                                                  Some m \<Rightarrow> m | None \<Rightarrow> mdp_VolumeContext p1)\<rparr>
                                        else p1)
                              in or_status InvalidArgument (ValidateDiskEncryptionType S (mdp_DiskEncryptionType p2))
                                   (\<lambda>_. or_status InvalidArgument
                                      (NormalizeNetworkAccessPolicy S (mdp_NetworkAccessPolicy p2))
                                      (\<lambda>networkAccessPolicy. or_status InvalidArgument
                                         (NormalizePublicNetworkAccess S (mdp_PublicNetworkAccess p2))
                                         (\<lambda>publicNetworkAccess.
                                            ret (p2, skuName, networkAccessPolicy, publicNetworkAccess)))))))))"

text \<open>
  The size and the disk at the end of the chain of copies. \<open>left\<close> is \<open>maxDepth + 1 - curDepth\<close>, so
  that the test \<open>curDepth > maxDepth\<close> is \<open>left = 0\<close>.
\<close>

fun source_disk_size ::
    "'w services \<Rightarrow> string \<Rightarrow> string \<Rightarrow> string \<Rightarrow> int \<Rightarrow> int \<Rightarrow> nat \<Rightarrow> ('w, int \<times> disk) drv_io" where
  "source_disk_size V subsID resourceGroup diskName curDepth maxDepth 0 =
     fail (StatusErr Internal (''current depth ('' @ Itoa curDepth @ '') surpassed the max depth ('' @
       Itoa maxDepth @ '') while searching for the source disk size''))"
| "source_disk_size V subsID resourceGroup diskName curDepth maxDepth (Suc left) =
     or_status Internal (cl_GetDiskClientForSub (sv_cloud V) subsID)
       (\<lambda>diskClient. bind (in_world (dc_Get diskClient resourceGroup diskName))
          (\<lambda>result.
             case disk_Properties result of
               None \<Rightarrow> fail (StatusErr Internal (''DiskProperty not found for disk ('' @ diskName @
                         '') in resource group ('' @ resourceGroup @ '')''))
             | Some p \<Rightarrow>
                 (let size = (case prop_DiskSizeGB p of
                                None \<Rightarrow> fail (StatusErr Internal (''DiskSizeGB for disk ('' @ diskName @
                                          '') in resourcegroup ('' @ resourceGroup @ '') is nil''))
                              | Some gb \<Rightarrow> ret (gb, result))
                  in case prop_CreationData p of
                       None \<Rightarrow> size
                     | Some cd \<Rightarrow>
                         if cd_CreateOption cd = CreateOptionCopy then
                           (case cd_SourceResourceID cd of
                              None \<Rightarrow> panic
                            | Some sourceResourceID \<Rightarrow>
                                source_disk_size V subsID
                                  (case GetResourceGroupFromURI sourceResourceID of Ok rg \<Rightarrow> rg | _ \<Rightarrow> [])
                                  (Base sourceResourceID) (curDepth + 1) maxDepth left)
                         else size)))"

definition GetSourceDiskSize ::
    "'w services \<Rightarrow> string \<Rightarrow> string \<Rightarrow> string \<Rightarrow> int \<Rightarrow> int \<Rightarrow> ('w, int \<times> disk) drv_io" where
  "GetSourceDiskSize V subsID resourceGroup diskName curDepth maxDepth =
     source_disk_size V subsID resourceGroup diskName curDepth maxDepth (nat (maxDepth + 1 - curDepth))"

text \<open>The content source: the id and kind of the source, the answer's content source, and for a source
  volume the zone of its disk and the mark that the new disk has to be resized.\<close>

definition volume_source ::
    "'w services \<Rightarrow> content_source option \<Rightarrow> ManagedDiskParameters \<Rightarrow> int \<Rightarrow> string \<Rightarrow>
     ('w, string \<times> string \<times> content_source \<times> str_map \<times> string) drv_io" where
  "volume_source V content p requestGiB diskZone =
     (case content of
        None \<Rightarrow> ret ([], [], EmptySource, mdp_VolumeContext p, diskZone)
      | Some (SnapshotSource sourceID) \<Rightarrow>
          ret (sourceID, SourceSnapshot, SnapshotSource sourceID, mdp_VolumeContext p, diskZone)
      | Some src \<Rightarrow>
          (let sourceID = (case src of VolumeSource i \<Rightarrow> i | _ \<Rightarrow> [])
           in call (GetSourceDiskSize V (GetSubscriptionIDFromURI sourceID) (mdp_ResourceGroup p) (Base sourceID)
                      0 SourceDiskSearchMaxDepth)
                (\<lambda>err. ret (sourceID, SourceVolume, VolumeSource sourceID, mdp_VolumeContext p, diskZone))
                (\<lambda>(sourceGiB, d).
                   ret (sourceID, SourceVolume, VolumeSource sourceID,
                        if sourceGiB < to_int32 requestGiB
                        then AList.update ResizeRequired (FormatBool True) (mdp_VolumeContext p)
                        else mdp_VolumeContext p,
                        case disk_Zones d of [z] \<Rightarrow> mdp_Location p @ ''-'' @ z | _ \<Rightarrow> diskZone))))"

text \<open>The zone of the disk and the topology of the volume: a zone-redundant disk has no zone and is
  accessible from the three zones and from nodes without one.\<close>

definition zone_topology :: "string \<Rightarrow> string \<Rightarrow> string \<Rightarrow> string \<Rightarrow> string \<times> str_map list" where
  "zone_topology key skuName location diskZone =
     (if HasSuffix (ToLower skuName) ''zrs'' then
        ([], map (\<lambda>i. [(key, location @ ''-'' @ Itoa i)]) [1, 2, 3] @ [[(key, [])]])
      else (diskZone, [[(key, diskZone)]]))"

text \<open>The default performance of an ultra disk.\<close>

definition ultra_defaults :: "sdk \<Rightarrow> string \<Rightarrow> int \<Rightarrow> ManagedDiskParameters \<Rightarrow> ManagedDiskParameters" where
  "ultra_defaults S skuName requestGiB p =
     (if skuName = DiskStorageAccountTypesUltraSSDLRS S \<and>
         mdp_DiskIOPSReadWrite p = [] \<and> mdp_DiskMBPSReadWrite p = []
      then p\<lparr>mdp_DiskIOPSReadWrite := Itoa (getDefaultDiskIOPSReadWrite S requestGiB),
             mdp_DiskMBPSReadWrite := Itoa (getDefaultDiskMBPSReadWrite S requestGiB)\<rparr>
      else p)"

definition volume_options ::
    "ManagedDiskParameters \<Rightarrow> string \<Rightarrow> string \<Rightarrow> int \<Rightarrow> string \<Rightarrow> string \<Rightarrow> bool \<Rightarrow> bool \<Rightarrow> string \<Rightarrow> string \<Rightarrow>
     ManagedDiskOptions" where
  "volume_options p diskZone skuName requestGiB sourceID sourceType throttled stack policy publicAccess =
     \<lparr>mdo_StorageAccountType = skuName, mdo_DiskName = mdp_DiskName p, mdo_PVCName = [],
      mdo_ResourceGroup = mdp_ResourceGroup p, mdo_AvailabilityZone = diskZone, mdo_Tags = mdp_Tags p,
      mdo_DiskIOPSReadWrite = mdp_DiskIOPSReadWrite p, mdo_DiskMBpsReadWrite = mdp_DiskMBPSReadWrite p,
      mdo_SourceResourceID = sourceID, mdo_SourceType = sourceType,
      mdo_DiskEncryptionSetID = mdp_DiskEncryptionSetID p, mdo_DiskEncryptionType = mdp_DiskEncryptionType p,
      mdo_SizeGB = requestGiB, mdo_MaxShares = to_int32 (mdp_MaxShares p),
      mdo_LogicalSectorSize = to_int32 (mdp_LogicalSectorSize p), mdo_SkipGetDiskOperation = throttled,
      mdo_PublicNetworkAccess = (if stack then [] else publicAccess),
      mdo_NetworkAccessPolicy = (if stack then [] else policy),
      mdo_DiskAccessID = (if \<not> stack \<and> mdp_DiskAccessID p \<noteq> [] then Some (mdp_DiskAccessID p) else None),
      mdo_BurstingEnabled = mdp_EnableBursting p, mdo_SubscriptionID = mdp_SubscriptionID p,
      mdo_Location = mdp_Location p, mdo_PerformancePlus = mdp_PerformancePlus p\<rparr>"

text \<open>The part after the options are normal: the capacity check, the source, the topology, the call of
  \<open>CreateManagedDisk\<close> and the answer.\<close>

definition create_disk ::
    "sdk \<Rightarrow> DriverCore \<Rightarrow> 'w services \<Rightarrow> 'w cloud \<Rightarrow> create_volume_request \<Rightarrow> int \<Rightarrow>
     ManagedDiskParameters \<times> string \<times> string \<times> string \<Rightarrow> ('w, csi_volume) drv_io" where
  "create_disk S D V localCloud req requestGiB normal =
     (case normal of (p0, skuName, policy, publicAccess) \<Rightarrow>
      let zone0 = PickAvailabilityZone (cv_AccessibilityRequirements req) (mdp_Location p0) (topologyKey D)
      in bind (if enableDiskCapacityCheck D
               then checkDiskCapacity V (mdp_SubscriptionID p0) (mdp_ResourceGroup p0) (mdp_DiskName p0) requestGiB
               else ret ())
           (\<lambda>_.
              let p1 = (if EqualFold (mdp_WriteAcceleratorEnabled p0) TrueValue
                        then p0\<lparr>mdp_Tags := AList.update (azure_WriteAcceleratorEnabled S) TrueValue (mdp_Tags p0)\<rparr>
                        else p0)
              in bind (volume_source V (cv_VolumeContentSource req) p1 requestGiB zone0)
                   (\<lambda>(sourceID, sourceType, contentSource, context, zone1).
                      let (diskZone, topology) = zone_topology (topologyKey D) skuName (mdp_Location p1) zone1;
                          p2 = (ultra_defaults S skuName requestGiB p1)
                                 \<lparr>mdp_VolumeContext := AList.update RequestedSizeGib (Itoa requestGiB) context\<rparr>
                      in bind (isGetDiskThrottled V)
                           (\<lambda>throttled.
                              call (on_local_controller D (mdp_UserAgent p2)
                                      (CreateManagedDisk S localCloud (sv_attempts V)
                                         (volume_options p2 diskZone skuName requestGiB sourceID sourceType throttled
                                            (IsAzureStackCloud (cl_Cloud localCloud) (cl_DisableAzureStackCloud localCloud))
                                            policy publicAccess)))
                                (\<lambda>err. if Contains (Error err) NotFoundText
                                       then fail (StatusErr NotFound (Error err))
                                       else fail (StatusErr Internal (Error err)))
                                (\<lambda>diskURI. ret
                                   \<lparr>vol_VolumeId = diskURI, vol_CapacityBytes = GiBToBytes requestGiB,
                                    vol_VolumeContext = mdp_VolumeContext p2,
                                    vol_ContentSource = contentSource,
                                    vol_AccessibleTopology = topology\<rparr>)))))"

definition CreateVolume ::
    "sdk \<Rightarrow> DriverCore \<Rightarrow> 'w services \<Rightarrow> create_volume_request \<Rightarrow> ('w, csi_volume) drv_io" where
  "CreateVolume S D V req =
     bind (lift (validate_create S D V req))
       (\<lambda>p. with_volume_lock (cv_Name req)
          (bind (lift (requested_size p (cv_RequiredBytes req) (cv_LimitBytes req)))
             (\<lambda>requestGiB.
                let p1 = (if mdp_Location p = [] then p\<lparr>mdp_Location := cl_Location (sv_cloud V)\<rparr> else p)
                in bind (local_cloud V (mdp_UserAgent p1))
                     (\<lambda>localCloud. bind (normalize_create S V localCloud (cv_Name req) p1)
                        (create_disk S D V localCloud req requestGiB)))))"

section \<open>DeleteVolume\<close>

definition DeleteVolume :: "DriverCore \<Rightarrow> 'w services \<Rightarrow> string \<Rightarrow> ('w, unit) drv_io" where
  "DeleteVolume D V volumeID =
     (if volumeID = [] then fail (StatusErr InvalidArgument ''Volume ID missing in the request'')
      else (case ValidateControllerServiceRequest D CREATE_DELETE_VOLUME of
              Err _ \<Rightarrow> fail (StatusErr Internal ''invalid delete volume req: '')
            | Panic \<Rightarrow> panic
            | Ok _ \<Rightarrow>
                if \<not> is_Ok (IsValidDiskURI volumeID) then ret ()
                else with_volume_lock volumeID (on_controller (DeleteManagedDisk (sv_cloud V) volumeID))))"

definition ControllerGetVolume :: "('w, unit) drv_io" where
  "ControllerGetVolume = fail (StatusErr Unimplemented [])"

definition ControllerModifyVolume :: "('w, unit) drv_io" where
  "ControllerModifyVolume = fail (StatusErr Unimplemented [])"

section \<open>ControllerPublishVolume\<close>

text \<open>
  The LUNs that volume attachments claim and the machine does not show yet. When that took longer
  than the limit, the timer has set a key in \<open>checkDiskLunThrottlingCache\<close>.
\<close>

definition occupied_luns :: "'w services \<Rightarrow> string \<Rightarrow> ('w, int list) drv_io" where
  "occupied_luns V nodeName =
     call (getUsedLunsFromVolumeAttachments V nodeName)
       (\<lambda>err. ret [])
       (\<lambda>usedLunsFromVA.
          if usedLunsFromVA \<noteq> [] then
            call (getUsedLunsFromNode V nodeName)
              (\<lambda>err. ret [])
              (\<lambda>usedLunsFromNode. ret (GetElementsInArray1NotInArray2 usedLunsFromVA usedLunsFromNode))
          else ret [])"

definition getOccupiedLunsFromNode :: "DriverCore \<Rightarrow> 'w services \<Rightarrow> string \<Rightarrow> ('w, int list) drv_io" where
  "getOccupiedLunsFromNode D V nodeName =
     (if \<not> checkDiskLUNCollision D then ret []
      else bind (isCheckDiskLunThrottled V)
             (\<lambda>throttled.
                if throttled then ret []
                else bind get_state
                       (\<lambda>s0. bind (occupied_luns V nodeName)
                          (\<lambda>luns. bind get_state
                             (\<lambda>s1. bind (in_world (\<lambda>w.
                                  (Ok (), if sv_Now V (world (diskController s1)) - sv_Now V (world (diskController s0))
                                               > checkDiskLunThrottleLatency
                                          then tc_Set (sv_checkDiskLunThrottlingCache V) CheckDiskLunThrottlingKey [] w
                                          else w)))
                                (\<lambda>_. ret luns))))))"

definition set_initial_delay :: "int \<Rightarrow> ('w, unit) drv_io" where
  "set_initial_delay delay s =
     (Ok (), if delay > 0
             then s\<lparr>diskController := (diskController s)\<lparr>AttachDetachInitialDelayInMs := delay\<rparr>\<rparr> else s)"

definition truncate_msg :: "string \<Rightarrow> string" where
  "truncate_msg errMsg = (if length errMsg > maxErrMsgLength then take maxErrMsgLength errMsg else errMsg)"

text \<open>Attaching a disk that the machine does not have yet. A disk attached elsewhere is detached there and
  attached again, once.\<close>

definition publish_attach ::
    "sdk \<Rightarrow> DriverCore \<Rightarrow> 'w services \<Rightarrow> string \<Rightarrow> string \<Rightarrow> string \<Rightarrow> str_map \<Rightarrow> disk option \<Rightarrow> ('w, int) drv_io" where
  "publish_attach S D V diskName diskURI nodeName volumeContext dsk =
     or_status Internal (GetCachingMode S volumeContext)
       (\<lambda>cachingMode. bind (getOccupiedLunsFromNode D V nodeName)
          (\<lambda>occupiedLuns. bind (set_initial_delay (GetAttachDiskInitialDelay volumeContext))
             (\<lambda>_.
                let C = sv_cloud V;
                    attach = on_controller (AttachDisk S C diskName diskURI nodeName cachingMode
                               (map_option (\<lambda>d. (0, d)) dsk) occupiedLuns);
                    failed = (\<lambda>err. fail (StatusErr Internal (truncate_msg
                               (''Attach volume '' @ diskURI @ '' to instance '' @ nodeName @ '' failed with '' @ Error err))))
                in call attach
                     (\<lambda>err. case err of
                         DanglingAttachError _ currentNode \<Rightarrow>
                           if EqualFold nodeName currentNode then
                             fail (StatusErr Internal (''volume '' @ diskURI @
                               '' is actually attached to current node '' @ nodeName @ '', return error''))
                           else
                             call (on_controller (DetachDisk S C diskName diskURI currentNode))
                               (\<lambda>err. fail (StatusErr Internal (''Could not detach volume '' @ diskURI @
                                  '' from node '' @ currentNode @ '': '' @ Error err)))
                               (\<lambda>_. call attach failed ret)
                       | _ \<Rightarrow> failed err)
                     ret)))"

text \<open>The LUN of the disk on the node: where it is already, or where it is attached now. A machine in
  failed state that has the disk is updated.\<close>

definition ensure_attached ::
    "sdk \<Rightarrow> DriverCore \<Rightarrow> 'w services \<Rightarrow> string \<Rightarrow> string \<Rightarrow> string \<Rightarrow> str_map \<Rightarrow> disk option \<Rightarrow> ('w, int) drv_io" where
  "ensure_attached S D V diskName diskURI nodeName volumeContext dsk =
     bind (on_controller (GetDiskLun S (sv_cloud V) diskName diskURI nodeName))
       (\<lambda>(lun, vmState, err).
          if err = Some InstanceNotFound then
            fail (StatusErr NotFound (''failed to get azure instance id for node '' @ dquoted nodeName @
              '' ('' @ Error InstanceNotFound @ '')''))
          else (case err of
             None \<Rightarrow>
               if (case vmState of Some st \<Rightarrow> ToLower st = ''failed'' | None \<Rightarrow> False) then
                 call (on_controller (UpdateVM (sv_cloud V) nodeName))
                   (\<lambda>err. fail (StatusErr Internal (''update instance '' @ dquoted nodeName @
                      '' failed with '' @ Error err)))
                   (\<lambda>_. ret lun)
               else ret lun
           | Some e \<Rightarrow>
               if \<not> Contains (Error e) (CannotFindDiskLUN S) then
                 fail (StatusErr Internal (''could not get disk lun for volume '' @ diskURI @ '': '' @ Error e))
               else publish_attach S D V diskName diskURI nodeName volumeContext dsk))"

text \<open>The publish context: the LUN, and the properties of the disk when the volume was not created by
  this driver.\<close>

definition publish_context :: "disk option \<Rightarrow> str_map \<Rightarrow> int \<Rightarrow> str_map res" where
  "publish_context dsk volumeContext lun =
     (let publishContext = [(LUN, Itoa lun)]
      in case dsk of
           None \<Rightarrow> Ok publishContext
         | Some _ \<Rightarrow>
             if map_of volumeContext RequestedSizeGib = None then
               (case InsertDiskProperties dsk (Some publishContext) of
                  Ok (Some m) \<Rightarrow> Ok m
                | Ok None \<Rightarrow> Ok publishContext
                | Err e \<Rightarrow> Err e
                | Panic \<Rightarrow> Panic)
             else Ok publishContext)"

definition ControllerPublishVolume ::
    "sdk \<Rightarrow> DriverCore \<Rightarrow> 'w services \<Rightarrow> string \<Rightarrow> volume_capability option \<Rightarrow> string \<Rightarrow> str_map \<Rightarrow>
     ('w, str_map) drv_io" where
  "ControllerPublishVolume S D V diskURI volCap nodeID volumeContext =
     (if diskURI = [] then fail (StatusErr InvalidArgument ''Volume ID not provided'')
      else (case volCap of
        None \<Rightarrow> fail (StatusErr InvalidArgument ''Volume capability not provided'')
      | Some cap \<Rightarrow>
          call (lift (GetMaxShares volumeContext))
            (\<lambda>err. fail (StatusErr InvalidArgument ''MaxShares value not supported''))
            (\<lambda>maxShares. or_status InvalidArgument (IsValidVolumeCapabilities [cap] maxShares)
               (\<lambda>_. call (driver_checkDiskExists V diskURI)
                  (\<lambda>err. fail (StatusErr NotFound (''Volume not found, failed with error: '' @ Error err)))
                  (\<lambda>dsk.
                     if nodeID = [] then fail (StatusErr InvalidArgument ''Node ID not provided'')
                     else or_status Internal (GetDiskName diskURI)
                       (\<lambda>diskName. bind (ensure_attached S D V diskName diskURI nodeID volumeContext dsk)
                          (\<lambda>lun. lift (publish_context dsk volumeContext lun))))))))"

section \<open>ControllerUnpublishVolume\<close>

definition ControllerUnpublishVolume ::
    "sdk \<Rightarrow> 'w services \<Rightarrow> string \<Rightarrow> string \<Rightarrow> ('w, unit) drv_io" where
  "ControllerUnpublishVolume S V diskURI nodeID =
     (if diskURI = [] then fail (StatusErr InvalidArgument ''Volume ID not provided'')
      else if nodeID = [] then fail (StatusErr InvalidArgument ''Node ID not provided'')
      else or_status Internal (GetDiskName diskURI)
        (\<lambda>diskName. call (on_controller (DetachDisk S (sv_cloud V) diskName diskURI nodeID))
           (\<lambda>err. if Contains (Error err) ErrDiskNotFound then ret ()
                  else fail (StatusErr Internal (truncate_msg
                         (''Could not detach volume '' @ diskURI @ '' from node '' @ nodeID @ '': '' @ Error err))))
           (\<lambda>_. ret ())))"

section \<open>ValidateVolumeCapabilities\<close>

datatype validate_response = ValidateMessage string | Confirmed "volume_capability list"

definition ValidateVolumeCapabilities ::
    "'w services \<Rightarrow> string \<Rightarrow> volume_capability list option \<Rightarrow> str_map \<Rightarrow> ('w, validate_response) drv_io" where
  "ValidateVolumeCapabilities V diskURI volumeCapabilities params =
     (if diskURI = [] then fail (StatusErr InvalidArgument ''Volume ID missing in the request'')
      else (case volumeCapabilities of
        None \<Rightarrow> fail (StatusErr InvalidArgument ''VolumeCapabilities missing in the request'')
      | Some caps \<Rightarrow>
          call (lift (GetMaxShares params))
            (\<lambda>err. fail (StatusErr InvalidArgument ''MaxShares value not supported''))
            (\<lambda>maxShares. call (lift (IsValidVolumeCapabilities caps maxShares))
               (\<lambda>err. ret (ValidateMessage (Error err)))
               (\<lambda>_. call (driver_checkDiskExists V diskURI)
                  (\<lambda>err. fail (StatusErr NotFound (''Volume not found, failed with error: '' @ Error err)))
                  (\<lambda>_. ret (Confirmed caps))))))"

definition ControllerGetCapabilities :: "DriverCore \<Rightarrow> controller_rpc list" where
  "ControllerGetCapabilities D = csi_Cap D"

definition GetCapacity :: "('w, unit) drv_io" where
  "GetCapacity = fail (StatusErr Unimplemented [])"

section \<open>ListVolumes\<close>

type_synonym list_entry = "string \<times> string list"

record listVolumeStatus =
  numVisited :: int
  isCompleteRun :: bool
  entries :: "list_entry list"
  list_err :: "go_error option"

text \<open>The loop over the disks from index \<open>i\<close> on: the entries, the index it stopped at and whether it
  visited all disks.\<close>

fun list_disks ::
    "'w services \<Rightarrow> string list option \<Rightarrow> int \<Rightarrow> nat \<Rightarrow> disk list \<Rightarrow> list_entry list \<Rightarrow>
     ('w, nat \<times> bool \<times> list_entry list) drv_io" where
  "list_disks V volSet maxEntries i [] es = ret (i, True, es)"
| "list_disks V volSet maxEntries i (d # ds) es =
     (if maxEntries > 0 \<and> int (length es) \<ge> maxEntries then ret (i, False, es)
      else
        (let skip = list_disks V volSet maxEntries (i + 1) ds es;
             visit =
               (if (case Option.bind (disk_Properties d) prop_HyperVGeneration of None \<Rightarrow> True | Some g \<Rightarrow> g = []) then
                  bind (case disk_ManagedBy d of
                          None \<Rightarrow> ret []
                        | Some m \<Rightarrow> bind (in_world (cl_VMSet_GetNodeNameByProviderID (sv_cloud V) m)) (\<lambda>n. ret [n]))
                    (\<lambda>nodeList. case disk_ID d of
                         None \<Rightarrow> panic
                       | Some diskID \<Rightarrow> list_disks V volSet maxEntries (i + 1) ds (es @ [(diskID, nodeList)]))
                else skip)
         in case volSet of
              None \<Rightarrow> visit
            | Some vols \<Rightarrow>
                (case disk_ID d of
                   None \<Rightarrow> panic
                 | Some diskID \<Rightarrow> if ToLower diskID \<notin> set vols then skip else visit)))"

definition listVolumesByResourceGroup ::
    "'w services \<Rightarrow> string \<Rightarrow> list_entry list \<Rightarrow> int \<Rightarrow> int \<Rightarrow> string list option \<Rightarrow> ('w, listVolumeStatus) drv_io" where
  "listVolumesByResourceGroup V resourceGroup es start maxEntries volSet =
     call (in_world (dc_ListByResourceGroup (cl_GetDiskClient (sv_cloud V)) resourceGroup))
       (\<lambda>derr. ret \<lparr>numVisited = 0, isCompleteRun = False, entries = [], list_err = Some
          (StatusErr Internal (''ListVolumes on rg('' @ resourceGroup @ '') failed with error: '' @ Error derr))\<rparr>)
       (\<lambda>disks.
          if volSet = Some [] then
            ret \<lparr>numVisited = int (length disks), isCompleteRun = True, entries = es, list_err = None\<rparr>
          else if start > 0 \<and> start \<ge> int (length disks) then
            ret \<lparr>numVisited = int (length disks), isCompleteRun = False, entries = [], list_err = Some
              (StatusErr FailedPrecondition (''ListVolumes starting token('' @ Itoa start @ '') on rg('' @
                 cl_ResourceGroup (sv_cloud V) @ '') is greater than total number of volumes''))\<rparr>
          else
            (let start' = (if start < 0 then 0 else start)
             in call (list_disks V volSet maxEntries (nat start') (drop (nat start') disks) es)
                  (\<lambda>err. ret \<lparr>numVisited = 0, isCompleteRun = False, entries = [], list_err = Some err\<rparr>)
                  (\<lambda>(i, completed, es'). ret
                     \<lparr>numVisited = int i - start', isCompleteRun = completed, entries = es', list_err = None\<rparr>)))"

definition listVolumesInNodeResourceGroup ::
    "'w services \<Rightarrow> int \<Rightarrow> int \<Rightarrow> ('w, list_entry list \<times> string) drv_io" where
  "listVolumesInNodeResourceGroup V start maxEntries =
     bind (listVolumesByResourceGroup V (cl_ResourceGroup (sv_cloud V)) [] start maxEntries None)
       (\<lambda>st. case list_err st of
           Some e \<Rightarrow> fail e
         | None \<Rightarrow> ret (entries st, if \<not> isCompleteRun st then Itoa (numVisited st) else []))"

text \<open>The resource groups and the URIs of this driver's persistent volumes in the subscription, both
  lower case.\<close>

fun cluster_volumes ::
    "DriverCore \<Rightarrow> string \<Rightarrow> (string \<times> string) option list \<Rightarrow> string list \<times> string list" where
  "cluster_volumes D subs [] = ([], [])"
| "cluster_volumes D subs (pv # pvs) =
     (case cluster_volumes D subs pvs of (rgs, vols) \<Rightarrow>
        (case pv of
           None \<Rightarrow> (rgs, vols)
         | Some (driverName, diskURI) \<Rightarrow>
             if driverName \<noteq> csi_Name D \<or> \<not> is_Ok (IsValidDiskURI diskURI) then (rgs, vols)
             else (case GetResourceGroupFromURI diskURI of
                     Ok rg \<Rightarrow>
                       if \<not> EqualFold (GetSubscriptionIDFromURI diskURI) subs then (rgs, vols)
                       else (List.insert (ToLower rg) rgs, List.insert (ToLower diskURI) vols)
                   | _ \<Rightarrow> (rgs, vols))))"

text \<open>The loop over the resource groups: the entries, the number of visited disks, whether all groups
  were listed to their end, and whether the start was found.\<close>

fun list_groups ::
    "'w services \<Rightarrow> int \<Rightarrow> int \<Rightarrow> string list \<Rightarrow> string list \<Rightarrow> list_entry list \<Rightarrow> int \<Rightarrow> bool \<Rightarrow> bool \<Rightarrow>
     ('w, list_entry list \<times> int \<times> bool \<times> bool) drv_io" where
  "list_groups V start maxEntries vols [] es visited completed found = ret (es, visited, completed, found)"
| "list_groups V start maxEntries vols (rg # rgs) es visited completed found =
     (if \<not> completed \<or> (maxEntries > 0 \<and> int (length es) \<ge> maxEntries) then ret (es, visited, False, found)
      else
        bind (listVolumesByResourceGroup V rg es (if found then 0 else start - visited)
                (maxEntries - int (length es)) (Some vols))
          (\<lambda>st.
             let visited' = visited + numVisited st
             in case list_err st of
                  Some e \<Rightarrow>
                    if status_Code e = FailedPrecondition
                    then list_groups V start maxEntries vols rgs es visited' completed found
                    else fail e
                | None \<Rightarrow>
                    list_groups V start maxEntries vols rgs (entries st) visited' (completed \<and> isCompleteRun st) True))"

definition listVolumesInCluster ::
    "DriverCore \<Rightarrow> 'w services \<Rightarrow> ('w, (string \<times> string) option list) io \<Rightarrow> int \<Rightarrow> int \<Rightarrow>
     ('w, list_entry list \<times> string) drv_io" where
  "listVolumesInCluster D V listPVs start maxEntries =
     call (in_world listPVs)
       (\<lambda>err. fail (StatusErr Internal (''ListVolumes failed while fetching PersistentVolumes List with error: '' @ Error err)))
       (\<lambda>pvs. case cluster_volumes D (cl_SubscriptionID (sv_cloud V)) pvs of (rgs, vols) \<Rightarrow>
          bind (list_groups V start maxEntries vols (sort rgs) [] 0 True False)
            (\<lambda>(es, visited, completed, found).
               if start > 0 \<and> \<not> found then
                 fail (StatusErr FailedPrecondition (''ListVolumes starting token('' @ Itoa start @
                   '') is greater than total number of disks''))
               else ret (es, if \<not> completed then Itoa (start + visited) else [])))"

definition ListVolumes ::
    "DriverCore \<Rightarrow> 'w services \<Rightarrow> string \<Rightarrow> int \<Rightarrow> ('w, list_entry list \<times> string) drv_io" where
  "ListVolumes D V startingToken maxEntries =
     (let go = (\<lambda>start.
            case Option.bind (cl_KubeClient (sv_cloud V)) kc_PersistentVolumes of
              Some listPVs \<Rightarrow> listVolumesInCluster D V listPVs start maxEntries
            | None \<Rightarrow> listVolumesInNodeResourceGroup V start maxEntries)
      in if startingToken = [] then go 0
         else
           call (lift (Atoi startingToken))
             (\<lambda>err. fail (StatusErr Aborted (''ListVolumes starting token('' @ startingToken @
                '') parsing with error: '' @ Error err)))
             (\<lambda>start. if start < 0 then
                  fail (StatusErr Aborted (''ListVolumes starting token('' @ Itoa start @ '') can not be negative''))
                else go start))"

section \<open>ControllerExpandVolume\<close>

definition ControllerExpandVolume ::
    "sdk \<Rightarrow> DriverCore \<Rightarrow> 'w services \<Rightarrow> string \<Rightarrow> int \<Rightarrow> ('w, int \<times> bool) drv_io" where
  "ControllerExpandVolume S D V diskURI capacityBytes =
     (if diskURI = [] then fail (StatusErr InvalidArgument ''Volume ID missing in the request'')
      else if \<not> is_Ok (ValidateControllerServiceRequest D EXPAND_VOLUME) then
        fail (StatusErr InvalidArgument ''invalid expand volume request: '')
      else if capacityBytes = 0 then
        fail (StatusErr InvalidArgument ''volume capacity range missing in request'')
      else
        call (lift (IsValidDiskURI diskURI))
          (\<lambda>err. fail (StatusErr InvalidArgument (''disk URI('' @ diskURI @ '') is not valid: '' @ Error err)))
          (\<lambda>_. call (lift (GetDiskName diskURI))
             (\<lambda>err. fail (StatusErr Internal (''could not get disk name from diskURI('' @ diskURI @
                '') with error('' @ Error err @ '')'')))
             (\<lambda>diskName. call (lift (GetResourceGroupFromURI diskURI))
                (\<lambda>err. fail (StatusErr Internal (''could not get resource group from diskURI('' @ diskURI @
                   '') with error('' @ Error err @ '')'')))
                (\<lambda>resourceGroup.
                   let subsID = GetSubscriptionIDFromURI diskURI
                   in call (lift (cl_GetDiskClientForSub (sv_cloud V) subsID))
                        (\<lambda>err. fail (StatusErr Internal (''could not get disk client for subscription('' @ subsID @
                           '') with error('' @ Error err @ '')'')))
                        (\<lambda>diskClient. call (in_world (dc_Get diskClient resourceGroup diskName))
                           (\<lambda>rerr. fail (StatusErr Internal (''could not get the disk('' @ diskName @ '') under rg('' @
                              resourceGroup @ '') with error('' @ Error rerr @ '')'')))
                           (\<lambda>result.
                              if Option.bind (disk_Properties result) prop_DiskSizeGB = None then
                                fail (StatusErr Internal (''could not get size of the disk('' @ diskName @ '')''))
                              else
                                call (on_controller (ResizeDisk S (sv_cloud V) (sv_RoundUpToGiBInt32 V) diskURI
                                        capacityBytes (enableDiskOnlineResize D)))
                                  (\<lambda>err. fail (StatusErr Internal (''failed to resize disk('' @ diskURI @
                                     '') with error('' @ Error err @ '')'')))
                                  (\<lambda>newSize. if int64_range newSize then ret (newSize, True)
                                     else fail (StatusErr Internal ''failed to transform disk size with error(<nil>)''))))))))"

section \<open>Snapshots\<close>

text \<open>The name, the resource group and the subscription of a snapshot id.\<close>

definition getSnapshotInfo :: "string \<Rightarrow> (string \<times> string \<times> string) res" where
  "getSnapshotInfo snapshotID =
     (case GetSnapshotNameFromURI snapshotID of
        Err e \<Rightarrow> Err e
      | Panic \<Rightarrow> Panic
      | Ok snapshotName \<Rightarrow>
         (case GetResourceGroupFromURI snapshotID of
            Err e \<Rightarrow> Err e
          | Panic \<Rightarrow> Panic
          | Ok resourceGroup \<Rightarrow>
              let subsID = GetSubscriptionIDFromURI snapshotID
              in if subsID = [] then Err (Errorf (''cannot get SubscriptionID from '' @ snapshotID))
                 else Ok (snapshotName, resourceGroup, subsID)))"

definition snapshot_client ::
    "'w services \<Rightarrow> string \<Rightarrow> ('w snapshot_client \<Rightarrow> ('w, 'a) drv_io) \<Rightarrow> ('w, 'a) drv_io" where
  "snapshot_client V subsID k =
     call (lift (cl_GetSnapshotClientForSub (sv_cloud V) subsID))
       (\<lambda>err. fail (StatusErr Internal (''could not get snapshot client for subscription('' @ subsID @
          '') with error('' @ Error err @ '')''))) k"

definition getSnapshotByID ::
    "'w services \<Rightarrow> string \<Rightarrow> string \<Rightarrow> string \<Rightarrow> string \<Rightarrow> ('w, csi_snapshot) drv_io" where
  "getSnapshotByID V subsID0 resourceGroup0 snapshotID sourceVolumeID =
     or_status Internal
       (if IsARMResourceID snapshotID then getSnapshotInfo snapshotID
        else Ok (snapshotID, resourceGroup0, subsID0))
       (\<lambda>(snapshotName, resourceGroup, subsID). snapshot_client V subsID
          (\<lambda>snapshotClient. call (in_world (sc_Get snapshotClient resourceGroup snapshotName))
             (\<lambda>err. fail (StatusErr Internal (''get snapshot '' @ snapshotName @ '' from rg('' @ resourceGroup @
                '') error: '' @ Error err)))
             (\<lambda>snap. lift (GenerateCSISnapshot sourceVolumeID (Some snap)))))"

record snapshot_parameters =
  sp_customTags :: string
  sp_incremental :: bool
  sp_subsID :: string
  sp_resourceGroup :: string
  sp_dataAccessAuthMode :: string
  sp_location :: string
  sp_stack :: bool

text \<open>The loop over the parameters. \<open>sp_stack\<close> is whether the cloud is an Azure Stack, all that is used of
  the cloud built for a user agent.\<close>

fun snapshot_params ::
    "'w services \<Rightarrow> str_map \<Rightarrow> snapshot_parameters \<Rightarrow> ('w, snapshot_parameters) drv_io" where
  "snapshot_params V [] p = ret p"
| "snapshot_params V ((k, v) # rest) p =
     (let key = ToLower k
      in if key = TagsField then snapshot_params V rest (p\<lparr>sp_customTags := v\<rparr>)
         else if key = IncrementalField then
           snapshot_params V rest (if v = ''false'' then p\<lparr>sp_incremental := False\<rparr> else p)
         else if key = ResourceGroupField then snapshot_params V rest (p\<lparr>sp_resourceGroup := v\<rparr>)
         else if key = LocationField then snapshot_params V rest (p\<lparr>sp_location := v\<rparr>)
         else if key = UserAgentField then
           call (in_world (sv_GetCloudProviderFromClient V v))
             (\<lambda>err. fail (StatusErr Internal (''create cloud with UserAgent('' @ v @
                '') failed with: ('' @ Error err @ '')'')))
             (\<lambda>localCloud. snapshot_params V rest (p\<lparr>sp_stack :=
                IsAzureStackCloud (cl_Cloud localCloud) (cl_DisableAzureStackCloud localCloud)\<rparr>))
         else if key = SubscriptionIDField then snapshot_params V rest (p\<lparr>sp_subsID := v\<rparr>)
         else if key = DataAccessAuthModeField then snapshot_params V rest (p\<lparr>sp_dataAccessAuthMode := v\<rparr>)
         else fail (StatusErr Internal (''AzureDisk - invalid option '' @ k @ '' in VolumeSnapshotClass'')))"

definition init_snapshot_params :: "'w services \<Rightarrow> snapshot_parameters" where
  "init_snapshot_params V =
     \<lparr>sp_customTags = [], sp_incremental = True, sp_subsID = [], sp_resourceGroup = [],
      sp_dataAccessAuthMode = [], sp_location = cl_Location (sv_cloud V),
      sp_stack = IsAzureStackCloud (cl_Cloud (sv_cloud V)) (cl_DisableAzureStackCloud (sv_cloud V))\<rparr>"

definition snapshot_model ::
    "'w services \<Rightarrow> string \<Rightarrow> disk_create_option \<Rightarrow> string \<Rightarrow> bool \<Rightarrow> string \<Rightarrow> str_map \<Rightarrow> snapshot" where
  "snapshot_model V source createOption location incremental dataAccessAuthMode tags =
     \<lparr>snap_ID = None, snap_Location = Some location, snap_Tags = tags,
      snap_Properties = Some
        \<lparr>snp_TimeCreated = None, snp_DiskSizeGB = None, snp_ProvisioningState = None,
         snp_CreationData = Some (empty_creation\<lparr>cd_CreateOption := createOption,
                                                cd_SourceResourceID := Some source\<rparr>),
         snp_CompletionPercent = None, snp_Incremental = Some incremental,
         snp_DataAccessAuthMode = (if dataAccessAuthMode \<noteq> [] then Some dataAccessAuthMode else None)\<rparr>\<rparr>"

definition sleep_if_throttled :: "'w services \<Rightarrow> go_error \<Rightarrow> ('w, unit) drv_io" where
  "sleep_if_throttled V err =
     in_world (\<lambda>w. let secs = SleepIfThrottled (Some err) SnapshotOpThrottlingSleepSec
                   in (Ok (), if secs = 0 then w else cl_Sleep (sv_cloud V) (1000 * secs) w))"

text \<open>\<open>snapshotClient.CreateOrUpdate\<close> with its errors.\<close>

definition put_snapshot ::
    "'w services \<Rightarrow> 'w snapshot_client \<Rightarrow> string \<Rightarrow> string \<Rightarrow> snapshot \<Rightarrow> ('w, unit) drv_io" where
  "put_snapshot V snapshotClient resourceGroup snapshotName snap =
     call (in_world (sc_CreateOrUpdate snapshotClient resourceGroup snapshotName snap))
       (\<lambda>err. if Contains (Error err) ''existing disk'' then
           fail (StatusErr AlreadyExists (''request snapshot('' @ snapshotName @ '') under rg('' @ resourceGroup @
             '') already exists, but the SourceVolumeId is different, error details: '' @ Error err))
         else bind (sleep_if_throttled V err)
                (\<lambda>_. fail (StatusErr Internal (''create snapshot error: '' @ Error err))))
       ret"

definition wait_snapshot :: "'w services \<Rightarrow> string \<Rightarrow> string \<Rightarrow> string \<Rightarrow> ('w, unit) drv_io" where
  "wait_snapshot V subsID resourceGroup snapshotName =
     call (waitForSnapshotReady V subsID resourceGroup snapshotName)
       (\<lambda>err. fail (StatusErr Internal (''waitForSnapshotReady('' @ subsID @ '', '' @ resourceGroup @ '', '' @
          snapshotName @ '') failed with '' @ Error err))) ret"

text \<open>The copy of a local snapshot to another region: copy, wait, delete the local one, read the copy.\<close>

definition cross_region ::
    "'w services \<Rightarrow> 'w snapshot_client \<Rightarrow> snapshot_parameters \<Rightarrow> str_map \<Rightarrow> string \<Rightarrow> string \<Rightarrow> string \<Rightarrow> string \<Rightarrow>
     csi_snapshot \<Rightarrow> ('w, csi_snapshot) drv_io" where
  "cross_region V snapshotClient p tags resourceGroup snapshotName crossName sourceVolumeID local =
     bind (put_snapshot V snapshotClient resourceGroup crossName
             (snapshot_model V (cs_SnapshotId local) CreateOptionCopyStart (sp_location p) (sp_incremental p)
                (sp_dataAccessAuthMode p) tags))
       (\<lambda>_. bind (wait_snapshot V (sp_subsID p) resourceGroup crossName)
          (\<lambda>_. bind (call (in_world (sc_Delete snapshotClient resourceGroup snapshotName))
                       (\<lambda>err. sleep_if_throttled V err) ret)
             (\<lambda>_. call (getSnapshotByID V (sp_subsID p) resourceGroup crossName sourceVolumeID)
                (\<lambda>err. fail (StatusErr Internal (Error err))) ret)))"

text \<open>The part of \<open>CreateSnapshot\<close> under the lock of the snapshot.\<close>

definition create_snapshot ::
    "DriverCore \<Rightarrow> 'w services \<Rightarrow> snapshot_parameters \<Rightarrow> str_map \<Rightarrow> string \<Rightarrow> string \<Rightarrow> string \<Rightarrow>
     ('w, csi_snapshot) drv_io" where
  "create_snapshot D V p tags resourceGroup snapshotName0 sourceVolumeID =
     (let cross = (sp_location p \<noteq> [] \<and> sp_location p \<noteq> cl_Location (sv_cloud V))
      in if cross \<and> \<not> sp_incremental p then
           fail (StatusErr InvalidArgument ''could not create snapshot cross region with incremental is false'')
         else
           bind get_state
             (\<lambda>s. bind (lift (if cross then CreateValidDiskName (sv_NewUUID V (world (diskController s))) (''local_'' @ snapshotName0)
                            else Ok snapshotName0))
                (\<lambda>snapshotName. snapshot_client V (sp_subsID p)
                   (\<lambda>snapshotClient.
                      bind (put_snapshot V snapshotClient resourceGroup snapshotName
                              (snapshot_model V sourceVolumeID CreateOptionCopy (cl_Location (sv_cloud V))
                                 (sp_incremental p) (sp_dataAccessAuthMode p) tags))
                        (\<lambda>_. bind (if shouldWaitForSnapshotReady D
                                   then wait_snapshot V (sp_subsID p) resourceGroup snapshotName else ret ())
                           (\<lambda>_. bind (getSnapshotByID V (sp_subsID p) resourceGroup snapshotName sourceVolumeID)
                              (\<lambda>csiSnapshot.
                                 if cross \<and> snapshotName0 \<noteq> [] then
                                   cross_region V snapshotClient p tags resourceGroup snapshotName snapshotName0
                                     sourceVolumeID csiSnapshot
                                 else ret csiSnapshot)))))))"

definition CreateSnapshot ::
    "sdk \<Rightarrow> DriverCore \<Rightarrow> 'w services \<Rightarrow> string \<Rightarrow> string \<Rightarrow> str_map \<Rightarrow> ('w, csi_snapshot) drv_io" where
  "CreateSnapshot S D V sourceVolumeID name parameters =
     (if sourceVolumeID = [] then
        fail (StatusErr InvalidArgument ''CreateSnapshot Source Volume ID must be provided'')
      else if name = [] then fail (StatusErr InvalidArgument ''snapshot name must be provided'')
      else
        bind get_state
          (\<lambda>s. bind (lift (CreateValidDiskName (sv_NewUUID V (world (diskController s))) name))
             (\<lambda>snapshotName. bind (snapshot_params V parameters (init_snapshot_params V))
                (\<lambda>p0.
                   let p = (if sp_stack p0 then p0\<lparr>sp_incremental := False\<rparr> else p0)
                   in call (lift (if sp_resourceGroup p = [] then GetResourceGroupFromURI sourceVolumeID
                                  else Ok (sp_resourceGroup p)))
                        (\<lambda>err. fail (StatusErr InvalidArgument (''could not get resource group from diskURI('' @
                           sourceVolumeID @ '') with error('' @ Error err @ '')'')))
                        (\<lambda>resourceGroup. or_status InvalidArgument (ConvertTagsToMap (sp_customTags p))
                           (\<lambda>tags. or_status InvalidArgument
                              (ValidateDataAccessAuthMode S (sp_dataAccessAuthMode p))
                              (\<lambda>_. with_volume_lock snapshotName
                                 (create_snapshot D V p tags resourceGroup snapshotName sourceVolumeID))))))))"

definition DeleteSnapshot :: "'w services \<Rightarrow> string \<Rightarrow> ('w, unit) drv_io" where
  "DeleteSnapshot V snapshotID =
     (if snapshotID = [] then fail (StatusErr InvalidArgument ''Snapshot ID must be provided'')
      else
        or_status Internal
          (if IsARMResourceID snapshotID then getSnapshotInfo snapshotID
           else Ok (snapshotID, cl_ResourceGroup (sv_cloud V), []))
          (\<lambda>(snapshotName, resourceGroup, subsID). snapshot_client V subsID
             (\<lambda>snapshotClient. call (in_world (sc_Delete snapshotClient resourceGroup snapshotName))
                (\<lambda>err. bind (sleep_if_throttled V err)
                   (\<lambda>_. fail (StatusErr Internal (''delete snapshot error: '' @ Error err))))
                ret)))"

text \<open>A snapshot that is asked for and does not exist is an empty answer.\<close>

definition ListSnapshots ::
    "'w services \<Rightarrow> list_snapshots_request \<Rightarrow> ('w, csi_snapshot list \<times> string) drv_io" where
  "ListSnapshots V req =
     (if ls_SnapshotId req \<noteq> [] then
        call (getSnapshotByID V [] (cl_ResourceGroup (sv_cloud V)) (ls_SnapshotId req) (ls_SourceVolumeId req))
          (\<lambda>err. if Contains (Error err) ResourceNotFound then ret ([], []) else fail err)
          (\<lambda>snap. ret ([snap], []))
      else
        call (in_world (sc_List (cl_GetSnapshotClient (sv_cloud V)) (cl_ResourceGroup (sv_cloud V))))
          (\<lambda>err. fail (StatusErr Internal (''Unknown list snapshot error: '' @ Error err)))
          (\<lambda>snapshots. lift (GetEntriesAndNextToken (Some req) snapshots)))"

end
