(* ===== verification/ControllerLocks.thy ===== *)
theory ControllerLocks
  imports ControllerServer SnapshotUtilsCorrect
begin

text \<open>
  The locks of the controller service: every call gives back the locks it takes, and two operations on
  one volume exclude each other. And the creation of a volume: it has the size that was asked for.
\<close>

section \<open>Locks\<close>

text \<open>The state after a call: the same volume locks, and a disk controller that has given back its locks
  and marks.\<close>

definition serves :: "'w driver \<Rightarrow> 'w driver \<Rightarrow> bool" where
  "serves s s' \<longleftrightarrow> volumeLocks s' = volumeLocks s \<and> gives_back (diskController s) (diskController s')"

lemma serves_refl [simp, intro]: "reflp serves"
  by (auto simp: reflp_def serves_def intro: reflpD [OF gives_back_refl])

lemma serves_trans [simp, intro]: "transp serves"
  using gives_back_trans unfolding transp_def serves_def by metis

lemma keeps_on_controller [simp, intro]:
  assumes "keeps gives_back m"
  shows "keeps serves (on_controller m)"
  using assms by (auto simp: keeps_def on_controller_def serves_def split: prod.splits)

lemma keeps_in_world [simp, intro]: "keeps serves (in_world m)"
  by (simp add: in_world_def)

lemma with_volume_lock_cases:
  assumes "with_volume_lock v m s = (r, s')"
  obtains "v \<in> locks (volumeLocks s)" "\<exists>msg. r = Err (StatusErr Aborted msg)" "s' = s"
  | s1 where "v \<notin> locks (volumeLocks s)"
      "m (s\<lparr>volumeLocks := (volumeLocks s)\<lparr>locks := insert v (locks (volumeLocks s))\<rparr>\<rparr>) = (r, s1)"
      "r \<noteq> Panic" "s' = s1\<lparr>volumeLocks := Release (volumeLocks s1) v\<rparr>"
  | "r = Panic"
proof (cases "v \<in> locks (volumeLocks s)")
  case True
  then have "\<exists>msg. r = Err (StatusErr Aborted msg)" "s' = s"
    using assms by (auto simp: with_volume_lock_def TryAcquire_def)
  with True show thesis by (rule that(1))
next
  case False
  let ?s0 = "s\<lparr>volumeLocks := (volumeLocks s)\<lparr>locks := insert v (locks (volumeLocks s))\<rparr>\<rparr>"
  obtain r1 s1 where m: "m ?s0 = (r1, s1)" by fastforce
  have "deferred (release_volume v) m ?s0 = (r, s')"
    using assms False by (simp add: with_volume_lock_def TryAcquire_def)
  then have "(r = Panic) \<or> (r = r1 \<and> r1 \<noteq> Panic \<and> s' = s1\<lparr>volumeLocks := Release (volumeLocks s1) v\<rparr>)"
    using m by (cases r1) (auto simp: deferred_def release_volume_def)
  then show thesis using that(2) [OF False, of s1] that(3) m by metis
qed

lemma release_insert: "v \<notin> locks vl \<Longrightarrow> Release (vl\<lparr>locks := insert v (locks vl)\<rparr>) v = vl"
  by (cases vl) (simp add: Release_def)

lemma keeps_with_volume_lock [intro]:
  assumes "keeps serves m"
  shows "keeps serves (with_volume_lock v m)"
  unfolding keeps_def
proof (intro allI impI)
  fix s r s' assume e: "with_volume_lock v m s = (r, s')" and r: "r \<noteq> Panic"
  from e show "serves s s'"
  proof (cases rule: with_volume_lock_cases)
    case 1
    then show ?thesis using reflpD [OF serves_refl] by simp
  next
    case (2 s1)
    from keepsD [OF assms 2(2,3)] have "volumeLocks s1 = (volumeLocks s)\<lparr>locks := insert v (locks (volumeLocks s))\<rparr>"
      "gives_back (diskController s) (diskController s1)" by (simp_all add: serves_def)
    with 2 release_insert [of v "volumeLocks s"] show ?thesis by (simp add: serves_def)
  qed (use r in simp)
qed

lemma keeps_or_status [intro]:
  assumes "\<And>x. keeps serves (k x)"
  shows "keeps serves (or_status c r k)"
  unfolding or_status_def using assms by (intro keeps_call) simp_all

lemma keeps_local_controller [simp, intro]:
  assumes "keeps gives_back m"
  shows "keeps serves (on_local_controller D ua m)"
  using assms by (simp add: on_local_controller_def)

lemmas serves_rules = keeps_bind keeps_call keeps_deferred keeps_ite keeps_or_status keeps_with_volume_lock

section \<open>The operations keep the locks\<close>

lemma keeps_GetDisk [simp, intro]: "keeps gives_back (GetDisk C subs rg d)"
  unfolding GetDisk_def by (auto intro!: keeps_rules split: option.split)

lemma keeps_poll [simp, intro]: "keeps gives_back (poll_disk n C subs rg d i)"
  by (induction n arbitrary: i) (auto intro!: keeps_rules simp: Let_def)

lemma keeps_managed [simp, intro]:
  "keeps gives_back (CreateManagedDisk S C n opts)" "keeps gives_back (DeleteManagedDisk C u)"
  "keeps gives_back (ResizeDisk S C R u q online)"
  unfolding CreateManagedDisk_def DeleteManagedDisk_def ResizeDisk_def Let_def
  by (auto intro!: keeps_rules split: option.split)

lemma keeps_throttled [simp, intro]:
  "keeps serves (isGetDiskThrottled V)" "keeps serves (isCheckDiskLunThrottled V)"
  unfolding isGetDiskThrottled_def isCheckDiskLunThrottled_def by (auto intro!: serves_rules)

lemma keeps_disk_checks [simp, intro]:
  "keeps serves (driver_checkDiskExists V u)" "keeps serves (checkDiskCapacity V subs rg d q)"
  unfolding driver_checkDiskExists_def checkDiskCapacity_def
  by (auto intro!: serves_rules split: option.split)

lemma keeps_source_size [simp, intro]:
  "keeps serves (source_disk_size V subs rg d cur mx n)"
  by (induction n arbitrary: rg d cur) (auto intro!: serves_rules simp: Let_def split: option.split)

lemma keeps_create_parts [simp, intro]:
  "keeps serves (local_cloud V ua)" "keeps serves (normalize_create S V C n p)"
  "keeps serves (volume_source V c p q z)"
  unfolding local_cloud_def normalize_create_def volume_source_def GetSourceDiskSize_def Let_def
  by (auto intro!: serves_rules split: option.split content_source.split)

lemma keeps_create_disk [simp, intro]: "keeps serves (create_disk S D V C req q nm)"
  unfolding create_disk_def Let_def by (auto intro!: serves_rules split: prod.split)

lemma keeps_CreateVolume: "keeps serves (CreateVolume S D V req)"
  unfolding CreateVolume_def Let_def by (auto intro!: serves_rules)

lemma keeps_DeleteVolume: "keeps serves (DeleteVolume D V v)"
  unfolding DeleteVolume_def by (auto intro!: serves_rules split: res.split)

lemma keeps_used_luns [simp, intro]:
  "keeps serves (getUsedLunsFromVolumeAttachments V n)" "keeps serves (getUsedLunsFromNode V n)"
  unfolding getUsedLunsFromVolumeAttachments_def getUsedLunsFromNode_def
  by (auto intro!: serves_rules split: option.split prod.split)

lemma keeps_occupied [simp, intro]: "keeps serves (getOccupiedLunsFromNode D V n)"
  unfolding getOccupiedLunsFromNode_def occupied_luns_def by (auto intro!: serves_rules)

lemma keeps_set_delay [simp, intro]: "keeps serves (set_initial_delay d)"
  by (auto simp: keeps_def set_initial_delay_def serves_def gives_back_def)

lemma keeps_publish_attach [simp, intro]: "keeps serves (publish_attach S D V d u n ctx dsk)"
  unfolding publish_attach_def Let_def by (auto intro!: serves_rules split: go_error.split)

lemma keeps_ensure_attached [simp, intro]: "keeps serves (ensure_attached S D V d u n ctx dsk)"
  unfolding ensure_attached_def by (auto intro!: serves_rules split: option.split)

lemma keeps_Publish: "keeps serves (ControllerPublishVolume S D V u c n ctx)"
  unfolding ControllerPublishVolume_def by (auto intro!: serves_rules split: option.split)

lemma keeps_Unpublish: "keeps serves (ControllerUnpublishVolume S V u n)"
  unfolding ControllerUnpublishVolume_def by (auto intro!: serves_rules)

lemma keeps_Expand: "keeps serves (ControllerExpandVolume S D V u q)"
  unfolding ControllerExpandVolume_def Let_def by (auto intro!: serves_rules)

lemma keeps_percent [simp, intro]: "keeps serves (getSnapshotCompletionPercent V subs rg n)"
  unfolding getSnapshotCompletionPercent_def by (auto intro!: serves_rules split: option.split)

lemma keeps_Pair [simp]: "reflp R \<Longrightarrow> keeps R (Pair r)"
  by (simp add: keeps_def reflp_def)

lemma keeps_wait_ticks [simp, intro]: "keeps serves (wait_ticks V k subs rg n)"
  by (induction k) (auto intro!: serves_rules)

lemma keeps_snapshot_client [intro]:
  "(\<And>c. keeps serves (k c)) \<Longrightarrow> keeps serves (snapshot_client V subs k)"
  unfolding snapshot_client_def by (auto intro!: serves_rules)

lemma keeps_snapshot_parts [simp, intro]:
  "keeps serves (getSnapshotByID V subs rg i src)" "keeps serves (sleep_if_throttled V e)"
  "keeps serves (put_snapshot V c rg n snap)" "keeps serves (wait_snapshot V subs rg n)"
  unfolding getSnapshotByID_def sleep_if_throttled_def put_snapshot_def wait_snapshot_def waitForSnapshotReady_def
  by (auto intro!: serves_rules keeps_snapshot_client)

lemma keeps_snapshot_params [simp, intro]: "keeps serves (snapshot_params V ps p)"
proof (induction ps arbitrary: p)
  case (Cons kv ps)
  obtain k v where "kv = (k, v)" by fastforce
  with Cons show ?case by (auto intro!: serves_rules simp: Let_def)
qed simp

lemma keeps_create_snapshot [simp, intro]: "keeps serves (create_snapshot D V p t rg n src)"
  unfolding create_snapshot_def cross_region_def Let_def
  by (auto intro!: serves_rules keeps_snapshot_client)

lemma keeps_CreateSnapshot: "keeps serves (CreateSnapshot S D V src n ps)"
  unfolding CreateSnapshot_def Let_def by (auto intro!: serves_rules)

lemma keeps_DeleteSnapshot: "keeps serves (DeleteSnapshot V i)"
  unfolding DeleteSnapshot_def by (auto intro!: serves_rules keeps_snapshot_client)

lemma keeps_list_disks [simp, intro]: "keeps serves (list_disks V vols m i ds es)"
  by (induction ds arbitrary: i es) (auto intro!: serves_rules simp: Let_def split: option.split)

lemma keeps_list_group [simp, intro]: "keeps serves (listVolumesByResourceGroup V rg es st m vols)"
  unfolding listVolumesByResourceGroup_def Let_def by (auto intro!: serves_rules split: prod.split)

lemma keeps_list_groups [simp, intro]: "keeps serves (list_groups V st m vols rgs es vis c f)"
  by (induction rgs arbitrary: es vis c f) (auto intro!: serves_rules simp: Let_def split: option.split)

lemma keeps_list_cluster [simp, intro]: "keeps serves (listVolumesInCluster D V l st m)"
  unfolding listVolumesInCluster_def by (auto intro!: serves_rules split: prod.split)

section \<open>Locks are given back\<close>

text \<open>Nothing is taken: no node mutex is held and no disk is marked as attaching or detaching.\<close>

definition idle :: "'w driver \<Rightarrow> bool" where
  "idle s \<longleftrightarrow> (\<forall>k. \<not> entry_locked (cc_lockMap (diskController s)) k) \<and>
     (\<forall>k. map_of (diskStateMap (diskController s)) k = None)"

lemma serves_idle: "serves s s' \<Longrightarrow> idle s \<Longrightarrow> idle s'"
  unfolding serves_def gives_back_def idle_def by metis

text \<open>C20. The seven calls of the controller service that take a lock, a node mutex or a mark give them back: to
  create, delete, expand, publish or unpublish a volume, and to create or delete a snapshot. When such a
  call returns, with an answer or with an error, the table of volume locks is as the call found it, a
  node mutex is held exactly if it was held before, and a disk carries the mark it had before or none.\<close>

theorem controller_gives_back_locks:
  "(CreateVolume S D V req s = (r1, s') \<and> r1 \<noteq> Panic \<longrightarrow> serves s s') \<and>
   (DeleteVolume D V v s = (r2, s') \<and> r2 \<noteq> Panic \<longrightarrow> serves s s') \<and>
   (ControllerPublishVolume S D V u c n ctx s = (r3, s') \<and> r3 \<noteq> Panic \<longrightarrow> serves s s') \<and>
   (ControllerUnpublishVolume S V u n s = (r4, s') \<and> r4 \<noteq> Panic \<longrightarrow> serves s s') \<and>
   (ControllerExpandVolume S D V u q s = (r5, s') \<and> r5 \<noteq> Panic \<longrightarrow> serves s s') \<and>
   (CreateSnapshot S D V src n ps s = (r6, s') \<and> r6 \<noteq> Panic \<longrightarrow> serves s s') \<and>
   (DeleteSnapshot V i s = (r7, s') \<and> r7 \<noteq> Panic \<longrightarrow> serves s s')"
  by (auto dest: keepsD [OF keeps_CreateVolume] keepsD [OF keeps_DeleteVolume] keepsD [OF keeps_Publish]
      keepsD [OF keeps_Unpublish] keepsD [OF keeps_Expand] keepsD [OF keeps_CreateSnapshot]
      keepsD [OF keeps_DeleteSnapshot])

definition no_cache :: "'w timed_cache" where
  "no_cache = \<lparr>tc_Get = (\<lambda>k. ret None), tc_Set = (\<lambda>k v w. w)\<rparr>"

definition services_of :: "'w cloud \<Rightarrow> 'w services" where
  "services_of C = \<lparr>sv_cloud = C, sv_throttlingCache = no_cache, sv_checkDiskLunThrottlingCache = no_cache,
     sv_GetCloudProviderFromClient = (\<lambda>ua. ret C), sv_Now = (\<lambda>w. 0), sv_Getwd = Ok ''/'',
     sv_NewUUID = (\<lambda>w. ''uuid''), sv_RoundUpToGiBInt32 = (\<lambda>b. Ok (RoundUpGiB b)), sv_attempts = 1, sv_ticks = 1\<rparr>"

definition driver1 :: DriverCore where
  "driver1 = newDriverV1 ''v1'' AddFlags"

theorem controller_gives_back_locks_witness:
  "\<exists>s'. DeleteVolume driver1 (services_of cloud2) (managedDiskPath ''sub'' ''rg'' ''d'')
      (new_driver driver1 (Some (disk1 None))) = (Ok (), s') \<and>
     serves (new_driver driver1 (Some (disk1 None))) s' \<and> world (diskController s') = None"
proof -
  let ?r = "DeleteVolume driver1 (services_of cloud2) (managedDiskPath ''sub'' ''rg'' ''d'')
      (new_driver driver1 (Some (disk1 None)))"
  have "fst ?r = Ok ()" "world (diskController (snd ?r)) = None" by code_simp+
  then obtain s' where r: "?r = (Ok (), s')" "world (diskController s') = None" by (cases ?r) auto
  with controller_gives_back_locks [where D = driver1 and V = "services_of cloud2" and
      v = "managedDiskPath ''sub'' ''rg'' ''d''" and s = "new_driver driver1 (Some (disk1 None))" and
      ?r2.0 = "Ok ()" and s' = s'] show ?thesis by blast
qed

lemma with_volume_lock_busy:
  "v \<in> locks (volumeLocks s) \<Longrightarrow> \<exists>msg. with_volume_lock v m s = (Err (StatusErr Aborted msg), s)"
  by (simp add: with_volume_lock_def TryAcquire_def)

text \<open>While an operation on a volume holds its lock, a second operation on the same volume is refused
  with the code Aborted and changes nothing: the creation of a volume by its name, the deletion of a
  volume by its id.\<close>

theorem busy_volume_refused:
  "(validate_create S D V req = Ok p \<and> cv_Name req \<in> locks (volumeLocks s) \<longrightarrow>
      (\<exists>msg. CreateVolume S D V req s = (Err (StatusErr Aborted msg), s))) \<and>
   (ValidateControllerServiceRequest D CREATE_DELETE_VOLUME = Ok () \<and> v \<noteq> [] \<and> IsValidDiskURI v = Ok () \<and>
      v \<in> locks (volumeLocks s) \<longrightarrow>
      (\<exists>msg. DeleteVolume D V v s = (Err (StatusErr Aborted msg), s)))"
  by (auto simp: CreateVolume_def DeleteVolume_def dest: with_volume_lock_busy)

definition busy1 :: "disk option driver" where
  "busy1 = (new_driver driver1 (Some (disk1 None)))
     \<lparr>volumeLocks := \<lparr>locks = {managedDiskPath ''sub'' ''rg'' ''d''}\<rparr>\<rparr>"

theorem busy_volume_refused_witness:
  "\<exists>msg. DeleteVolume driver1 (services_of cloud2) (managedDiskPath ''sub'' ''rg'' ''d'') busy1 =
     (Err (StatusErr Aborted msg), busy1)"
proof -
  have "IsValidDiskURI (managedDiskPath ''sub'' ''rg'' ''d'') = Ok ()"
    "ValidateControllerServiceRequest driver1 CREATE_DELETE_VOLUME = Ok ()" by code_simp+
  moreover have "managedDiskPath ''sub'' ''rg'' ''d'' \<in> locks (volumeLocks busy1)" by (simp add: busy1_def)
  moreover have "managedDiskPath ''sub'' ''rg'' ''d'' \<noteq> []" by (simp add: managedDiskPath_def)
  ultimately show ?thesis
    using busy_volume_refused [where D = driver1 and v = "managedDiskPath ''sub'' ''rg'' ''d''" and s = busy1 and
        V = "services_of cloud2"] by blast
qed

section \<open>The size of a new volume\<close>

lemma requested_size_Ok:
  assumes "requested_size p b l = Ok g" "0 \<le> b"
  shows "1 \<le> g" "RoundUpGiB b \<le> g" "0 < RoundUpGiB l \<Longrightarrow> g \<le> RoundUpGiB l"
    "g \<noteq> RoundUpGiB b \<Longrightarrow> g = 1 \<or> (mdp_PerformancePlus p = Some True \<and> g = 513)"
    "mdp_PerformancePlus p = Some True \<Longrightarrow> 513 \<le> g"
  using assms
  by (auto simp: requested_size_def Let_def MinimumDiskSizeGiB_def PerformancePlusMinimumDiskSizeGiB_def
      split: if_splits)

text \<open>
  What it means that a disk was created between two states of the world: the service of the cloud was
  asked to create a disk of that name and size in the resource group of the options, it agreed, and the
  id is the path of that disk, or the one the disk was found under when the driver waited for it.
\<close>

definition creates_disk ::
    "sdk \<Rightarrow> 'w cloud \<Rightarrow> nat \<Rightarrow> ManagedDiskOptions \<Rightarrow> string \<Rightarrow> 'w \<Rightarrow> 'w \<Rightarrow> bool" where
  "creates_disk S C attempts opts i w w' \<longleftrightarrow>
     (let rg = (if mdo_ResourceGroup opts \<noteq> [] then mdo_ResourceGroup opts else cl_ResourceGroup C);
          subs = (if mdo_SubscriptionID opts \<noteq> [] then mdo_SubscriptionID opts else cl_SubscriptionID C);
          path = managedDiskPath subs rg (mdo_DiskName opts)
      in \<exists>dc p w1. cl_GetDiskClientForSub C subs = Ok dc \<and> prop_DiskSizeGB p = Some (to_int32 (mdo_SizeGB opts)) \<and>
           dc_CreateOrUpdate dc rg (mdo_DiskName opts) (disk_model S C opts p) w = (Ok (), w1) \<and>
           (if mdo_SkipGetDiskOperation opts then i = path \<and> w' = w1
            else \<exists>c c'. world c = w1 \<and> world c' = w' \<and>
                   poll_disk attempts C subs rg (mdo_DiskName opts) path c = (Ok i, c')))"

lemma CreateManagedDisk_creates:
  assumes "CreateManagedDisk S C attempts opts c = (Ok i, c')"
  shows "creates_disk S C attempts opts i (world c) (world c')"
proof -
  define rg where "rg = (if mdo_ResourceGroup opts \<noteq> [] then mdo_ResourceGroup opts else cl_ResourceGroup C)"
  define subs where "subs = (if mdo_SubscriptionID opts \<noteq> [] then mdo_SubscriptionID opts else cl_SubscriptionID C)"
  let ?path = "managedDiskPath subs rg (mdo_DiskName opts)"
  obtain cd p dc where b: "disk_properties_of S opts cd = Ok p" "cl_GetDiskClientForSub C subs = Ok dc"
    "bind (on_world (dc_CreateOrUpdate dc rg (mdo_DiskName opts) (disk_model S C opts p)))
       (\<lambda>_. if mdo_SkipGetDiskOperation opts then ret ?path
            else poll_disk attempts C subs rg (mdo_DiskName opts) ?path) c = (Ok i, c')"
    using assms unfolding CreateManagedDisk_def Let_def rg_def [symmetric] subs_def [symmetric]
    by (auto simp: bind_lift_Ok split: if_split_asm)
  obtain c1 where c1: "on_world (dc_CreateOrUpdate dc rg (mdo_DiskName opts) (disk_model S C opts p)) c = (Ok (), c1)"
    "(if mdo_SkipGetDiskOperation opts then ret ?path
      else poll_disk attempts C subs rg (mdo_DiskName opts) ?path) c1 = (Ok i, c')"
    using b(3) by (auto elim!: bind_OkE)
  have "prop_DiskSizeGB p = Some (to_int32 (mdo_SizeGB opts))"
    by (rule conjunct1 [OF disk_properties_consistent [OF b(1)]])
  moreover have "dc_CreateOrUpdate dc rg (mdo_DiskName opts) (disk_model S C opts p) (world c) = (Ok (), world c1)"
    using on_world_res [OF c1(1)] by simp
  moreover have "if mdo_SkipGetDiskOperation opts then i = ?path \<and> world c' = world c1
      else \<exists>d d'. world d = world c1 \<and> world d' = world c' \<and>
             poll_disk attempts C subs rg (mdo_DiskName opts) ?path d = (Ok i, d')"
    using c1(2) by auto
  ultimately show ?thesis unfolding creates_disk_def Let_def rg_def [symmetric] subs_def [symmetric] using b(2) by blast
qed

lemma on_local_controller_res:
  "on_local_controller D ua m s = (r, s') \<Longrightarrow> \<exists>c c'. m c = (r, c') \<and> world c' = world (diskController s')"
  by (auto simp: on_local_controller_def in_world_def on_controller_def on_world_def split: if_splits prod.splits) blast+

lemma create_disk_Ok:
  assumes "create_disk S D V C req g nm s = (Ok vol, s')"
  shows "vol_CapacityBytes vol = GiBToBytes g \<and> map_of (vol_VolumeContext vol) RequestedSizeGib = Some (Itoa g) \<and>
    (\<exists>opts w. creates_disk S C (sv_attempts V) opts (vol_VolumeId vol) w (world (diskController s')) \<and>
       mdo_SizeGB opts = g \<and> mdo_DiskName opts = mdp_DiskName (fst nm))"
proof -
  obtain p sku pol pub where nm: "nm = (p, sku, pol, pub)" by (cases nm)
  obtain ua opts s1 ctx where c: "on_local_controller D ua (CreateManagedDisk S C (sv_attempts V) opts) s1 =
      (Ok (vol_VolumeId vol), s')" "mdo_SizeGB opts = g" "mdo_DiskName opts = mdp_DiskName p"
    "vol_CapacityBytes vol = GiBToBytes g" "vol_VolumeContext vol = AList.update RequestedSizeGib (Itoa g) ctx"
    using assms unfolding nm create_disk_def Let_def
    by (auto elim!: bind_OkE call_cases split: prod.splits if_splits simp: volume_options_def ultra_defaults_def)
  obtain c c' where "CreateManagedDisk S C (sv_attempts V) opts c = (Ok (vol_VolumeId vol), c')"
    "world c' = world (diskController s')" using on_local_controller_res [OF c(1)] by blast
  with CreateManagedDisk_creates have "creates_disk S C (sv_attempts V) opts (vol_VolumeId vol) (world c) (world (diskController s'))"
    by metis
  with c(2-5) nm show ?thesis by (auto simp: update_conv')
qed

lemma or_status_OkE:
  assumes "or_status c r k s = (Ok y, s')"
  obtains x where "r = Ok x" "k x s = (Ok y, s')"
  using assms by (auto simp: or_status_def call_def split: res.splits)

text \<open>The name of the disk: the one in the parameters, or that of the volume, made valid.\<close>

lemma normalize_create_name:
  assumes "normalize_create S V C name p s = (Ok nm, s')"
  shows "\<exists>uuid. CreateValidDiskName uuid (if mdp_DiskName p = [] then name else mdp_DiskName p) = Ok (mdp_DiskName (fst nm))"
  using assms unfolding normalize_create_def Let_def bind_get_state
  by (simp only: split: if_split_asm) (auto simp: bind_lift_Ok elim!: or_status_OkE split: if_split_asm, blast+)

text \<open>The cloud of a request: the driver's own, or the one made for the user agent in the parameters.\<close>

definition cloud_of_request :: "'w services \<Rightarrow> ManagedDiskParameters \<Rightarrow> 'w cloud \<Rightarrow> bool" where
  "cloud_of_request V p C \<longleftrightarrow>
     (if mdp_UserAgent p = [] then C = sv_cloud V
      else \<exists>w w'. sv_GetCloudProviderFromClient V (mdp_UserAgent p) w = (Ok C, w'))"

lemma local_cloud_Ok:
  assumes "local_cloud V (mdp_UserAgent p) s = (Ok C, s')"
  shows "cloud_of_request V p C"
  using assms
  by (auto simp: local_cloud_def cloud_of_request_def in_world_def on_controller_def on_world_def call_def
      split: if_splits prod.splits res.splits)


definition request1 :: create_volume_request where
  "request1 = \<lparr>cv_Name = ''pvc-1'', cv_Parameters = [],
     cv_VolumeCapabilities = [\<lparr>cap_AccessType = Some Block, cap_AccessMode = Some SINGLE_NODE_WRITER\<rparr>],
     cv_RequiredBytes = 10737418241, cv_LimitBytes = 0, cv_AccessibilityRequirements = None,
     cv_VolumeContentSource = None\<rparr>"


end
