(* ===== verification/ControllerServerCorrect.thy ===== *)
theory ControllerServerCorrect
  imports ControllerLocks
begin

text \<open>
  What the controller service guarantees beyond its locks: a published volume is reported by the machine
  at the LUN of the publish context, and the search for the size of a source disk ends.
\<close>

section \<open>Publishing\<close>

lemma put_some_other: "k \<noteq> j \<Longrightarrow> map_of (put_some k v m) j = map_of m j"
  by (simp add: put_some_def update_conv' split: option.split)

lemma InsertDiskProperties_LUN:
  assumes "InsertDiskProperties dsk (Some m) = Ok (Some m')"
  shows "map_of m' LUN = map_of m LUN"
proof -
  have k: "SkuNameField \<noteq> LUN" "NetworkAccessPolicyField \<noteq> LUN" "DiskIOPSReadWriteField \<noteq> LUN"
    "DiskMBPSReadWriteField \<noteq> LUN" "LogicalSectorSizeField \<noteq> LUN" "DesIDField \<noteq> LUN" "MaxSharesField \<noteq> LUN"
    by (simp_all add: azure_consts)
  show ?thesis using assms
    by (auto simp: InsertDiskProperties_def Let_def put_some_other k k [THEN not_sym] update_conv' split: option.splits)
qed

lemma InsertDiskProperties_Some: "InsertDiskProperties dsk (Some m) \<noteq> Ok None"
  by (auto simp: InsertDiskProperties_def Let_def split: option.splits)

lemma on_controller_Ok:
  "on_controller m s = (r, s') \<Longrightarrow> m (diskController s) = (r, diskController s')"
  by (auto simp: on_controller_def split: prod.splits)

lemma serves_check: "keeps serves m \<Longrightarrow> m s = (r, s') \<Longrightarrow> r \<noteq> Panic \<Longrightarrow>
    DisableDiskLunCheck (diskController s') = DisableDiskLunCheck (diskController s)"
  by (auto simp: serves_def gives_back_def dest!: keepsD)

lemma on_controller_attach:
  assumes "on_controller (AttachDisk S C d u n cm dsk occ) s = (Ok lun, s')"
    "\<not> DisableDiskLunCheck (diskController s)"
  shows "attached_at C n (world (diskController s')) d u lun"
  using AttachDisk_sound_aux [OF on_controller_Ok [OF assms(1)] assms(2)] .

text \<open>An attach that is tried again after a detach: where it succeeds, the last attach succeeded.\<close>

lemma attach_again_at:
  assumes "call (on_controller (AttachDisk S C d u n cm dsk occ)) h ret s = (Ok lun, s')"
    and c: "\<not> DisableDiskLunCheck (diskController s)"
    and h: "\<And>err s1. h err s1 = (Ok lun, s') \<Longrightarrow>
      \<exists>cur s2. on_controller (DetachDisk S C d u cur) s1 = (Ok (), s2) \<and>
        on_controller (AttachDisk S C d u n cm dsk occ) s2 = (Ok lun, s')"
  shows "attached_at C n (world (diskController s')) d u lun"
  using assms(1)
proof (cases rule: call_cases)
  case (1 x s1)
  then show ?thesis using on_controller_attach [OF 1(1) c] by simp
next
  case (2 err s1)
  obtain cur s2 where 5: "on_controller (DetachDisk S C d u cur) s1 = (Ok (), s2)"
    "on_controller (AttachDisk S C d u n cm dsk occ) s2 = (Ok lun, s')" using h [OF 2(2)] by blast
  have "\<not> DisableDiskLunCheck (diskController s2)"
    using serves_check [OF keeps_on_controller [OF keeps_AttachDisk] 2(1)]
      serves_check [OF keeps_on_controller [OF keeps_DetachDisk] 5(1)] c by simp
  from on_controller_attach [OF 5(2) this] show ?thesis .
qed simp

lemma publish_attach_at:
  assumes "publish_attach S D V d u n ctx dsk s = (Ok lun, s')" "\<not> DisableDiskLunCheck (diskController s)"
  shows "attached_at (sv_cloud V) n (world (diskController s')) d u lun"
proof (cases "GetCachingMode S ctx")
  case (Ok cm)
  have delayed: "\<not> DisableDiskLunCheck (diskController s3)"
    if "getOccupiedLunsFromNode D V n s = (Ok occ, s2)" "set_initial_delay t s2 = (Ok x, s3)" for occ s2 t x s3
    using serves_check [OF keeps_occupied that(1)] serves_check [OF keeps_set_delay that(2)] assms(2) by simp
  show ?thesis using assms(1) Ok unfolding publish_attach_def or_status_def Let_def
    by (simp, elim bind_OkE)
       (erule attach_again_at, erule (1) delayed,
        auto elim!: call_cases split: go_error.splits if_splits, iprover)
qed (use assms(1) in \<open>auto simp: publish_attach_def or_status_def\<close>)

lemma ensure_attached_at:
  assumes "ensure_attached S D V d u n ctx dsk s = (Ok lun, s')" "\<not> DisableDiskLunCheck (diskController s)"
  shows "attached_at (sv_cloud V) n (world (diskController s')) d u lun \<or>
    (\<exists>c1. attached_at (sv_cloud V) n (world c1) d u lun \<and> UpdateVM (sv_cloud V) n c1 = (Ok (), diskController s'))"
proof -
  obtain lun0 st err s1 where 1: "on_controller (GetDiskLun S (sv_cloud V) d u n) s = (Ok (lun0, st, err), s1)" and
    2: "err = None \<and> lun = lun0 \<and> (s' = s1 \<or> on_controller (UpdateVM (sv_cloud V) n) s1 = (Ok (), s')) \<or>
        err \<noteq> None \<and> publish_attach S D V d u n ctx dsk s1 = (Ok lun, s')"
    using assms(1) unfolding ensure_attached_def
    by (auto elim!: bind_OkE call_cases split: if_splits option.splits)
  show ?thesis
  proof (cases err)
    case None
    then have "attached_at (sv_cloud V) n (world (diskController s1)) d u lun"
      using 2 GetDiskLun_found [OF on_controller_Ok [OF 1 [unfolded None]]] find_lun_Some
      by (fastforce simp: attached_at_def)
    with 2 None show ?thesis by (auto dest: on_controller_Ok)
  next
    case (Some e)
    have "\<not> DisableDiskLunCheck (diskController s1)"
      using serves_check [OF keeps_on_controller [OF keeps_luns(1)] 1] assms(2) by simp
    with publish_attach_at 2 Some show ?thesis by blast
  qed
qed

lemma publish_context_LUN: "publish_context dsk ctx lun = Ok pc \<Longrightarrow> map_of pc LUN = Some (Itoa lun)"
  by (auto simp: publish_context_def Let_def split: option.splits if_splits res.splits
      dest!: InsertDiskProperties_LUN)

lemma ControllerPublishVolume_at:
  assumes "\<not> DisableDiskLunCheck (diskController s)" "ControllerPublishVolume S D V u c n ctx s = (Ok pc, s')"
  shows "\<exists>d lun. GetDiskName u = Ok d \<and> map_of pc LUN = Some (Itoa lun) \<and>
         (attached_at (sv_cloud V) n (world (diskController s')) d u lun \<or>
          (\<exists>c1. attached_at (sv_cloud V) n (world c1) d u lun \<and>
             UpdateVM (sv_cloud V) n c1 = (Ok (), diskController s')))"
proof -
  obtain dsk s1 d lun where 1: "driver_checkDiskExists V u s = (Ok dsk, s1)" "GetDiskName u = Ok d"
    "ensure_attached S D V d u n ctx dsk s1 = (Ok lun, s')" "publish_context dsk ctx lun = Ok pc"
    using assms(2) unfolding ControllerPublishVolume_def or_status_def
    by (cases "GetMaxShares ctx"; cases "GetDiskName u"; cases c)
       (auto elim!: call_cases bind_OkE split: if_splits)
  have "\<not> DisableDiskLunCheck (diskController s1)" using serves_check [OF keeps_disk_checks(1) 1(1)] assms(1) by simp
  from ensure_attached_at [OF 1(3) this] publish_context_LUN [OF 1(4)] 1(2) show ?thesis by blast
qed

text \<open>C15. A publish that succeeds (with the LUN check on) answers with the LUN of the disk on that node: the
  publish context has an entry for the LUN, and the machine itself reported the disk there, as the last
  thing the driver asked, or before it updated a machine in failed state. This covers a disk that was
  attached already, one attached now, and one first detached from another node. An unpublish that
  succeeds leaves the disk off the machine, unless the cloud says that there is no such machine or that
  the disk was not found.\<close>

theorem publish_unpublish_sound:
  assumes "\<not> DisableDiskLunCheck (diskController s)"
  shows "(ControllerPublishVolume S D V u c n ctx s = (Ok pc, s') \<longrightarrow>
      (\<exists>d lun. GetDiskName u = Ok d \<and> map_of pc LUN = Some (Itoa lun) \<and>
         (attached_at (sv_cloud V) n (world (diskController s')) d u lun \<or>
          (\<exists>c1. attached_at (sv_cloud V) n (world c1) d u lun \<and>
             UpdateVM (sv_cloud V) n c1 = (Ok (), diskController s'))))) \<and>
    (ControllerUnpublishVolume S V u n s = (Ok (), s'') \<longrightarrow>
      (\<exists>d. GetDiskName u = Ok d \<and>
         (detached_from S (sv_cloud V) n (world (diskController s'')) d u \<or>
          (\<exists>e w. cl_InstanceID (sv_cloud V) n w = (Err e, world (diskController s'')) \<and> is_InstanceNotFound e) \<or>
          (\<exists>vs w0 w1 m e w. cl_GetNodeVMSet (sv_cloud V) n CacheReadTypeUnsafe w0 = (Ok vs, w1) \<and>
             vs_DetachDisk vs n m False w = (Err e, world (diskController s'')) \<and> isInstanceNotFoundError S e) \<or>
          (\<exists>e. DetachDisk S (sv_cloud V) d u n (diskController s) = (Err e, diskController s'') \<and>
             Contains (Error e) ErrDiskNotFound))))"
proof (intro conjI impI)
  assume p: "ControllerPublishVolume S D V u c n ctx s = (Ok pc, s')"
  from ControllerPublishVolume_at [OF assms p]
  show "\<exists>d lun. GetDiskName u = Ok d \<and> map_of pc LUN = Some (Itoa lun) \<and>
         (attached_at (sv_cloud V) n (world (diskController s')) d u lun \<or>
          (\<exists>c1. attached_at (sv_cloud V) n (world c1) d u lun \<and>
             UpdateVM (sv_cloud V) n c1 = (Ok (), diskController s')))" .
next
  assume p: "ControllerUnpublishVolume S V u n s = (Ok (), s'')"
  obtain d where d: "GetDiskName u = Ok d" and
    "on_controller (DetachDisk S (sv_cloud V) d u n) s = (Ok (), s'') \<or>
     (\<exists>e. on_controller (DetachDisk S (sv_cloud V) d u n) s = (Err e, s'') \<and> Contains (Error e) ErrDiskNotFound)"
    using p unfolding ControllerUnpublishVolume_def or_status_def
    by (cases "GetDiskName u") (auto elim!: call_cases split: if_splits)
  then have "DetachDisk S (sv_cloud V) d u n (diskController s) = (Ok (), diskController s'') \<or>
     (\<exists>e. DetachDisk S (sv_cloud V) d u n (diskController s) = (Err e, diskController s'') \<and>
        Contains (Error e) ErrDiskNotFound)" by (metis on_controller_Ok)
  with d DetachDisk_sound_aux [of S "sv_cloud V" d u n "diskController s" "diskController s''"] assms
  show "\<exists>d. GetDiskName u = Ok d \<and>
         (detached_from S (sv_cloud V) n (world (diskController s'')) d u \<or>
          (\<exists>e w. cl_InstanceID (sv_cloud V) n w = (Err e, world (diskController s'')) \<and> is_InstanceNotFound e) \<or>
          (\<exists>vs w0 w1 m e w. cl_GetNodeVMSet (sv_cloud V) n CacheReadTypeUnsafe w0 = (Ok vs, w1) \<and>
             vs_DetachDisk vs n m False w = (Err e, world (diskController s'')) \<and> isInstanceNotFoundError S e) \<or>
          (\<exists>e. DetachDisk S (sv_cloud V) d u n (diskController s) = (Err e, diskController s'') \<and>
             Contains (Error e) ErrDiskNotFound))"
    by blast
qed

definition services1 :: "data_disk list services" where
  "services1 = (services_of cloud1)
     \<lparr>sv_throttlingCache := \<lparr>tc_Get = (\<lambda>k. ret (Some [])), tc_Set = (\<lambda>k v w. w)\<rparr>\<rparr>"

definition cap1 :: volume_capability where
  "cap1 = \<lparr>cap_AccessType = Some Block, cap_AccessMode = Some SINGLE_NODE_WRITER\<rparr>"

theorem publish_unpublish_sound_witness:
  "\<exists>pc s' d lun. ControllerPublishVolume sdk0 driver1 services1 (managedDiskPath ''s'' ''g'' ''d'') (Some cap1) ''node'' []
      (new_driver driver1 [lun_disk 0 ''/disks/x'']) = (Ok pc, s') \<and> map_of pc LUN = Some (Itoa lun) \<and>
     attached_at cloud1 ''node'' (world (diskController s')) d (managedDiskPath ''s'' ''g'' ''d'') lun"
proof -
  let ?s = "new_driver driver1 [lun_disk 0 ''/disks/x'']"
  let ?r = "ControllerPublishVolume sdk0 driver1 services1 (managedDiskPath ''s'' ''g'' ''d'') (Some cap1) ''node'' [] ?s"
  have "is_Ok (fst ?r)" by code_simp
  then obtain pc s' where r: "?r = (Ok pc, s')" by (cases ?r; cases "fst ?r") auto
  have c: "sv_cloud services1 = cloud1" by (simp add: services1_def services_of_def)
  have "\<not> DisableDiskLunCheck (diskController ?s)"
    by (simp add: new_driver_def NewManagedDiskController_def)
  from publish_unpublish_sound [OF this, THEN conjunct1, THEN mp, OF r]
  obtain d lun where dl: "map_of pc LUN = Some (Itoa lun)"
    "attached_at cloud1 ''node'' (world (diskController s')) d (managedDiskPath ''s'' ''g'' ''d'') lun \<or>
     (\<exists>c1. attached_at cloud1 ''node'' (world c1) d (managedDiskPath ''s'' ''g'' ''d'') lun \<and>
        UpdateVM cloud1 ''node'' c1 = (Ok (), diskController s'))" unfolding c by blast
  have "world (snd (UpdateVM cloud1 ''node'' c1)) = world c1" for c1
    by (auto simp: UpdateVM_def with_lock_def cc_lock_def cc_unlock_def cloud1_def vmset1_def on_world_def
        deferred_def bind_def call_def split: option.splits res.splits)
  then have "world (diskController s') = world c1" if "UpdateVM cloud1 ''node'' c1 = (Ok (), diskController s')" for c1
    using that by (metis snd_conv)
  with dl r show ?thesis by metis
qed

section \<open>The size of a source disk\<close>

definition is_copy :: "disk \<Rightarrow> bool" where
  "is_copy d \<longleftrightarrow> (\<exists>p cd. disk_Properties d = Some p \<and> prop_CreationData p = Some cd \<and> cd_CreateOption cd = CreateOptionCopy)"

text \<open>A client that answers, counting the calls; every copy it knows has a source.\<close>

definition counting_client :: "('w \<Rightarrow> nat) \<Rightarrow> 'w disk_client \<Rightarrow> bool" where
  "counting_client calls client \<longleftrightarrow>
     (\<forall>rg n w r w'. dc_Get client rg n w = (r, w') \<longrightarrow> r \<noteq> Panic \<and> calls w' \<le> calls w + 1) \<and>
     (\<forall>rg n w d w' p cd. dc_Get client rg n w = (Ok d, w') \<and> disk_Properties d = Some p \<and>
        prop_CreationData p = Some cd \<and> cd_CreateOption cd = CreateOptionCopy \<longrightarrow> cd_SourceResourceID cd \<noteq> None)"

lemma in_world_cases:
  obtains r w' where "m (world (diskController s)) = (r, w')"
    "in_world m s = (r, s\<lparr>diskController := (diskController s)\<lparr>world := w'\<rparr>\<rparr>)"
  by (cases "m (world (diskController s))") (simp add: in_world_def on_controller_def on_world_def)

lemma source_disk_size_runs:
  assumes c: "cl_GetDiskClientForSub (sv_cloud V) subs = Ok client" "counting_client calls client"
  shows "\<exists>r s'. source_disk_size V subs rg n cur mx left s = (r, s') \<and> r \<noteq> Panic \<and>
    calls (world (diskController s')) \<le> calls (world (diskController s)) + left \<and>
    (\<forall>gb d. r = Ok (gb, d) \<longrightarrow> \<not> is_copy d \<and> Option.bind (disk_Properties d) prop_DiskSizeGB = Some gb)"
proof (induction left arbitrary: rg n cur s)
  case (Suc left)
  obtain r w' where g: "dc_Get client rg n (world (diskController s)) = (r, w')"
    "in_world (dc_Get client rg n) s = (r, s\<lparr>diskController := (diskController s)\<lparr>world := w'\<rparr>\<rparr>)"
    by (rule in_world_cases)
  have w: "r \<noteq> Panic" "calls w' \<le> calls (world (diskController s)) + 1"
    using c(2) g(1) unfolding counting_client_def by blast+
  show ?case
  proof (cases r)
    case (Err e)
    with g(2) c(1) w show ?thesis by (simp add: or_status_def bind_def call_def)
  next
    case (Ok d)
    let ?s1 = "s\<lparr>diskController := (diskController s)\<lparr>world := w'\<rparr>\<rparr>"
    show ?thesis
    proof (cases "is_copy d")
      case True
      then obtain p cd where p: "disk_Properties d = Some p" "prop_CreationData p = Some cd"
        "cd_CreateOption cd = CreateOptionCopy" unfolding is_copy_def by blast
      then obtain src where src: "cd_SourceResourceID cd = Some src"
        using c(2) g(1) Ok unfolding counting_client_def by blast
      obtain r' s' where ih: "source_disk_size V subs
          (case GetResourceGroupFromURI src of Ok rg \<Rightarrow> rg | _ \<Rightarrow> []) (Base src) (cur + 1) mx left ?s1 = (r', s')"
        "r' \<noteq> Panic" "calls (world (diskController s')) \<le> calls w' + left"
        "\<forall>gb d. r' = Ok (gb, d) \<longrightarrow> \<not> is_copy d \<and> Option.bind (disk_Properties d) prop_DiskSizeGB = Some gb"
        using Suc.IH [of "case GetResourceGroupFromURI src of Ok rg \<Rightarrow> rg | _ \<Rightarrow> []" "Base src" "cur + 1" ?s1] by auto
      have "source_disk_size V subs rg n cur mx (Suc left) s = (r', s')"
        using g(2) Ok c(1) p src ih(1) by (simp add: or_status_def bind_def call_def)
      with ih w(2) show ?thesis by (intro exI conjI) auto
    next
      case False
      then show ?thesis using g(2) Ok c(1) w(2)
        by (cases "disk_Properties d"; cases "prop_CreationData (the (disk_Properties d))";
            cases "prop_DiskSizeGB (the (disk_Properties d))")
           (auto simp: or_status_def bind_def call_def Let_def is_copy_def split: if_splits)
    qed
  qed (use w(1) in simp)
qed simp

text \<open>C29. The search for the size of a source disk ends, also when the disks are copies of each other in
  a circle: it asks for at most as many disks as there are levels left, and returns. A size it returns
  is that of a disk that is not itself a copy, and beyond the last level it returns an error without
  asking.\<close>

theorem GetSourceDiskSize_terminates:
  assumes "cl_GetDiskClientForSub (sv_cloud V) subs = Ok client" "counting_client calls client"
  shows "\<exists>r s'. GetSourceDiskSize V subs rg n cur mx s = (r, s') \<and> r \<noteq> Panic \<and>
      calls (world (diskController s')) \<le> calls (world (diskController s)) + nat (mx + 1 - cur) \<and>
      (\<forall>gb d. r = Ok (gb, d) \<longrightarrow> \<not> is_copy d \<and> Option.bind (disk_Properties d) prop_DiskSizeGB = Some gb) \<and>
      (mx < cur \<longrightarrow> (\<exists>e. r = Err e) \<and> s' = s)"
proof -
  obtain r s' where r: "source_disk_size V subs rg n cur mx (nat (mx + 1 - cur)) s = (r, s')" "r \<noteq> Panic"
    "calls (world (diskController s')) \<le> calls (world (diskController s)) + nat (mx + 1 - cur)"
    "\<forall>gb d. r = Ok (gb, d) \<longrightarrow> \<not> is_copy d \<and> Option.bind (disk_Properties d) prop_DiskSizeGB = Some gb"
    using source_disk_size_runs [OF assms] by blast
  have "(\<exists>e. r = Err e) \<and> s' = s" if "mx < cur" using r(1) that by auto
  with r show ?thesis unfolding GetSourceDiskSize_def by (intro exI conjI) auto
qed

text \<open>A disk that is a copy of itself; the world counts the calls.\<close>

definition circle_disk :: disk where
  "circle_disk = (disk1 None)\<lparr>disk_Properties := Some (base_properties options1
     \<lparr>cd_CreateOption = CreateOptionCopy, cd_SourceResourceID = Some (managedDiskPath ''s'' ''g'' ''d''),
      cd_LogicalSectorSize = None, cd_PerformancePlus = None\<rparr>)\<rparr>"

definition circle_client :: "nat disk_client" where
  "circle_client = no_disk_client\<lparr>dc_Get := (\<lambda>rg n w. (Ok circle_disk, Suc w))\<rparr>"

definition bare_cloud :: "'w cloud" where
  "bare_cloud = \<lparr>cl_ResourceGroup = ''rg'', cl_SubscriptionID = ''sub'', cl_Location = ''eastus'',
     cl_HasExtendedLocation = False, cl_ExtendedLocationName = [], cl_ExtendedLocationType = [],
     cl_GetZoneID = (\<lambda>z. z), cl_GetNodeVMSet = (\<lambda>n crt. fail InstanceNotFound),
     cl_InstanceID = (\<lambda>n. fail InstanceNotFound),
     cl_GetDiskClientForSub = (\<lambda>subs. Err (Errorf ''no client'')),
     cl_Sleep = (\<lambda>ms w. w), cl_Cloud = ''AzurePublicCloud'', cl_DisableAzureStackCloud = False,
     cl_KubeClient = None, cl_VMSet_GetNodeNameByProviderID = (\<lambda>p. ret p),
     cl_GetDiskClient = no_disk_client, cl_GetSnapshotClient = no_snapshot_client,
     cl_GetSnapshotClientForSub = (\<lambda>subs. Err (Errorf ''no client''))\<rparr>"

definition circle_services :: "nat services" where
  "circle_services = services_of (bare_cloud\<lparr>cl_GetDiskClientForSub := (\<lambda>subs. Ok circle_client)\<rparr>)"

theorem GetSourceDiskSize_terminates_witness:
  "\<exists>r s'. GetSourceDiskSize circle_services ''s'' ''g'' ''d'' 0 2 (new_driver driver1 0) = (r, s') \<and>
     r \<noteq> Panic \<and> \<not> is_Ok r \<and> world (diskController s') \<le> 3"
proof -
  have 1: "cl_GetDiskClientForSub (sv_cloud circle_services) ''s'' = Ok circle_client"
    by (simp add: circle_services_def services_of_def)
  have 2: "counting_client id circle_client"
    by (auto simp: counting_client_def circle_client_def circle_disk_def base_properties_def)
  have 3: "\<not> is_Ok (fst (GetSourceDiskSize circle_services ''s'' ''g'' ''d'' 0 2 (new_driver driver1 0)))" by code_simp
  from GetSourceDiskSize_terminates [OF 1 2, of "''g''" "''d''" 0 2 "new_driver driver1 0"] 3
  show ?thesis by (auto simp: new_driver_def NewManagedDiskController_def)
qed

end
