(* ===== verification/LinuxCommon.thy ===== *)
theory LinuxCommon
  imports DriverCore "HOL-Library.List_Lexorder" "HOL-Library.Char_ord"
begin

text \<open>
  The file \<open>pkg/azuredisk/azure_common_linux.go\<close> and the file helpers of \<open>pkg/util\<close>: finding the
  device of a LUN in sysfs, rescanning devices, sizes and usage of a volume, and the creation of
  directories and files. The operating system, the mounter and the disk encryption are the record
  \<open>node_os\<close>. The model is of the Linux build.
\<close>

section \<open>The operating system of the node\<close>

text \<open>
  \<open>os_ReadDir\<close> returns the names in a directory. \<open>mnt_IsLikelyNotMountPoint\<close> returns its result with
  the error. \<open>exec_Output\<close> returns what the command wrote with the error. The metrics of a file system
  are available, capacity and used bytes, then free, total and used inodes; \<open>None\<close> is a quantity that
  does not fit an \<open>int64\<close>. \<open>cm_\<close> are the operations of the mapper of encrypted devices and
  \<open>cm_IsIntegrityFS\<close> the function of its package.
\<close>

record usage_metrics =
  um_Available :: "int option"
  um_Capacity :: "int option"
  um_Used :: "int option"
  um_InodesFree :: "int option"
  um_Inodes :: "int option"
  um_InodesUsed :: "int option"

record 'w node_os =
  os_ReadDir :: "string \<Rightarrow> ('w, string list) io"
  os_Readlink :: "string \<Rightarrow> ('w, string) io"
  os_WriteFile :: "string \<Rightarrow> string \<Rightarrow> ('w, unit) io"
  os_ReadFile :: "string \<Rightarrow> ('w, string) io"
  os_Stat :: "string \<Rightarrow> ('w, unit) io"
  os_MkdirAll :: "string \<Rightarrow> ('w, unit) io"
  os_OpenFile :: "string \<Rightarrow> ('w, unit) io"
  os_Close :: "string \<Rightarrow> ('w, unit) io"
  os_Remove :: "string \<Rightarrow> ('w, unit) io"
  os_IsNotExist :: "go_error \<Rightarrow> bool"
  os_IsExist :: "go_error \<Rightarrow> bool"
  os_workdir :: "string res"
  os_Sleep :: "int \<Rightarrow> 'w \<Rightarrow> 'w"
  mnt_IsLikelyNotMountPoint :: "string \<Rightarrow> 'w \<Rightarrow> (bool \<times> go_error option) \<times> 'w"
  mnt_List :: "('w, string list) io"
  mnt_Mount :: "string \<Rightarrow> string \<Rightarrow> string \<Rightarrow> string list \<Rightarrow> ('w, unit) io"
  mnt_Unmount :: "string \<Rightarrow> ('w, unit) io"
  mnt_FormatAndMount :: "string \<Rightarrow> string \<Rightarrow> string \<Rightarrow> string list \<Rightarrow> ('w, unit) io"
  mnt_CleanupMountPoint :: "string \<Rightarrow> bool \<Rightarrow> ('w, unit) io"
  mnt_PathExists :: "string \<Rightarrow> ('w, bool) io"
  mnt_IsCorruptedMnt :: "go_error \<Rightarrow> bool"
  mnt_Resize :: "string \<Rightarrow> string \<Rightarrow> ('w, bool) io"
  mnt_NeedResize :: "string \<Rightarrow> string \<Rightarrow> ('w, bool) io"
  exec_Output :: "string \<Rightarrow> string list \<Rightarrow> 'w \<Rightarrow> (string \<times> go_error option) \<times> 'w"
  hu_PathIsDevice :: "string \<Rightarrow> ('w, bool) io"
  vol_GetMetrics :: "string \<Rightarrow> ('w, usage_metrics) io"
  cm_OpenCryptDevice :: "string \<Rightarrow> string \<Rightarrow> bool \<Rightarrow> ('w, string) io"
  cm_CloseCryptDevice :: "string \<Rightarrow> ('w, unit) io"
  cm_ResizeCryptDevice :: "string \<Rightarrow> ('w, string) io"
  cm_GetDevicePath :: "string \<Rightarrow> ('w, string) io"
  cm_IsIntegrityFS :: "string \<Rightarrow> string \<times> bool"

section \<open>Directories and files\<close>

definition MakeDir :: "'w node_os \<Rightarrow> string \<Rightarrow> ('w, unit) io" where
  "MakeDir H pathname =
     call (os_MkdirAll H pathname) (\<lambda>err. if \<not> os_IsExist H err then fail err else ret ()) ret"

definition MakeFile :: "'w node_os \<Rightarrow> string \<Rightarrow> ('w, unit) io" where
  "MakeFile H pathname =
     call (os_OpenFile H pathname)
       (\<lambda>err. fail (Errorf (''failed to open file '' @ pathname @ '': '' @ Error err)))
       (\<lambda>_. call (os_Close H pathname)
          (\<lambda>err. fail (Errorf (''failed to close file '' @ pathname @ '': '' @ Error err))) ret)"

definition IsCorruptedDir :: "'w node_os \<Rightarrow> string \<Rightarrow> ('w, bool) io" where
  "IsCorruptedDir H dir =
     call (mnt_PathExists H dir) (\<lambda>pathErr. ret (mnt_IsCorruptedMnt H pathErr)) (\<lambda>_. ret False)"

section \<open>Finding a device\<close>

definition sysClassBlockPath :: string where
  "sysClassBlockPath = ''/sys/class/block/''"

definition after_last_slash :: "string \<Rightarrow> string" where
  "after_last_slash link = rev (takeWhile (\<lambda>c. c \<noteq> CHR ''/'') (rev link))"

text \<open>The devices that the links of one directory name; a link that cannot be read is skipped.\<close>

fun link_targets :: "'w node_os \<Rightarrow> string \<Rightarrow> string list \<Rightarrow> ('w, string list) io" where
  "link_targets H dir [] = ret []"
| "link_targets H dir (name # rest) =
     call (os_Readlink H (filepath_Join dir name))
       (\<lambda>linkErr. link_targets H dir rest)
       (\<lambda>link. bind (link_targets H dir rest) (\<lambda>sds. ret (after_last_slash link # sds)))"

fun list_azure_disks :: "'w node_os \<Rightarrow> string list \<Rightarrow> ('w, string list) io" where
  "list_azure_disks H [] = ret []"
| "list_azure_disks H (dir # dirs) =
     call (os_ReadDir H dir)
       (\<lambda>err. list_azure_disks H dirs)
       (\<lambda>names. bind (link_targets H dir names)
          (\<lambda>sds. bind (list_azure_disks H dirs) (\<lambda>more. ret (sds @ more))))"

definition listAzureDiskPath :: "'w node_os \<Rightarrow> ('w, string list) io" where
  "listAzureDiskPath H = list_azure_disks H [''/dev/disk/azure/'', ''/dev/disk/azure/scsi0/'']"

fun find_link :: "'w node_os \<Rightarrow> string \<Rightarrow> string \<Rightarrow> string list \<Rightarrow> ('w, string) io" where
  "find_link H devLinkPath devName [] =
     fail (Errorf (''device name('' @ devName @ '') is not found under '' @ devLinkPath))"
| "find_link H devLinkPath devName (name # rest) =
     call (os_Readlink H (devLinkPath @ name))
       (\<lambda>linkErr. find_link H devLinkPath devName rest)
       (\<lambda>link. if HasSuffix link devName then ret (devLinkPath @ name)
               else find_link H devLinkPath devName rest)"

definition getDiskLinkByDevName :: "'w node_os \<Rightarrow> string \<Rightarrow> string \<Rightarrow> ('w, string) io" where
  "getDiskLinkByDevName H devLinkPath devName =
     call (os_ReadDir H devLinkPath)
       (\<lambda>err. fail (Errorf (''read '' @ devLinkPath @ '' error: '' @ Error err)))
       (find_link H devLinkPath devName)"

fun rescan_hosts :: "'w node_os \<Rightarrow> string list \<Rightarrow> ('w, unit) io" where
  "rescan_hosts H [] = ret ()"
| "rescan_hosts H (name # rest) =
     call (os_WriteFile H (''/sys/class/scsi_host/'' @ name @ ''/scan'') ''- - -'')
       (\<lambda>err. rescan_hosts H rest) (\<lambda>_. rescan_hosts H rest)"

definition scsiHostRescan :: "'w node_os \<Rightarrow> ('w, unit) io" where
  "scsiHostRescan H = call (os_ReadDir H ''/sys/class/scsi_host/'') (\<lambda>err. ret ()) (rescan_hosts H)"

definition sysPath :: string where
  "sysPath = ''/sys/bus/scsi/devices''"

text \<open>Whether the name of a SCSI device, \<open>host:channel:target:lun\<close>, is the LUN looked for. Without the
  links of the Azure agent, the hosts 0 to 3 are those of the operating system.\<close>

definition scsi_name_matches :: "int \<Rightarrow> string list \<Rightarrow> string \<Rightarrow> bool" where
  "scsi_name_matches lun azureDisks name =
     (let arr = Split name (CHR '':'')
      in 4 \<le> length arr \<and>
         (azureDisks = [] \<longrightarrow> (case Atoi (arr ! 0) of Ok target \<Rightarrow> 3 < target | _ \<Rightarrow> False)) \<and>
         (case Atoi (arr ! 3) of Ok l \<Rightarrow> lun = l | _ \<Rightarrow> False))"

text \<open>Whether the attribute of a device, trimmed and in upper case, is the given text; an attribute that
  cannot be read is not.\<close>

definition attribute_is :: "'w node_os \<Rightarrow> string \<Rightarrow> string \<Rightarrow> string \<Rightarrow> ('w, bool) io" where
  "attribute_is H name attr text =
     call (os_ReadFile H (filepath_Join (filepath_Join sysPath name) attr))
       (\<lambda>err. ret False) (\<lambda>bytes. ret (ToUpper (TrimSpace bytes) = text))"

text \<open>The path of the device, by the links of the agent or of udev, or its name under \<open>/dev\<close>.\<close>

definition device_path :: "'w node_os \<Rightarrow> string \<Rightarrow> ('w, string) io" where
  "device_path H devName =
     call (getDiskLinkByDevName H ''/dev/disk/azure/scsi1/'' devName)
       (\<lambda>err. call (getDiskLinkByDevName H ''/dev/disk/by-id/'' devName)
          (\<lambda>err. ret (''/dev/'' @ devName)) ret)
       ret"

text \<open>The loop over the SCSI devices. A directory \<open>block\<close> without an entry is an index out of range.\<close>

fun find_device :: "'w node_os \<Rightarrow> int \<Rightarrow> string list \<Rightarrow> string list \<Rightarrow> ('w, string) io" where
  "find_device H lun azureDisks [] = ret []"
| "find_device H lun azureDisks (name # rest) =
     (let next = find_device H lun azureDisks rest
      in if \<not> scsi_name_matches lun azureDisks name then next
         else
           bind (attribute_is H name ''vendor'' ''MSFT'')
             (\<lambda>vendor. if \<not> vendor then next
                else
                  bind (attribute_is H name ''model'' ''VIRTUAL DISK'')
                    (\<lambda>model. if \<not> model then next
                       else
                         call (os_ReadDir H (filepath_Join (filepath_Join sysPath name) ''block''))
                           (\<lambda>err. next)
                           (\<lambda>dev. case dev of
                                [] \<Rightarrow> panic
                              | devName # _ \<Rightarrow>
                                  if devName \<in> set azureDisks then next else device_path H devName))))"

text \<open>An error of reading the directory of devices is not returned: the variable it is assigned to is
  the one of the inner scope.\<close>

definition findDiskByLunWithConstraint :: "'w node_os \<Rightarrow> int \<Rightarrow> string list \<Rightarrow> ('w, string) io" where
  "findDiskByLunWithConstraint H lun azureDisks =
     call (os_ReadDir H sysPath) (\<lambda>err. ret []) (find_device H lun azureDisks)"

definition findDiskByLun :: "'w node_os \<Rightarrow> int \<Rightarrow> ('w, string) io" where
  "findDiskByLun H lun = bind (listAzureDiskPath H) (findDiskByLunWithConstraint H lun)"

section \<open>Mounting, sizes and rescans\<close>

definition formatAndMount :: "'w node_os \<Rightarrow> string \<Rightarrow> string \<Rightarrow> string \<Rightarrow> string list \<Rightarrow> ('w, unit) io" where
  "formatAndMount H source target fstype options = mnt_FormatAndMount H source target fstype options"

definition preparePublishPath :: "string \<Rightarrow> ('w, unit) io" where
  "preparePublishPath path = ret ()"

definition CleanupMountPoint :: "'w node_os \<Rightarrow> string \<Rightarrow> bool \<Rightarrow> ('w, unit) io" where
  "CleanupMountPoint H path extensiveCheck = mnt_CleanupMountPoint H path extensiveCheck"

definition getDevicePathWithMountPath :: "'w node_os \<Rightarrow> string \<Rightarrow> ('w, string) io" where
  "getDevicePathWithMountPath H mountPath w =
     (case exec_Output H ''findmnt'' [''-o'', ''source'', ''--noheadings'', ''--mountpoint'', mountPath] w of
        ((output, Some err), w') \<Rightarrow>
          (Err (Errorf (''could not determine device path('' @ mountPath @ ''), error: '' @ Error err)), w')
      | ((output, None), w') \<Rightarrow>
          (let devicePath = TrimSpace output
           in if devicePath = [] then
                (Err (Errorf (''could not get valid device for mount path: '' @ dquoted mountPath)), w')
              else (Ok devicePath, w')))"

definition getBlockSizeBytes :: "'w node_os \<Rightarrow> string \<Rightarrow> ('w, int) io" where
  "getBlockSizeBytes H devicePath w =
     (case exec_Output H ''blockdev'' [''--getsize64'', devicePath] w of
        ((output, Some err), w') \<Rightarrow>
          (Err (Errorf (''error when getting size of block volume at path '' @ devicePath @ '': output: '' @
             output @ '', err: '' @ Error err)), w')
      | ((output, None), w') \<Rightarrow>
          (case Atoi (TrimSpace output) of
             Ok gotSizeBytes \<Rightarrow> (Ok gotSizeBytes, w')
           | Err err \<Rightarrow> (Err (Errorf (''failed to parse size '' @ TrimSpace output @ '' into int a size'')), w')
           | Panic \<Rightarrow> (Panic, w')))"

definition resizeVolume :: "'w node_os \<Rightarrow> string \<Rightarrow> string \<Rightarrow> ('w, unit) io" where
  "resizeVolume H devicePath volumePath = bind (mnt_Resize H devicePath volumePath) (\<lambda>_. ret ())"

definition needResizeVolume :: "'w node_os \<Rightarrow> string \<Rightarrow> string \<Rightarrow> ('w, bool) io" where
  "needResizeVolume H devicePath volumePath = mnt_NeedResize H devicePath volumePath"

definition rescanVolume :: "'w node_os \<Rightarrow> string \<Rightarrow> ('w, unit) io" where
  "rescanVolume H devicePath =
     os_WriteFile H (filepath_Join (filepath_Join sysClassBlockPath (Base devicePath)) ''device/rescan'') ''1''"

fun rescan_devices :: "'w node_os \<Rightarrow> string list \<Rightarrow> ('w, unit) io" where
  "rescan_devices H [] = ret ()"
| "rescan_devices H (deviceName # rest) =
     (if HasPrefix deviceName ''sd'' \<and> ''sdc'' \<le> deviceName then
        call (rescanVolume H (filepath_Join sysClassBlockPath deviceName))
          (\<lambda>err. rescan_devices H rest) (\<lambda>_. rescan_devices H rest)
      else rescan_devices H rest)"

definition rescanAllVolumes :: "'w node_os \<Rightarrow> ('w, unit) io" where
  "rescanAllVolumes H = bind (os_ReadDir H sysClassBlockPath) (rescan_devices H)"

section \<open>Usage of a volume\<close>

datatype usage_unit = BYTES | INODES

record volume_usage =
  vu_Unit :: usage_unit
  vu_Available :: int
  vu_Total :: int
  vu_Used :: int

text \<open>The messages quote the quantity; the quotation is left out.\<close>

definition int64_or :: "string \<Rightarrow> int option \<Rightarrow> (int \<Rightarrow> ('w, 'a) io) \<Rightarrow> ('w, 'a) io" where
  "int64_or text q k =
     (case q of None \<Rightarrow> fail (StatusErr Internal (''failed to transform '' @ text @ ''()'')) | Some n \<Rightarrow> k n)"

definition fs_usage :: "usage_metrics \<Rightarrow> ('w, volume_usage list) io" where
  "fs_usage m =
     int64_or ''volume available size'' (um_Available m)
       (\<lambda>available. int64_or ''volume capacity size'' (um_Capacity m)
          (\<lambda>capacity. int64_or ''volume used size'' (um_Used m)
             (\<lambda>used. int64_or ''disk inodes free'' (um_InodesFree m)
                (\<lambda>inodesFree. int64_or ''disk inodes'' (um_Inodes m)
                   (\<lambda>inodes. int64_or ''disk inodes used'' (um_InodesUsed m)
                      (\<lambda>inodesUsed. ret
                         [\<lparr>vu_Unit = BYTES, vu_Available = available, vu_Total = capacity, vu_Used = used\<rparr>,
                          \<lparr>vu_Unit = INODES, vu_Available = inodesFree, vu_Total = inodes, vu_Used = inodesUsed\<rparr>]))))))"

definition GetVolumeStats :: "'w node_os \<Rightarrow> string \<Rightarrow> ('w, volume_usage list) io" where
  "GetVolumeStats H target =
     call (os_Stat H target)
       (\<lambda>err. if os_IsNotExist H err then fail (StatusErr NotFound (''path '' @ target @ '' does not exist''))
              else fail (StatusErr Internal (''failed to stat file '' @ target @ '': '' @ Error err)))
       (\<lambda>_. call (hu_PathIsDevice H target)
          (\<lambda>err. fail (StatusErr NotFound (''failed to determine whether '' @ target @
             '' is block device: '' @ Error err)))
          (\<lambda>isBlock.
             if isBlock then
               call (getBlockSizeBytes H target)
                 (\<lambda>err. fail (StatusErr Internal (''failed to get block capacity on path '' @ target @ '': '' @ Error err)))
                 (\<lambda>bcap. ret [\<lparr>vu_Unit = BYTES, vu_Available = 0, vu_Total = bcap, vu_Used = 0\<rparr>])
             else bind (vol_GetMetrics H target) fs_usage))"

end
