(* ===== verification/SkuTables.thy ===== *)
theory SkuTables
  imports DevicePerf
begin

text \<open>
  The generated tables of \<open>pkg/optimization/azure_skus_map.go\<close>: the sizes of each kind of disk and the
  limits of each machine size, the latter in parts of at most 150 lines in the order of the source.
\<close>

section \<open>Disks\<close>

text \<open>A row of the table of disks, with the fields in the order of the source.\<close>

definition disk_sku ::
    "string \<Rightarrow> string \<Rightarrow> string \<Rightarrow> int \<Rightarrow> int \<Rightarrow> int \<Rightarrow> int \<Rightarrow> int \<Rightarrow> int \<Rightarrow> DiskSkuInfo" where
  "disk_sku account tier dsize shares burstIops iops bw burstBw gib =
     \<lparr>StorageAccountType = account, StorageTier = tier, DiskSize = dsize, MaxAllowedShares = shares,
      MaxBurstIops = burstIops, MaxIops = iops, MaxBwMbps = bw, MaxBurstBwMbps = burstBw, MaxSizeGiB = gib\<rparr>"

definition skus_premium_lrs :: "(string \<times> DiskSkuInfo) list" where
  "skus_premium_lrs =
     [(''p40'', disk_sku ''Premium_LRS'' ''Premium'' ''P40'' 5 7500 7500 250 250 2048),
      (''p2'', disk_sku ''Premium_LRS'' ''Premium'' ''P2'' 1 3500 120 25 170 8),
      (''p3'', disk_sku ''Premium_LRS'' ''Premium'' ''P3'' 1 3500 120 25 170 16),
      (''p4'', disk_sku ''Premium_LRS'' ''Premium'' ''P4'' 1 3500 120 25 170 32),
      (''p10'', disk_sku ''Premium_LRS'' ''Premium'' ''P10'' 1 3500 500 100 170 128),
      (''p20'', disk_sku ''Premium_LRS'' ''Premium'' ''P20'' 2 3500 2300 150 170 512),
      (''p80'', disk_sku ''Premium_LRS'' ''Premium'' ''P80'' 10 20000 20000 900 900 32767),
      (''p6'', disk_sku ''Premium_LRS'' ''Premium'' ''P6'' 1 3500 240 50 170 64),
      (''p15'', disk_sku ''Premium_LRS'' ''Premium'' ''P15'' 2 3500 1100 125 170 256),
      (''p30'', disk_sku ''Premium_LRS'' ''Premium'' ''P30'' 5 5000 5000 200 200 1024),
      (''p50'', disk_sku ''Premium_LRS'' ''Premium'' ''P50'' 5 7500 7500 250 250 4096),
      (''p70'', disk_sku ''Premium_LRS'' ''Premium'' ''P70'' 10 18000 18000 750 750 16384),
      (''p1'', disk_sku ''Premium_LRS'' ''Premium'' ''P1'' 1 3500 120 25 170 4),
      (''p60'', disk_sku ''Premium_LRS'' ''Premium'' ''P60'' 10 16000 16000 500 500 8192)]"

definition skus_standardssd_lrs :: "(string \<times> DiskSkuInfo) list" where
  "skus_standardssd_lrs =
     [(''e70'', disk_sku ''StandardSSD_LRS'' ''Standard'' ''E70'' 5 4000 4000 600 600 16384),
      (''e2'', disk_sku ''StandardSSD_LRS'' ''Standard'' ''E2'' 1 500 500 60 60 8),
      (''e10'', disk_sku ''StandardSSD_LRS'' ''Standard'' ''E10'' 1 500 500 60 60 128),
      (''e80'', disk_sku ''StandardSSD_LRS'' ''Standard'' ''E80'' 5 6000 6000 750 750 32767),
      (''e15'', disk_sku ''StandardSSD_LRS'' ''Standard'' ''E15'' 1 500 500 60 60 256),
      (''e20'', disk_sku ''StandardSSD_LRS'' ''Standard'' ''E20'' 2 500 500 60 60 512),
      (''e4'', disk_sku ''StandardSSD_LRS'' ''Standard'' ''E4'' 1 500 500 60 60 32),
      (''e30'', disk_sku ''StandardSSD_LRS'' ''Standard'' ''E30'' 5 500 500 60 60 1024),
      (''e40'', disk_sku ''StandardSSD_LRS'' ''Standard'' ''E40'' 5 500 500 60 60 2048),
      (''e60'', disk_sku ''StandardSSD_LRS'' ''Standard'' ''E60'' 5 2000 2000 400 400 8192),
      (''e1'', disk_sku ''StandardSSD_LRS'' ''Standard'' ''E1'' 1 500 500 60 60 4),
      (''e3'', disk_sku ''StandardSSD_LRS'' ''Standard'' ''E3'' 1 500 500 60 60 16),
      (''e6'', disk_sku ''StandardSSD_LRS'' ''Standard'' ''E6'' 1 500 500 60 60 64),
      (''e50'', disk_sku ''StandardSSD_LRS'' ''Standard'' ''E50'' 5 500 500 60 60 4096)]"

definition skus_ultrassd_lrs :: "(string \<times> DiskSkuInfo) list" where
  "skus_ultrassd_lrs =
     [(''u'', disk_sku ''UltraSSD_LRS'' ''Ultra'' ''U'' 5 0 0 0 0 65536)]"

definition skus_standardssd_zrs :: "(string \<times> DiskSkuInfo) list" where
  "skus_standardssd_zrs =
     [(''e1'', disk_sku ''StandardSSD_ZRS'' ''Standard'' ''E1'' 1 500 500 60 60 4),
      (''e10'', disk_sku ''StandardSSD_ZRS'' ''Standard'' ''E10'' 1 500 500 60 60 128),
      (''e30'', disk_sku ''StandardSSD_ZRS'' ''Standard'' ''E30'' 5 500 500 60 60 1024),
      (''e40'', disk_sku ''StandardSSD_ZRS'' ''Standard'' ''E40'' 5 500 500 60 60 2048),
      (''e50'', disk_sku ''StandardSSD_ZRS'' ''Standard'' ''E50'' 5 500 500 60 60 4096),
      (''e2'', disk_sku ''StandardSSD_ZRS'' ''Standard'' ''E2'' 1 500 500 60 60 8),
      (''e3'', disk_sku ''StandardSSD_ZRS'' ''Standard'' ''E3'' 1 500 500 60 60 16),
      (''e4'', disk_sku ''StandardSSD_ZRS'' ''Standard'' ''E4'' 1 500 500 60 60 32),
      (''e6'', disk_sku ''StandardSSD_ZRS'' ''Standard'' ''E6'' 1 500 500 60 60 64),
      (''e20'', disk_sku ''StandardSSD_ZRS'' ''Standard'' ''E20'' 2 500 500 60 60 512),
      (''e80'', disk_sku ''StandardSSD_ZRS'' ''Standard'' ''E80'' 5 6000 6000 750 750 32767),
      (''e15'', disk_sku ''StandardSSD_ZRS'' ''Standard'' ''E15'' 1 500 500 60 60 256),
      (''e60'', disk_sku ''StandardSSD_ZRS'' ''Standard'' ''E60'' 5 2000 2000 400 400 8192),
      (''e70'', disk_sku ''StandardSSD_ZRS'' ''Standard'' ''E70'' 5 4000 4000 600 600 16384)]"

definition skus_premium_zrs :: "(string \<times> DiskSkuInfo) list" where
  "skus_premium_zrs =
     [(''p2'', disk_sku ''Premium_ZRS'' ''Premium'' ''P2'' 1 3500 120 25 170 8),
      (''p40'', disk_sku ''Premium_ZRS'' ''Premium'' ''P40'' 5 7500 7500 250 250 2048),
      (''p80'', disk_sku ''Premium_ZRS'' ''Premium'' ''P80'' 10 20000 20000 900 900 32767),
      (''p70'', disk_sku ''Premium_ZRS'' ''Premium'' ''P70'' 10 18000 18000 750 750 16384),
      (''p3'', disk_sku ''Premium_ZRS'' ''Premium'' ''P3'' 1 3500 120 25 170 16),
      (''p15'', disk_sku ''Premium_ZRS'' ''Premium'' ''P15'' 2 3500 1100 125 170 256),
      (''p50'', disk_sku ''Premium_ZRS'' ''Premium'' ''P50'' 5 7500 7500 250 250 4096),
      (''p60'', disk_sku ''Premium_ZRS'' ''Premium'' ''P60'' 10 16000 16000 500 500 8192),
      (''p20'', disk_sku ''Premium_ZRS'' ''Premium'' ''P20'' 2 3500 2300 150 170 512),
      (''p1'', disk_sku ''Premium_ZRS'' ''Premium'' ''P1'' 1 3500 120 25 170 4),
      (''p4'', disk_sku ''Premium_ZRS'' ''Premium'' ''P4'' 1 3500 120 25 170 32),
      (''p6'', disk_sku ''Premium_ZRS'' ''Premium'' ''P6'' 1 3500 240 50 170 64),
      (''p10'', disk_sku ''Premium_ZRS'' ''Premium'' ''P10'' 1 3500 500 100 170 128),
      (''p30'', disk_sku ''Premium_ZRS'' ''Premium'' ''P30'' 5 5000 5000 200 200 1024)]"

definition skus_standard_lrs :: "(string \<times> DiskSkuInfo) list" where
  "skus_standard_lrs =
     [(''s30'', disk_sku ''Standard_LRS'' ''Standard'' ''S30'' 5 500 500 60 60 1024),
      (''s60'', disk_sku ''Standard_LRS'' ''Standard'' ''S60'' 5 1300 1300 300 300 8192),
      (''s40'', disk_sku ''Standard_LRS'' ''Standard'' ''S40'' 5 500 500 60 60 2048),
      (''s50'', disk_sku ''Standard_LRS'' ''Standard'' ''S50'' 5 500 500 60 60 4096),
      (''s70'', disk_sku ''Standard_LRS'' ''Standard'' ''S70'' 5 2000 2000 500 500 16384),
      (''s4'', disk_sku ''Standard_LRS'' ''Standard'' ''S4'' 1 500 500 60 60 32),
      (''s6'', disk_sku ''Standard_LRS'' ''Standard'' ''S6'' 1 500 500 60 60 64),
      (''s10'', disk_sku ''Standard_LRS'' ''Standard'' ''S10'' 1 500 500 60 60 128),
      (''s15'', disk_sku ''Standard_LRS'' ''Standard'' ''S15'' 1 500 500 60 60 256),
      (''s20'', disk_sku ''Standard_LRS'' ''Standard'' ''S20'' 2 500 500 60 60 512),
      (''s80'', disk_sku ''Standard_LRS'' ''Standard'' ''S80'' 5 2000 2000 500 500 32767)]"

definition DiskSkuMap :: sku_map where
  "DiskSkuMap =
     [(''premium_lrs'', skus_premium_lrs),
      (''standardssd_lrs'', skus_standardssd_lrs),
      (''ultrassd_lrs'', skus_ultrassd_lrs),
      (''standardssd_zrs'', skus_standardssd_zrs),
      (''premium_zrs'', skus_premium_zrs),
      (''standard_lrs'', skus_standard_lrs)]"

section \<open>Machines\<close>

definition node_sku :: "string \<Rightarrow> int \<Rightarrow> int \<Rightarrow> int \<Rightarrow> int \<Rightarrow> int \<Rightarrow> int \<Rightarrow> NodeInfo" where
  "node_sku name disks cpus burstIops iops bw burstBw =
     \<lparr>ni_SkuName = name, ni_MaxDataDiskCount = disks, ni_VCpus = cpus, ni_MaxBurstIops = burstIops,
      ni_MaxIops = iops, ni_MaxBwMbps = bw, ni_MaxBurstBwMbps = burstBw\<rparr>"

definition NodeInfoMap_1 :: "(string \<times> NodeInfo) list" where
  "NodeInfoMap_1 =
     [(''standard_ds11_v2'', node_sku ''Standard_DS11_v2'' 8 2 6400 6400 96 96),
      (''standard_e48a_v4'', node_sku ''Standard_E48a_v4'' 32 48 0 0 0 0),
      (''standard_e64-16as_v4'', node_sku ''Standard_E64-16as_v4'' 32 64 80000 80000 1200 1200),
      (''standard_e48s_v4'', node_sku ''Standard_E48s_v4'' 32 48 76800 76800 1152 1152),
      (''standard_d64_v4'', node_sku ''Standard_D64_v4'' 32 64 80000 80000 1200 1200),
      (''standard_hb120-16rs_v3'', node_sku ''Standard_HB120-16rs_v3'' 32 120 6400 6400 96 96),
      (''standard_m8-2ms'', node_sku ''Standard_M8-2ms'' 8 8 5000 5000 125 125),
      (''standard_e8-4as_v4'', node_sku ''Standard_E8-4as_v4'' 16 8 12800 12800 192 192),
      (''standard_f16s_v2'', node_sku ''Standard_F16s_v2'' 32 16 25600 25600 380 380),
      (''standard_e16_v4'', node_sku ''Standard_E16_v4'' 32 16 25600 25600 384 384),
      (''standard_d4'', node_sku ''Standard_D4'' 32 8 0 0 0 0),
      (''standard_e32a_v4'', node_sku ''Standard_E32a_v4'' 32 32 0 0 0 0),
      (''standard_e64-16s_v3'', node_sku ''Standard_E64-16s_v3'' 32 64 80000 80000 1200 1200),
      (''standard_d2ds_v4'', node_sku ''Standard_D2ds_v4'' 4 2 3200 3200 48 48),
      (''standard_d16s_v4'', node_sku ''Standard_D16s_v4'' 32 16 25600 25600 384 384),
      (''standard_b2s'', node_sku ''Standard_B2s'' 4 2 1280 1280 15 15),
      (''standard_d4a_v4'', node_sku ''Standard_D4a_v4'' 8 4 0 0 0 0),
      (''standard_a1_v2'', node_sku ''Standard_A1_v2'' 2 1 0 0 0 0),
      (''standard_e32s_v4'', node_sku ''Standard_E32s_v4'' 32 32 51200 51200 768 768),
      (''standard_m16-8ms'', node_sku ''Standard_M16-8ms'' 16 16 10000 10000 250 250),
      (''standard_m128s'', node_sku ''Standard_M128s'' 64 128 80000 80000 2000 2000),
      (''standard_b20ms'', node_sku ''Standard_B20ms'' 32 20 4320 4320 50 50),
      (''standard_a8_v2'', node_sku ''Standard_A8_v2'' 16 8 0 0 0 0),
      (''standard_e32-8ds_v4'', node_sku ''Standard_E32-8ds_v4'' 32 32 51200 51200 768 768),
      (''standard_d48_v4'', node_sku ''Standard_D48_v4'' 32 48 76800 76800 1152 1152),
      (''standard_hb120-64rs_v3'', node_sku ''Standard_HB120-64rs_v3'' 32 120 6400 6400 96 96),
      (''standard_nc12s_v3'', node_sku ''Standard_NC12s_v3'' 24 12 0 0 0 0),
      (''standard_hb60rs'', node_sku ''Standard_HB60rs'' 4 60 0 0 0 0),
      (''standard_m416ms_v2'', node_sku ''Standard_M416ms_v2'' 64 416 0 0 0 0),
      (''standard_f2s'', node_sku ''Standard_F2s'' 8 2 6400 6400 96 96),
      (''standard_d2as_v4'', node_sku ''Standard_D2as_v4'' 4 2 3200 3200 48 48),
      (''standard_d4_v2'', node_sku ''Standard_D4_v2'' 32 8 0 0 0 0),
      (''standard_d2d_v4'', node_sku ''Standard_D2d_v4'' 4 2 0 0 0 0),
      (''standard_m32dms_v2'', node_sku ''Standard_M32dms_v2'' 32 32 20000 20000 476 476),
      (''standard_m208s_v2'', node_sku ''Standard_M208s_v2'' 64 208 0 0 0 0),
      (''standard_nv32as_v4'', node_sku ''Standard_NV32as_v4'' 32 32 0 0 0 0),
      (''standard_a2'', node_sku ''Standard_A2'' 4 2 0 0 0 0),
      (''standard_d5_v2'', node_sku ''Standard_D5_v2'' 64 16 0 0 0 0),
      (''standard_e2d_v4'', node_sku ''Standard_E2d_v4'' 4 2 0 0 0 0),
      (''standard_e8ds_v4'', node_sku ''Standard_E8ds_v4'' 16 8 12800 12800 192 192),
      (''standard_nv12'', node_sku ''Standard_NV12'' 48 12 0 0 0 0),
      (''standard_l32s'', node_sku ''Standard_L32s'' 64 32 40000 40000 1000 1000),
      (''basic_a0'', node_sku ''Basic_A0'' 1 1 0 0 0 0),
      (''standard_ds14'', node_sku ''Standard_DS14'' 64 16 51200 51200 512 512),
      (''standard_b1ls'', node_sku ''Standard_B1ls'' 2 1 160 160 10 10),
      (''standard_d16_v3'', node_sku ''Standard_D16_v3'' 32 16 0 0 0 0),
      (''standard_e2_v3'', node_sku ''Standard_E2_v3'' 4 2 0 0 0 0),
      (''standard_e16s_v4'', node_sku ''Standard_E16s_v4'' 32 16 25600 25600 384 384),
      (''standard_d4s_v4'', node_sku ''Standard_D4s_v4'' 8 4 6400 6400 96 96),
      (''standard_m8-4ms'', node_sku ''Standard_M8-4ms'' 8 8 5000 5000 125 125),
      (''standard_e96-24as_v4'', node_sku ''Standard_E96-24as_v4'' 32 96 80000 80000 1200 1200),
      (''standard_f16'', node_sku ''Standard_F16'' 64 16 0 0 0 0),
      (''standard_d64_v3'', node_sku ''Standard_D64_v3'' 32 64 0 0 0 0),
      (''standard_e20s_v3'', node_sku ''Standard_E20s_v3'' 32 20 32000 32000 480 480),
      (''standard_e4_v4'', node_sku ''Standard_E4_v4'' 8 4 6400 6400 96 96),
      (''standard_d16_v4'', node_sku ''Standard_D16_v4'' 32 16 25600 25600 384 384),
      (''standard_hc44rs'', node_sku ''Standard_HC44rs'' 4 44 0 0 0 0),
      (''standard_g3'', node_sku ''Standard_G3'' 32 8 0 0 0 0),
      (''standard_f1s'', node_sku ''Standard_F1s'' 4 1 3200 3200 48 48),
      (''standard_e64a_v4'', node_sku ''Standard_E64a_v4'' 32 64 0 0 0 0),
      (''standard_e32as_v4'', node_sku ''Standard_E32as_v4'' 32 32 51200 51200 768 768),
      (''standard_l8s'', node_sku ''Standard_L8s'' 32 8 10000 10000 250 250),
      (''standard_d11_v2_promo'', node_sku ''Standard_D11_v2_Promo'' 8 2 0 0 0 0),
      (''standard_e2a_v4'', node_sku ''Standard_E2a_v4'' 4 2 0 0 0 0),
      (''standard_e64s_v4'', node_sku ''Standard_E64s_v4'' 32 64 80000 80000 1200 1200),
      (''standard_m64dms_v2'', node_sku ''Standard_M64dms_v2'' 64 64 40000 40000 953 953),
      (''standard_nv6s_v2'', node_sku ''Standard_NV6s_v2'' 12 6 0 0 0 0),
      (''standard_nv24'', node_sku ''Standard_NV24'' 64 24 0 0 0 0),
      (''standard_m8ms'', node_sku ''Standard_M8ms'' 8 8 5000 5000 125 125),
      (''standard_m128'', node_sku ''Standard_M128'' 64 128 80000 80000 2000 2000),
      (''standard_a3'', node_sku ''Standard_A3'' 8 4 0 0 0 0),
      (''standard_a6'', node_sku ''Standard_A6'' 8 4 0 0 0 0),
      (''standard_d32as_v4'', node_sku ''Standard_D32as_v4'' 32 32 51200 51200 768 768),
      (''standard_a2_v2'', node_sku ''Standard_A2_v2'' 4 2 0 0 0 0),
      (''standard_l4s'', node_sku ''Standard_L4s'' 16 4 5000 5000 125 125),
      (''standard_d2a_v4'', node_sku ''Standard_D2a_v4'' 4 2 0 0 0 0),
      (''standard_e64as_v4'', node_sku ''Standard_E64as_v4'' 32 64 80000 80000 1200 1200),
      (''standard_e96as_v4'', node_sku ''Standard_E96as_v4'' 32 96 80000 80000 1200 1200),
      (''standard_e64_v3'', node_sku ''Standard_E64_v3'' 32 64 0 0 0 0),
      (''standard_g4'', node_sku ''Standard_G4'' 64 16 0 0 0 0),
      (''basic_a2'', node_sku ''Basic_A2'' 4 2 0 0 0 0),
      (''standard_ds13'', node_sku ''Standard_DS13'' 32 8 25600 25600 256 256),
      (''standard_ds14-8_v2'', node_sku ''Standard_DS14-8_v2'' 64 16 51200 51200 768 768),
      (''standard_e48as_v4'', node_sku ''Standard_E48as_v4'' 32 48 76800 76800 1152 1152),
      (''standard_e64is_v3'', node_sku ''Standard_E64is_v3'' 32 64 80000 80000 1200 1200),
      (''standard_hb120rs_v2'', node_sku ''Standard_HB120rs_v2'' 8 120 0 0 0 0),
      (''standard_e16-4ds_v4'', node_sku ''Standard_E16-4ds_v4'' 32 16 25600 25600 384 384),
      (''standard_m128-32ms'', node_sku ''Standard_M128-32ms'' 64 128 80000 80000 2000 2000),
      (''standard_h16'', node_sku ''Standard_H16'' 64 16 0 0 0 0),
      (''standard_a1'', node_sku ''Standard_A1'' 2 1 0 0 0 0),
      (''standard_e2as_v4'', node_sku ''Standard_E2as_v4'' 4 2 3200 3200 48 48),
      (''standard_d2_v2'', node_sku ''Standard_D2_v2'' 8 2 0 0 0 0),
      (''standard_f1'', node_sku ''Standard_F1'' 4 1 0 0 0 0),
      (''standard_a8m_v2'', node_sku ''Standard_A8m_v2'' 16 8 0 0 0 0),
      (''standard_d8ds_v4'', node_sku ''Standard_D8ds_v4'' 16 8 12800 12800 192 192),
      (''standard_l80s_v2'', node_sku ''Standard_L80s_v2'' 32 80 0 0 0 0),
      (''standard_h16mr'', node_sku ''Standard_H16mr'' 64 16 0 0 0 0),
      (''standard_gs5'', node_sku ''Standard_GS5'' 64 32 80000 80000 2000 2000),
      (''standard_d16s_v3'', node_sku ''Standard_D16s_v3'' 32 16 25600 25600 384 384),
      (''standard_d48_v3'', node_sku ''Standard_D48_v3'' 32 48 0 0 0 0),
      (''standard_e8-2s_v3'', node_sku ''Standard_E8-2s_v3'' 16 8 12800 12800 192 192),
      (''standard_e8_v4'', node_sku ''Standard_E8_v4'' 16 8 12800 12800 192 192),
      (''standard_e2s_v4'', node_sku ''Standard_E2s_v4'' 4 2 3200 3200 48 48),
      (''standard_d8_v4'', node_sku ''Standard_D8_v4'' 16 8 12800 12800 192 192),
      (''standard_nc24s_v3'', node_sku ''Standard_NC24s_v3'' 32 24 0 0 0 0),
      (''standard_h16_promo'', node_sku ''Standard_H16_Promo'' 64 16 0 0 0 0),
      (''basic_a1'', node_sku ''Basic_A1'' 2 1 0 0 0 0),
      (''standard_d14'', node_sku ''Standard_D14'' 64 16 0 0 0 0),
      (''standard_e4as_v4'', node_sku ''Standard_E4as_v4'' 8 4 6400 6400 96 96),
      (''standard_dc1s_v2'', node_sku ''Standard_DC1s_v2'' 1 1 0 0 0 0),
      (''standard_nc8as_t4_v3'', node_sku ''Standard_NC8as_T4_v3'' 16 8 24480 24480 351 351),
      (''standard_ds15_v2'', node_sku ''Standard_DS15_v2'' 64 20 64000 64000 960 960),
      (''standard_ds4_v2'', node_sku ''Standard_DS4_v2'' 32 8 25600 25600 384 384),
      (''standard_e8as_v4'', node_sku ''Standard_E8as_v4'' 16 8 12800 12800 192 192),
      (''standard_e32-8as_v4'', node_sku ''Standard_E32-8as_v4'' 32 32 51200 51200 768 768),
      (''standard_d14_v2'', node_sku ''Standard_D14_v2'' 64 16 0 0 0 0),
      (''standard_hb120rs_v3'', node_sku ''Standard_HB120rs_v3'' 32 120 6400 6400 96 96),
      (''standard_h8'', node_sku ''Standard_H8'' 32 8 0 0 0 0),
      (''standard_ds12-2_v2'', node_sku ''Standard_DS12-2_v2'' 16 4 12800 12800 192 192),
      (''standard_e2s_v3'', node_sku ''Standard_E2s_v3'' 4 2 3200 3200 48 48),
      (''standard_e2ds_v4'', node_sku ''Standard_E2ds_v4'' 4 2 3200 3200 48 48),
      (''standard_m192is_v2'', node_sku ''Standard_M192is_v2'' 64 192 80000 80000 1907 1907),
      (''standard_nv48s_v3'', node_sku ''Standard_NV48s_v3'' 32 48 0 0 0 0),
      (''standard_l48s_v2'', node_sku ''Standard_L48s_v2'' 32 48 0 0 0 0),
      (''standard_ds2'', node_sku ''Standard_DS2'' 8 2 6400 6400 64 64),
      (''standard_f8s_v2'', node_sku ''Standard_F8s_v2'' 16 8 12800 12800 190 190),
      (''standard_e64d_v4'', node_sku ''Standard_E64d_v4'' 32 64 0 0 0 0),
      (''standard_d48ds_v4'', node_sku ''Standard_D48ds_v4'' 32 48 76800 76800 1152 1152),
      (''standard_d15_v2'', node_sku ''Standard_D15_v2'' 64 20 0 0 0 0),
      (''standard_a5'', node_sku ''Standard_A5'' 4 2 0 0 0 0),
      (''standard_ds4'', node_sku ''Standard_DS4'' 32 8 25600 25600 256 256),
      (''standard_e16-4s_v3'', node_sku ''Standard_E16-4s_v3'' 32 16 25600 25600 384 384),
      (''standard_m128-64ms'', node_sku ''Standard_M128-64ms'' 64 128 80000 80000 2000 2000),
      (''standard_e4-2as_v4'', node_sku ''Standard_E4-2as_v4'' 8 4 6400 6400 96 96),
      (''standard_e20_v3'', node_sku ''Standard_E20_v3'' 32 20 0 0 0 0),
      (''standard_m128ms_v2'', node_sku ''Standard_M128ms_v2'' 64 128 80000 80000 1907 1907),
      (''standard_m192ids_v2'', node_sku ''Standard_M192ids_v2'' 64 192 80000 80000 1907 1907),
      (''standard_d13_v2_promo'', node_sku ''Standard_D13_v2_Promo'' 32 8 0 0 0 0),
      (''standard_ds12_v2'', node_sku ''Standard_DS12_v2'' 16 4 12800 12800 192 192),
      (''standard_d13_v2'', node_sku ''Standard_D13_v2'' 32 8 0 0 0 0),
      (''standard_a4_v2'', node_sku ''Standard_A4_v2'' 8 4 0 0 0 0),
      (''standard_d64s_v3'', node_sku ''Standard_D64s_v3'' 32 64 80000 80000 1200 1200),
      (''standard_d64d_v4'', node_sku ''Standard_D64d_v4'' 32 64 0 0 0 0),
      (''standard_nv16as_v4'', node_sku ''Standard_NV16as_v4'' 32 16 0 0 0 0),
      (''standard_d14_v2_promo'', node_sku ''Standard_D14_v2_Promo'' 64 16 0 0 0 0),
      (''standard_ds3_v2_promo'', node_sku ''Standard_DS3_v2_Promo'' 16 4 12800 12800 192 192),
      (''standard_ds11-1_v2'', node_sku ''Standard_DS11-1_v2'' 8 2 6400 6400 96 96),
      (''standard_e16as_v4'', node_sku ''Standard_E16as_v4'' 32 16 25600 25600 384 384),
      (''standard_e20_v4'', node_sku ''Standard_E20_v4'' 32 20 32000 32000 480 480),
      (''standard_e80is_v4'', node_sku ''Standard_E80is_v4'' 32 80 80000 80000 1200 1200)]"

definition NodeInfoMap_2 :: "(string \<times> NodeInfo) list" where
  "NodeInfoMap_2 =
     [(''standard_d8d_v4'', node_sku ''Standard_D8d_v4'' 16 8 0 0 0 0),
      (''standard_ds14_v2_promo'', node_sku ''Standard_DS14_v2_Promo'' 64 16 51200 51200 768 768),
      (''standard_a4'', node_sku ''Standard_A4'' 16 8 0 0 0 0),
      (''standard_d64as_v4'', node_sku ''Standard_D64as_v4'' 32 64 80000 80000 1200 1200),
      (''standard_dc2s_v2'', node_sku ''Standard_DC2s_v2'' 2 2 0 0 0 0),
      (''standard_g5'', node_sku ''Standard_G5'' 64 32 0 0 0 0),
      (''standard_ds1'', node_sku ''Standard_DS1'' 4 1 3200 3200 32 32),
      (''standard_f4'', node_sku ''Standard_F4'' 16 4 0 0 0 0),
      (''standard_e32-8s_v4'', node_sku ''Standard_E32-8s_v4'' 32 32 51200 51200 768 768),
      (''standard_nc16as_t4_v3'', node_sku ''Standard_NC16as_T4_v3'' 32 16 24480 24480 351 351),
      (''standard_d48a_v4'', node_sku ''Standard_D48a_v4'' 32 48 0 0 0 0),
      (''standard_d4as_v4'', node_sku ''Standard_D4as_v4'' 8 4 6400 6400 96 96),
      (''standard_e32-16s_v4'', node_sku ''Standard_E32-16s_v4'' 32 32 51200 51200 768 768),
      (''standard_m64ms_v2'', node_sku ''Standard_M64ms_v2'' 64 64 40000 40000 953 953),
      (''standard_hb120-96rs_v3'', node_sku ''Standard_HB120-96rs_v3'' 32 120 6400 6400 96 96),
      (''standard_m128ms'', node_sku ''Standard_M128ms'' 64 128 80000 80000 2000 2000),
      (''standard_nv4as_v4'', node_sku ''Standard_NV4as_v4'' 8 4 0 0 0 0),
      (''standard_gs5-16'', node_sku ''Standard_GS5-16'' 64 32 80000 80000 2000 2000),
      (''standard_b12ms'', node_sku ''Standard_B12ms'' 16 12 4320 4320 0 0),
      (''standard_ds14-4_v2'', node_sku ''Standard_DS14-4_v2'' 64 16 51200 51200 768 768),
      (''standard_d48as_v4'', node_sku ''Standard_D48as_v4'' 32 48 76800 76800 1152 1152),
      (''standard_d1_v2'', node_sku ''Standard_D1_v2'' 4 1 0 0 0 0),
      (''standard_e16-4s_v4'', node_sku ''Standard_E16-4s_v4'' 32 16 25600 25600 384 384),
      (''standard_e20s_v4'', node_sku ''Standard_E20s_v4'' 32 20 32000 32000 480 480),
      (''standard_e20ds_v4'', node_sku ''Standard_E20ds_v4'' 32 20 32000 32000 480 480),
      (''standard_d4_v4'', node_sku ''Standard_D4_v4'' 8 4 6400 6400 96 96),
      (''standard_m64-32ms'', node_sku ''Standard_M64-32ms'' 64 64 40000 40000 1000 1000),
      (''standard_nc24_promo'', node_sku ''Standard_NC24_Promo'' 64 24 0 0 0 0),
      (''standard_gs4-4'', node_sku ''Standard_GS4-4'' 64 16 40000 40000 1000 1000),
      (''standard_l16s_v2'', node_sku ''Standard_L16s_v2'' 32 16 0 0 0 0),
      (''standard_nc6'', node_sku ''Standard_NC6'' 24 6 0 0 0 0),
      (''standard_nc6s_v2'', node_sku ''Standard_NC6s_v2'' 12 6 0 0 0 0),
      (''standard_d13'', node_sku ''Standard_D13'' 32 8 0 0 0 0),
      (''standard_d4s_v3'', node_sku ''Standard_D4s_v3'' 8 4 6400 6400 96 96),
      (''standard_d48s_v3'', node_sku ''Standard_D48s_v3'' 32 48 76800 76800 1152 1152),
      (''standard_f48s_v2'', node_sku ''Standard_F48s_v2'' 32 48 76800 76800 1100 1100),
      (''standard_e4d_v4'', node_sku ''Standard_E4d_v4'' 8 4 0 0 0 0),
      (''standard_d4d_v4'', node_sku ''Standard_D4d_v4'' 8 4 0 0 0 0),
      (''standard_m64ms'', node_sku ''Standard_M64ms'' 64 64 40000 40000 1000 1000),
      (''standard_l16s'', node_sku ''Standard_L16s'' 64 16 20000 20000 500 500),
      (''standard_b16ms'', node_sku ''Standard_B16ms'' 32 16 4320 4320 50 50),
      (''standard_ds13_v2'', node_sku ''Standard_DS13_v2'' 32 8 25600 25600 384 384),
      (''standard_e16-8as_v4'', node_sku ''Standard_E16-8as_v4'' 32 16 25600 25600 384 384),
      (''standard_f8'', node_sku ''Standard_F8'' 32 8 0 0 0 0),
      (''standard_hb120-32rs_v3'', node_sku ''Standard_HB120-32rs_v3'' 32 120 6400 6400 96 96),
      (''standard_l8s_v2'', node_sku ''Standard_L8s_v2'' 16 8 0 0 0 0),
      (''standard_nc6_promo'', node_sku ''Standard_NC6_Promo'' 24 6 0 0 0 0),
      (''standard_d11_v2'', node_sku ''Standard_D11_v2'' 8 2 0 0 0 0),
      (''standard_f2'', node_sku ''Standard_F2'' 8 2 0 0 0 0),
      (''standard_d32_v3'', node_sku ''Standard_D32_v3'' 32 32 0 0 0 0),
      (''standard_e8-4s_v3'', node_sku ''Standard_E8-4s_v3'' 16 8 12800 12800 192 192),
      (''standard_e64s_v3'', node_sku ''Standard_E64s_v3'' 32 64 80000 80000 1200 1200),
      (''standard_e4-2s_v4'', node_sku ''Standard_E4-2s_v4'' 8 4 6400 6400 96 96),
      (''standard_m64s_v2'', node_sku ''Standard_M64s_v2'' 64 64 40000 40000 953 953),
      (''standard_nc24rs_v3'', node_sku ''Standard_NC24rs_v3'' 32 24 0 0 0 0),
      (''standard_m32-16ms'', node_sku ''Standard_M32-16ms'' 32 32 20000 20000 500 500),
      (''standard_m32ls'', node_sku ''Standard_M32ls'' 32 32 20000 20000 500 500),
      (''standard_d2'', node_sku ''Standard_D2'' 8 2 0 0 0 0),
      (''standard_b4ms'', node_sku ''Standard_B4ms'' 8 4 2880 2880 35 35),
      (''standard_ds5_v2'', node_sku ''Standard_DS5_v2'' 64 16 51200 51200 768 768),
      (''standard_e48s_v3'', node_sku ''Standard_E48s_v3'' 32 48 76800 76800 1152 1152),
      (''standard_e48ds_v4'', node_sku ''Standard_E48ds_v4'' 32 48 76800 76800 1152 1152),
      (''standard_m128m'', node_sku ''Standard_M128m'' 64 128 80000 80000 2000 2000),
      (''standard_nv8as_v4'', node_sku ''Standard_NV8as_v4'' 16 8 0 0 0 0),
      (''standard_e16_v3'', node_sku ''Standard_E16_v3'' 32 16 0 0 0 0),
      (''standard_f64s_v2'', node_sku ''Standard_F64s_v2'' 32 64 80000 80000 1100 1100),
      (''standard_d2_v4'', node_sku ''Standard_D2_v4'' 4 2 3200 3200 48 48),
      (''standard_m64'', node_sku ''Standard_M64'' 64 64 40000 40000 1000 1000),
      (''standard_m416s_v2'', node_sku ''Standard_M416s_v2'' 64 416 0 0 0 0),
      (''standard_gs3'', node_sku ''Standard_GS3'' 32 8 20000 20000 500 500),
      (''standard_d12_v2_promo'', node_sku ''Standard_D12_v2_Promo'' 16 4 0 0 0 0),
      (''standard_ds11_v2_promo'', node_sku ''Standard_DS11_v2_Promo'' 8 2 6400 6400 96 96),
      (''standard_d64a_v4'', node_sku ''Standard_D64a_v4'' 32 64 0 0 0 0),
      (''standard_d96a_v4'', node_sku ''Standard_D96a_v4'' 32 96 0 0 0 0),
      (''standard_e96-48as_v4'', node_sku ''Standard_E96-48as_v4'' 32 96 80000 80000 1200 1200),
      (''standard_e32-16s_v3'', node_sku ''Standard_E32-16s_v3'' 32 32 51200 51200 768 768),
      (''standard_e4s_v4'', node_sku ''Standard_E4s_v4'' 8 4 6400 6400 96 96),
      (''standard_gs4'', node_sku ''Standard_GS4'' 64 16 40000 40000 1000 1000),
      (''standard_ds11'', node_sku ''Standard_DS11'' 8 2 6400 6400 64 64),
      (''standard_f8s'', node_sku ''Standard_F8s'' 32 8 25600 25600 384 384),
      (''standard_e8-2as_v4'', node_sku ''Standard_E8-2as_v4'' 16 8 12800 12800 192 192),
      (''standard_e4_v3'', node_sku ''Standard_E4_v3'' 8 4 0 0 0 0),
      (''standard_e16s_v3'', node_sku ''Standard_E16s_v3'' 32 16 25600 25600 384 384),
      (''standard_m32-8ms'', node_sku ''Standard_M32-8ms'' 32 32 20000 20000 500 500),
      (''standard_m64m'', node_sku ''Standard_M64m'' 64 64 40000 40000 1000 1000),
      (''standard_nc12'', node_sku ''Standard_NC12'' 48 12 0 0 0 0),
      (''standard_e32ds_v4'', node_sku ''Standard_E32ds_v4'' 32 32 51200 51200 768 768),
      (''standard_m64ds_v2'', node_sku ''Standard_M64ds_v2'' 64 64 40000 40000 953 953),
      (''standard_m16ms'', node_sku ''Standard_M16ms'' 16 16 10000 10000 250 250),
      (''standard_g1'', node_sku ''Standard_G1'' 8 2 0 0 0 0),
      (''standard_gs4-8'', node_sku ''Standard_GS4-8'' 64 16 40000 40000 1000 1000),
      (''standard_d3_v2_promo'', node_sku ''Standard_D3_v2_Promo'' 16 4 0 0 0 0),
      (''standard_b1s'', node_sku ''Standard_B1s'' 2 1 320 320 10 10),
      (''standard_e32-16as_v4'', node_sku ''Standard_E32-16as_v4'' 32 32 51200 51200 768 768),
      (''standard_e32-16ds_v4'', node_sku ''Standard_E32-16ds_v4'' 32 32 51200 51200 768 768),
      (''basic_a4'', node_sku ''Basic_A4'' 16 8 0 0 0 0),
      (''standard_d11'', node_sku ''Standard_D11'' 8 2 0 0 0 0),
      (''standard_f2s_v2'', node_sku ''Standard_F2s_v2'' 4 2 3200 3200 47 47),
      (''standard_e20d_v4'', node_sku ''Standard_E20d_v4'' 32 20 0 0 0 0),
      (''standard_d12'', node_sku ''Standard_D12'' 16 4 0 0 0 0),
      (''standard_b2ms'', node_sku ''Standard_B2ms'' 4 2 1920 1920 22 22),
      (''standard_ds2_v2'', node_sku ''Standard_DS2_v2'' 8 2 6400 6400 96 96),
      (''standard_ds3_v2'', node_sku ''Standard_DS3_v2'' 16 4 12800 12800 192 192),
      (''standard_e64i_v3'', node_sku ''Standard_E64i_v3'' 32 64 0 0 0 0),
      (''standard_d64s_v4'', node_sku ''Standard_D64s_v4'' 32 64 80000 80000 1200 1200),
      (''standard_h8_promo'', node_sku ''Standard_H8_Promo'' 32 8 0 0 0 0),
      (''standard_a7'', node_sku ''Standard_A7'' 16 8 0 0 0 0),
      (''standard_ds12'', node_sku ''Standard_DS12'' 16 4 12800 12800 128 128),
      (''standard_d8as_v4'', node_sku ''Standard_D8as_v4'' 16 8 12800 12800 192 192),
      (''standard_e16-8s_v3'', node_sku ''Standard_E16-8s_v3'' 32 16 25600 25600 384 384),
      (''standard_e8-4ds_v4'', node_sku ''Standard_E8-4ds_v4'' 16 8 12800 12800 192 192),
      (''standard_e64-32ds_v4'', node_sku ''Standard_E64-32ds_v4'' 32 64 80000 80000 1200 1200),
      (''standard_gs5-8'', node_sku ''Standard_GS5-8'' 64 32 80000 80000 2000 2000),
      (''standard_d96as_v4'', node_sku ''Standard_D96as_v4'' 32 96 80000 80000 1200 1200),
      (''standard_e20as_v4'', node_sku ''Standard_E20as_v4'' 32 20 32000 32000 480 480),
      (''standard_nc64as_t4_v3'', node_sku ''Standard_NC64as_T4_v3'' 32 64 24480 24480 351 351),
      (''standard_nv24s_v2'', node_sku ''Standard_NV24s_v2'' 32 24 0 0 0 0),
      (''standard_e64-32s_v4'', node_sku ''Standard_E64-32s_v4'' 32 64 80000 80000 1200 1200),
      (''standard_e64ds_v4'', node_sku ''Standard_E64ds_v4'' 32 64 80000 80000 1200 1200),
      (''standard_e64ds_v5'', node_sku ''Standard_E64ds_v5'' 32 64 80000 80000 1735 3000),
      (''standard_e96a_v4'', node_sku ''Standard_E96a_v4'' 32 96 0 0 0 0),
      (''standard_e16-4as_v4'', node_sku ''Standard_E16-4as_v4'' 32 16 25600 25600 384 384),
      (''standard_e64-32as_v4'', node_sku ''Standard_E64-32as_v4'' 32 64 80000 80000 1200 1200),
      (''standard_e48d_v4'', node_sku ''Standard_E48d_v4'' 32 48 0 0 0 0),
      (''standard_e64-16s_v4'', node_sku ''Standard_E64-16s_v4'' 32 64 80000 80000 1200 1200),
      (''standard_e4ds_v4'', node_sku ''Standard_E4ds_v4'' 8 4 6400 6400 96 96),
      (''standard_e16ds_v4'', node_sku ''Standard_E16ds_v4'' 32 16 25600 25600 384 384),
      (''standard_d8s_v4'', node_sku ''Standard_D8s_v4'' 16 8 12800 12800 192 192),
      (''standard_h16r_promo'', node_sku ''Standard_H16r_Promo'' 64 16 0 0 0 0),
      (''standard_ds5_v2_promo'', node_sku ''Standard_DS5_v2_Promo'' 64 16 51200 51200 768 768),
      (''standard_d32s_v3'', node_sku ''Standard_D32s_v3'' 32 32 51200 51200 768 768),
      (''standard_m192ims_v2'', node_sku ''Standard_M192ims_v2'' 64 192 80000 80000 1907 1907),
      (''standard_h8m_promo'', node_sku ''Standard_H8m_Promo'' 32 8 0 0 0 0),
      (''standard_ds3'', node_sku ''Standard_DS3'' 16 4 12800 12800 128 128),
      (''standard_f4s'', node_sku ''Standard_F4s'' 16 4 12800 12800 192 192),
      (''standard_d12_v2'', node_sku ''Standard_D12_v2'' 16 4 0 0 0 0),
      (''standard_e2_v4'', node_sku ''Standard_E2_v4'' 4 2 3200 3200 48 48),
      (''standard_d48s_v4'', node_sku ''Standard_D48s_v4'' 32 48 76800 76800 1152 1152),
      (''standard_m32ms_v2'', node_sku ''Standard_M32ms_v2'' 32 32 20000 20000 476 476),
      (''standard_m64ls'', node_sku ''Standard_M64ls'' 64 64 40000 40000 1000 1000),
      (''standard_d5_v2_promo'', node_sku ''Standard_D5_v2_Promo'' 64 16 0 0 0 0),
      (''standard_ds2_v2_promo'', node_sku ''Standard_DS2_v2_Promo'' 8 2 6400 6400 96 96),
      (''standard_d1'', node_sku ''Standard_D1'' 4 1 0 0 0 0),
      (''standard_nv24s_v3'', node_sku ''Standard_NV24s_v3'' 24 24 0 0 0 0),
      (''standard_nc6s_v3'', node_sku ''Standard_NC6s_v3'' 12 6 0 0 0 0),
      (''standard_h16mr_promo'', node_sku ''Standard_H16mr_Promo'' 64 16 0 0 0 0),
      (''standard_nc12s_v2'', node_sku ''Standard_NC12s_v2'' 24 12 0 0 0 0),
      (''standard_f16s'', node_sku ''Standard_F16s'' 64 16 51200 51200 768 768),
      (''standard_d3_v2'', node_sku ''Standard_D3_v2'' 16 4 0 0 0 0),
      (''standard_d8_v3'', node_sku ''Standard_D8_v3'' 16 8 0 0 0 0)]"

definition NodeInfoMap_3 :: "(string \<times> NodeInfo) list" where
  "NodeInfoMap_3 =
     [(''standard_e64-32s_v3'', node_sku ''Standard_E64-32s_v3'' 32 64 80000 80000 1200 1200),
      (''standard_e16d_v4'', node_sku ''Standard_E16d_v4'' 32 16 0 0 0 0),
      (''standard_d2s_v4'', node_sku ''Standard_D2s_v4'' 4 2 3200 3200 48 48),
      (''standard_a0'', node_sku ''Standard_A0'' 1 1 0 0 0 0),
      (''standard_ds12-1_v2'', node_sku ''Standard_DS12-1_v2'' 16 4 12800 12800 192 192),
      (''standard_d8s_v3'', node_sku ''Standard_D8s_v3'' 16 8 12800 12800 192 192),
      (''standard_e16a_v4'', node_sku ''Standard_E16a_v4'' 32 16 0 0 0 0),
      (''standard_nv12s_v2'', node_sku ''Standard_NV12s_v2'' 24 12 0 0 0 0),
      (''standard_m32ts'', node_sku ''Standard_M32ts'' 32 32 20000 20000 500 500),
      (''standard_m208ms_v2'', node_sku ''Standard_M208ms_v2'' 64 208 0 0 0 0),
      (''standard_nc24r_promo'', node_sku ''Standard_NC24r_Promo'' 64 24 0 0 0 0),
      (''standard_h8m'', node_sku ''Standard_H8m'' 32 8 0 0 0 0),
      (''standard_h16m'', node_sku ''Standard_H16m'' 64 16 0 0 0 0),
      (''standard_ds13-2_v2'', node_sku ''Standard_DS13-2_v2'' 32 8 25600 25600 384 384),
      (''standard_d2_v3'', node_sku ''Standard_D2_v3'' 4 2 0 0 0 0),
      (''standard_m128dms_v2'', node_sku ''Standard_M128dms_v2'' 64 128 80000 80000 1907 1907),
      (''standard_d4_v2_promo'', node_sku ''Standard_D4_v2_Promo'' 32 8 0 0 0 0),
      (''standard_ds4_v2_promo'', node_sku ''Standard_DS4_v2_Promo'' 32 8 25600 25600 384 384),
      (''standard_e8_v3'', node_sku ''Standard_E8_v3'' 16 8 0 0 0 0),
      (''standard_e32-8s_v3'', node_sku ''Standard_E32-8s_v3'' 32 32 51200 51200 768 768),
      (''standard_e8-2s_v4'', node_sku ''Standard_E8-2s_v4'' 16 8 12800 12800 192 192),
      (''standard_e8-2ds_v4'', node_sku ''Standard_E8-2ds_v4'' 16 8 12800 12800 192 192),
      (''standard_d32ds_v4'', node_sku ''Standard_D32ds_v4'' 32 32 51200 51200 768 768),
      (''standard_d64ds_v4'', node_sku ''Standard_D64ds_v4'' 32 64 80000 80000 1200 1200),
      (''standard_d4_v3'', node_sku ''Standard_D4_v3'' 8 4 0 0 0 0),
      (''standard_e48_v3'', node_sku ''Standard_E48_v3'' 32 48 0 0 0 0),
      (''standard_e8s_v4'', node_sku ''Standard_E8s_v4'' 16 8 12800 12800 192 192),
      (''standard_d32d_v4'', node_sku ''Standard_D32d_v4'' 32 32 0 0 0 0),
      (''standard_m128ds_v2'', node_sku ''Standard_M128ds_v2'' 64 128 80000 80000 1907 1907),
      (''standard_nd40rs_v2'', node_sku ''Standard_ND40rs_v2'' 8 40 0 0 0 0),
      (''standard_b8ms'', node_sku ''Standard_B8ms'' 16 8 4320 4320 50 50),
      (''standard_d8a_v4'', node_sku ''Standard_D8a_v4'' 16 8 0 0 0 0),
      (''standard_a4m_v2'', node_sku ''Standard_A4m_v2'' 8 4 0 0 0 0),
      (''standard_d32_v4'', node_sku ''Standard_D32_v4'' 32 32 51200 51200 768 768),
      (''standard_d16ds_v4'', node_sku ''Standard_D16ds_v4'' 32 16 25600 25600 384 384),
      (''standard_dc4s_v2'', node_sku ''Standard_DC4s_v2'' 4 4 0 0 0 0),
      (''standard_m416-208s_v2'', node_sku ''Standard_M416-208s_v2'' 64 416 80000 80000 1907 1907),
      (''standard_nc24rs_v2'', node_sku ''Standard_NC24rs_v2'' 32 24 0 0 0 0),
      (''standard_ds13-4_v2'', node_sku ''Standard_DS13-4_v2'' 32 8 25600 25600 384 384),
      (''standard_d2s_v3'', node_sku ''Standard_D2s_v3'' 4 2 3200 3200 48 48),
      (''standard_e4-2s_v3'', node_sku ''Standard_E4-2s_v3'' 8 4 6400 6400 96 96),
      (''standard_e64-16ds_v4'', node_sku ''Standard_E64-16ds_v4'' 32 64 80000 80000 1200 1200),
      (''standard_d48d_v4'', node_sku ''Standard_D48d_v4'' 32 48 0 0 0 0),
      (''standard_d4ds_v4'', node_sku ''Standard_D4ds_v4'' 8 4 6400 6400 96 96),
      (''standard_e32_v3'', node_sku ''Standard_E32_v3'' 32 32 0 0 0 0),
      (''standard_e16-8s_v4'', node_sku ''Standard_E16-8s_v4'' 32 16 25600 25600 384 384),
      (''standard_l64s_v2'', node_sku ''Standard_L64s_v2'' 32 64 0 0 0 0),
      (''standard_h16m_promo'', node_sku ''Standard_H16m_Promo'' 64 16 0 0 0 0),
      (''basic_a3'', node_sku ''Basic_A3'' 8 4 0 0 0 0),
      (''standard_d32a_v4'', node_sku ''Standard_D32a_v4'' 32 32 0 0 0 0),
      (''standard_d16as_v4'', node_sku ''Standard_D16as_v4'' 32 16 25600 25600 384 384),
      (''standard_f32s_v2'', node_sku ''Standard_F32s_v2'' 32 32 51200 51200 750 750),
      (''standard_e8d_v4'', node_sku ''Standard_E8d_v4'' 16 8 0 0 0 0),
      (''standard_b1ms'', node_sku ''Standard_B1ms'' 2 1 640 640 10 10),
      (''standard_e8a_v4'', node_sku ''Standard_E8a_v4'' 16 8 0 0 0 0),
      (''standard_e32s_v3'', node_sku ''Standard_E32s_v3'' 32 32 51200 51200 768 768),
      (''standard_e64_v4'', node_sku ''Standard_E64_v4'' 32 64 80000 80000 1200 1200),
      (''standard_d32s_v4'', node_sku ''Standard_D32s_v4'' 32 32 51200 51200 768 768),
      (''standard_m192idms_v2'', node_sku ''Standard_M192idms_v2'' 64 192 80000 80000 1907 1907),
      (''standard_m32ms'', node_sku ''Standard_M32ms'' 32 32 20000 20000 500 500),
      (''standard_d2_v2_promo'', node_sku ''Standard_D2_v2_Promo'' 8 2 0 0 0 0),
      (''standard_ds1_v2'', node_sku ''Standard_DS1_v2'' 4 1 3200 3200 48 48),
      (''standard_e20a_v4'', node_sku ''Standard_E20a_v4'' 32 20 0 0 0 0),
      (''standard_e4s_v3'', node_sku ''Standard_E4s_v3'' 8 4 6400 6400 96 96),
      (''standard_e16-8ds_v4'', node_sku ''Standard_E16-8ds_v4'' 32 16 25600 25600 384 384),
      (''standard_nv12s_v3'', node_sku ''Standard_NV12s_v3'' 12 12 0 0 0 0),
      (''standard_m64s'', node_sku ''Standard_M64s'' 64 64 40000 40000 1000 1000),
      (''standard_nc24r'', node_sku ''Standard_NC24r'' 64 24 0 0 0 0),
      (''standard_h16r'', node_sku ''Standard_H16r'' 64 16 0 0 0 0),
      (''standard_d16a_v4'', node_sku ''Standard_D16a_v4'' 32 16 0 0 0 0),
      (''standard_m128s_v2'', node_sku ''Standard_M128s_v2'' 64 128 80000 80000 1907 1907),
      (''standard_nc12_promo'', node_sku ''Standard_NC12_Promo'' 48 12 0 0 0 0),
      (''standard_nc24s_v2'', node_sku ''Standard_NC24s_v2'' 32 24 0 0 0 0),
      (''standard_ds14_v2'', node_sku ''Standard_DS14_v2'' 64 16 51200 51200 768 768),
      (''standard_e4a_v4'', node_sku ''Standard_E4a_v4'' 8 4 0 0 0 0),
      (''standard_e32d_v4'', node_sku ''Standard_E32d_v4'' 32 32 0 0 0 0),
      (''standard_m16-4ms'', node_sku ''Standard_M16-4ms'' 16 16 10000 10000 250 250),
      (''standard_m64-16ms'', node_sku ''Standard_M64-16ms'' 64 64 40000 40000 1000 1000),
      (''standard_nc24'', node_sku ''Standard_NC24'' 64 24 0 0 0 0),
      (''standard_gs1'', node_sku ''Standard_GS1'' 8 2 5000 5000 125 125),
      (''standard_a2m_v2'', node_sku ''Standard_A2m_v2'' 4 2 0 0 0 0),
      (''standard_e8-4s_v4'', node_sku ''Standard_E8-4s_v4'' 16 8 12800 12800 192 192),
      (''standard_l32s_v2'', node_sku ''Standard_L32s_v2'' 32 32 0 0 0 0),
      (''standard_m416-208ms_v2'', node_sku ''Standard_M416-208ms_v2'' 64 416 80000 80000 1907 1907),
      (''standard_ds12_v2_promo'', node_sku ''Standard_DS12_v2_Promo'' 16 4 12800 12800 192 192),
      (''standard_e8s_v3'', node_sku ''Standard_E8s_v3'' 16 8 12800 12800 192 192),
      (''standard_f4s_v2'', node_sku ''Standard_F4s_v2'' 8 4 6400 6400 47 47),
      (''standard_f72s_v2'', node_sku ''Standard_F72s_v2'' 32 72 80000 80000 1100 1100),
      (''standard_e48_v4'', node_sku ''Standard_E48_v4'' 32 48 76800 76800 1152 1152),
      (''standard_e80ids_v4'', node_sku ''Standard_E80ids_v4'' 32 80 80000 80000 1200 1200),
      (''standard_d16d_v4'', node_sku ''Standard_D16d_v4'' 32 16 0 0 0 0),
      (''standard_dc8_v2'', node_sku ''Standard_DC8_v2'' 8 8 0 0 0 0),
      (''standard_nc4as_t4_v3'', node_sku ''Standard_NC4as_T4_v3'' 8 4 24480 24480 351 351),
      (''standard_nv6'', node_sku ''Standard_NV6'' 24 6 0 0 0 0),
      (''standard_ds13_v2_promo'', node_sku ''Standard_DS13_v2_Promo'' 32 8 25600 25600 384 384),
      (''standard_e32_v4'', node_sku ''Standard_E32_v4'' 32 32 51200 51200 768 768),
      (''standard_e4-2ds_v4'', node_sku ''Standard_E4-2ds_v4'' 8 4 6400 6400 96 96),
      (''standard_g2'', node_sku ''Standard_G2'' 16 4 0 0 0 0),
      (''standard_gs2'', node_sku ''Standard_GS2'' 16 4 10000 10000 250 250),
      (''standard_d3'', node_sku ''Standard_D3'' 16 4 0 0 0 0),
      (''standard_d16ads_v5'', node_sku ''Standard_D16ads_v5'' 32 16 25600 25600 384 384),
      (''standard_d16as_v5'', node_sku ''Standard_D16as_v5'' 32 16 25600 25600 384 384),
      (''standard_d16ds_v5'', node_sku ''Standard_D16ds_v5'' 32 16 25600 25600 600 600),
      (''standard_d16d_v5'', node_sku ''Standard_D16d_v5'' 32 16 25600 25600 600 600),
      (''standard_d16pds_v5'', node_sku ''Standard_D16pds_v5'' 32 16 25600 25600 572 572),
      (''standard_d16plds_v5'', node_sku ''Standard_D16plds_v5'' 32 16 25600 25600 572 572),
      (''standard_d16pls_v5'', node_sku ''Standard_D16pls_v5'' 32 16 25600 25600 572 572),
      (''standard_d16ps_v5'', node_sku ''Standard_D16ps_v5'' 32 16 25600 25600 572 572),
      (''standard_d16s_v5'', node_sku ''Standard_D16s_v5'' 32 16 25600 25600 600 600),
      (''standard_d16_v5'', node_sku ''Standard_D16_v5'' 32 16 25600 25600 600 600),
      (''standard_d2ads_v5'', node_sku ''Standard_D2ads_v5'' 4 2 3750 3750 82 82),
      (''standard_d2as_v5'', node_sku ''Standard_D2as_v5'' 4 2 3750 3750 82 82),
      (''standard_d2ds_v5'', node_sku ''Standard_D2ds_v5'' 4 2 3750 3750 85 85),
      (''standard_d2d_v5'', node_sku ''Standard_D2d_v5'' 4 2 3750 3750 85 85),
      (''standard_d2pds_v5'', node_sku ''Standard_D2pds_v5'' 4 2 3750 3750 81 81),
      (''standard_d2plds_v5'', node_sku ''Standard_D2plds_v5'' 4 2 3750 3750 81 81),
      (''standard_d2pls_v5'', node_sku ''Standard_D2pls_v5'' 4 2 3750 3750 81 81),
      (''standard_d2ps_v5'', node_sku ''Standard_D2ps_v5'' 4 2 3750 3750 81 81),
      (''standard_d2s_v5'', node_sku ''Standard_D2s_v5'' 4 2 3750 3750 85 85),
      (''standard_d2_v5'', node_sku ''Standard_D2_v5'' 4 2 3750 3750 85 85),
      (''standard_d32ads_v5'', node_sku ''Standard_D32ads_v5'' 32 32 51200 51200 768 768),
      (''standard_d32as_v5'', node_sku ''Standard_D32as_v5'' 32 32 51200 51200 768 768),
      (''standard_d32ds_v5'', node_sku ''Standard_D32ds_v5'' 32 32 51200 51200 865 865),
      (''standard_d32d_v5'', node_sku ''Standard_D32d_v5'' 32 32 51200 51200 865 865),
      (''standard_d32pds_v5'', node_sku ''Standard_D32pds_v5'' 32 32 51200 51200 824 824),
      (''standard_d32plds_v5'', node_sku ''Standard_D32plds_v5'' 32 32 51200 51200 824 824),
      (''standard_d32pls_v5'', node_sku ''Standard_D32pls_v5'' 32 32 51200 51200 824 824),
      (''standard_d32ps_v5'', node_sku ''Standard_D32ps_v5'' 32 32 51200 51200 824 824),
      (''standard_d32s_v5'', node_sku ''Standard_D32s_v5'' 32 32 51200 51200 865 865),
      (''standard_d32_v5'', node_sku ''Standard_D32_v5'' 32 32 51200 51200 865 865),
      (''standard_d48ads_v5'', node_sku ''Standard_D48ads_v5'' 32 48 76800 76800 1152 1152),
      (''standard_d48as_v5'', node_sku ''Standard_D48as_v5'' 32 48 76800 76800 1152 1152),
      (''standard_d48ds_v5'', node_sku ''Standard_D48ds_v5'' 32 48 76800 76800 1315 1315),
      (''standard_d48d_v5'', node_sku ''Standard_D48d_v5'' 32 48 76800 76800 1315 1315),
      (''standard_d48pds_v5'', node_sku ''Standard_D48pds_v5'' 32 48 76800 76800 1254 1254),
      (''standard_d48plds_v5'', node_sku ''Standard_D48plds_v5'' 32 48 76800 76800 1254 1254),
      (''standard_d48pls_v5'', node_sku ''Standard_D48pls_v5'' 32 48 76800 76800 1254 1254),
      (''standard_d48ps_v5'', node_sku ''Standard_D48ps_v5'' 32 48 76800 76800 1254 1254),
      (''standard_d48s_v5'', node_sku ''Standard_D48s_v5'' 32 48 76800 76800 1315 1315),
      (''standard_d48_v5'', node_sku ''Standard_D48_v5'' 32 48 76800 76800 1315 1315),
      (''standard_d4ads_v5'', node_sku ''Standard_D4ads_v5'' 8 4 6400 6400 144 144),
      (''standard_d4as_v5'', node_sku ''Standard_D4as_v5'' 8 4 6400 6400 144 144),
      (''standard_d4ds_v5'', node_sku ''Standard_D4ds_v5'' 8 4 6400 6400 145 145),
      (''standard_d4d_v5'', node_sku ''Standard_D4d_v5'' 8 4 6400 6400 145 145),
      (''standard_d4pds_v5'', node_sku ''Standard_D4pds_v5'' 8 4 6400 6400 138 138),
      (''standard_d4plds_v5'', node_sku ''Standard_D4plds_v5'' 8 4 6400 6400 138 138),
      (''standard_d4pls_v5'', node_sku ''Standard_D4pls_v5'' 8 4 6400 6400 138 138),
      (''standard_d4ps_v5'', node_sku ''Standard_D4ps_v5'' 8 4 6400 6400 138 138),
      (''standard_d4s_v5'', node_sku ''Standard_D4s_v5'' 8 4 6400 6400 145 145),
      (''standard_d4_v5'', node_sku ''Standard_D4_v5'' 8 4 6400 6400 145 145)]"

definition NodeInfoMap_4 :: "(string \<times> NodeInfo) list" where
  "NodeInfoMap_4 =
     [(''standard_d64ads_v5'', node_sku ''Standard_D64ads_v5'' 32 64 80000 80000 1200 1200),
      (''standard_d64as_v5'', node_sku ''Standard_D64as_v5'' 32 64 80000 80000 1200 1200),
      (''standard_d64ds_v5'', node_sku ''Standard_D64ds_v5'' 32 64 80000 80000 1735 1735),
      (''standard_d64d_v5'', node_sku ''Standard_D64d_v5'' 32 64 80000 80000 1735 1735),
      (''standard_d64pds_v5'', node_sku ''Standard_D64pds_v5'' 32 64 80000 80000 1654 1654),
      (''standard_d64plds_v5'', node_sku ''Standard_D64plds_v5'' 32 64 80000 80000 1654 1654),
      (''standard_d64pls_v5'', node_sku ''Standard_D64pls_v5'' 32 64 80000 80000 1654 1654),
      (''standard_d64ps_v5'', node_sku ''Standard_D64ps_v5'' 32 64 80000 80000 1654 1654),
      (''standard_d64s_v5'', node_sku ''Standard_D64s_v5'' 32 64 80000 80000 1735 1735),
      (''standard_d64_v5'', node_sku ''Standard_D64_v5'' 32 64 80000 80000 1735 1735),
      (''standard_d8ads_v5'', node_sku ''Standard_D8ads_v5'' 16 8 12800 12800 200 200),
      (''standard_d8as_v5'', node_sku ''Standard_D8as_v5'' 16 8 12800 12800 200 200),
      (''standard_d8ds_v5'', node_sku ''Standard_D8ds_v5'' 16 8 12800 12800 290 290),
      (''standard_d8d_v5'', node_sku ''Standard_D8d_v5'' 16 8 12800 12800 290 290),
      (''standard_d8pds_v5'', node_sku ''Standard_D8pds_v5'' 16 8 12800 12800 276 276),
      (''standard_d8plds_v5'', node_sku ''Standard_D8plds_v5'' 16 8 12800 12800 276 276),
      (''standard_d8pls_v5'', node_sku ''Standard_D8pls_v5'' 16 8 12800 12800 276 276),
      (''standard_d8ps_v5'', node_sku ''Standard_D8ps_v5'' 16 8 12800 12800 276 276),
      (''standard_d8s_v5'', node_sku ''Standard_D8s_v5'' 16 8 12800 12800 290 290),
      (''standard_d8_v5'', node_sku ''Standard_D8_v5'' 16 8 12800 12800 290 290),
      (''standard_d96ads_v5'', node_sku ''Standard_D96ads_v5'' 32 96 80000 80000 1600 1600),
      (''standard_d96as_v5'', node_sku ''Standard_D96as_v5'' 32 96 80000 80000 1600 1600),
      (''standard_d96ds_v5'', node_sku ''Standard_D96ds_v5'' 32 96 80000 80000 2600 2600),
      (''standard_d96d_v5'', node_sku ''Standard_D96d_v5'' 32 96 80000 80000 2600 2600),
      (''standard_d96s_v5'', node_sku ''Standard_D96s_v5'' 32 96 80000 80000 2600 2600),
      (''standard_d96_v5'', node_sku ''Standard_D96_v5'' 32 96 80000 80000 2600 2600),
      (''standard_dc16ads_v5'', node_sku ''Standard_DC16ads_v5'' 32 16 25600 25600 384 384),
      (''standard_dc16as_v5'', node_sku ''Standard_DC16as_v5'' 32 16 25600 25600 384 384),
      (''standard_dc2ads_v5'', node_sku ''Standard_DC2ads_v5'' 4 2 3200 3200 48 48),
      (''standard_dc2as_v5'', node_sku ''Standard_DC2as_v5'' 4 2 3200 3200 48 48),
      (''standard_dc32ads_v5'', node_sku ''Standard_DC32ads_v5'' 32 32 51200 51200 768 768),
      (''standard_dc32as_v5'', node_sku ''Standard_DC32as_v5'' 32 32 51200 51200 768 768),
      (''standard_dc48ads_v5'', node_sku ''Standard_DC48ads_v5'' 32 48 76800 76800 1152 1152),
      (''standard_dc48as_v5'', node_sku ''Standard_DC48as_v5'' 32 48 76800 76800 1152 1152),
      (''standard_dc4ads_v5'', node_sku ''Standard_DC4ads_v5'' 8 4 6400 6400 96 96),
      (''standard_dc4as_v5'', node_sku ''Standard_DC4as_v5'' 8 4 6400 6400 96 96),
      (''standard_dc64ads_v5'', node_sku ''Standard_DC64ads_v5'' 32 64 80000 80000 1200 1200),
      (''standard_dc64as_v5'', node_sku ''Standard_DC64as_v5'' 32 64 80000 80000 1200 1200),
      (''standard_dc8ads_v5'', node_sku ''Standard_DC8ads_v5'' 16 8 12800 12800 192 192),
      (''standard_dc8as_v5'', node_sku ''Standard_DC8as_v5'' 16 8 12800 12800 192 192),
      (''standard_dc96ads_v5'', node_sku ''Standard_DC96ads_v5'' 32 96 80000 80000 1200 1200),
      (''standard_dc96as_v5'', node_sku ''Standard_DC96as_v5'' 32 96 80000 80000 1200 1200),
      (''standard_e104ids_v5'', node_sku ''Standard_E104ids_v5'' 64 104 120000 120000 4000 4000),
      (''standard_e104id_v5'', node_sku ''Standard_E104id_v5'' 64 104 120000 120000 4000 4000),
      (''standard_e104is_v5'', node_sku ''Standard_E104is_v5'' 64 104 120000 120000 4000 4000),
      (''standard_e104i_v5'', node_sku ''Standard_E104i_v5'' 64 104 120000 120000 4000 4000),
      (''standard_e112iads_v5'', node_sku ''Standard_E112iads_v5'' 64 112 120000 120000 2000 2000),
      (''standard_e112ias_v5'', node_sku ''Standard_E112ias_v5'' 64 112 120000 120000 2000 2000),
      (''standard_e16-4ads_v5'', node_sku ''Standard_E16-4ads_v5'' 32 16 25600 25600 384 384),
      (''standard_e16-4as_v5'', node_sku ''Standard_E16-4as_v5'' 32 16 25600 25600 384 384),
      (''standard_e16-4ds_v5'', node_sku ''Standard_E16-4ds_v5'' 32 16 25600 25600 600 600),
      (''standard_e16-4s_v5'', node_sku ''Standard_E16-4s_v5'' 32 16 25600 25600 600 600),
      (''standard_e16-8ads_v5'', node_sku ''Standard_E16-8ads_v5'' 32 16 25600 25600 384 384),
      (''standard_e16-8as_v5'', node_sku ''Standard_E16-8as_v5'' 32 16 25600 25600 384 384),
      (''standard_e16-8ds_v5'', node_sku ''Standard_E16-8ds_v5'' 32 16 25600 25600 600 600),
      (''standard_e16-8s_v5'', node_sku ''Standard_E16-8s_v5'' 32 16 25600 25600 600 600),
      (''standard_e16ads_v5'', node_sku ''Standard_E16ads_v5'' 32 16 25600 25600 384 384),
      (''standard_e16as_v5'', node_sku ''Standard_E16as_v5'' 32 16 25600 25600 384 384),
      (''standard_e16bds_v5'', node_sku ''Standard_E16bds_v5'' 32 16 44000 44000 1192 1192),
      (''standard_e16bs_v5'', node_sku ''Standard_E16bs_v5'' 32 16 44000 44000 1192 1192),
      (''standard_e16ds_v5'', node_sku ''Standard_E16ds_v5'' 32 16 25600 25600 600 600),
      (''standard_e16d_v5'', node_sku ''Standard_E16d_v5'' 32 16 25600 25600 600 600),
      (''standard_e16pds_v5'', node_sku ''Standard_E16pds_v5'' 32 16 25600 25600 572 572),
      (''standard_e16ps_v5'', node_sku ''Standard_E16ps_v5'' 32 16 25600 25600 572 572),
      (''standard_e16s_v5'', node_sku ''Standard_E16s_v5'' 32 16 25600 25600 600 600),
      (''standard_e16_v5'', node_sku ''Standard_E16_v5'' 32 16 25600 25600 600 600),
      (''standard_e20ads_v5'', node_sku ''Standard_E20ads_v5'' 32 20 32000 32000 480 480),
      (''standard_e20as_v5'', node_sku ''Standard_E20as_v5'' 32 20 32000 32000 480 480),
      (''standard_e20ds_v5'', node_sku ''Standard_E20ds_v5'' 32 20 32000 32000 750 750),
      (''standard_e20d_v5'', node_sku ''Standard_E20d_v5'' 32 20 32000 32000 750 750),
      (''standard_e20pds_v5'', node_sku ''Standard_E20pds_v5'' 32 20 32000 32000 715 715),
      (''standard_e20ps_v5'', node_sku ''Standard_E20ps_v5'' 32 20 32000 32000 715 715),
      (''standard_e20s_v5'', node_sku ''Standard_E20s_v5'' 32 20 32000 32000 750 750),
      (''standard_e20_v5'', node_sku ''Standard_E20_v5'' 32 20 32000 32000 750 750),
      (''standard_e2ads_v5'', node_sku ''Standard_E2ads_v5'' 4 2 3750 3750 82 82),
      (''standard_e2as_v5'', node_sku ''Standard_E2as_v5'' 4 2 3750 3750 82 82),
      (''standard_e2bds_v5'', node_sku ''Standard_E2bds_v5'' 4 2 5500 5500 148 148),
      (''standard_e2bs_v5'', node_sku ''Standard_E2bs_v5'' 4 2 5500 5500 148 148),
      (''standard_e2ds_v5'', node_sku ''Standard_E2ds_v5'' 4 2 3750 3750 85 85),
      (''standard_e2d_v5'', node_sku ''Standard_E2d_v5'' 4 2 3750 3750 85 85),
      (''standard_e2pds_v5'', node_sku ''Standard_E2pds_v5'' 4 2 3750 3750 81 81),
      (''standard_e2ps_v5'', node_sku ''Standard_E2ps_v5'' 4 2 3750 3750 81 81),
      (''standard_e2s_v5'', node_sku ''Standard_E2s_v5'' 4 2 3750 3750 85 85),
      (''standard_e2_v5'', node_sku ''Standard_E2_v5'' 4 2 3750 3750 85 85),
      (''standard_e32-16ads_v5'', node_sku ''Standard_E32-16ads_v5'' 32 32 51200 51200 768 768),
      (''standard_e32-16as_v5'', node_sku ''Standard_E32-16as_v5'' 32 32 51200 51200 768 768),
      (''standard_e32-16ds_v5'', node_sku ''Standard_E32-16ds_v5'' 32 32 51200 51200 865 865),
      (''standard_e32-16s_v5'', node_sku ''Standard_E32-16s_v5'' 32 32 51200 51200 865 865),
      (''standard_e32-8ads_v5'', node_sku ''Standard_E32-8ads_v5'' 32 32 51200 51200 768 768),
      (''standard_e32-8as_v5'', node_sku ''Standard_E32-8as_v5'' 32 32 51200 51200 768 768),
      (''standard_e32-8ds_v5'', node_sku ''Standard_E32-8ds_v5'' 32 32 51200 51200 865 865),
      (''standard_e32-8s_v5'', node_sku ''Standard_E32-8s_v5'' 32 32 51200 51200 865 865),
      (''standard_e32ads_v5'', node_sku ''Standard_E32ads_v5'' 32 32 51200 51200 768 768),
      (''standard_e32as_v5'', node_sku ''Standard_E32as_v5'' 32 32 51200 51200 768 768),
      (''standard_e32bds_v5'', node_sku ''Standard_E32bds_v5'' 32 32 88000 88000 2384 2384),
      (''standard_e32bs_v5'', node_sku ''Standard_E32bs_v5'' 32 32 88000 88000 2384 2384),
      (''standard_e32ds_v5'', node_sku ''Standard_E32ds_v5'' 32 32 51200 51200 865 865),
      (''standard_e32d_v5'', node_sku ''Standard_E32d_v5'' 32 32 51200 51200 865 865),
      (''standard_e32pds_v5'', node_sku ''Standard_E32pds_v5'' 32 32 51200 51200 824 824),
      (''standard_e32ps_v5'', node_sku ''Standard_E32ps_v5'' 32 32 51200 51200 824 824),
      (''standard_e32s_v5'', node_sku ''Standard_E32s_v5'' 32 32 51200 51200 865 865),
      (''standard_e32_v5'', node_sku ''Standard_E32_v5'' 32 32 51200 51200 865 865),
      (''standard_e4-2ads_v5'', node_sku ''Standard_E4-2ads_v5'' 8 4 6400 6400 144 144),
      (''standard_e4-2as_v5'', node_sku ''Standard_E4-2as_v5'' 8 4 6400 6400 144 144),
      (''standard_e4-2ds_v5'', node_sku ''Standard_E4-2ds_v5'' 8 4 6400 6400 145 145),
      (''standard_e4-2s_v5'', node_sku ''Standard_E4-2s_v5'' 8 4 6400 6400 145 145),
      (''standard_e48ads_v5'', node_sku ''Standard_E48ads_v5'' 32 48 76800 76800 1152 1152),
      (''standard_e48as_v5'', node_sku ''Standard_E48as_v5'' 32 48 76800 76800 1152 1152),
      (''standard_e48bds_v5'', node_sku ''Standard_E48bds_v5'' 32 48 120000 120000 3814 3814),
      (''standard_e48bs_v5'', node_sku ''Standard_E48bs_v5'' 32 48 120000 120000 3814 3814),
      (''standard_e48ds_v5'', node_sku ''Standard_E48ds_v5'' 32 48 76800 76800 1315 1315),
      (''standard_e48d_v5'', node_sku ''Standard_E48d_v5'' 32 48 76800 76800 1315 1315),
      (''standard_e48s_v5'', node_sku ''Standard_E48s_v5'' 32 48 76800 76800 1315 1315),
      (''standard_e48_v5'', node_sku ''Standard_E48_v5'' 32 48 76800 76800 1315 1315),
      (''standard_e4ads_v5'', node_sku ''Standard_E4ads_v5'' 8 4 6400 6400 144 144),
      (''standard_e4as_v5'', node_sku ''Standard_E4as_v5'' 8 4 6400 6400 144 144),
      (''standard_e4bds_v5'', node_sku ''Standard_E4bds_v5'' 8 4 11000 11000 333 333),
      (''standard_e4bs_v5'', node_sku ''Standard_E4bs_v5'' 8 4 11000 11000 333 333),
      (''standard_e4ds_v5'', node_sku ''Standard_E4ds_v5'' 8 4 6400 6400 145 145),
      (''standard_e4d_v5'', node_sku ''Standard_E4d_v5'' 8 4 6400 6400 145 145),
      (''standard_e4pds_v5'', node_sku ''Standard_E4pds_v5'' 8 4 6400 6400 138 138),
      (''standard_e4ps_v5'', node_sku ''Standard_E4ps_v5'' 8 4 6400 6400 138 138),
      (''standard_e4s_v5'', node_sku ''Standard_E4s_v5'' 8 4 6400 6400 145 145),
      (''standard_e4_v5'', node_sku ''Standard_E4_v5'' 8 4 6400 6400 145 145),
      (''standard_e64-16ads_v5'', node_sku ''Standard_E64-16ads_v5'' 32 64 80000 80000 1200 1200),
      (''standard_e64-16as_v5'', node_sku ''Standard_E64-16as_v5'' 32 64 80000 80000 1200 1200),
      (''standard_e64-16ds_v5'', node_sku ''Standard_E64-16ds_v5'' 32 64 80000 80000 1735 1735),
      (''standard_e64-16s_v5'', node_sku ''Standard_E64-16s_v5'' 32 64 80000 80000 1735 1735),
      (''standard_e64-32ads_v5'', node_sku ''Standard_E64-32ads_v5'' 32 64 80000 80000 1200 1200),
      (''standard_e64-32as_v5'', node_sku ''Standard_E64-32as_v5'' 32 64 80000 80000 1200 1200),
      (''standard_e64-32ds_v5'', node_sku ''Standard_E64-32ds_v5'' 32 64 80000 80000 1735 1735),
      (''standard_e64-32s_v5'', node_sku ''Standard_E64-32s_v5'' 32 64 80000 80000 1735 1735),
      (''standard_e64ads_v5'', node_sku ''Standard_E64ads_v5'' 32 64 80000 80000 1200 1200),
      (''standard_e64as_v5'', node_sku ''Standard_E64as_v5'' 32 64 80000 80000 1200 1200),
      (''standard_e64bds_v5'', node_sku ''Standard_E64bds_v5'' 32 64 120000 120000 3814 3814),
      (''standard_e64bs_v5'', node_sku ''Standard_E64bs_v5'' 32 64 120000 120000 3814 3814),
      (''standard_e64d_v5'', node_sku ''Standard_E64d_v5'' 32 64 80000 80000 1735 1735),
      (''standard_e64s_v5'', node_sku ''Standard_E64s_v5'' 32 64 80000 80000 1735 1735),
      (''standard_e64_v5'', node_sku ''Standard_E64_v5'' 32 64 80000 80000 1735 1735),
      (''standard_e8-2ads_v5'', node_sku ''Standard_E8-2ads_v5'' 16 8 12800 12800 200 200),
      (''standard_e8-2as_v5'', node_sku ''Standard_E8-2as_v5'' 16 8 12800 12800 200 200),
      (''standard_e8-2ds_v5'', node_sku ''Standard_E8-2ds_v5'' 16 8 12800 12800 290 290),
      (''standard_e8-2s_v5'', node_sku ''Standard_E8-2s_v5'' 16 8 12800 12800 290 290),
      (''standard_e8-4ads_v5'', node_sku ''Standard_E8-4ads_v5'' 16 8 12800 12800 200 200),
      (''standard_e8-4as_v5'', node_sku ''Standard_E8-4as_v5'' 16 8 12800 12800 200 200),
      (''standard_e8-4ds_v5'', node_sku ''Standard_E8-4ds_v5'' 32 8 12800 12800 290 290),
      (''standard_e8-4s_v5'', node_sku ''Standard_E8-4s_v5'' 32 8 12800 12800 290 290),
      (''standard_e8ads_v5'', node_sku ''Standard_E8ads_v5'' 16 8 12800 12800 200 200),
      (''standard_e8as_v5'', node_sku ''Standard_E8as_v5'' 16 8 12800 12800 200 200),
      (''standard_e8bds_v5'', node_sku ''Standard_E8bds_v5'' 16 8 22000 22000 596 596)]"

definition NodeInfoMap_5 :: "(string \<times> NodeInfo) list" where
  "NodeInfoMap_5 =
     [(''standard_e8bs_v5'', node_sku ''Standard_E8bs_v5'' 16 8 22000 22000 596 596),
      (''standard_e8ds_v5'', node_sku ''Standard_E8ds_v5'' 16 8 12800 12800 290 290),
      (''standard_e8d_v5'', node_sku ''Standard_E8d_v5'' 16 8 12800 12800 290 290),
      (''standard_e8pds_v5'', node_sku ''Standard_E8pds_v5'' 16 8 12800 12800 276 276),
      (''standard_e8ps_v5'', node_sku ''Standard_E8ps_v5'' 16 8 12800 12800 276 276),
      (''standard_e8s_v5'', node_sku ''Standard_E8s_v5'' 16 8 12800 12800 290 290),
      (''standard_e8_v5'', node_sku ''Standard_E8_v5'' 16 8 12800 12800 290 290),
      (''standard_e96-24ads_v5'', node_sku ''Standard_E96-24ads_v5'' 32 96 80000 80000 1600 1600),
      (''standard_e96-24as_v5'', node_sku ''Standard_E96-24as_v5'' 32 96 80000 80000 1600 1600),
      (''standard_e96-24ds_v5'', node_sku ''Standard_E96-24ds_v5'' 32 96 80000 80000 2600 2600),
      (''standard_e96-24s_v5'', node_sku ''Standard_E96-24s_v5'' 32 96 80000 80000 2600 2600),
      (''standard_e96-48ads_v5'', node_sku ''Standard_E96-48ads_v5'' 32 96 80000 80000 1600 1600),
      (''standard_e96-48as_v5'', node_sku ''Standard_E96-48as_v5'' 32 96 80000 80000 1600 1600),
      (''standard_e96-48ds_v5'', node_sku ''Standard_E96-48ds_v5'' 32 96 80000 80000 2600 2600),
      (''standard_e96-48s_v5'', node_sku ''Standard_E96-48s_v5'' 32 96 80000 80000 2600 2600),
      (''standard_e96ads_v5'', node_sku ''Standard_E96ads_v5'' 32 96 80000 80000 1600 1600),
      (''standard_e96as_v5'', node_sku ''Standard_E96as_v5'' 32 96 80000 80000 1600 1600),
      (''standard_e96ds_v5'', node_sku ''Standard_E96ds_v5'' 32 96 80000 80000 2600 2600),
      (''standard_e96d_v5'', node_sku ''Standard_E96d_v5'' 32 96 80000 80000 2600 2600),
      (''standard_e96s_v5'', node_sku ''Standard_E96s_v5'' 32 96 80000 80000 2600 2600),
      (''standard_e96_v5'', node_sku ''Standard_E96_v5'' 32 96 80000 80000 2600 2600),
      (''standard_ec16ads_v5'', node_sku ''Standard_EC16ads_v5'' 32 16 25600 25600 384 384),
      (''standard_ec16as_v5'', node_sku ''Standard_EC16as_v5'' 32 16 25600 25600 384 384),
      (''standard_ec20ads_v5'', node_sku ''Standard_EC20ads_v5'' 32 20 32000 32000 480 480),
      (''standard_ec20as_v5'', node_sku ''Standard_EC20as_v5'' 32 20 32000 32000 480 480),
      (''standard_ec2ads_v5'', node_sku ''Standard_EC2ads_v5'' 4 2 3200 3200 48 48),
      (''standard_ec2as_v5'', node_sku ''Standard_EC2as_v5'' 4 2 3200 3200 48 48),
      (''standard_ec32ads_v5'', node_sku ''Standard_EC32ads_v5'' 32 32 51200 51200 768 768),
      (''standard_ec32as_v5'', node_sku ''Standard_EC32as_v5'' 32 32 51200 51200 768 768),
      (''standard_ec48ads_v5'', node_sku ''Standard_EC48ads_v5'' 32 48 76800 76800 1152 1152),
      (''standard_ec48as_v5'', node_sku ''Standard_EC48as_v5'' 32 48 76800 76800 1152 1152),
      (''standard_ec4ads_v5'', node_sku ''Standard_EC4ads_v5'' 8 4 6400 6400 96 96),
      (''standard_ec4as_v5'', node_sku ''Standard_EC4as_v5'' 8 4 6400 6400 96 96),
      (''standard_ec64ads_v5'', node_sku ''Standard_EC64ads_v5'' 32 64 80000 80000 1200 1200),
      (''standard_ec64as_v5'', node_sku ''Standard_EC64as_v5'' 32 64 80000 80000 1200 1200),
      (''standard_ec8ads_v5'', node_sku ''Standard_EC8ads_v5'' 16 8 12800 12800 192 192),
      (''standard_ec8as_v5'', node_sku ''Standard_EC8as_v5'' 16 8 12800 12800 192 192),
      (''standard_ec96ads_v5'', node_sku ''Standard_EC96ads_v5'' 32 96 80000 80000 1200 1200),
      (''standard_ec96as_v5'', node_sku ''Standard_EC96as_v5'' 32 96 80000 80000 1200 1200),
      (''standard_ec96iads_v5'', node_sku ''Standard_EC96iads_v5'' 32 96 80000 80000 1200 1200),
      (''standard_ec96ias_v5'', node_sku ''Standard_EC96ias_v5'' 32 96 80000 80000 1200 1200)]"

definition NodeInfoMap :: "(string \<times> NodeInfo) list" where
  "NodeInfoMap = NodeInfoMap_1 @ NodeInfoMap_2 @ NodeInfoMap_3 @ NodeInfoMap_4 @ NodeInfoMap_5"

end
