(* ===== verification/DeviceOptimize.thy ===== *)
theory DeviceOptimize
  imports SkuTables
begin

text \<open>
  The files \<open>pkg/optimization/skus.go\<close> (latencies) and \<open>pkg/optimization/device_perf_linux.go\<close> from
  \<open>OptimizeDiskPerformance\<close> to \<open>getOptimalDeviceSettings\<close>: the settings of the block device that the
  basic profile computes from the tables of disks and machines, and writing them.

  The computation is in \<open>float64\<close>. A float is a rational number, an infinity or not a number; the
  result of an operation on rationals is rounded to 53 binary digits, half to even. The numbers that
  occur are quotients and products of table entries, far inside the range of normal numbers, so
  overflow, underflow and the sign of zero are left out.
\<close>

section \<open>Floating point\<close>

datatype float64 = Fin rat | PosInf | NegInf | NaN

fun bit_length :: "int \<Rightarrow> int" where
  "bit_length n = (if n \<le> 0 then 0 else 1 + bit_length (n div 2))"

declare bit_length.simps [simp del]

text \<open>\<open>pow2 e\<close> is two to the power of an integer; \<open>ulp_exponent x\<close> is the exponent of the last of the
  53 binary digits of a positive number.\<close>

definition pow2 :: "int \<Rightarrow> rat" where
  "pow2 e = (if e \<ge> 0 then 2 ^ nat e else 1 / 2 ^ nat (- e))"

definition ulp_exponent :: "rat \<Rightarrow> int" where
  "ulp_exponent x =
     (case quotient_of x of
        (p, q) \<Rightarrow>
          let e = bit_length p - bit_length q - 53
          in if x < pow2 (e + 53) then e else e + 1)"

definition round_half_even :: "rat \<Rightarrow> int" where
  "round_half_even y =
     (let f = floor y; r = y - of_int f
      in if r < 1 / 2 \<or> (r = 1 / 2 \<and> even f) then f else f + 1)"

definition rounded_positive :: "rat \<Rightarrow> rat" where
  "rounded_positive x =
     (let e = ulp_exponent x in of_int (round_half_even (x / pow2 e)) * pow2 e)"

definition rounded :: "rat \<Rightarrow> rat" where
  "rounded x = (if x = 0 then 0 else if x > 0 then rounded_positive x else - rounded_positive (- x))"

definition float_of_int :: "int \<Rightarrow> float64" where
  "float_of_int n = Fin (rounded (of_int n))"

fun float_neg :: "float64 \<Rightarrow> float64" where
  "float_neg (Fin x) = Fin (- x)"
| "float_neg PosInf = NegInf"
| "float_neg NegInf = PosInf"
| "float_neg NaN = NaN"

fun float_add :: "float64 \<Rightarrow> float64 \<Rightarrow> float64" where
  "float_add NaN y = NaN"
| "float_add x NaN = NaN"
| "float_add (Fin x) (Fin y) = Fin (rounded (x + y))"
| "float_add PosInf NegInf = NaN"
| "float_add NegInf PosInf = NaN"
| "float_add (Fin x) y = y"
| "float_add x y = x"

definition with_sign :: "rat \<Rightarrow> float64 \<Rightarrow> float64" where
  "with_sign s x = (if s > 0 then x else if s < 0 then float_neg x else NaN)"

fun float_mul :: "float64 \<Rightarrow> float64 \<Rightarrow> float64" where
  "float_mul NaN y = NaN"
| "float_mul x NaN = NaN"
| "float_mul (Fin x) (Fin y) = Fin (rounded (x * y))"
| "float_mul (Fin x) y = with_sign x y"
| "float_mul x (Fin y) = with_sign y x"
| "float_mul PosInf y = y"
| "float_mul NegInf y = float_neg y"

fun float_div :: "float64 \<Rightarrow> float64 \<Rightarrow> float64" where
  "float_div NaN y = NaN"
| "float_div x NaN = NaN"
| "float_div (Fin x) (Fin y) = (if y = 0 then with_sign x PosInf else Fin (rounded (x / y)))"
| "float_div (Fin x) y = Fin 0"
| "float_div x (Fin y) = (if y < 0 then float_neg x else x)"
| "float_div x y = NaN"

fun float_le :: "float64 \<Rightarrow> float64 \<Rightarrow> bool" where
  "float_le NaN y = False"
| "float_le x NaN = False"
| "float_le (Fin x) (Fin y) = (x \<le> y)"
| "float_le NegInf y = True"
| "float_le x PosInf = True"
| "float_le x y = False"

text \<open>\<open>math.Min\<close> and \<open>math.Max\<close>: an infinity of their direction first, then not a number.\<close>

definition math_Min :: "float64 \<Rightarrow> float64 \<Rightarrow> float64" where
  "math_Min x y =
     (if x = NegInf \<or> y = NegInf then NegInf
      else if x = NaN \<or> y = NaN then NaN
      else if float_le x y then x else y)"

definition math_Max :: "float64 \<Rightarrow> float64 \<Rightarrow> float64" where
  "math_Max x y =
     (if x = PosInf \<or> y = PosInf then PosInf
      else if x = NaN \<or> y = NaN then NaN
      else if float_le y x then x else y)"

fun math_Ceil :: "float64 \<Rightarrow> float64" where
  "math_Ceil (Fin x) = Fin (of_int (ceiling x))"
| "math_Ceil x = x"

text \<open>The verb \<open>%g\<close> of a float without a fraction, which is what the settings print: with an exponent
  from seven digits on, and then without the zeros at the end of the mantissa.\<close>

definition exponent_str :: "nat \<Rightarrow> string" where
  "exponent_str e = (if e < 10 then ''e+0'' else ''e+'') @ Itoa (int e)"

definition strip_zeros :: "string \<Rightarrow> string" where
  "strip_zeros s = rev (dropWhile (\<lambda>c. c = CHR ''0'') (rev s))"

definition whole_g :: "int \<Rightarrow> string" where
  "whole_g n =
     (let s = Itoa (abs n); sign = (if n < 0 then ''-'' else [])
      in if length s \<le> 6 then sign @ s
         else (case strip_zeros s of
                 [] \<Rightarrow> []
               | d # ds \<Rightarrow> sign @ [d] @ (if ds = [] then [] else CHR ''.'' # ds) @ exponent_str (length s - 1)))"

fun sprintf_g :: "float64 \<Rightarrow> string" where
  "sprintf_g (Fin x) = whole_g (floor x)"
| "sprintf_g PosInf = ''+Inf''"
| "sprintf_g NegInf = ''-Inf''"
| "sprintf_g NaN = ''NaN''"

section \<open>Latencies\<close>

definition GetRandomIOLatencyInSec :: "DiskSkuInfo \<Rightarrow> float64" where
  "GetRandomIOLatencyInSec sku =
     (if MaxSizeGiB sku \<le> 4096 then Fin (rounded (22 / 10000))
      else if MaxSizeGiB sku \<le> 8192 then Fin (rounded (28 / 10000))
      else if MaxSizeGiB sku \<le> 16384 then Fin (rounded (34 / 10000))
      else Fin (rounded (4 / 1000)))"

definition GetSequentialOLatencyInSec :: "DiskSkuInfo \<Rightarrow> float64" where
  "GetSequentialOLatencyInSec sku =
     (if MaxSizeGiB sku \<le> 4096 then Fin (rounded (33 / 10000))
      else if MaxSizeGiB sku \<le> 8192 then Fin (rounded (41 / 10000))
      else if MaxSizeGiB sku \<le> 16384 then Fin (rounded (46 / 10000))
      else Fin (rounded (52 / 10000)))"

section \<open>The settings of the basic profile\<close>

record optimal_settings =
  os_queueDepth :: string
  os_nrRequests :: string
  os_scheduler :: string
  os_maxSectorsKb :: string
  os_readAheadKb :: string

definition iopsHeadRoom :: float64 where
  "iopsHeadRoom = Fin (1 / 4)"

definition maxHwSectorsKb :: float64 where
  "maxHwSectorsKb = Fin 512"

text \<open>The limit of disk and machine together; when it is not positive, that of the disk.\<close>

definition or_disk_limit :: "float64 \<Rightarrow> float64 \<Rightarrow> float64" where
  "or_disk_limit limit disk = (if float_le limit (Fin 0) then disk else limit)"

definition optimal_settings_of :: "NodeInfo \<Rightarrow> DiskSkuInfo \<Rightarrow> optimal_settings" where
  "optimal_settings_of nodeInfo diskSku =
     (let diskIopsFloat = float_of_int (MaxBurstIops diskSku);
          maxBurstIops = or_disk_limit (math_Min diskIopsFloat (float_of_int (ni_MaxBurstIops nodeInfo))) diskIopsFloat;
          diskBwFloat = float_of_int (MaxBurstBwMbps diskSku);
          maxBurstBw = or_disk_limit
            (float_mul (math_Min diskBwFloat (float_of_int (ni_MaxBurstBwMbps nodeInfo))) (Fin 1000)) diskBwFloat;
          iopsSeqIo = float_mul maxBurstIops (float_add (Fin 1) (float_neg iopsHeadRoom));
          rsMinSeqIo = math_Ceil (math_Min maxHwSectorsKb (float_div maxBurstBw iopsSeqIo));
          qdMaxSeqBw = math_Ceil (float_div (float_mul maxBurstBw (GetSequentialOLatencyInSec diskSku)) rsMinSeqIo);
          qdMaxRandomIops = math_Ceil (float_mul maxBurstIops (GetRandomIOLatencyInSec diskSku));
          qdTotal = sprintf_g (math_Ceil (math_Max
            (float_add (float_mul qdMaxRandomIops iopsHeadRoom) qdMaxSeqBw) qdMaxRandomIops))
      in \<lparr>os_queueDepth = qdTotal, os_nrRequests = qdTotal, os_scheduler = ''mq-deadline'',
          os_maxSectorsKb = sprintf_g rsMinSeqIo,
          os_readAheadKb = sprintf_g (math_Ceil (float_mul qdMaxSeqBw rsMinSeqIo))\<rparr>)"

definition getOptimalDeviceSettings ::
    "NodeInfo \<Rightarrow> sku_map \<Rightarrow> string \<Rightarrow> string \<Rightarrow> string \<Rightarrow> string \<Rightarrow> optimal_settings res" where
  "getOptimalDeviceSettings nodeInfo diskSkus accountType diskSizeGibStr diskIopsStr diskBwMbpsStr =
     (let notFound = Err (Errorf (''could not find sku for account '' @ accountType @ '' size '' @
            diskSizeGibStr @ ''. Error: sku not found''))
      in case getMatchingDiskSku diskSkus accountType diskSizeGibStr diskIopsStr diskBwMbpsStr of
           Panic \<Rightarrow> Panic
         | Err err \<Rightarrow> notFound
         | Ok None \<Rightarrow> notFound
         | Ok (Some diskSku) \<Rightarrow> Ok (optimal_settings_of nodeInfo diskSku))"

definition basic_settings :: "string \<Rightarrow> optimal_settings \<Rightarrow> str_map" where
  "basic_settings deviceRoot o1 =
     fold (\<lambda>(setting, value). AList.update (filepath_Join deviceRoot setting) value)
       [(''queue/max_sectors_kb'', os_maxSectorsKb o1), (''queue/scheduler'', os_scheduler o1),
        (''device/queue_depth'', os_queueDepth o1), (''queue/nr_requests'', os_nrRequests o1),
        (''queue/read_ahead_kb'', ''8'')] []"

definition getDeviceSettingsForBasicProfile ::
    "NodeInfo \<Rightarrow> string \<Rightarrow> string \<Rightarrow> string \<Rightarrow> string \<Rightarrow> string \<Rightarrow> string \<Rightarrow> str_map res" where
  "getDeviceSettingsForBasicProfile nodeInfo deviceRoot perfProfile accountType diskSizeGibStr diskIopsStr diskBwMbpsStr =
     (case getOptimalDeviceSettings nodeInfo DiskSkuMap accountType diskSizeGibStr diskIopsStr diskBwMbpsStr of
        Panic \<Rightarrow> Panic
      | Err err \<Rightarrow> Err (Errorf (''getDeviceSettingsForBasicProfile: Failed to get optimal settings for profile '' @
          perfProfile @ '' accountType '' @ accountType @ ''. Error: '' @ Error err))
      | Ok o1 \<Rightarrow> Ok (basic_settings deviceRoot o1))"

section \<open>Optimizing a device\<close>

definition device_settings ::
    "NodeInfo \<Rightarrow> string \<Rightarrow> perf_attributes \<Rightarrow> str_map res" where
  "device_settings nodeInfo deviceRoot a =
     (if ToLower (pa_profile a) = PerfProfileBasic then
        getDeviceSettingsForBasicProfile nodeInfo deviceRoot (pa_profile a) (pa_accountType a)
          (pa_diskSizeGibStr a) (pa_diskIopsStr a) (pa_diskBwMbpsStr a)
      else Ok (getDeviceSettingsForAdvancedProfile deviceRoot (pa_deviceSettings a)))"

definition OptimizeDiskPerformance ::
    "'w device_fs \<Rightarrow> string \<Rightarrow> NodeInfo option \<Rightarrow> string \<Rightarrow> perf_attributes \<Rightarrow> ('w, unit) io" where
  "OptimizeDiskPerformance fs blockDeviceRootPath nodeInfo devicePath a =
     (case nodeInfo of
        None \<Rightarrow> fail (Errorf ''OptimizeDiskPerformance: Node info is not provided. Error: invalid parameter'')
      | Some ni \<Rightarrow>
          call (getDeviceName fs devicePath)
            (\<lambda>err. fail (Errorf (''OptimizeDiskPerformance: Could not get deviceName for '' @ devicePath @
               ''. Error: '' @ Error err)))
            (\<lambda>deviceName.
               let deviceRoot = filepath_Join blockDeviceRootPath deviceName
               in if ToLower (pa_profile a) \<notin> {PerfProfileBasic, PerfProfileAdvanced} then
                    fail (Errorf (''OptimizeDiskPerformance: Invalid perfProfile '' @ pa_profile a))
                  else call (lift (device_settings ni deviceRoot a))
                    (\<lambda>err. fail (Errorf (''OptimizeDiskPerformance: Failed to optimize disk for deviceName '' @
                       deviceName @ '' perfProfile '' @ pa_profile a @ ''. Error: '' @ Error err)))
                    (applyDeviceSettings fs deviceRoot)))"

end
