(* ===== verification/NodeServer.thy ===== *)
theory NodeServer
  imports ControllerServer LinuxCommon MaxDiskCount DeviceOptimize
begin

text \<open>
  The file \<open>pkg/azuredisk/nodeserver.go\<close>: the node service, which stages a volume (finds the device of
  its LUN, tunes it, opens the encrypted device on it, formats and mounts that), publishes it to a
  pod, expands it, and reports what the node can hold. The model is of the Linux build.
\<close>

section \<open>What the node service calls\<close>

text \<open>What the metadata service says of the machine.\<close>

record compute_metadata =
  cmp_Name :: string
  cmp_VMScaleSetName :: string

text \<open>
  The operating system, the sysfs files of the tuning, the limits of this machine, the number of
  polls that fit the timeout of the search for a device, the zone, the metadata service and the
  instances of the cloud provider, and the size of the header that encryption adds.
\<close>

record 'w node_env =
  ne_os :: "'w node_os"
  ne_fs :: "'w device_fs"
  ne_nodeInfo :: "NodeInfo option"
  ne_polls :: nat
  ne_GetZone :: "('w, string) io"
  ne_UseInstanceMetadata :: bool
  ne_Metadata :: "('w, compute_metadata option) io option"
  ne_Instances :: "(string \<Rightarrow> ('w, string) io) option"
  ne_LUKSHeaderSize :: int

definition defaultLinuxFsType :: string where
  "defaultLinuxFsType = ''ext4''"

definition getDefaultFsType :: string where
  "getDefaultFsType = defaultLinuxFsType"

section \<open>Mount points and devices\<close>

text \<open>\<open>filepath.Dir\<close>: what is before the last slash, with it, cleaned.\<close>

definition filepath_Dir :: "string \<Rightarrow> string" where
  "filepath_Dir p = Clean (rev (dropWhile (\<lambda>c. c \<noteq> CHR ''/'') (rev p)))"

text \<open>The directory is a mount point already: its link is tested by reading it. A link that is not
  valid is unmounted, and the error of the reading is returned.\<close>

definition test_mount_link :: "'w node_os \<Rightarrow> string \<Rightarrow> ('w, bool) io" where
  "test_mount_link H target =
     call (os_ReadDir H target)
       (\<lambda>err. call (mnt_Unmount H target) fail (\<lambda>_. fail err))
       (\<lambda>_. ret True)"

definition mount_or_make :: "'w node_os \<Rightarrow> string \<Rightarrow> bool \<Rightarrow> ('w, bool) io" where
  "mount_or_make H target notMnt =
     bind (mnt_List H)
       (\<lambda>mountList. bind (lift (filepath_Abs (os_workdir H) target))
          (\<lambda>targetAbs.
             if \<not> notMnt \<or> targetAbs \<in> set mountList then test_mount_link H target
             else bind (MakeDir H target) (\<lambda>_. ret False)))"

definition ensureMountPoint :: "'w node_os \<Rightarrow> string \<Rightarrow> ('w, bool) io" where
  "ensureMountPoint H target w =
     (case mnt_IsLikelyNotMountPoint H target w of
        ((notMnt, None), w1) \<Rightarrow> mount_or_make H target notMnt w1
      | ((notMnt, Some err), w1) \<Rightarrow>
          if \<not> os_IsNotExist H err then
            bind (IsCorruptedDir H target)
              (\<lambda>corrupted. if corrupted then mount_or_make H target False else fail err) w1
          else mount_or_make H target notMnt w1)"

text \<open>\<open>wait.PollImmediate\<close> tries at once and then after each interval, until the timeout.\<close>

fun poll_device :: "'w node_os \<Rightarrow> nat \<Rightarrow> int \<Rightarrow> ('w, string) io" where
  "poll_device H n lun =
     call (findDiskByLun H lun)
       (\<lambda>err. fail (Errorf (''azureDisk - findDiskByLun('' @ Itoa lun @ '') failed with error('' @ Error err @ '')'')))
       (\<lambda>newDevicePath.
          if newDevicePath \<noteq> [] then ret newDevicePath
          else (case n of
                  0 \<Rightarrow> fail (Errorf ''timed out waiting for the condition'')
                | Suc k \<Rightarrow> bind (\<lambda>w. (Ok (), os_Sleep H 1000 w)) (\<lambda>_. poll_device H k lun)))"

declare poll_device.simps [simp del]

definition getDevicePathWithLUN :: "'w node_env \<Rightarrow> string \<Rightarrow> ('w, string) io" where
  "getDevicePathWithLUN N lunStr =
     bind (lift (GetDiskLUN lunStr))
       (\<lambda>lun. bind (scsiHostRescan (ne_os N)) (\<lambda>_. poll_device (ne_os N) (ne_polls N) lun))"

definition ensureBlockTargetFile :: "'w node_os \<Rightarrow> string \<Rightarrow> ('w, unit) io" where
  "ensureBlockTargetFile H target =
     (let parentDir = filepath_Dir target
      in call (ensureMountPoint H parentDir)
           (\<lambda>err. fail (StatusErr Internal (''could not mount target '' @ dquoted parentDir @ '': '' @ Error err)))
           (\<lambda>_. call (MakeFile H target)
              (\<lambda>err. call (os_Remove H target)
                 (\<lambda>removeErr. fail (StatusErr Internal
                    (''could not remove mount target '' @ dquoted target @ '': '' @ Error removeErr)))
                 (\<lambda>_. fail (StatusErr Internal
                    (''could not create file '' @ dquoted target @ '': '' @ Error err))))
              ret))"

definition collectMountOptions :: "string \<Rightarrow> string list \<Rightarrow> string list" where
  "collectMountOptions fsType mntFlags =
     mntFlags @ (if fsType = ''xfs'' then [''nouuid''] else [])"

section \<open>Staging\<close>

text \<open>The checks that the requests for a capability share. \<open>maxShares\<close> comes from the volume context.\<close>

definition check_capability :: "str_map \<Rightarrow> volume_capability \<Rightarrow> unit res" where
  "check_capability params volumeCapability =
     (case GetMaxShares params of
        Ok maxShares \<Rightarrow>
          (case IsValidVolumeCapabilities [volumeCapability] maxShares of
             Ok _ \<Rightarrow> Ok ()
           | Err err \<Rightarrow> Err (StatusErr InvalidArgument (Error err))
           | Panic \<Rightarrow> Panic)
      | Err err \<Rightarrow> Err (StatusErr InvalidArgument ''MaxShares value not supported'')
      | Panic \<Rightarrow> Panic)"

text \<open>The tuning of the device, when it is enabled and the disk supports it.\<close>

definition stage_tuning :: "DriverCore \<Rightarrow> 'w node_env \<Rightarrow> str_map \<Rightarrow> string \<Rightarrow> ('w, unit) io" where
  "stage_tuning D N ctx source =
     (if \<not> perfOptimizationEnabled D then ret ()
      else call (lift (GetDiskPerfAttributes ctx))
        (\<lambda>err. fail (StatusErr Internal (''failed to get perf attributes for '' @ source @ ''. Error: '' @ Error err)))
        (\<lambda>a. if DiskSupportsPerfOptimization (pa_profile a) (pa_accountType a) then
               call (OptimizeDiskPerformance (ne_fs N) BlockDeviceRootPathLinux (ne_nodeInfo N) source a)
                 (\<lambda>err. fail (StatusErr Internal (''failed to optimize device performance for target('' @ source @
                    '') error('' @ Error err @ '')''))) ret
             else ret ()))"

text \<open>The file system and the mount options the volume is formatted and mounted with. The options are
  chosen before the volume context overrides the file system.\<close>

definition stage_fs :: "volume_capability \<Rightarrow> str_map \<Rightarrow> string \<times> string list" where
  "stage_fs volumeCapability ctx =
     (let (fstype, options) =
        (case GetMount volumeCapability of
           None \<Rightarrow> (getDefaultFsType, [])
         | Some mnt \<Rightarrow>
            (let fstype = (if mnt_FsType mnt \<noteq> [] then mnt_FsType mnt else getDefaultFsType)
             in (fstype, collectMountOptions fstype (mnt_MountFlags mnt))));
          volContextFSType = GetFStype ctx
      in (if volContextFSType \<noteq> [] then volContextFSType else fstype, options))"

definition stage_source :: "str_map \<Rightarrow> string \<Rightarrow> string" where
  "stage_source ctx source =
     (case map_of ctx VolumeAttributePartition of
        Some part \<Rightarrow> source @ ''-part'' @ part
      | None \<Rightarrow> source)"

text \<open>A failure to find out whether to resize counts as no need.\<close>

definition stage_resize :: "'w node_os \<Rightarrow> str_map \<Rightarrow> string \<Rightarrow> string \<Rightarrow> ('w, unit) io" where
  "stage_resize H ctx devicePath target =
     bind (if (case map_of ctx ResizeRequired of Some required \<Rightarrow> EqualFold required TrueValue | None \<Rightarrow> False)
           then ret True
           else call (needResizeVolume H devicePath target) (\<lambda>err. ret False) ret)
       (\<lambda>needResize.
          if needResize then
            call (resizeVolume H devicePath target)
              (\<lambda>err. fail (StatusErr Internal (''NodeStageVolume: could not resize volume '' @ devicePath @
                 '' ('' @ target @ ''):  '' @ Error err))) ret
          else ret ())"

text \<open>From the device on: open the encrypted device on it, and format and mount that.\<close>

definition stage_device ::
    "'w node_os \<Rightarrow> string \<Rightarrow> string \<Rightarrow> volume_capability \<Rightarrow> str_map \<Rightarrow> string \<Rightarrow> string \<Rightarrow> ('w, unit) io" where
  "stage_device H diskName target volumeCapability ctx lun device =
     (let (fstype0, options) = stage_fs volumeCapability ctx;
          source = stage_source ctx device;
          (fstype, integrity) = cm_IsIntegrityFS H fstype0
      in call (cm_OpenCryptDevice H source diskName integrity)
           (\<lambda>err. fail (StatusErr Internal (''NodeStageVolume failed on volume '' @ source @ '' to '' @ target @
              '', open crypt device failed: '' @ Error err)))
           (\<lambda>devicePath.
              if GetBlock volumeCapability then ret ()
              else call (formatAndMount H devicePath target fstype options)
                (\<lambda>err. fail (StatusErr Internal (''could not format '' @ devicePath @ ''(lun: '' @ lun @
                   ''), and mount it at '' @ target @ '', failed with '' @ Error err)))
                (\<lambda>_. stage_resize H ctx devicePath target)))"

definition stage_lun ::
    "DriverCore \<Rightarrow> 'w node_env \<Rightarrow> string \<Rightarrow> string \<Rightarrow> volume_capability \<Rightarrow> str_map \<Rightarrow> string \<Rightarrow> ('w, unit) io" where
  "stage_lun D N diskName target volumeCapability ctx lun =
     call (getDevicePathWithLUN N lun)
       (\<lambda>err. fail (StatusErr Internal (''failed to find disk on lun '' @ lun @ ''. '' @ Error err)))
       (\<lambda>source. bind (stage_tuning D N ctx source)
          (\<lambda>_. call (ensureMountPoint (ne_os N) target)
             (\<lambda>err. fail (StatusErr Internal (''could not mount target '' @ dquoted target @ '': '' @ Error err)))
             (\<lambda>mnt. if mnt then ret ()
                    else stage_device (ne_os N) diskName target volumeCapability ctx lun source)))"

definition NodeStageVolume ::
    "DriverCore \<Rightarrow> 'w node_env \<Rightarrow> string \<Rightarrow> string \<Rightarrow> volume_capability option \<Rightarrow> str_map \<Rightarrow> str_map \<Rightarrow>
     ('w, unit) drv_io" where
  "NodeStageVolume D N diskURI target capability volumeContext publishContext =
     (if diskURI = [] then fail (StatusErr InvalidArgument ''Volume ID not provided'')
      else call (lift (GetVolumeName diskURI))
        (\<lambda>err. fail (StatusErr InvalidArgument (''Unable to parse disk URI: '' @ Error err)))
        (\<lambda>diskName.
           if target = [] then fail (StatusErr InvalidArgument ''Staging target not provided'')
           else (case capability of
             None \<Rightarrow> fail (StatusErr InvalidArgument ''Volume capability not provided'')
           | Some volumeCapability \<Rightarrow>
               bind (lift (check_capability volumeContext volumeCapability))
                 (\<lambda>_. with_volume_lock diskURI
                    (case map_of publishContext LUN of
                       None \<Rightarrow> fail (StatusErr InvalidArgument ''lun not provided'')
                     | Some lun \<Rightarrow>
                         in_world (stage_lun D N diskName target volumeCapability volumeContext lun))))))"

definition unstage_device :: "'w node_os \<Rightarrow> string \<Rightarrow> string \<Rightarrow> ('w, unit) io" where
  "unstage_device H diskName stagingTargetPath =
     call (CleanupMountPoint H stagingTargetPath True)
       (\<lambda>err. fail (StatusErr Internal (''failed to unmount staging target '' @ dquoted stagingTargetPath @ '': '' @ Error err)))
       (\<lambda>_. call (cm_CloseCryptDevice H diskName)
          (\<lambda>err. fail (StatusErr Internal (''NodeUnstageVolume failed to close mapped crypt device for disk '' @
             stagingTargetPath @ '': '' @ Error err)))
          ret)"

definition NodeUnstageVolume :: "'w node_env \<Rightarrow> string \<Rightarrow> string \<Rightarrow> ('w, unit) drv_io" where
  "NodeUnstageVolume N volumeID stagingTargetPath =
     (if volumeID = [] then fail (StatusErr InvalidArgument ''Volume ID not provided'')
      else call (lift (GetVolumeName volumeID))
        (\<lambda>err. fail (StatusErr InvalidArgument (''Unable to parse disk URI: '' @ Error err)))
        (\<lambda>diskName.
           if stagingTargetPath = [] then fail (StatusErr InvalidArgument ''Staging target not provided'')
           else with_volume_lock volumeID (in_world (unstage_device (ne_os N) diskName stagingTargetPath))))"

section \<open>Publishing\<close>

definition publish_mount ::
    "'w node_os \<Rightarrow> string \<Rightarrow> string \<Rightarrow> string list \<Rightarrow> ('w, unit) io" where
  "publish_mount H source target mountOptions =
     call (mnt_Mount H source target [] mountOptions)
       (\<lambda>err. fail (StatusErr Internal (''could not mount '' @ dquoted source @ '' at '' @ dquoted target @ '': '' @ Error err)))
       ret"

text \<open>A block volume is the mapped device itself, on a file; a mounted one is the staging directory.\<close>

definition publish_target ::
    "'w node_os \<Rightarrow> string \<Rightarrow> string \<Rightarrow> string \<Rightarrow> volume_capability \<Rightarrow> string list \<Rightarrow> ('w, unit) io" where
  "publish_target H volumeID source target volumeCapability mountOptions =
     (case cap_AccessType volumeCapability of
        Some Block \<Rightarrow>
          call (lift (GetVolumeName volumeID))
            (\<lambda>err. fail (StatusErr InvalidArgument (''Unable to parse disk URI: '' @ Error err)))
            (\<lambda>diskName. call (ensureBlockTargetFile H target)
               (\<lambda>err. fail (StatusErr Internal (Error err)))
               (\<lambda>_. publish_mount H (filepath_Join ''/dev/mapper'' diskName) target mountOptions))
      | Some (Mount _) \<Rightarrow>
          call (ensureMountPoint H target)
            (\<lambda>err. fail (StatusErr Internal (''could not mount target '' @ dquoted target @ '': '' @ Error err)))
            (\<lambda>mnt. if mnt then ret () else publish_mount H source target mountOptions)
      | None \<Rightarrow> publish_mount H source target mountOptions)"

definition NodePublishVolume ::
    "'w node_env \<Rightarrow> string \<Rightarrow> volume_capability option \<Rightarrow> str_map \<Rightarrow> string \<Rightarrow> string \<Rightarrow> bool \<Rightarrow> ('w, unit) drv_io" where
  "NodePublishVolume N volumeID capability params source target readonly =
     (if volumeID = [] then fail (StatusErr InvalidArgument ''Volume ID missing in the request'')
      else (case capability of
        None \<Rightarrow> fail (StatusErr InvalidArgument ''Volume capability missing in request'')
      | Some volumeCapability \<Rightarrow>
          bind (lift (check_capability params volumeCapability))
            (\<lambda>_. if source = [] then fail (StatusErr InvalidArgument ''Staging target not provided'')
                 else if target = [] then fail (StatusErr InvalidArgument ''Target path not provided'')
                 else call (preparePublishPath target)
                   (\<lambda>err. fail (StatusErr Internal (''Target path could not be prepared: '' @ Error err)))
                   (\<lambda>_. in_world (publish_target (ne_os N) volumeID source target volumeCapability
                      (''bind'' # (if readonly then [''ro''] else [])))))))"

definition NodeUnpublishVolume :: "'w node_env \<Rightarrow> string \<Rightarrow> string \<Rightarrow> ('w, unit) drv_io" where
  "NodeUnpublishVolume N volumeID targetPath =
     (if volumeID = [] then fail (StatusErr InvalidArgument ''Volume ID missing in the request'')
      else if targetPath = [] then fail (StatusErr InvalidArgument ''Target path missing in request'')
      else call (in_world (CleanupMountPoint (ne_os N) targetPath True))
        (\<lambda>err. fail (StatusErr Internal (''failed to unmount target '' @ dquoted targetPath @ '': '' @ Error err)))
        ret)"

section \<open>What the node can hold\<close>

definition NodeGetCapabilities :: "DriverCore \<Rightarrow> node_rpc list" where
  "NodeGetCapabilities D = csi_NSCap D"

record node_info_response =
  nr_NodeId :: string
  nr_MaxVolumesPerNode :: int
  nr_Segments :: str_map

text \<open>The zone of the node and, when they were read, the zone and the instance type of its labels.\<close>

definition node_zone :: "DriverCore \<Rightarrow> 'w services \<Rightarrow> 'w node_env \<Rightarrow> ('w, string \<times> string) io" where
  "node_zone D V N =
     (let labels = getNodeInfoFromLabels (csi_NodeID D) (cl_KubeClient (sv_cloud V));
          zoned = (if getNodeInfoFromLabels_opt D then labels
                   else call (ne_GetZone N) (\<lambda>err. labels)
                     (\<lambda>zone. ret (zone, [])))
      in call zoned
           (\<lambda>err. fail (StatusErr Internal (''getNodeInfoFromLabels on node('' @ csi_NodeID D @
              '') failed with '' @ Error err)))
           ret)"

definition zone_segments :: "DriverCore \<Rightarrow> 'w services \<Rightarrow> string \<Rightarrow> str_map \<Rightarrow> str_map" where
  "zone_segments D V failureDomain segments =
     (if IsValidAvailabilityZone failureDomain (cl_Location (sv_cloud V)) then
        AList.update WellKnownTopologyKey failureDomain (AList.update (topologyKey D) failureDomain segments)
      else segments)"

text \<open>The instance type, from the cloud or from the labels. An error is only logged.\<close>

definition label_instance_type :: "DriverCore \<Rightarrow> 'w services \<Rightarrow> ('w, string) io" where
  "label_instance_type D V =
     call (getNodeInfoFromLabels (csi_NodeID D) (cl_KubeClient (sv_cloud V)))
       (\<lambda>err. ret []) (\<lambda>(_, instanceType). ret instanceType)"

definition node_instance_type :: "DriverCore \<Rightarrow> 'w services \<Rightarrow> 'w node_env \<Rightarrow> string \<Rightarrow> ('w, string) io" where
  "node_instance_type D V N instanceTypeFromLabels =
     (if getNodeInfoFromLabels_opt D then
        (if instanceTypeFromLabels = [] then label_instance_type D V else ret instanceTypeFromLabels)
      else
        bind (case ne_Instances N of
                None \<Rightarrow> ret []
              | Some InstanceType \<Rightarrow> call (InstanceType (csi_NodeID D)) (\<lambda>err. ret []) ret)
          (\<lambda>instanceType.
             if instanceType \<noteq> [] then ret instanceType
             else if instanceTypeFromLabels \<noteq> [] then ret instanceTypeFromLabels
             else label_instance_type D V))"

definition node_max_volumes :: "DriverCore \<Rightarrow> 'w services \<Rightarrow> 'w node_env \<Rightarrow> string \<Rightarrow> ('w, int) io" where
  "node_max_volumes D V N instanceTypeFromLabels =
     (if csi_VolumeAttachLimit D < 0 then
        bind (node_instance_type D V N instanceTypeFromLabels)
          (\<lambda>instanceType. ret (getMaxDataDiskCount instanceType - csi_ReservedDataDiskSlotNum D))
      else ret (csi_VolumeAttachLimit D))"

definition metadata_node_id :: "string \<Rightarrow> compute_metadata option \<Rightarrow> string" where
  "metadata_node_id nodeID metadata =
     (case metadata of
        None \<Rightarrow> nodeID
      | Some c \<Rightarrow>
          if cmp_Name c = [] then nodeID
          else if cmp_VMScaleSetName c \<noteq> [] then
            (case getVMSSInstanceName (cmp_Name c) of Ok i \<Rightarrow> i | _ \<Rightarrow> nodeID)
          else cmp_Name c)"

definition node_id :: "DriverCore \<Rightarrow> 'w node_env \<Rightarrow> ('w, string) io" where
  "node_id D N =
     (case ne_Metadata N of
        Some GetMetadata \<Rightarrow>
          if getNodeIDFromIMDS D \<and> ne_UseInstanceMetadata N then
            call GetMetadata (\<lambda>err. ret (csi_NodeID D)) (\<lambda>m. ret (metadata_node_id (csi_NodeID D) m))
          else ret (csi_NodeID D)
      | None \<Rightarrow> ret (csi_NodeID D))"

definition NodeGetInfo ::
    "DriverCore \<Rightarrow> 'w services \<Rightarrow> 'w node_env \<Rightarrow> ('w, node_info_response) drv_io" where
  "NodeGetInfo D V N =
     in_world
       (bind (if supportZone D then
                bind (node_zone D V N)
                  (\<lambda>(failureDomain, instanceType).
                     ret (zone_segments D V failureDomain [(topologyKey D, [])], instanceType))
              else ret ([(topologyKey D, [])], []))
          (\<lambda>(segments, instanceTypeFromLabels).
             bind (node_max_volumes D V N instanceTypeFromLabels)
               (\<lambda>maxDataDiskCount. bind (node_id D N)
                  (\<lambda>nodeID. ret \<lparr>nr_NodeId = nodeID, nr_MaxVolumesPerNode = maxDataDiskCount,
                     nr_Segments = segments\<rparr>))))"

section \<open>Statistics and expansion\<close>

definition NodeGetVolumeStats :: "'w node_env \<Rightarrow> string \<Rightarrow> string \<Rightarrow> ('w, volume_usage list) drv_io" where
  "NodeGetVolumeStats N volumeId volumePath =
     (if volumeId = [] then fail (StatusErr InvalidArgument ''NodeGetVolumeStats volume ID was empty'')
      else if volumePath = [] then fail (StatusErr InvalidArgument ''NodeGetVolumeStats volume path was empty'')
      else in_world (GetVolumeStats (ne_os N) volumePath))"

definition ignore_error :: "('w, unit) io \<Rightarrow> ('w, unit) io" where
  "ignore_error m = call m (\<lambda>err. ret ()) ret"

definition resize_crypt :: "'w node_os \<Rightarrow> string \<Rightarrow> ('w, string) io" where
  "resize_crypt H diskName =
     call (cm_ResizeCryptDevice H diskName)
       (\<lambda>err. fail (StatusErr Internal (''resizing crypt device: '' @ Error err))) ret"

definition expand_block :: "DriverCore \<Rightarrow> 'w node_os \<Rightarrow> string \<Rightarrow> ('w, int) io" where
  "expand_block D H diskName =
     bind (if enableDiskOnlineResize D then ignore_error (rescanAllVolumes H) else ret ())
       (\<lambda>_. bind (resize_crypt H diskName) (\<lambda>_. ret 0))"

text \<open>An error of the resize is kept, and returned only when the size of the device is not enough.\<close>

definition expand_fs ::
    "DriverCore \<Rightarrow> 'w node_os \<Rightarrow> string \<Rightarrow> string \<Rightarrow> string \<Rightarrow> int \<Rightarrow> ('w, int) io" where
  "expand_fs D H volumeID diskName volumePath requestGiB =
     call (cm_GetDevicePath H diskName) (\<lambda>err. fail (StatusErr NotFound (Error err)))
       (\<lambda>devicePath0.
          bind (if enableDiskOnlineResize D then ignore_error (rescanVolume H devicePath0) else ret ())
            (\<lambda>_. bind (resize_crypt H diskName)
               (\<lambda>devicePath. bind (call (resizeVolume H devicePath volumePath)
                    (\<lambda>err. ret (Some (StatusErr Internal (''could not resize volume '' @ dquoted volumeID @
                       '' ('' @ dquoted devicePath @ ''):  '' @ Error err))))
                    (\<lambda>_. ret None))
                  (\<lambda>retErr. call (getBlockSizeBytes H devicePath)
                     (\<lambda>err. fail (StatusErr Internal (''could not get size of block volume at path '' @
                        devicePath @ '': '' @ Error err)))
                     (\<lambda>gotBlockSizeBytes.
                        let gotBlockGiB = RoundUpGiB gotBlockSizeBytes
                        in if gotBlockGiB < requestGiB then
                             (case retErr of
                                Some e \<Rightarrow> fail e
                              | None \<Rightarrow> fail (StatusErr Internal (''resize requested for '' @ Itoa requestGiB @
                                  '', but after resizing volume size was '' @ Itoa gotBlockGiB)))
                           else ret gotBlockSizeBytes)))))"

text \<open>The result is the capacity in the response, zero where the response has none.\<close>

definition NodeExpandVolume ::
    "DriverCore \<Rightarrow> 'w node_env \<Rightarrow> string \<Rightarrow> string \<Rightarrow> int \<Rightarrow> volume_capability option \<Rightarrow> ('w, int) drv_io" where
  "NodeExpandVolume D N volumeID volumePath capacityBytes capability =
     (if volumeID = [] then fail (StatusErr InvalidArgument ''Volume ID not provided'')
      else call (lift (GetVolumeName volumeID))
        (\<lambda>err. fail (StatusErr InvalidArgument (''Unable to parse disk URI: '' @ Error err)))
        (\<lambda>diskName.
           let volSizeBytes = to_int64 (capacityBytes - ne_LUKSHeaderSize N);
               requestGiB = RoundUpGiB volSizeBytes
           in if volumePath = [] then fail (StatusErr InvalidArgument ''volume path must be provided'')
              else call (in_world (hu_PathIsDevice (ne_os N) volumePath))
                (\<lambda>err. fail (StatusErr NotFound (''failed to determine device path for volumePath ['' @
                   volumePath @ '']: '' @ Error err)))
                (\<lambda>isDevice.
                   with_volume_lock volumeID (in_world
                     (if isDevice \<or> (case capability of Some c \<Rightarrow> GetBlock c | None \<Rightarrow> False)
                      then expand_block D (ne_os N) diskName
                      else expand_fs D (ne_os N) volumeID diskName volumePath requestGiB)))))"

end
