(* ===== verification/LinuxCommonCorrect.thy ===== *)
theory LinuxCommonCorrect
  imports LinuxCommon
begin

text \<open>
  Finding the device of a LUN: the nested loops over sysfs and the links of the Azure agent compute what
  a search over sets of files says.
\<close>

section \<open>A file system that is only read\<close>

record file_tree =
  ft_dir :: "string \<Rightarrow> string list res"
  ft_link :: "string \<Rightarrow> string res"
  ft_file :: "string \<Rightarrow> string res"

text \<open>The reads answer from the tree, with a content or an error, and change nothing.\<close>

definition reads_tree :: "'w node_os \<Rightarrow> file_tree \<Rightarrow> bool" where
  "reads_tree H T \<longleftrightarrow>
     (\<forall>p. os_ReadDir H p = lift (ft_dir T p) \<and> ft_dir T p \<noteq> Panic) \<and>
     (\<forall>p. os_Readlink H p = lift (ft_link T p) \<and> ft_link T p \<noteq> Panic) \<and>
     (\<forall>p. os_ReadFile H p = lift (ft_file T p) \<and> ft_file T p \<noteq> Panic)"

definition entries :: "file_tree \<Rightarrow> string \<Rightarrow> string list" where
  "entries T p = (case ft_dir T p of Ok ns \<Rightarrow> ns | _ \<Rightarrow> [])"

text \<open>The disks of the operating system: the devices the links below \<open>/dev/disk/azure\<close> and its
  directory \<open>scsi0\<close> name.\<close>

definition os_disks :: "file_tree \<Rightarrow> string list" where
  "os_disks T =
     [last (Split l (CHR ''/'')). dir \<leftarrow> [''/dev/disk/azure/'', ''/dev/disk/azure/scsi0/''], n \<leftarrow> entries T dir,
        l \<leftarrow> (case ft_link T (filepath_Join dir n) of Ok l \<Rightarrow> [l] | _ \<Rightarrow> [])]"

text \<open>The fields of a name like \<open>3:0:0:1\<close>, counted from 0.\<close>

fun field :: "nat \<Rightarrow> string \<Rightarrow> string option" where
  "field 0 n = Some (takeWhile (\<lambda>c. c \<noteq> CHR '':'') n)"
| "field (Suc k) n = (case dropWhile (\<lambda>c. c \<noteq> CHR '':'') n of [] \<Rightarrow> None | c # rest \<Rightarrow> field k rest)"

definition number_in :: "nat \<Rightarrow> string \<Rightarrow> int option" where
  "number_in k n = (case field k n of Some s \<Rightarrow> (case Atoi s of Ok i \<Rightarrow> Some i | _ \<Rightarrow> None) | None \<Rightarrow> None)"

text \<open>The LUN is the number in the fourth field. When the agent has made no links, the number of the host,
  in the first field, has to be outside of the hosts 0 to 3 of the operating system.\<close>

definition entry_of_lun :: "file_tree \<Rightarrow> int \<Rightarrow> string \<Rightarrow> bool" where
  "entry_of_lun T lun n \<longleftrightarrow> number_in 3 n = Some lun \<and>
     (os_disks T \<noteq> [] \<or> (case number_in 0 n of Some host \<Rightarrow> 4 \<le> host | None \<Rightarrow> False))"

text \<open>An attribute of a device, without regard to case and surrounding blanks.\<close>

definition attribute_of :: "file_tree \<Rightarrow> string \<Rightarrow> string \<Rightarrow> string \<Rightarrow> bool" where
  "attribute_of T n attr text =
     (case ft_file T (filepath_Join (filepath_Join sysPath n) attr) of
        Ok b \<Rightarrow> ToUpper (TrimSpace b) = text | _ \<Rightarrow> False)"

text \<open>A data disk of the LUN: an entry of the LUN whose vendor and model are those of an Azure disk and whose
  device is not one of the operating system. An entry whose directory \<open>block\<close> can be read and is empty has
  no device to compare, and the search ends at it.\<close>

definition azure_entry :: "file_tree \<Rightarrow> int \<Rightarrow> string \<Rightarrow> bool" where
  "azure_entry T lun n \<longleftrightarrow>
     entry_of_lun T lun n \<and> attribute_of T n ''vendor'' ''MSFT'' \<and> attribute_of T n ''model'' ''VIRTUAL DISK''"

definition devices_of :: "file_tree \<Rightarrow> string \<Rightarrow> string list res" where
  "devices_of T n = ft_dir T (filepath_Join (filepath_Join sysPath n) ''block'')"

definition search_ends :: "file_tree \<Rightarrow> int \<Rightarrow> string \<Rightarrow> bool" where
  "search_ends T lun n \<longleftrightarrow> azure_entry T lun n \<and>
     (case devices_of T n of Ok [] \<Rightarrow> True | Ok (d # _) \<Rightarrow> d \<notin> set (os_disks T) | _ \<Rightarrow> False)"

text \<open>The link of a device: the first one of the agent, else the first one of udev, else its name.\<close>

definition link_in :: "file_tree \<Rightarrow> string \<Rightarrow> string \<Rightarrow> string option" where
  "link_in T dir d =
     map_option (\<lambda>n. dir @ n)
       (List.find (\<lambda>n. case ft_link T (dir @ n) of Ok l \<Rightarrow> HasSuffix l d | _ \<Rightarrow> False) (entries T dir))"

definition path_of_device :: "file_tree \<Rightarrow> string \<Rightarrow> string" where
  "path_of_device T d =
     (case link_in T ''/dev/disk/azure/scsi1/'' d of
        Some p \<Rightarrow> p
      | None \<Rightarrow> (case link_in T ''/dev/disk/by-id/'' d of Some p \<Rightarrow> p | None \<Rightarrow> ''/dev/'' @ d))"

text \<open>The outcome of the search: the path of the first data disk of the LUN, a panic at an empty directory that
  comes before it, and the empty path when there is neither.\<close>

definition lun_outcome :: "file_tree \<Rightarrow> int \<Rightarrow> string res" where
  "lun_outcome T lun =
     (case List.find (search_ends T lun) (entries T sysPath) of
        None \<Rightarrow> Ok []
      | Some n \<Rightarrow> (case devices_of T n of Ok (d # _) \<Rightarrow> Ok (path_of_device T d) | _ \<Rightarrow> Panic))"

definition device_path_of_lun :: "file_tree \<Rightarrow> int \<Rightarrow> string" where
  "device_path_of_lun T lun = (case lun_outcome T lun of Ok p \<Rightarrow> p | _ \<Rightarrow> [])"

section \<open>Names\<close>

lemma Split_first:
  "Split s c = takeWhile (\<lambda>x. x \<noteq> c) s # (case dropWhile (\<lambda>x. x \<noteq> c) s of [] \<Rightarrow> [] | _ # r \<Rightarrow> Split r c)"
  by (induction s) (auto split: list.split)

lemma field_Split: "field k n = (if k < length (Split n (CHR '':'')) then Some (Split n (CHR '':'') ! k) else None)"
proof (induction k arbitrary: n)
  case 0
  show ?case using Split_first [of n "CHR '':''"] by simp
next
  case (Suc k)
  show ?case
  proof (cases "dropWhile (\<lambda>c. c \<noteq> CHR '':'') n")
    case Nil
    with Split_first [of n "CHR '':''"] show ?thesis by (simp only: field.simps list.case list.size) simp
  next
    case (Cons c r)
    with Split_first [of n "CHR '':''"] Suc show ?thesis by simp
  qed
qed

lemma scsi_name_matches_entry: "scsi_name_matches lun (os_disks T) n \<longleftrightarrow> entry_of_lun T lun n"
proof -
  let ?a = "Split n (CHR '':'')"
  have l: "0 < length ?a" by simp
  show ?thesis
  proof (cases "3 < length ?a")
    case True
    then show ?thesis
      by (auto simp: scsi_name_matches_def entry_of_lun_def number_in_def field_Split Let_def split: res.split)
  qed (auto simp: scsi_name_matches_def entry_of_lun_def number_in_def field_Split Let_def)
qed

lemma last_Split: "last (Split s c) = rev (takeWhile (\<lambda>x. x \<noteq> c) (rev s))"
proof (induction s)
  case (Cons x s)
  show ?case
  proof (cases "c \<in> set s")
    case True
    then have "length (Split s c) \<noteq> 1" by (simp add: length_Split count_list_0_iff)
    then obtain a b r where "Split s c = a # b # r" by (metis One_nat_def Split_nonempty length_Cons list.exhaust list.size(3))
    with True Cons show ?thesis by (auto simp: takeWhile_append)
  next
    case False
    then show ?thesis by (auto simp: Split_no_sep takeWhile_append takeWhile_eq_all_conv)
  qed
qed simp

lemma after_last_slash_Split: "after_last_slash l = last (Split l (CHR ''/''))"
  by (simp add: after_last_slash_def last_Split)

section \<open>The loops\<close>

text \<open>Computations without effects, as pairs with the state left out.\<close>

lemma pure_simps [simp]:
  "ret x = Pair (Ok x)" "fail e = Pair (Err e)" "lift r = Pair r"
  "bind (Pair (Ok x)) k = k x" "call (Pair (Ok x)) h k = k x" "call (Pair (Err e)) h k = h e"
  by (simp_all add: fun_eq_iff bind_def call_def)

lemma reads_treeD:
  assumes "reads_tree H T"
  shows "os_ReadDir H p = lift (ft_dir T p)" "ft_dir T p \<noteq> Panic" "os_Readlink H p = lift (ft_link T p)"
    "ft_link T p \<noteq> Panic" "os_ReadFile H p = lift (ft_file T p)" "ft_file T p \<noteq> Panic"
  using assms by (simp_all add: reads_tree_def)

lemma link_targets_pure:
  assumes "reads_tree H T"
  shows "link_targets H dir ns = ret [last (Split l (CHR ''/'')). n \<leftarrow> ns,
    l \<leftarrow> (case ft_link T (filepath_Join dir n) of Ok l \<Rightarrow> [l] | _ \<Rightarrow> [])]"
proof (induction ns)
  case (Cons n ns)
  then show ?case using reads_treeD(3,4) [OF assms, of "filepath_Join dir n"]
    by (cases "ft_link T (filepath_Join dir n)") (simp_all add: after_last_slash_Split)
qed simp

lemma listAzureDiskPath_pure:
  assumes "reads_tree H T"
  shows "listAzureDiskPath H = ret (os_disks T)"
proof -
  have "list_azure_disks H dirs = ret [last (Split l (CHR ''/'')). dir \<leftarrow> dirs, n \<leftarrow> entries T dir,
      l \<leftarrow> (case ft_link T (filepath_Join dir n) of Ok l \<Rightarrow> [l] | _ \<Rightarrow> [])]" for dirs
  proof (induction dirs)
    case (Cons dir dirs)
    then show ?case
      using reads_treeD(1,2) [OF assms, of dir] link_targets_pure [OF assms, of dir]
      by (cases "ft_dir T dir") (simp_all add: entries_def)
  qed simp
  then show ?thesis by (simp only: listAzureDiskPath_def os_disks_def)
qed

lemma find_link_pure:
  assumes "reads_tree H T"
  shows "call (getDiskLinkByDevName H dir d) h k =
    (case link_in T dir d of Some p \<Rightarrow> k p | None \<Rightarrow> call (getDiskLinkByDevName H dir d) h k)"
    "link_in T dir d = None \<Longrightarrow> \<exists>e. getDiskLinkByDevName H dir d = fail e"
proof -
  have f: "find_link H dir d ns =
    (case List.find (\<lambda>n. case ft_link T (dir @ n) of Ok l \<Rightarrow> HasSuffix l d | _ \<Rightarrow> False) ns of
       Some n \<Rightarrow> ret (dir @ n)
     | None \<Rightarrow> fail (Errorf (''device name('' @ d @ '') is not found under '' @ dir)))" for ns
  proof (induction ns)
    case (Cons n ns)
    then show ?case using reads_treeD(3,4) [OF assms, of "dir @ n"] by (cases "ft_link T (dir @ n)") simp_all
  qed simp
  have g: "getDiskLinkByDevName H dir d = (case link_in T dir d of Some p \<Rightarrow> ret p | None \<Rightarrow>
      (case ft_dir T dir of Err e \<Rightarrow> fail (Errorf (''read '' @ dir @ '' error: '' @ Error e))
       | _ \<Rightarrow> fail (Errorf (''device name('' @ d @ '') is not found under '' @ dir))))"
    using reads_treeD(1,2) [OF assms, of dir]
    by (cases "ft_dir T dir") (simp_all add: getDiskLinkByDevName_def link_in_def entries_def f split: option.split)
  show "call (getDiskLinkByDevName H dir d) h k =
    (case link_in T dir d of Some p \<Rightarrow> k p | None \<Rightarrow> call (getDiskLinkByDevName H dir d) h k)"
    by (simp add: g split: option.split)
  show "link_in T dir d = None \<Longrightarrow> \<exists>e. getDiskLinkByDevName H dir d = fail e"
    by (auto simp: g split: res.split)
qed

lemma device_path_pure:
  assumes "reads_tree H T"
  shows "device_path H d = ret (path_of_device T d)"
proof -
  have c: "call (getDiskLinkByDevName H dir d) h k =
      (case link_in T dir d of Some p \<Rightarrow> k p | None \<Rightarrow> m)" if "\<And>e. h e = m" for dir h k m
    using find_link_pure [OF assms, of dir d] that by (auto split: option.split)
  show ?thesis unfolding device_path_def path_of_device_def
    by (subst c [OF c [OF refl]]) (simp split: option.split)
qed

lemma attribute_is_pure:
  assumes "reads_tree H T"
  shows "attribute_is H n attr text = ret (attribute_of T n attr text)"
  using reads_treeD(5,6) [OF assms, of "filepath_Join (filepath_Join sysPath n) attr"]
  by (cases "ft_file T (filepath_Join (filepath_Join sysPath n) attr)")
     (simp_all add: attribute_is_def attribute_of_def)

lemma find_device_pure:
  assumes "reads_tree H T"
  shows "find_device H lun (os_disks T) ns =
    lift (case List.find (search_ends T lun) ns of
        None \<Rightarrow> Ok []
      | Some n \<Rightarrow> (case devices_of T n of Ok (d # _) \<Rightarrow> Ok (path_of_device T d) | _ \<Rightarrow> Panic))"
proof (induction ns)
  case (Cons n ns)
  note r = reads_treeD [OF assms] and p = device_path_pure [OF assms] attribute_is_pure [OF assms]
  show ?case
  proof (cases "devices_of T n")
    case (Ok ds)
    then show ?thesis using Cons
      by (cases ds) (auto simp: r(1) p search_ends_def azure_entry_def devices_of_def scsi_name_matches_entry Let_def panic_def fun_eq_iff)
  next
    case (Err e)
    with Cons show ?thesis
      by (auto simp: r(1) p search_ends_def azure_entry_def devices_of_def scsi_name_matches_entry Let_def)
  qed (use r(2) in \<open>simp add: devices_of_def\<close>)
qed simp

lemma findDiskByLun_pure:
  assumes "reads_tree H T"
  shows "findDiskByLun H lun w = (lun_outcome T lun, w)"
  using reads_treeD(1,2) [OF assms, of sysPath]
  by (cases "ft_dir T sysPath")
     (simp_all add: findDiskByLun_def listAzureDiskPath_pure [OF assms] findDiskByLunWithConstraint_def
       find_device_pure [OF assms] lun_outcome_def entries_def)

declare pure_simps [simp del]

end
