(* ===== verification/NodeServerCorrect.thy ===== *)
theory NodeServerCorrect
  imports NodeServer ControllerServerCorrect LinuxCommonCorrect
begin

text \<open>
  What the node service guarantees: the operations on one volume exclude each other, a file system is
  only ever made or mounted on an encrypted device, staging and publishing implement the life cycle of a
  volume on a node, the search for a device finds it when it appears in time, and the number of volumes
  a node announces is one its machine can hold.
\<close>

section \<open>Locks\<close>

lemma keeps_stage [simp, intro]: "keeps serves (NodeStageVolume D N u t c ctx pctx)"
  unfolding NodeStageVolume_def by (auto intro!: serves_rules split: option.split)

lemma keeps_unstage [simp, intro]: "keeps serves (NodeUnstageVolume N u t)"
  unfolding NodeUnstageVolume_def by (auto intro!: serves_rules)

lemma keeps_node_expand [simp, intro]: "keeps serves (NodeExpandVolume D N u p q c)"
  unfolding NodeExpandVolume_def Let_def by (auto intro!: serves_rules)

lemma keeps_node_publish [simp, intro]: "keeps serves (NodePublishVolume N u c ctx src t ro)"
  unfolding NodePublishVolume_def preparePublishPath_def by (auto intro!: serves_rules split: option.split)

lemma with_volume_lock_held:
  "v \<in> locks (volumeLocks s) \<Longrightarrow> with_volume_lock v m s = (r, s') \<Longrightarrow>
   (\<exists>msg. r = Err (StatusErr Aborted msg)) \<and> s' = s"
  by (auto simp: with_volume_lock_def TryAcquire_def)

text \<open>C21. Staging, unstaging and expanding one volume on a node exclude each other: while one of them
  holds the lock of the volume, none of the others succeeds, and it changes nothing (the expansion may
  have asked whether the path is a device before). Each of them, and publishing, leaves the locks as
  they were when it returns.\<close>

theorem node_operations_exclusive:
  "(NodeStageVolume D N u t c ctx pctx s = (r1, s1) \<and> r1 \<noteq> Panic \<longrightarrow>
      serves s s1 \<and> (u \<in> locks (volumeLocks s) \<longrightarrow> \<not> is_Ok r1 \<and> s1 = s)) \<and>
   (NodeUnstageVolume N u t s = (r2, s2) \<and> r2 \<noteq> Panic \<longrightarrow>
      serves s s2 \<and> (u \<in> locks (volumeLocks s) \<longrightarrow> \<not> is_Ok r2 \<and> s2 = s)) \<and>
   (NodeExpandVolume D N u p q c s = (r3, s3) \<and> r3 \<noteq> Panic \<longrightarrow>
      serves s s3 \<and> (u \<in> locks (volumeLocks s) \<longrightarrow> \<not> is_Ok r3 \<and>
        (s3 = s \<or> s3 = snd (in_world (hu_PathIsDevice (ne_os N) p) s)))) \<and>
   (NodePublishVolume N u c ctx src t ro s = (r4, s4) \<and> r4 \<noteq> Panic \<longrightarrow> serves s s4)"
proof (intro conjI impI; (elim conjE)?)
  assume "NodeStageVolume D N u t c ctx pctx s = (r1, s1)" "r1 \<noteq> Panic"
  then show "serves s s1" by (rule keepsD [OF keeps_stage])
next
  assume "NodeUnstageVolume N u t s = (r2, s2)" "r2 \<noteq> Panic"
  then show "serves s s2" by (rule keepsD [OF keeps_unstage])
next
  assume "NodeExpandVolume D N u p q c s = (r3, s3)" "r3 \<noteq> Panic"
  then show "serves s s3" by (rule keepsD [OF keeps_node_expand])
next
  assume "NodePublishVolume N u c ctx src t ro s = (r4, s4)" "r4 \<noteq> Panic"
  then show "serves s s4" by (rule keepsD [OF keeps_node_publish])
next
  assume "NodeStageVolume D N u t c ctx pctx s = (r1, s1)" "r1 \<noteq> Panic" "u \<in> locks (volumeLocks s)"
  then show "\<not> is_Ok r1" "s1 = s" unfolding NodeStageVolume_def
    by (cases "GetVolumeName u"; cases c; cases "check_capability ctx (the c)";
        auto dest!: with_volume_lock_held split: if_splits)+
next
  assume "NodeUnstageVolume N u t s = (r2, s2)" "r2 \<noteq> Panic" "u \<in> locks (volumeLocks s)"
  then show "\<not> is_Ok r2" "s2 = s" unfolding NodeUnstageVolume_def
    by (cases "GetVolumeName u"; auto dest!: with_volume_lock_held split: if_splits)+
next
  assume e: "NodeExpandVolume D N u p q c s = (r3, s3)" "r3 \<noteq> Panic" "u \<in> locks (volumeLocks s)"
  have "u \<in> locks (volumeLocks s')" if "in_world (hu_PathIsDevice (ne_os N) p) s = (r, s')" "r \<noteq> Panic" for r s'
    using keepsD [OF keeps_in_world that] e(3) by (simp add: serves_def)
  then show "\<not> is_Ok r3" "s3 = s \<or> s3 = snd (in_world (hu_PathIsDevice (ne_os N) p) s)"
    using e unfolding NodeExpandVolume_def Let_def
    by (cases "GetVolumeName u"; auto elim!: call_cases dest!: with_volume_lock_held split: if_splits)+
qed

section \<open>Only encrypted devices are formatted and mounted\<close>

text \<open>
  \<open>secure\<close> is a property of the node, for instance that every file system of a volume is on an
  encrypted device, and \<open>mapped\<close> says which devices are mapped encrypted ones. What the driver relies
  on: opening returns a mapped device; formatting and mounting a mapped device keeps the property;
  so do the other calls. Nothing is assumed of formatting or mounting any other device.
\<close>

definition secured :: "('w \<Rightarrow> bool) \<Rightarrow> 'w \<Rightarrow> 'w \<Rightarrow> bool" where
  "secured secure w w' \<longleftrightarrow> (secure w \<longrightarrow> secure w')"

definition encrypting_host :: "'w node_env \<Rightarrow> ('w \<Rightarrow> bool) \<Rightarrow> ('w \<Rightarrow> string \<Rightarrow> bool) \<Rightarrow> bool" where
  "encrypting_host N secure mapped \<longleftrightarrow>
     (let H = ne_os N; R = secured secure
      in (\<forall>src n i w dev w'. cm_OpenCryptDevice H src n i w = (Ok dev, w') \<longrightarrow> mapped w' dev) \<and>
         (\<forall>dev t fs o1 w r w'. secure w \<and> mapped w dev \<and> mnt_FormatAndMount H dev t fs o1 w = (r, w') \<longrightarrow> secure w') \<and>
         (\<forall>src n i. keeps R (cm_OpenCryptDevice H src n i)) \<and>
         (\<forall>p. keeps R (os_ReadDir H p)) \<and> (\<forall>p. keeps R (os_Readlink H p)) \<and>
         (\<forall>p v. keeps R (os_WriteFile H p v)) \<and> (\<forall>p. keeps R (os_ReadFile H p)) \<and>
         (\<forall>p. keeps R (os_MkdirAll H p)) \<and> (\<forall>k w. R w (os_Sleep H k w)) \<and>
         (\<forall>p w. R w (snd (mnt_IsLikelyNotMountPoint H p w))) \<and> keeps R (mnt_List H) \<and>
         (\<forall>p. keeps R (mnt_Unmount H p)) \<and> (\<forall>p. keeps R (mnt_PathExists H p)) \<and>
         (\<forall>d p. keeps R (mnt_Resize H d p)) \<and> (\<forall>d p. keeps R (mnt_NeedResize H d p)) \<and>
         (\<forall>p. keeps R (EvalSymlinks (ne_fs N) p)) \<and> (\<forall>p. keeps R (os_Create (ne_fs N) p)) \<and>
         (\<forall>v p. keeps R (exec_echo (ne_fs N) v p)))"

lemma secured_order [simp, intro]: "reflp (secured I)" "transp (secured I)"
  by (auto simp: reflp_def transp_def secured_def)

text \<open>The parts of the staging that do not format, for any relation the calls they make keep.\<close>

lemma keeps_ensureMountPoint:
  assumes R: "reflp R" "transp R" and "\<And>p w. R w (snd (mnt_IsLikelyNotMountPoint H p w))" "keeps R (mnt_List H)"
    "\<And>p. keeps R (os_ReadDir H p)" "keeps R (mnt_Unmount H t)" "\<And>p. keeps R (mnt_PathExists H p)"
    "\<And>p. keeps R (os_MkdirAll H p)"
  shows "keeps R (ensureMountPoint H t)"
proof -
  have m: "keeps R (mount_or_make H t b)" for b
    unfolding mount_or_make_def test_mount_link_def MakeDir_def using assms
    by (auto intro!: keeps_bind keeps_call keeps_ite)
  have c: "keeps R (bind (IsCorruptedDir H t) (\<lambda>corrupted. if corrupted then mount_or_make H t False else fail err))"
    for err unfolding IsCorruptedDir_def using R m assms(7) by (auto intro!: keeps_bind keeps_call keeps_ite)
  show ?thesis unfolding keeps_def
  proof (intro allI impI)
    fix w r w' assume e: "ensureMountPoint H t w = (r, w')" "r \<noteq> Panic"
    obtain b o1 w1 where 1: "mnt_IsLikelyNotMountPoint H t w = ((b, o1), w1)" by (metis prod.exhaust)
    have "R w w1" using assms(3) [of w t] 1 by simp
    moreover have "R w1 w'"
      using e 1 keepsD [OF m _ e(2)] keepsD [OF c _ e(2)]
      by (auto simp: ensureMountPoint_def split: option.splits if_splits)
    ultimately show "R w w'" using R(2) by (blast dest: transpD)
  qed
qed

lemma keeps_finding:
  assumes R: "reflp R" "transp R" and rd: "\<And>p. keeps R (os_ReadDir H p)" and rl: "\<And>p. keeps R (os_Readlink H p)"
    and rf: "\<And>p. keeps R (os_ReadFile H p)" and wf: "\<And>p v. keeps R (os_WriteFile H p v)"
    and sl: "\<And>k w. R w (os_Sleep H k w)"
  shows "keeps R (scsiHostRescan H)" "keeps R (poll_device H n lun)"
proof -
  have "keeps R (rescan_hosts H hs)" for hs
    using R wf by (induction hs) (auto intro!: keeps_call)
  then show "keeps R (scsiHostRescan H)" unfolding scsiHostRescan_def using R rd by (auto intro!: keeps_call)
  have lt: "keeps R (link_targets H d ns)" for d ns
    using R rl by (induction ns) (auto intro!: keeps_call keeps_bind)
  have la: "keeps R (list_azure_disks H ds)" for ds
    using R rd lt by (induction ds) (auto intro!: keeps_call keeps_bind)
  have fl: "keeps R (find_link H p dv ns)" for p dv ns
    using R rl by (induction ns) (auto intro!: keeps_call keeps_ite)
  have dp: "keeps R (device_path H dv)" for dv
    unfolding device_path_def getDiskLinkByDevName_def using R rd fl by (auto intro!: keeps_call)
  have fd: "keeps R (find_device H lun az ns)" for az ns
    using R rd rf dp unfolding attribute_is_def
    by (induction ns) (auto intro!: keeps_call keeps_bind keeps_ite simp: Let_def attribute_is_def split: list.split)
  have find: "keeps R (findDiskByLun H lun)"
    unfolding findDiskByLun_def listAzureDiskPath_def findDiskByLunWithConstraint_def
    using R la lt rd fd by (auto intro!: keeps_call keeps_bind)
  have sleep: "keeps R (\<lambda>w. (Ok (), os_Sleep H k w))" for k using sl by (auto simp: keeps_def)
  show "keeps R (poll_device H n lun)"
  proof (induction n)
    case 0
    show ?case using R find by (subst poll_device.simps) (auto intro!: keeps_call)
  next
    case (Suc n)
    show ?case by (subst poll_device.simps) (use R find sleep Suc in \<open>auto intro!: keeps_call keeps_bind keeps_ite\<close>)
  qed
qed

lemma keeps_tuning:
  assumes R: "reflp R" "transp R" and "\<And>p. keeps R (EvalSymlinks (ne_fs N) p)"
    "\<And>p. keeps R (os_Create (ne_fs N) p)" "\<And>v p. keeps R (exec_echo (ne_fs N) v p)"
  shows "keeps R (stage_tuning D N ctx source)"
proof -
  have "keeps R (apply_settings_loop (ne_fs N) ss)" for ss
  proof (induction ss)
    case (Cons kv ss)
    obtain k v where "kv = (k, v)" by fastforce
    with Cons show ?case unfolding echoToFile_def using assms
      by (auto intro!: keeps_call keeps_bind simp: echoToFile_def)
  qed (use R in simp)
  then show ?thesis
    unfolding stage_tuning_def OptimizeDiskPerformance_def getDeviceName_def applyDeviceSettings_def Let_def
    using assms by (auto intro!: keeps_call keeps_bind keeps_ite split: option.split)
qed

text \<open>A relation on the world, as one on the state of the driver.\<close>

definition on_worlds :: "('w \<Rightarrow> 'w \<Rightarrow> bool) \<Rightarrow> 'w driver \<Rightarrow> 'w driver \<Rightarrow> bool" where
  "on_worlds R s s' \<longleftrightarrow> R (world (diskController s)) (world (diskController s'))"

lemma on_worlds_order [intro]: "reflp R \<Longrightarrow> reflp (on_worlds R)" "transp R \<Longrightarrow> transp (on_worlds R)"
  unfolding reflp_def transp_def on_worlds_def by blast+

lemma in_world_run:
  "in_world m s = (case m (world (diskController s)) of (r, w) \<Rightarrow>
     (r, s\<lparr>diskController := (diskController s)\<lparr>world := w\<rparr>\<rparr>))"
  by (simp add: in_world_def on_controller_def on_world_def split: prod.splits)

lemma keeps_worlds [intro]: "keeps R m \<Longrightarrow> keeps (on_worlds R) (in_world m)"
  by (auto simp: keeps_def on_worlds_def in_world_run split: prod.splits)

lemma keeps_worlds_lock [intro]:
  assumes "reflp R" "keeps (on_worlds R) m"
  shows "keeps (on_worlds R) (with_volume_lock v m)"
  unfolding keeps_def
proof (intro allI impI)
  fix s r s' assume e: "with_volume_lock v m s = (r, s')" and r: "r \<noteq> Panic"
  from e show "on_worlds R s s'"
  proof (cases rule: with_volume_lock_cases)
    case 1
    then show ?thesis using assms(1) by (simp add: on_worlds_def reflp_def)
  next
    case (2 s1)
    with keepsD [OF assms(2) 2(2,3)] show ?thesis by (simp add: on_worlds_def)
  qed (use r in simp)
qed

lemma keeps_NodeStageVolume:
  assumes R: "reflp R" "transp R" and "\<And>n cap lun. keeps R (stage_lun D N n t cap ctx lun)"
  shows "keeps (on_worlds R) (NodeStageVolume D N u t c ctx pctx)"
  unfolding NodeStageVolume_def using assms on_worlds_order [of R]
  by (auto intro!: keeps_call keeps_bind keeps_ite keeps_worlds_lock keeps_worlds split: option.split)

lemma keeps_stage_resize:
  assumes "reflp R" "transp R" "\<And>d p. keeps R (mnt_Resize H d p)" "\<And>d p. keeps R (mnt_NeedResize H d p)"
  shows "keeps R (stage_resize H ctx dev t)"
  unfolding stage_resize_def resizeVolume_def needResizeVolume_def using assms
  by (auto intro!: keeps_call keeps_bind keeps_ite split: option.split)

lemma secured_stage_device:
  assumes h: "encrypting_host N secure mapped"
  shows "keeps (secured secure) (stage_device (ne_os N) n t cap ctx lun dev)"
  unfolding keeps_def
proof (intro allI impI)
  let ?H = "ne_os N"
  note d = h [unfolded encrypting_host_def Let_def]
  fix w r w' assume e: "stage_device ?H n t cap ctx lun dev w = (r, w')" and r: "r \<noteq> Panic"
  have rs: "keeps (secured secure) (stage_resize ?H ctx p t)" for p
    using d by (intro keeps_stage_resize) auto
  obtain fs0 opts where fs0: "stage_fs cap ctx = (fs0, opts)" by fastforce
  obtain fs i where fs: "cm_IsIntegrityFS ?H fs0 = (fs, i)" by fastforce
  have ko: "keeps (secured secure) (cm_OpenCryptDevice ?H (stage_source ctx dev) n i)" and
    om: "cm_OpenCryptDevice ?H (stage_source ctx dev) n i w = (Ok p, w1) \<Longrightarrow> mapped w1 p" and
    ff: "secure w1 \<Longrightarrow> mapped w1 p \<Longrightarrow> mnt_FormatAndMount ?H p t fs opts w1 = (r2, w2) \<Longrightarrow> secure w2"
    for p w1 r2 w2 using d by simp_all
  obtain r1 w1 where o: "cm_OpenCryptDevice ?H (stage_source ctx dev) n i w = (r1, w1)" by fastforce
  have op: "r1 \<noteq> Panic \<Longrightarrow> secured secure w w1"
    using keepsD [OF ko o] by blast
  show "secured secure w w'"
  proof (cases r1)
    case (Ok p)
    with om o have m: "mapped w1 p" by blast
    obtain r2 w2 where f: "mnt_FormatAndMount ?H p t fs opts w1 = (r2, w2)" by fastforce
    have "secured secure w1 w2" using ff m f by (auto simp: secured_def)
    moreover have "r2 = Ok x \<Longrightarrow> stage_resize ?H ctx p t w2 = (r, w') \<Longrightarrow> secured secure w2 w'" for x
      using keepsD [OF rs] r by blast
    ultimately show ?thesis
      using e op fs0 fs o f r Ok
      by (cases r2) (auto simp: stage_device_def Let_def formatAndMount_def call_def secured_def split: if_splits)
  qed (use e op fs0 fs o r in \<open>auto simp: stage_device_def Let_def call_def\<close>)
qed

text \<open>C10. A volume's file system is only ever made or mounted on the encrypted device. Take any property of
  the node that every call of the staging keeps, where formatting and mounting is only assumed to keep
  it for a device that the crypt mapper has just opened: then staging a volume keeps it, whether it
  succeeds or fails. A staging that formatted or mounted the disk itself would not.\<close>

theorem stage_only_encrypted:
  assumes "encrypting_host N secure mapped" "secure (world (diskController s))"
    "NodeStageVolume D N u t c ctx pctx s = (r, s')" "r \<noteq> Panic"
  shows "secure (world (diskController s'))"
proof -
  note d = assms(1) [unfolded encrypting_host_def Let_def]
  let ?R = "secured secure"
  have "keeps ?R (ensureMountPoint (ne_os N) t)" using d by (intro keeps_ensureMountPoint) auto
  moreover have "keeps ?R (getDevicePathWithLUN N lun)" for lun
    unfolding getDevicePathWithLUN_def using d by (intro keeps_bind keeps_finding keeps_return) auto
  moreover have "keeps ?R (stage_tuning D N ctx src)" for src using d by (intro keeps_tuning) auto
  ultimately have "keeps ?R (stage_lun D N n t cap ctx lun)" for n cap lun
    unfolding stage_lun_def using secured_stage_device [OF assms(1)]
    by (intro keeps_call keeps_bind keeps_ite keeps_return) auto
  then have "keeps (on_worlds ?R) (NodeStageVolume D N u t c ctx pctx)" by (intro keeps_NodeStageVolume) auto
  from keepsD [OF this assms(3,4)] assms(2) show ?thesis by (simp add: on_worlds_def secured_def)
qed

section \<open>The life cycle of a volume on a node\<close>

text \<open>
  The abstract node: the paths something is mounted at and the names of the open encrypted devices.
  Staging opens the device of the volume and mounts it; unstaging undoes both; publishing and
  unpublishing change one mount.
\<close>

record node_view =
  nv_mounts :: "string set"
  nv_open :: "string set"

definition abs_mount :: "string \<Rightarrow> node_view \<Rightarrow> node_view" where
  "abs_mount t v = v\<lparr>nv_mounts := insert t (nv_mounts v)\<rparr>"

definition abs_unmount :: "string \<Rightarrow> node_view \<Rightarrow> node_view" where
  "abs_unmount t v = v\<lparr>nv_mounts := nv_mounts v - {t}\<rparr>"

definition abs_open :: "string \<Rightarrow> node_view \<Rightarrow> node_view" where
  "abs_open n v = v\<lparr>nv_open := insert n (nv_open v)\<rparr>"

definition abs_close :: "string \<Rightarrow> node_view \<Rightarrow> node_view" where
  "abs_close n v = v\<lparr>nv_open := nv_open v - {n}\<rparr>"

definition abs_stage :: "string \<Rightarrow> string \<Rightarrow> bool \<Rightarrow> node_view \<Rightarrow> node_view" where
  "abs_stage n t block v =
     (if t \<in> nv_mounts v then v
      else if block then abs_open n v else abs_mount t (abs_open n v))"

definition abs_unstage :: "string \<Rightarrow> string \<Rightarrow> node_view \<Rightarrow> node_view" where
  "abs_unstage n t v = abs_close n (abs_unmount t v)"

text \<open>A step of a call: what its view is when it succeeds; a failed call changes nothing.\<close>

definition effect :: "('w \<Rightarrow> node_view) \<Rightarrow> (node_view \<Rightarrow> node_view) \<Rightarrow> ('w, 'a) io \<Rightarrow> bool" where
  "effect view f m \<longleftrightarrow>
     (\<forall>w r w'. m w = (r, w') \<longrightarrow> r \<noteq> Panic \<longrightarrow> view w' = (if is_Ok r then f (view w) else view w))"

definition same_view :: "('w \<Rightarrow> node_view) \<Rightarrow> 'w \<Rightarrow> 'w \<Rightarrow> bool" where
  "same_view view w w' \<longleftrightarrow> view w' = view w"

text \<open>
  What the driver relies on: mounting, unmounting, opening and closing have their effect; the other
  calls change neither mounts nor devices; the table of mounts is the truth; a path that is said to be
  a mount point, or a corrupted mount, is one.
\<close>

definition tracking_host :: "'w node_env \<Rightarrow> ('w \<Rightarrow> node_view) \<Rightarrow> bool" where
  "tracking_host N view \<longleftrightarrow>
     (let H = ne_os N; R = same_view view
      in (\<forall>d t fs o1. effect view (abs_mount t) (mnt_FormatAndMount H d t fs o1)) \<and>
         (\<forall>d t fs o1. effect view (abs_mount t) (mnt_Mount H d t fs o1)) \<and>
         (\<forall>t. effect view (abs_unmount t) (mnt_Unmount H t)) \<and>
         (\<forall>t b. effect view (abs_unmount t) (mnt_CleanupMountPoint H t b)) \<and>
         (\<forall>src n i. effect view (abs_open n) (cm_OpenCryptDevice H src n i)) \<and>
         (\<forall>n. effect view (abs_close n) (cm_CloseCryptDevice H n)) \<and>
         (\<forall>w l w'. mnt_List H w = (Ok l, w') \<longrightarrow> set l = nv_mounts (view w)) \<and>
         (\<forall>t w e w'. mnt_IsLikelyNotMountPoint H t w = ((False, e), w') \<longrightarrow> t \<in> nv_mounts (view w)) \<and>
         (\<forall>t w e w'. mnt_PathExists H t w = (Err e, w') \<and> mnt_IsCorruptedMnt H e \<longrightarrow> t \<in> nv_mounts (view w)) \<and>
         (\<forall>p. keeps R (os_ReadDir H p)) \<and> (\<forall>p. keeps R (os_Readlink H p)) \<and>
         (\<forall>p v. keeps R (os_WriteFile H p v)) \<and> (\<forall>p. keeps R (os_ReadFile H p)) \<and>
         (\<forall>p. keeps R (os_MkdirAll H p)) \<and> (\<forall>k w. R w (os_Sleep H k w)) \<and>
         (\<forall>p w. R w (snd (mnt_IsLikelyNotMountPoint H p w))) \<and> keeps R (mnt_List H) \<and>
         (\<forall>p. keeps R (mnt_PathExists H p)) \<and> (\<forall>p. keeps R (os_OpenFile H p)) \<and>
         (\<forall>p. keeps R (os_Close H p)) \<and> (\<forall>p. keeps R (os_Remove H p)) \<and>
         (\<forall>d p. keeps R (mnt_Resize H d p)) \<and> (\<forall>d p. keeps R (mnt_NeedResize H d p)) \<and>
         (\<forall>p. keeps R (EvalSymlinks (ne_fs N) p)) \<and> (\<forall>p. keeps R (os_Create (ne_fs N) p)) \<and>
         (\<forall>v p. keeps R (exec_echo (ne_fs N) v p)))"

lemma same_view_order [simp, intro]: "reflp (same_view v)" "transp (same_view v)"
  by (auto simp: reflp_def transp_def same_view_def)

lemma effect_Ok: "effect view f m \<Longrightarrow> m w = (Ok x, w') \<Longrightarrow> view w' = f (view w)"
  by (force simp: effect_def)

lemma same_view_Ok: "keeps (same_view view) m \<Longrightarrow> m w = (Ok x, w') \<Longrightarrow> view w' = view w"
  by (force simp: keeps_def same_view_def)

lemma tracking_hostD:
  assumes "tracking_host N view"
  shows "effect view (abs_mount t) (mnt_FormatAndMount (ne_os N) dv t fs o1)"
    "effect view (abs_mount t) (mnt_Mount (ne_os N) dv t fs o1)"
    "effect view (abs_unmount t) (mnt_CleanupMountPoint (ne_os N) t b)"
    "effect view (abs_open n) (cm_OpenCryptDevice (ne_os N) src n i)"
    "effect view (abs_close n) (cm_CloseCryptDevice (ne_os N) n)"
    "mnt_List (ne_os N) w = (Ok l, w') \<Longrightarrow> set l = nv_mounts (view w)"
    "mnt_IsLikelyNotMountPoint (ne_os N) t w = ((False, e), w') \<Longrightarrow> t \<in> nv_mounts (view w)"
    "mnt_PathExists (ne_os N) t w = (Err er, w') \<Longrightarrow> mnt_IsCorruptedMnt (ne_os N) er \<Longrightarrow> t \<in> nv_mounts (view w)"
    "same_view view w (snd (mnt_IsLikelyNotMountPoint (ne_os N) t w))"
    "effect view (abs_unmount t) (mnt_Unmount (ne_os N) t)"
  using assms by (simp_all add: tracking_host_def Let_def)

lemma tracking_host_keeps:
  assumes "tracking_host N view"
  shows "keeps (same_view view) (mnt_List (ne_os N))" "keeps (same_view view) (os_ReadDir (ne_os N) p)"
    "keeps (same_view view) (os_MkdirAll (ne_os N) p)" "keeps (same_view view) (mnt_PathExists (ne_os N) p)"
    "keeps (same_view view) (getDevicePathWithLUN N lun)" "keeps (same_view view) (stage_tuning D N ctx src)"
    "keeps (same_view view) (stage_resize (ne_os N) ctx src p)" "keeps (same_view view) (MakeFile (ne_os N) p)"
    "keeps (same_view view) (os_Remove (ne_os N) p)"
proof -
  note d = assms [unfolded tracking_host_def Let_def]
  show "keeps (same_view view) (getDevicePathWithLUN N lun)"
    unfolding getDevicePathWithLUN_def using d by (intro keeps_bind keeps_finding keeps_return) auto
  show "keeps (same_view view) (stage_tuning D N ctx src)" using d by (intro keeps_tuning) auto
  show "keeps (same_view view) (stage_resize (ne_os N) ctx src p)" using d by (intro keeps_stage_resize) auto
  show "keeps (same_view view) (MakeFile (ne_os N) p)"
    unfolding MakeFile_def using d by (intro keeps_call keeps_return) auto
qed (use assms in \<open>simp_all add: tracking_host_def Let_def\<close>)

lemma mount_or_make_view:
  assumes h: "tracking_host N view" and e: "mount_or_make (ne_os N) t b w = (Ok mnt, w')"
  shows "view w' = view w" "filepath_Abs (os_workdir (ne_os N)) t = Ok t \<Longrightarrow>
    (\<not> b \<Longrightarrow> t \<in> nv_mounts (view w)) \<Longrightarrow> mnt = (t \<in> nv_mounts (view w))"
proof -
  obtain l w1 ta where l: "mnt_List (ne_os N) w = (Ok l, w1)" "filepath_Abs (os_workdir (ne_os N)) t = Ok ta"
    "(if \<not> b \<or> ta \<in> set l then test_mount_link (ne_os N) t else bind (MakeDir (ne_os N) t) (\<lambda>_. ret False)) w1 = (Ok mnt, w')"
    using e unfolding mount_or_make_def
    by (cases "filepath_Abs (os_workdir (ne_os N)) t") (auto elim!: bind_OkE)
  note kl = tracking_host_keeps [OF h]
  note sl = tracking_hostD(6) [OF h l(1)]
  have "view w' = view w1 \<and> mnt = (\<not> b \<or> ta \<in> set l)"
  proof (cases "\<not> b \<or> ta \<in> set l")
    case True
    then have "test_mount_link (ne_os N) t w1 = (Ok mnt, w')" using l(3) by presburger
    then obtain ds where "os_ReadDir (ne_os N) t w1 = (Ok ds, w')" "mnt"
      unfolding test_mount_link_def by (auto elim!: call_cases)
    then show ?thesis using same_view_Ok [OF kl(2)] True by simp
  next
    case False
    then have 1: "bind (MakeDir (ne_os N) t) (\<lambda>_. ret False) w1 = (Ok mnt, w')" using l(3) by presburger
    have "keeps (same_view view) (bind (MakeDir (ne_os N) t) (\<lambda>_. ret False))"
      unfolding MakeDir_def using kl(3) by (auto intro!: keeps_bind keeps_call keeps_ite)
    from same_view_Ok [OF this 1] 1 False show ?thesis by (auto elim!: bind_OkE)
  qed
  moreover have "view w1 = view w" using same_view_Ok [OF kl(1) l(1)] .
  ultimately show "view w' = view w" "filepath_Abs (os_workdir (ne_os N)) t = Ok t \<Longrightarrow>
    (\<not> b \<Longrightarrow> t \<in> nv_mounts (view w)) \<Longrightarrow> mnt = (t \<in> nv_mounts (view w))"
    using sl l(2) by auto
qed

lemma ensureMountPoint_view:
  assumes h: "tracking_host N view" and e: "ensureMountPoint (ne_os N) t w = (Ok mnt, w')"
  shows "view w' = view w" "filepath_Abs (os_workdir (ne_os N)) t = Ok t \<Longrightarrow> mnt = (t \<in> nv_mounts (view w))"
proof -
  obtain b o1 w1 where 1: "mnt_IsLikelyNotMountPoint (ne_os N) t w = ((b, o1), w1)" by (metis prod.exhaust)
  have v1: "view w1 = view w" using tracking_hostD(9) [OF h, of w t] by (simp add: 1 same_view_def)
  have n: "\<not> b \<Longrightarrow> t \<in> nv_mounts (view w1)" using tracking_hostD(7) [OF h] 1 v1 by auto
  consider "mount_or_make (ne_os N) t b w1 = (Ok mnt, w')"
    | err where "bind (IsCorruptedDir (ne_os N) t)
        (\<lambda>corrupted. if corrupted then mount_or_make (ne_os N) t False else fail err) w1 = (Ok mnt, w')"
    using e 1 by (auto simp: ensureMountPoint_def split: option.splits if_splits)
  then have "view w' = view w \<and> (filepath_Abs (os_workdir (ne_os N)) t = Ok t \<longrightarrow> mnt = (t \<in> nv_mounts (view w)))"
  proof cases
    case 1
    from mount_or_make_view [OF h 1] n v1 show ?thesis by simp
  next
    case (2 err)
    then obtain w2 where c: "IsCorruptedDir (ne_os N) t w1 = (Ok True, w2)"
      "mount_or_make (ne_os N) t False w2 = (Ok mnt, w')" by (auto elim!: bind_OkE split: if_splits)
    then obtain er where pe: "mnt_PathExists (ne_os N) t w1 = (Err er, w2)" "mnt_IsCorruptedMnt (ne_os N) er"
      unfolding IsCorruptedDir_def by (auto elim!: call_cases)
    have tm: "t \<in> nv_mounts (view w1)" using tracking_hostD(8) [OF h pe] .
    have "view w2 = view w1" using keepsD [OF tracking_host_keeps(4) [OF h] pe(1)] by (simp add: same_view_def)
    with mount_or_make_view [OF h c(2)] tm v1 show ?thesis by simp
  qed
  then show "view w' = view w" "filepath_Abs (os_workdir (ne_os N)) t = Ok t \<Longrightarrow> mnt = (t \<in> nv_mounts (view w))"
    by simp_all
qed

text \<open>Staging, on success and otherwise: what a failed call leaves differs at most at the target and
  the name of its own volume.\<close>

definition frame :: "('w \<Rightarrow> node_view) \<Rightarrow> string \<Rightarrow> string \<Rightarrow> 'w \<Rightarrow> 'w \<Rightarrow> bool" where
  "frame view n t w w' \<longleftrightarrow>
     nv_mounts (view w') - {t} = nv_mounts (view w) - {t} \<and> nv_open (view w') - {n} = nv_open (view w) - {n}"

lemma frame_order [simp, intro]: "reflp (frame v n t)" "transp (frame v n t)"
  by (auto simp: reflp_def transp_def frame_def)

lemma frame_same_view: "keeps (same_view view) m \<Longrightarrow> keeps (frame view n t) m"
  by (auto simp: keeps_def same_view_def frame_def)

lemma frame_effects:
  "effect view (abs_mount t) m \<Longrightarrow> keeps (frame view n t) m"
  "effect view (abs_unmount t) m' \<Longrightarrow> keeps (frame view n t) m'"
  "effect view (abs_open n) m'' \<Longrightarrow> keeps (frame view n t) m''"
  unfolding keeps_def effect_def frame_def abs_mount_def abs_unmount_def abs_open_def
  by (intro allI impI, (drule spec)+, (drule mp, assumption)+, auto)+

lemma stage_frame:
  assumes h: "tracking_host N view"
  shows "keeps (frame view n t) (stage_lun D N n t c ctx lun)"
proof -
  note k = tracking_host_keeps [OF h, THEN frame_same_view]
  have "frame view n t w (snd (mnt_IsLikelyNotMountPoint (ne_os N) p w))" for w p
    using tracking_hostD(9) [OF h] by (simp add: same_view_def frame_def)
  then have "keeps (frame view n t) (ensureMountPoint (ne_os N) t)"
    using k frame_effects(2) [OF tracking_hostD(10) [OF h]] by (intro keeps_ensureMountPoint) auto
  moreover have "keeps (frame view n t) (stage_device (ne_os N) n t c ctx lun dev)" for dev
    unfolding stage_device_def Let_def formatAndMount_def
    using frame_effects(1) [OF tracking_hostD(1) [OF h]] frame_effects(3) [OF tracking_hostD(4) [OF h]] k(7)
    by (auto intro!: keeps_call keeps_ite split: prod.split)
  ultimately show ?thesis unfolding stage_lun_def using k(5,6)
    by (intro keeps_call keeps_bind keeps_ite keeps_return) auto
qed

lemma stage_view:
  assumes h: "tracking_host N view" and t: "filepath_Abs (os_workdir (ne_os N)) t = Ok t"
    and e: "stage_lun D N n t c ctx lun w = (Ok x, w')"
  shows "view w' = abs_stage n t (GetBlock c) (view w)"
proof -
  note k = tracking_host_keeps [OF h, THEN same_view_Ok]
  obtain src w1 w2 mnt w3 where 1: "getDevicePathWithLUN N lun w = (Ok src, w1)"
    "stage_tuning D N ctx src w1 = (Ok (), w2)" "ensureMountPoint (ne_os N) t w2 = (Ok mnt, w3)"
    "if mnt then w' = w3 else stage_device (ne_os N) n t c ctx lun src w3 = (Ok x, w')"
    using e unfolding stage_lun_def by (auto elim!: call_cases bind_OkE split: if_splits)
  have v: "view w3 = view w" "mnt = (t \<in> nv_mounts (view w))"
    using k(5) [OF 1(1)] k(6) [OF 1(2)] ensureMountPoint_view [OF h 1(3)] t by simp_all
  show ?thesis
  proof (cases mnt)
    case True
    with 1(4) v show ?thesis by (simp add: abs_stage_def)
  next
    case False
    then obtain fs opts src' i dev w4 where o: "cm_OpenCryptDevice (ne_os N) src' n i w3 = (Ok dev, w4)"
      "if GetBlock c then w' = w4 else (\<exists>w5. mnt_FormatAndMount (ne_os N) dev t fs opts w4 = (Ok (), w5) \<and>
         stage_resize (ne_os N) ctx dev t w5 = (Ok x, w'))"
      using 1(4) unfolding stage_device_def Let_def formatAndMount_def
      by (auto elim!: call_cases split: prod.splits if_splits) blast
    have "view w4 = abs_open n (view w)" using effect_Ok [OF tracking_hostD(4) [OF h] o(1)] v by simp
    with o(2) effect_Ok [OF tracking_hostD(1) [OF h]] k(7) v False show ?thesis
      by (fastforce simp: abs_stage_def split: if_splits)
  qed
qed

lemma publish_mount_view:
  assumes "tracking_host N view" "publish_mount (ne_os N) sr t opts w1 = (Ok y, w2)"
  shows "view w2 = abs_mount t (view w1)"
  using assms(2) effect_Ok [OF tracking_hostD(2) [OF assms(1)]] unfolding publish_mount_def by (auto elim!: call_cases)

lemma block_target_view:
  assumes "tracking_host N view" "ensureBlockTargetFile (ne_os N) t w1 = (Ok y, w2)"
  shows "view w2 = view w1"
proof -
  obtain mnt w3 where "ensureMountPoint (ne_os N) (filepath_Dir t) w1 = (Ok mnt, w3)"
    "MakeFile (ne_os N) t w3 = (Ok (), w2)"
    using assms(2) unfolding ensureBlockTargetFile_def Let_def by (auto elim!: call_cases)
  then show ?thesis
    using ensureMountPoint_view(1) [OF assms(1)] same_view_Ok [OF tracking_host_keeps(8) [OF assms(1)]] by simp
qed

lemma publish_view:
  assumes h: "tracking_host N view" and t: "filepath_Abs (os_workdir (ne_os N)) t = Ok t"
    and e: "publish_target (ne_os N) u src t c opts w = (Ok x, w')"
  shows "view w' = abs_mount t (view w)"
proof -
  note pm = publish_mount_view [OF h] and bt = block_target_view [OF h]
  show ?thesis
  proof (cases "cap_AccessType c")
    case None
    with e pm show ?thesis by (simp add: publish_target_def)
  next
    case (Some a)
    show ?thesis
    proof (cases a)
      case Block
      with e Some pm bt show ?thesis
        by (cases "GetVolumeName u") (auto simp: publish_target_def elim!: call_cases)
    next
      case (Mount m)
      with e Some obtain mnt w1 where 1: "ensureMountPoint (ne_os N) t w = (Ok mnt, w1)"
        "(if mnt then ret () else publish_mount (ne_os N) src t opts) w1 = (Ok x, w')"
        by (auto simp: publish_target_def elim!: call_cases)
      note v = ensureMountPoint_view [OF h 1(1)]
      show ?thesis using 1(2) v(1) v(2) [OF t] pm by (auto simp: abs_mount_def insert_absorb split: if_splits)
    qed
  qed
qed

lemma unstage_view:
  assumes h: "tracking_host N view" and e: "unstage_device (ne_os N) n t w = (Ok x, w')"
  shows "view w' = abs_unstage n t (view w)"
proof -
  obtain w1 where 1: "mnt_CleanupMountPoint (ne_os N) t True w = (Ok (), w1)"
    and 2: "cm_CloseCryptDevice (ne_os N) n w1 = (Ok (), w')"
    using e unfolding unstage_device_def CleanupMountPoint_def by (auto elim!: call_cases)
  from effect_Ok [OF tracking_hostD(3) [OF h] 1] effect_Ok [OF tracking_hostD(5) [OF h] 2]
  show ?thesis by (simp add: abs_unstage_def)
qed

definition driver_view :: "('w \<Rightarrow> node_view) \<Rightarrow> 'w driver \<Rightarrow> node_view" where
  "driver_view view s = view (world (diskController s))"

lemma locked_world_run:
  assumes "with_volume_lock v (in_world m) s = (Ok x, s')"
  obtains w' where "m (world (diskController s)) = (Ok x, w')" "world (diskController s') = w'"
  using assms by (cases rule: with_volume_lock_cases) (auto simp: in_world_run split: prod.splits)

text \<open>C11. The node service implements the life cycle of a volume. On a host whose mounts and encrypted
  devices change as its calls say, seen through a view of the two: a successful staging is the abstract
  one (nothing when the target is mounted already, otherwise the device of the volume's name is open
  and, for a file system, mounted at the target), a successful unstaging unmounts the target and closes
  the device, publishing mounts the target and unpublishing unmounts it. A staging that fails touches
  no mount but the target's and no device but the volume's.\<close>

theorem node_lifecycle_refinement:
  assumes "tracking_host N view" "filepath_Abs (os_workdir (ne_os N)) t = Ok t" "GetVolumeName u = Ok n"
  shows
    "(NodeStageVolume D N u t (Some c) ctx pctx s = (Ok (), s1) \<longrightarrow>
        driver_view view s1 = abs_stage n t (GetBlock c) (driver_view view s)) \<and>
     (NodeUnstageVolume N u t s = (Ok (), s2) \<longrightarrow> driver_view view s2 = abs_unstage n t (driver_view view s)) \<and>
     (NodePublishVolume N u (Some c) ctx src t ro s = (Ok (), s3) \<longrightarrow>
        driver_view view s3 = abs_mount t (driver_view view s)) \<and>
     (NodeUnpublishVolume N u t s = (Ok (), s4) \<longrightarrow> driver_view view s4 = abs_unmount t (driver_view view s)) \<and>
     (NodeStageVolume D N u t (Some c) ctx pctx s = (Err e, s5) \<longrightarrow>
        frame view n t (world (diskController s)) (world (diskController s5)))"
proof (intro conjI impI)
  assume "NodeStageVolume D N u t (Some c) ctx pctx s = (Ok (), s1)"
  then obtain lun where "with_volume_lock u (in_world (stage_lun D N n t c ctx lun)) s = (Ok (), s1)"
    using assms(3) unfolding NodeStageVolume_def
    by (cases "map_of pctx LUN")
       (auto elim!: bind_OkE split: if_splits elim: with_volume_lock_cases)
  then show "driver_view view s1 = abs_stage n t (GetBlock c) (driver_view view s)"
    unfolding driver_view_def using stage_view [OF assms(1,2)] by (blast elim: locked_world_run)
next
  assume "NodeUnstageVolume N u t s = (Ok (), s2)"
  then have "with_volume_lock u (in_world (unstage_device (ne_os N) n t)) s = (Ok (), s2)"
    using assms(3) unfolding NodeUnstageVolume_def by (auto split: if_splits)
  then show "driver_view view s2 = abs_unstage n t (driver_view view s)"
    unfolding driver_view_def using unstage_view [OF assms(1)] by (blast elim: locked_world_run)
next
  assume "NodePublishVolume N u (Some c) ctx src t ro s = (Ok (), s3)"
  then show "driver_view view s3 = abs_mount t (driver_view view s)"
    using publish_view [OF assms(1,2)] unfolding NodePublishVolume_def preparePublishPath_def driver_view_def
    by (auto elim!: bind_OkE simp: in_world_run split: if_splits prod.splits)
next
  assume "NodeUnpublishVolume N u t s = (Ok (), s4)"
  then show "driver_view view s4 = abs_unmount t (driver_view view s)"
    using effect_Ok [OF tracking_hostD(3) [OF assms(1)]] unfolding NodeUnpublishVolume_def CleanupMountPoint_def driver_view_def
    by (fastforce elim!: call_cases simp: in_world_run split: if_splits prod.splits)
next
  assume e: "NodeStageVolume D N u t (Some c) ctx pctx s = (Err e, s5)"
  have "keeps (on_worlds (frame view n t)) (NodeStageVolume D N u t (Some c) ctx pctx)"
    unfolding NodeStageVolume_def assms(3) using stage_frame [OF assms(1)] on_worlds_order [of "frame view n t"]
    by (auto intro!: keeps_call keeps_bind keeps_ite keeps_worlds_lock keeps_worlds split: option.split)
  from keepsD [OF this e] show "frame view n t (world (diskController s)) (world (diskController s5))"
    by (simp add: on_worlds_def)
qed

section \<open>A host\<close>

text \<open>A host with one disk on LUN 1, its mounts with their devices, the open encrypted
  devices, and the pauses it has seen.\<close>

record sim_node =
  sn_mounts :: "(string \<times> string) list"
  sn_open :: "string list"
  sn_pauses :: nat

definition sim_ReadDir :: "string \<Rightarrow> string list res" where
  "sim_ReadDir p =
     (if p = ''/sys/bus/scsi/devices'' then Ok [''4:0:0:1'']
      else if p = ''/sys/bus/scsi/devices/4:0:0:1/block'' then Ok [''sdc'']
      else Err (Errorf ''no such directory''))"

definition sim_ReadFile :: "string \<Rightarrow> string res" where
  "sim_ReadFile p = Ok (if HasSuffix p ''vendor'' then ''Msft'' else ''Virtual Disk'')"

definition sim_os :: "sim_node node_os" where
  "sim_os = \<lparr>os_ReadDir = (\<lambda>p. lift (sim_ReadDir p)), os_Readlink = (\<lambda>p. fail (Errorf ''no link'')),
     os_WriteFile = (\<lambda>p v. ret ()), os_ReadFile = (\<lambda>p. lift (sim_ReadFile p)), os_Stat = (\<lambda>p. ret ()),
     os_MkdirAll = (\<lambda>p. ret ()), os_OpenFile = (\<lambda>p. ret ()), os_Close = (\<lambda>p. ret ()), os_Remove = (\<lambda>p. ret ()),
     os_IsNotExist = (\<lambda>e. False), os_IsExist = (\<lambda>e. False), os_workdir = Ok ''/'', os_Sleep = (\<lambda>k w. w\<lparr>sn_pauses := Suc (sn_pauses w)\<rparr>),
     mnt_IsLikelyNotMountPoint = (\<lambda>t w. ((t \<notin> set (map fst (sn_mounts w)), None), w)),
     mnt_List = (\<lambda>w. (Ok (map fst (sn_mounts w)), w)),
     mnt_Mount = (\<lambda>d t fs o1 w. (Ok (), w\<lparr>sn_mounts := (t, d) # sn_mounts w\<rparr>)),
     mnt_Unmount = (\<lambda>t w. (Ok (), w\<lparr>sn_mounts := filter (\<lambda>m. fst m \<noteq> t) (sn_mounts w)\<rparr>)),
     mnt_FormatAndMount = (\<lambda>d t fs o1 w. (Ok (), w\<lparr>sn_mounts := (t, d) # sn_mounts w\<rparr>)),
     mnt_CleanupMountPoint = (\<lambda>t b w. (Ok (), w\<lparr>sn_mounts := filter (\<lambda>m. fst m \<noteq> t) (sn_mounts w)\<rparr>)),
     mnt_PathExists = (\<lambda>p. ret True), mnt_IsCorruptedMnt = (\<lambda>e. False),
     mnt_Resize = (\<lambda>d p. ret True), mnt_NeedResize = (\<lambda>d p. ret False),
     exec_Output = (\<lambda>c as w. ((''9'', None), w)), hu_PathIsDevice = (\<lambda>p. ret False),
     vol_GetMetrics = (\<lambda>p. fail (Errorf ''no metrics'')),
     cm_OpenCryptDevice = (\<lambda>src n i w. (Ok (''/dev/mapper/'' @ n), w\<lparr>sn_open := n # sn_open w\<rparr>)),
     cm_CloseCryptDevice = (\<lambda>n w. (Ok (), w\<lparr>sn_open := removeAll n (sn_open w)\<rparr>)),
     cm_ResizeCryptDevice = (\<lambda>n. ret (''/dev/mapper/'' @ n)), cm_GetDevicePath = (\<lambda>n. ret (''/dev/sdc'')),
     cm_IsIntegrityFS = (\<lambda>fs. (fs, False))\<rparr>"

definition sim_env :: "sim_node node_env" where
  "sim_env = \<lparr>ne_os = sim_os,
     ne_fs = \<lparr>EvalSymlinks = (\<lambda>p. ret p), os_Create = (\<lambda>p. ret ()), exec_echo = (\<lambda>v p. ret ()), os_Getwd = Ok ''/''\<rparr>,
     ne_nodeInfo = None, ne_polls = 1, ne_GetZone = ret ''eastus-1'', ne_UseInstanceMetadata = False,
     ne_Metadata = None, ne_Instances = Some (\<lambda>n. ret ''Standard_D2s_v3''), ne_LUKSHeaderSize = 16777216\<rparr>"

definition sim_secure :: "sim_node \<Rightarrow> bool" where
  "sim_secure w \<longleftrightarrow> list_all (\<lambda>(t, d). HasPrefix d ''/dev/mapper/'') (sn_mounts w)"

definition sim_view :: "sim_node \<Rightarrow> node_view" where
  "sim_view w = \<lparr>nv_mounts = set (map fst (sn_mounts w)), nv_open = set (sn_open w)\<rparr>"

lemma sim_encrypting: "encrypting_host sim_env sim_secure (\<lambda>w d. HasPrefix d ''/dev/mapper/'')"
  by (auto simp: encrypting_host_def sim_env_def sim_os_def sim_secure_def secured_def keeps_def list_all_iff
      HasPrefix_def)

lemma sim_tracking: "tracking_host sim_env sim_view"
  by (auto simp: tracking_host_def sim_env_def sim_os_def sim_view_def same_view_def keeps_def effect_def
      abs_mount_def abs_unmount_def abs_open_def abs_close_def)

definition sim_start :: sim_node where
  "sim_start = \<lparr>sn_mounts = [], sn_open = [], sn_pauses = 0\<rparr>"

definition sim_driver :: "sim_node driver" where
  "sim_driver = new_driver driver1 sim_start"

definition sim_uri :: string where
  "sim_uri = managedDiskPath ''s'' ''g'' ''d''"

definition sim_cap :: volume_capability where
  "sim_cap = \<lparr>cap_AccessType = Some (Mount \<lparr>mnt_FsType = [], mnt_MountFlags = []\<rparr>),
     cap_AccessMode = Some SINGLE_NODE_WRITER\<rparr>"

lemma sim_stage:
  obtains s' where "NodeStageVolume driver1 sim_env sim_uri ''/stage'' (Some sim_cap) [] [(LUN, ''1'')] sim_driver = (Ok (), s')"
    "sn_mounts (world (diskController s')) = [(''/stage'', ''/dev/mapper/d'')]"
proof -
  let ?r = "NodeStageVolume driver1 sim_env sim_uri ''/stage'' (Some sim_cap) [] [(LUN, ''1'')] sim_driver"
  have "fst ?r = Ok ()" "sn_mounts (world (diskController (snd ?r))) = [(''/stage'', ''/dev/mapper/d'')]" by code_simp+
  then show thesis using that by (cases ?r) auto
qed

theorem stage_only_encrypted_witness:
  "\<exists>s'. NodeStageVolume driver1 sim_env sim_uri ''/stage'' (Some sim_cap) [] [(LUN, ''1'')] sim_driver = (Ok (), s') \<and>
     sim_secure (world (diskController s')) \<and> sn_mounts (world (diskController s')) \<noteq> []"
proof -
  obtain s' where s: "NodeStageVolume driver1 sim_env sim_uri ''/stage'' (Some sim_cap) [] [(LUN, ''1'')] sim_driver = (Ok (), s')"
    "sn_mounts (world (diskController s')) = [(''/stage'', ''/dev/mapper/d'')]" by (rule sim_stage)
  have "sim_secure (world (diskController sim_driver))" by code_simp
  from stage_only_encrypted [OF sim_encrypting this s(1)] s show ?thesis by auto
qed

theorem node_lifecycle_refinement_witness:
  "\<exists>s'. NodeStageVolume driver1 sim_env sim_uri ''/stage'' (Some sim_cap) [] [(LUN, ''1'')] sim_driver = (Ok (), s') \<and>
     driver_view sim_view s' = \<lparr>nv_mounts = {''/stage''}, nv_open = {''d''}\<rparr>"
proof -
  obtain s' where s: "NodeStageVolume driver1 sim_env sim_uri ''/stage'' (Some sim_cap) [] [(LUN, ''1'')] sim_driver = (Ok (), s')"
    by (rule sim_stage)
  have 1: "filepath_Abs (os_workdir (ne_os sim_env)) ''/stage'' = Ok ''/stage''" by code_simp
  have 2: "GetVolumeName sim_uri = Ok ''d''" by code_simp
  have 3: "driver_view sim_view sim_driver = \<lparr>nv_mounts = {}, nv_open = {}\<rparr>" "\<not> GetBlock sim_cap"
    by (simp_all add: driver_view_def sim_view_def sim_driver_def sim_start_def new_driver_def NewManagedDiskController_def
        sim_cap_def GetBlock_def)
  from node_lifecycle_refinement [OF sim_tracking 1 2] s
  have "driver_view sim_view s' = abs_stage ''d'' ''/stage'' (GetBlock sim_cap) (driver_view sim_view sim_driver)" by blast
  with s 3 show ?thesis by (simp add: abs_stage_def abs_mount_def abs_open_def)
qed

theorem node_operations_exclusive_witness:
  "\<exists>r s'. NodeUnstageVolume sim_env sim_uri ''/stage''
      (sim_driver\<lparr>volumeLocks := \<lparr>locks = {sim_uri}\<rparr>\<rparr>) = (r, s') \<and> \<not> is_Ok r \<and>
     s' = sim_driver\<lparr>volumeLocks := \<lparr>locks = {sim_uri}\<rparr>\<rparr>"
proof -
  let ?s = "sim_driver\<lparr>volumeLocks := \<lparr>locks = {sim_uri}\<rparr>\<rparr>"
  obtain r s' where r: "NodeUnstageVolume sim_env sim_uri ''/stage'' ?s = (r, s')" by fastforce
  have "sim_uri \<noteq> []" "GetVolumeName sim_uri = Ok ''d''" by code_simp+
  then have "r \<noteq> Panic" using r
    by (auto simp: NodeUnstageVolume_def with_volume_lock_def TryAcquire_def)
  with r node_operations_exclusive [where N = sim_env and u = sim_uri and t = "''/stage''" and s = ?s] show ?thesis
    by auto
qed

section \<open>Finding the device of a LUN\<close>

text \<open>C24. The search for the device of a LUN is equivalent to its specification over a tree of files: the
  outcome is the path of the first SCSI entry that has the LUN in the fourth field of its name, is an Azure
  data disk and not a disk of the operating system (when the agent has made no links: whose host is not
  one of 0 to 3). The path is the agent's link, the link of udev or the device name; it is empty when
  there is no such entry. An entry with an empty directory of devices before it makes the driver panic.\<close>

theorem findDiskByLun_equiv:
  assumes "reads_tree H T"
  shows "findDiskByLun H lun w = (lun_outcome T lun, w)"
  by (rule findDiskByLun_pure [OF assms])

definition sim_tree :: file_tree where
  "sim_tree = \<lparr>ft_dir = sim_ReadDir, ft_link = (\<lambda>p. Err (Errorf ''no link'')), ft_file = sim_ReadFile\<rparr>"

definition empty_block_tree :: file_tree where
  "empty_block_tree = sim_tree\<lparr>ft_dir := (\<lambda>p. if HasSuffix p ''/block'' then Ok [] else sim_ReadDir p)\<rparr>"

definition empty_block_os :: "sim_node node_os" where
  "empty_block_os = sim_os\<lparr>os_ReadDir := (\<lambda>p. lift (ft_dir empty_block_tree p))\<rparr>"

theorem findDiskByLun_equiv_witness:
  "findDiskByLun sim_os 1 sim_start = (Ok ''/dev/sdc'', sim_start) \<and>
   findDiskByLun sim_os 2 sim_start = (Ok [], sim_start) \<and>
   findDiskByLun empty_block_os 1 sim_start = (Panic, sim_start)"
proof -
  have "reads_tree sim_os sim_tree"
    by (simp add: reads_tree_def sim_os_def sim_tree_def sim_ReadDir_def sim_ReadFile_def fun_eq_iff)
  moreover have "reads_tree empty_block_os empty_block_tree"
    by (simp add: reads_tree_def empty_block_os_def empty_block_tree_def sim_os_def sim_tree_def sim_ReadDir_def
        sim_ReadFile_def fun_eq_iff)
  moreover have "lun_outcome sim_tree 1 = Ok ''/dev/sdc''" "lun_outcome sim_tree 2 = Ok []"
    "lun_outcome empty_block_tree 1 = Panic" by code_simp+
  ultimately show ?thesis using findDiskByLun_equiv [of sim_os sim_tree] findDiskByLun_equiv [of empty_block_os empty_block_tree]
    by simp
qed

text \<open>The state after a number of searches in vain, with the pause after each.\<close>

primrec after_polls :: "'w node_os \<Rightarrow> int \<Rightarrow> nat \<Rightarrow> 'w \<Rightarrow> 'w" where
  "after_polls H lun 0 w = w"
| "after_polls H lun (Suc k) w = after_polls H lun k (os_Sleep H 1000 (snd (findDiskByLun H lun w)))"

lemma poll_device_finds:
  assumes "k \<le> n" "\<forall>i < k. fst (findDiskByLun H lun (after_polls H lun i w)) = Ok []"
    "findDiskByLun H lun (after_polls H lun k w) = (Ok p, w')" "p \<noteq> []"
  shows "poll_device H n lun w = (Ok p, w')"
  using assms
proof (induction k arbitrary: n w)
  case 0
  then show ?case by (subst poll_device.simps) (simp add: call_def)
next
  case (Suc k)
  from Suc.prems(1) obtain m where n: "n = Suc m" "k \<le> m" by (cases n) auto
  obtain w1 where w1: "findDiskByLun H lun w = (Ok [], w1)"
    using Suc.prems(2) by (metis after_polls.simps(1) prod.collapse zero_less_Suc)
  have "\<forall>i < k. fst (findDiskByLun H lun (after_polls H lun i (os_Sleep H 1000 w1))) = Ok []"
    using Suc.prems(2) w1 by (metis Suc_less_eq after_polls.simps(2) snd_conv)
  moreover have "findDiskByLun H lun (after_polls H lun k (os_Sleep H 1000 w1)) = (Ok p, w')"
    using Suc.prems(3) w1 by simp
  ultimately have "poll_device H m lun (os_Sleep H 1000 w1) = (Ok p, w')"
    using Suc.IH [OF n(2)] Suc.prems(4) by blast
  then show ?case using w1 n by (subst poll_device.simps) (simp add: call_def bind_def)
qed

text \<open>C25. A disk that appears in time is found: when the searches find nothing k times and then a device,
  and k pauses fit the timeout, the staging gets the path of that device for the LUN of the publish
  context.\<close>

theorem device_eventually_found:
  assumes "0 \<le> lun" "lun < 100" "scsiHostRescan (ne_os N) w = (Ok (), w0)" "k \<le> ne_polls N"
    "\<forall>i < k. fst (findDiskByLun (ne_os N) lun (after_polls (ne_os N) lun i w0)) = Ok []"
    "findDiskByLun (ne_os N) lun (after_polls (ne_os N) lun k w0) = (Ok p, w')" "p \<noteq> []"
  shows "getDevicePathWithLUN N (Itoa lun) w = (Ok p, w')"
  using poll_device_finds [OF assms(4-7)] GetDiskLUN_roundtrip [OF assms(1,2)] assms(3)
  by (simp add: getDevicePathWithLUN_def bind_def call_def)

text \<open>A host on which the disk appears after the first pause.\<close>

definition late_env :: "sim_node node_env" where
  "late_env = sim_env\<lparr>ne_os := sim_os\<lparr>os_ReadDir := (\<lambda>p w.
     if p = ''/sys/bus/scsi/devices'' \<and> sn_pauses w = 0 then (Ok [], w) else (sim_ReadDir p, w))\<rparr>\<rparr>"

theorem device_eventually_found_witness:
  "getDevicePathWithLUN late_env (Itoa 1) sim_start = (Ok ''/dev/sdc'', sim_start\<lparr>sn_pauses := 1\<rparr>)"
proof -
  have 1: "scsiHostRescan (ne_os late_env) sim_start = (Ok (), sim_start)" by code_simp
  have "fst (findDiskByLun (ne_os late_env) 1 (after_polls (ne_os late_env) 1 0 sim_start)) = Ok []" by code_simp
  then have 2: "\<forall>i < 1. fst (findDiskByLun (ne_os late_env) 1 (after_polls (ne_os late_env) 1 i sim_start)) = Ok []"
    by simp
  have 3: "findDiskByLun (ne_os late_env) 1 (after_polls (ne_os late_env) 1 1 sim_start) =
      (Ok ''/dev/sdc'', sim_start\<lparr>sn_pauses := 1\<rparr>)" by code_simp
  have 4: "1 \<le> ne_polls late_env" by code_simp
  show ?thesis by (rule device_eventually_found [OF _ _ 1 4 2 3]) simp_all
qed

section \<open>What a node can hold\<close>

lemma NodeGetInfo_max:
  assumes "NodeGetInfo D V N s = (Ok r, s')"
  shows "\<exists>lab w w'. node_max_volumes D V N lab w = (Ok (nr_MaxVolumesPerNode r), w')"
  using assms unfolding NodeGetInfo_def in_world_run
  by (auto elim!: bind_OkE split: prod.splits if_splits) blast+

text \<open>C32. The number of volumes a node announces: without a limit in the configuration it is at least 1 and
  at most 64 less the slots reserved, whatever the machine, the cloud and the labels answer, so every
  volume gets one of the LUNs 0 to 63; with a limit it is the limit. The driver that is built from the
  options reserves no slot, whatever the option says.\<close>

theorem NodeGetInfo_bounds:
  assumes "NodeGetInfo D V N s = (Ok r, s')"
  shows "(csi_VolumeAttachLimit D < 0 \<longrightarrow>
      1 \<le> nr_MaxVolumesPerNode r + csi_ReservedDataDiskSlotNum D \<and>
      nr_MaxVolumesPerNode r + csi_ReservedDataDiskSlotNum D \<le> 64) \<and>
    (0 \<le> csi_VolumeAttachLimit D \<longrightarrow> nr_MaxVolumesPerNode r = csi_VolumeAttachLimit D) \<and>
    (D = newDriverV1 v opts \<longrightarrow> csi_ReservedDataDiskSlotNum D = 0)"
proof -
  obtain lab w w' where m: "node_max_volumes D V N lab w = (Ok (nr_MaxVolumesPerNode r), w')"
    using NodeGetInfo_max [OF assms] by blast
  have "csi_ReservedDataDiskSlotNum (newDriverV1 v opts) = 0"
    by (simp add: newDriverV1_def AddNodeServiceCapabilities_def AddVolumeCapabilityAccessModes_def
        AddControllerServiceCapabilities_def)
  moreover have "\<exists>t. nr_MaxVolumesPerNode r = getMaxDataDiskCount t - csi_ReservedDataDiskSlotNum D"
    if "csi_VolumeAttachLimit D < 0"
    using m that by (auto simp: node_max_volumes_def elim!: bind_OkE) metis
  ultimately show ?thesis using m getMaxDataDiskCount_range by (auto simp: node_max_volumes_def)
qed

theorem NodeGetInfo_bounds_witness:
  "\<exists>r s'. NodeGetInfo driver1 (services_of bare_cloud) sim_env sim_driver = (Ok r, s') \<and>
     1 \<le> nr_MaxVolumesPerNode r \<and> nr_MaxVolumesPerNode r \<le> 64"
proof -
  let ?r = "NodeGetInfo driver1 (services_of bare_cloud) sim_env sim_driver"
  have "supportZone driver1" "\<not> getNodeInfoFromLabels_opt driver1" "csi_VolumeAttachLimit driver1 < 0" by code_simp+
  then have "is_Ok (fst ?r)"
    by (simp add: NodeGetInfo_def in_world_run node_zone_def node_max_volumes_def node_instance_type_def node_id_def
        sim_env_def Let_def pure_simps)
  then obtain r s' where r: "?r = (Ok r, s')" by (cases ?r; cases "fst ?r") auto
  have "csi_VolumeAttachLimit driver1 < 0" by code_simp
  with NodeGetInfo_bounds [OF r, of "''v1''" AddFlags] r show ?thesis by (auto simp: driver1_def)
qed

text \<open>C30. An expansion of a file system that succeeds reports the size the device really has after the
  encrypted device was resized, and that size, rounded up to GiB, is at least what was asked for less
  the header of the encryption. This holds even where the resize of the file system failed.\<close>

theorem NodeExpandVolume_size:
  assumes "NodeExpandVolume D N u p q c s = (Ok n, s')"
    "fst (hu_PathIsDevice (ne_os N) p (world (diskController s))) = Ok False" "\<forall>cap. c = Some cap \<longrightarrow> \<not> GetBlock cap"
  shows "\<exists>name dev w1 w2 w3. GetVolumeName u = Ok name \<and>
      cm_ResizeCryptDevice (ne_os N) name w1 = (Ok dev, w2) \<and>
      getBlockSizeBytes (ne_os N) dev w3 = (Ok n, world (diskController s')) \<and>
      RoundUpGiB (to_int64 (q - ne_LUKSHeaderSize N)) \<le> RoundUpGiB n"
proof -
  obtain name s1 where 1: "GetVolumeName u = Ok name"
    "with_volume_lock u (in_world (expand_fs D (ne_os N) u name p
       (RoundUpGiB (to_int64 (q - ne_LUKSHeaderSize N))))) s1 = (Ok n, s')"
    using assms unfolding NodeExpandVolume_def Let_def
    by (cases "GetVolumeName u")
       (auto elim!: call_cases simp: in_world_run split: if_splits prod.splits option.splits)
  obtain w where "expand_fs D (ne_os N) u name p (RoundUpGiB (to_int64 (q - ne_LUKSHeaderSize N)))
      (world (diskController s1)) = (Ok n, w)" "world (diskController s') = w"
    using 1(2) by (rule locked_world_run)
  then show ?thesis using 1(1) unfolding expand_fs_def resize_crypt_def Let_def
    by (auto elim!: call_cases bind_OkE split: if_splits option.splits) blast+
qed

theorem NodeExpandVolume_size_witness:
  "\<exists>n s'. NodeExpandVolume driver1 sim_env sim_uri ''/stage'' 16777217 (Some sim_cap) sim_driver = (Ok n, s') \<and>
     RoundUpGiB (to_int64 (16777217 - 16777216)) \<le> RoundUpGiB n"
proof -
  let ?r = "NodeExpandVolume driver1 sim_env sim_uri ''/stage'' 16777217 (Some sim_cap) sim_driver"
  have "is_Ok (fst ?r)" by code_simp
  then obtain n s' where r: "?r = (Ok n, s')" by (cases ?r; cases "fst ?r") auto
  have "fst (hu_PathIsDevice (ne_os sim_env) ''/stage'' (world (diskController sim_driver))) = Ok False"
    "\<forall>cap. Some sim_cap = Some cap \<longrightarrow> \<not> GetBlock cap"
    by (simp_all add: sim_env_def sim_os_def sim_cap_def GetBlock_def)
  from NodeExpandVolume_size [OF r this] r show ?thesis by (auto simp: sim_env_def)
qed

end
