(* ===== verification/DevicePerfCorrect.thy ===== *)
theory DevicePerfCorrect
  imports DevicePerf
begin

text \<open>
  What the tuning of a device guarantees: the settings of the advanced profile are files below the
  device's directory, and the SKU chosen for a disk is a smallest one that meets the request.
\<close>

section \<open>Cleaned paths\<close>

lemma clean_elems_plain: "list_all plain_elem es \<Longrightarrow> clean_elems r acc es = rev acc @ es"
  by (induction es arbitrary: acc) (auto simp: plain_elem_def)

lemma Clean_abs:
  assumes "is_abs p"
  obtains es where "Clean p = CHR ''/'' # Join es (CHR ''/'')" "list_all plain_elem es"
    "\<forall>e \<in> set es. CHR ''/'' \<notin> set e"
proof
  let ?es = "clean_elems True [] (Split p (CHR ''/''))"
  show "Clean p = CHR ''/'' # Join ?es (CHR ''/'')" using assms by (simp add: Clean_def Let_def)
  show "list_all plain_elem ?es" by (rule clean_elems_rooted) simp
  show "\<forall>e \<in> set ?es. CHR ''/'' \<notin> set e"
    using clean_elems_subset [of _ True "[]" "Split p (CHR ''/'')"] Split_elem_no_sep by fastforce
qed

lemma Split_rooted:
  assumes "\<forall>e \<in> set es. c \<notin> set e"
  shows "Split (c # Join es c) c = [] # (if es = [] then [[]] else es)"
  using assms Split_Join [of es c] by simp

lemma Clean_idem: "is_abs p \<Longrightarrow> Clean (Clean p) = Clean p"
proof -
  assume "is_abs p"
  then obtain es where es: "Clean p = CHR ''/'' # Join es (CHR ''/'')" "list_all plain_elem es"
    "\<forall>e \<in> set es. CHR ''/'' \<notin> set e" by (rule Clean_abs)
  have "clean_elems True [] ([] # (if es = [] then [[]] else es)) = es"
    using clean_elems_plain [OF es(2), of True "[]"] by (simp add: dot_elem_def)
  then show ?thesis
    using Split_rooted [OF es(3)] by (simp add: es(1) Clean_def [of "_ # _"] is_abs_def HasPrefix_def)
qed

lemma Clean_no_up:
  assumes "is_abs p" "e \<in> set (Split (Clean p) (CHR ''/''))"
  shows "\<not> up_elem e"
proof -
  obtain es where es: "Clean p = CHR ''/'' # Join es (CHR ''/'')" "list_all plain_elem es"
    "\<forall>e \<in> set es. CHR ''/'' \<notin> set e" using Clean_abs [OF assms(1)] .
  with assms(2) Split_rooted [OF es(3)] have "e = [] \<or> e \<in> set es" by (auto split: if_splits)
  with es(2) show ?thesis by (auto simp: plain_elem_def list_all_iff up_elem_def)
qed

section \<open>Settings stay below the device\<close>

lemma device_settings_loop_Ok:
  "device_settings_loop wd dir ss = Ok () \<Longrightarrow> s \<in> set ss \<Longrightarrow>
   \<exists>a. filepath_Abs wd s = Ok a \<and> HasPrefix a (Clean dir @ ''/'')"
  by (induction wd dir ss rule: device_settings_loop.induct) (auto split: res.splits if_splits)

lemma fold_update_keys:
  "fst ` set (fold (\<lambda>(s, v). AList.update (f s) v) kvs m) = fst ` set m \<union> f ` fst ` set kvs"
proof (induction kvs arbitrary: m)
  case (Cons kv kvs)
  then show ?case by (cases kv) (simp add: dom_update)
qed simp

text \<open>C39. The advanced profile cannot write outside the device: whenever the settings of a volume
  pass the check, every file they name lies below the device's directory in sysfs and its path has
  no parent reference left.\<close>

theorem advanced_settings_contained:
  assumes "is_abs dir" "settings = getDeviceSettingsForAdvancedProfile dir ctx"
    "AreDeviceSettingsValid wd dir settings = Ok ()" "path \<in> fst ` set settings"
  shows "HasPrefix path (Clean dir @ ''/'') \<and> (\<forall>e \<in> set (Split path (CHR ''/'')). \<not> up_elem e)"
proof -
  have "path \<in> filepath_Join dir ` fst ` set ctx"
    using assms(2,4) fold_update_keys [of "filepath_Join dir" ctx "[]"]
    by (simp add: getDeviceSettingsForAdvancedProfile_def)
  then obtain s where s: "path = filepath_Join dir s" by blast
  have "dir \<noteq> []" using assms(1) by (auto simp: is_abs_def HasPrefix_def)
  moreover have "is_abs (dir @ ''/'' @ s)" using assms(1) by (auto simp: is_abs_def HasPrefix_iff)
  ultimately obtain q where q: "path = Clean q" "is_abs q"
    using s assms(1) by (auto simp: filepath_Join_def split: if_splits)
  have abs: "is_abs path"
    using q Clean_abs [OF q(2)] by (metis HasPrefix_append append_Cons append_Nil is_abs_def)
  have "device_settings_loop wd dir (map fst settings) = Ok ()"
    using assms(3) by (simp add: AreDeviceSettingsValid_def split: if_splits)
  from device_settings_loop_Ok [OF this, of path] assms(4)
  have "HasPrefix (Clean path) (Clean dir @ ''/'')" using abs by (auto simp: filepath_Abs_def)
  then have "HasPrefix path (Clean dir @ ''/'')" using q Clean_idem by simp
  with q Clean_no_up show ?thesis by blast
qed

theorem advanced_settings_contained_witness:
  "HasPrefix ''/sys/block/sda/queue/scheduler'' (Clean ''/sys/block/sda'' @ ''/'') \<and>
   \<not> is_Ok (AreDeviceSettingsValid (Ok ''/'') ''/sys/block/sda''
     (getDeviceSettingsForAdvancedProfile ''/sys/block/sda'' [(''../sdb/queue/scheduler'', ''none'')]))"
proof -
  let ?ctx = "[(''queue/../queue/scheduler'', ''none'')]"
  let ?set = "getDeviceSettingsForAdvancedProfile ''/sys/block/sda'' ?ctx"
  have 1: "is_abs ''/sys/block/sda''" by code_simp
  have 2: "AreDeviceSettingsValid (Ok ''/'') ''/sys/block/sda'' ?set = Ok ()" by code_simp
  have 3: "''/sys/block/sda/queue/scheduler'' \<in> fst ` set ?set" by code_simp
  have 4: "\<not> is_Ok (AreDeviceSettingsValid (Ok ''/'') ''/sys/block/sda''
     (getDeviceSettingsForAdvancedProfile ''/sys/block/sda'' [(''../sdb/queue/scheduler'', ''none'')]))"
    by code_simp
  from advanced_settings_contained [OF 1 refl 2 3] 4 show ?thesis by blast
qed

section \<open>The matching SKU\<close>

lemma match_step_cases:
  "match_step sz io bw x m0 =
     (if meetsRequest x sz io bw \<and> (\<forall>t. m0 = Some t \<longrightarrow> MaxSizeGiB x < MaxSizeGiB t) then Some x else m0)"
  by (cases m0) (auto simp: match_step_def)

lemma match_fold_None:
  "fold (match_step sz io bw) skus m0 = None \<longleftrightarrow> m0 = None \<and> (\<forall>s \<in> set skus. \<not> meetsRequest s sz io bw)"
  by (induction skus arbitrary: m0) (auto simp: match_step_cases)

lemma match_fold_Some:
  assumes "fold (match_step sz io bw) skus m0 = Some s"
  shows "(m0 = Some s \<or> s \<in> set skus \<and> meetsRequest s sz io bw) \<and>
    (\<forall>t \<in> set skus. meetsRequest t sz io bw \<longrightarrow> MaxSizeGiB s \<le> MaxSizeGiB t) \<and>
    (\<forall>t. m0 = Some t \<longrightarrow> MaxSizeGiB s \<le> MaxSizeGiB t)"
  using assms
proof (induction skus arbitrary: m0)
  case (Cons x skus)
  from Cons.prems have "fold (match_step sz io bw) skus (match_step sz io bw x m0) = Some s" by simp
  from Cons.IH [OF this] show ?case
    by (cases m0; cases "meetsRequest x sz io bw") (auto simp: match_step_cases split: if_splits)
qed simp

text \<open>The SKU matched for a disk is one of the account's that has the size, bandwidth and IOPS
  asked for, and none that has them is smaller, whatever the order of the table; no SKU is returned
  only when none fits.\<close>

theorem getMatchingDiskSku_smallest:
  assumes "getMatchingDiskSku skus acct gib iops bw = Ok m" "map_of skus (ToLower acct) = Some table"
    "Atoi gib = Ok n"
  shows "case m of
      None \<Rightarrow> \<forall>s \<in> snd ` set table. \<not> meetsRequest s n (atoi_or_zero iops) (atoi_or_zero bw)
    | Some s \<Rightarrow> s \<in> snd ` set table \<and> meetsRequest s n (atoi_or_zero iops) (atoi_or_zero bw) \<and>
        (\<forall>t \<in> snd ` set table. meetsRequest t n (atoi_or_zero iops) (atoi_or_zero bw) \<longrightarrow>
           MaxSizeGiB s \<le> MaxSizeGiB t)"
proof -
  have "fold (match_step n (atoi_or_zero iops) (atoi_or_zero bw)) (map snd table) None = m"
    using assms by (auto simp: getMatchingDiskSku_def Let_def split: if_splits)
  note fold = this
  show ?thesis
  proof (cases m)
    case None
    with fold show ?thesis by (simp add: match_fold_None)
  next
    case (Some s)
    with match_fold_Some [OF fold [unfolded Some]] show ?thesis by simp
  qed
qed

definition p_sku :: "string \<Rightarrow> int \<Rightarrow> DiskSkuInfo" where
  "p_sku s gib = \<lparr>StorageAccountType = ''premium_lrs'', StorageTier = ''premium'', DiskSize = s,
     MaxAllowedShares = 3, MaxBurstIops = 3500, MaxIops = 500, MaxBwMbps = 100, MaxBurstBwMbps = 170,
     MaxSizeGiB = gib\<rparr>"

theorem getMatchingDiskSku_smallest_witness:
  "meetsRequest (p_sku ''p10'' 128) 100 0 0 \<and>
   getMatchingDiskSku [(''premium_lrs'', [(''p15'', p_sku ''p15'' 256), (''p10'', p_sku ''p10'' 128)])]
     ''Premium_LRS'' ''100'' [] [] = Ok (Some (p_sku ''p10'' 128))"
proof -
  let ?t = "[(''p15'', p_sku ''p15'' 256), (''p10'', p_sku ''p10'' 128)]"
  have 1: "getMatchingDiskSku [(''premium_lrs'', ?t)] ''Premium_LRS'' ''100'' [] [] = Ok (Some (p_sku ''p10'' 128))"
    by code_simp
  have 2: "map_of [(''premium_lrs'', ?t)] (ToLower ''Premium_LRS'') = Some ?t" by code_simp
  have 3: "Atoi ''100'' = Ok 100" by code_simp
  have "atoi_or_zero [] = 0" by code_simp
  with getMatchingDiskSku_smallest [OF 1 2 3] 1 show ?thesis by simp
qed

end
