(* ===== verification/DeviceOptimizeCorrect.thy ===== *)
theory DeviceOptimizeCorrect
  imports DeviceOptimize DevicePerfCorrect
begin

text \<open>
  The settings the basic profile computes are numbers a block device accepts, for every disk of an
  account type that is tuned at all.
\<close>

section \<open>Rounding\<close>

lemma pow2_pos [simp]: "0 < pow2 e" "0 \<le> pow2 e"
  by (simp_all add: pow2_def)

lemma pow2_add_nat: "pow2 (e + int n) = pow2 e * 2 ^ n"
proof (cases "0 \<le> e")
  case True
  then show ?thesis by (simp add: pow2_def nat_add_distrib power_add)
next
  case neg: False
  show ?thesis
  proof (cases "0 \<le> e + int n")
    case True
    then have "n = nat (e + int n) + nat (- e)" using neg by linarith
    then have "(2::rat) ^ n = 2 ^ nat (e + int n) * 2 ^ nat (- e)" by (metis power_add)
    then show ?thesis using True neg by (simp add: pow2_def)
  next
    case False
    then have "nat (- e) = nat (- (e + int n)) + n" using neg by linarith
    then have "(2::rat) ^ nat (- e) = 2 ^ nat (- (e + int n)) * 2 ^ n" by (metis power_add)
    then show ?thesis using False neg by (simp add: pow2_def)
  qed
qed

lemma bit_length_nonneg: "0 \<le> bit_length n"
proof (induction n rule: bit_length.induct)
  case (1 n)
  then show ?case by (subst bit_length.simps) auto
qed

lemma bit_length_bounds:
  "0 < n \<Longrightarrow> 2 ^ nat (bit_length n - 1) \<le> n \<and> n < 2 ^ nat (bit_length n) \<and> 1 \<le> bit_length n"
proof (induction n rule: bit_length.induct)
  case (1 n)
  show ?case
  proof (cases "n = 1")
    case True
    then show ?thesis by (simp add: bit_length.simps [of 1] bit_length.simps [of 0])
  next
    case False
    with 1 have h: "2 ^ nat (bit_length (n div 2) - 1) \<le> n div 2" "n div 2 < 2 ^ nat (bit_length (n div 2))"
      "1 \<le> bit_length (n div 2)" by auto
    let ?b = "nat (bit_length (n div 2) - 1)"
    have b: "bit_length n = 2 + int ?b" "nat (bit_length (n div 2)) = Suc ?b"
      using h(3) 1 by (simp_all add: bit_length.simps [of n])
    then have n: "nat (bit_length n - 1) = Suc ?b" "nat (bit_length n) = Suc (Suc ?b)" by linarith+
    have "2 * 2 ^ ?b \<le> n \<and> n < 4 * 2 ^ ?b" using h(1,2) unfolding b(2) power_Suc by linarith
    then show ?thesis unfolding n by (simp add: b(1))
  qed
qed

lemma quotient_of_pos:
  assumes "0 < x" "quotient_of x = (p, q)"
  shows "0 < p" "0 < q" "x = of_int p / of_int q"
proof -
  show q: "0 < q" using quotient_of_denom_pos [OF assms(2)] .
  show x: "x = of_int p / of_int q" using quotient_of_div [OF assms(2)] .
  with q assms(1) show "0 < p" by (simp add: zero_less_divide_iff)
qed

lemma ulp_exponent_le:
  assumes "0 < x"
  shows "pow2 (ulp_exponent x) \<le> x"
proof -
  obtain p q where pq: "quotient_of x = (p, q)" by fastforce
  note x = quotient_of_pos [OF assms pq]
  let ?e = "bit_length p - bit_length q - 53"
  have "pow2 (bit_length p - 1) \<le> of_int p"
    using bit_length_bounds [OF x(1)] of_int_le_iff [where ?'a = rat, of "2 ^ nat (bit_length p - 1)" p]
    by (simp add: pow2_def)
  moreover have "of_int q \<le> (2 :: rat) ^ nat (bit_length q)"
    using bit_length_bounds [OF x(2)] of_int_le_iff [where ?'a = rat, of q "2 ^ nat (bit_length q)"] by simp
  moreover have "pow2 (bit_length p - 1) = pow2 (?e + 52) * 2 ^ nat (bit_length q)"
    using pow2_add_nat [of "?e + 52" "nat (bit_length q)"] bit_length_nonneg [of q] by simp
  moreover have "pow2 (?e + 52) * of_int q \<le> pow2 (?e + 52) * 2 ^ nat (bit_length q)"
    using calculation(2) by (intro mult_left_mono) simp_all
  ultimately have "pow2 (?e + 52) * of_int q \<le> of_int p" by linarith
  then have low: "pow2 (?e + 52) \<le> x" using x(2) by (simp add: x(3) pos_le_divide_eq)
  have "pow2 (?e + 52) = pow2 ?e * 2 ^ 52" "pow2 (?e + 53) = pow2 (?e + 1) * 2 ^ 52"
    using pow2_add_nat [of ?e 52] pow2_add_nat [of "?e + 1" 52] by simp_all
  moreover have "pow2 d \<le> pow2 d * 2 ^ 52" for d using pow2_pos(1) [of d] by simp
  ultimately have "pow2 ?e \<le> x" "\<not> x < pow2 (?e + 53) \<Longrightarrow> pow2 (?e + 1) \<le> x"
    using low by (metis order_trans, metis order_trans not_less)
  then show ?thesis by (simp add: ulp_exponent_def pq Let_def del: not_less)
qed

lemma rounded_pos [simp]: "0 < x \<Longrightarrow> 0 < rounded x"
proof -
  assume x: "0 < x"
  have "1 \<le> x / pow2 (ulp_exponent x)" using ulp_exponent_le [OF x] by simp
  then have "1 \<le> floor (x / pow2 (ulp_exponent x))" by (simp add: le_floor_iff)
  then have "0 < round_half_even (x / pow2 (ulp_exponent x))" unfolding round_half_even_def Let_def by (simp only: split: if_split) linarith
  with x show "0 < rounded x" by (simp add: rounded_def rounded_positive_def Let_def)
qed

text \<open>Rounding at most doubles a positive number. (It changes it far less; doubling is enough for the bounds below.)\<close>

lemma rounded_le: "0 < x \<Longrightarrow> rounded x \<le> 2 * x"
proof -
  assume x: "0 < x"
  define y where "y = x / pow2 (ulp_exponent x)"
  have "1 \<le> y" using ulp_exponent_le [OF x] by (simp add: y_def)
  moreover have "round_half_even y \<le> floor y + 1" by (simp add: round_half_even_def Let_def)
  then have "of_int (round_half_even y) \<le> y + 1" using of_int_floor_le [of y] by linarith
  ultimately have "of_int (round_half_even y) \<le> 2 * y" by linarith
  then have "of_int (round_half_even y) * pow2 (ulp_exponent x) \<le> 2 * y * pow2 (ulp_exponent x)"
    by (rule mult_right_mono) simp
  also have "2 * y * pow2 (ulp_exponent x) = 2 * x"
    using pow2_pos(1) [of "ulp_exponent x"] by (simp add: y_def del: pow2_pos)
  finally show "rounded x \<le> 2 * x" using x by (simp add: rounded_def rounded_positive_def Let_def y_def)
qed

section \<open>The computed settings\<close>

text \<open>The floats that are positive numbers.\<close>

definition positive :: "float64 \<Rightarrow> bool" where
  "positive f \<longleftrightarrow> (\<exists>x. f = Fin x \<and> 0 < x)"

lemma positive_ops:
  "0 < n \<Longrightarrow> positive (float_of_int n)"
  "positive a \<Longrightarrow> positive b \<Longrightarrow> positive (float_mul a b)"
  "positive a \<Longrightarrow> positive b \<Longrightarrow> positive (float_div a b)"
  "positive a \<Longrightarrow> positive b \<Longrightarrow> positive (float_add a b)"
  "positive a \<Longrightarrow> positive b \<Longrightarrow> positive (math_Min a b)"
  "positive a \<Longrightarrow> positive b \<Longrightarrow> positive (math_Max a b)"
  by (auto simp: positive_def float_of_int_def math_Min_def math_Max_def)

lemma positive_Fin [simp]: "positive (Fin x) \<longleftrightarrow> 0 < x"
  by (simp add: positive_def)

lemma math_Ceil_positive:
  assumes "positive a"
  obtains n where "math_Ceil a = Fin (of_int n)" "1 \<le> n"
  using assms by (auto simp: positive_def one_le_ceiling)

lemma positive_Ceil: "positive a \<Longrightarrow> positive (math_Ceil a)"
  by (erule math_Ceil_positive) simp

text \<open>The limit of the machine may be unknown (zero or less); that of the disk counts then.\<close>

lemma positive_limit:
  assumes "0 < d"
  shows "positive (or_disk_limit (math_Min (float_of_int d) (float_of_int n)) (float_of_int d))"
    "positive (or_disk_limit (float_mul (math_Min (float_of_int d) (float_of_int n)) (Fin 1000)) (float_of_int d))"
  using positive_ops(1) [OF assms]
  by (auto simp: or_disk_limit_def float_of_int_def math_Min_def)

text \<open>Positive numbers up to a bound, and what the operations make of the bounds.\<close>

definition upto_bound :: "rat \<Rightarrow> float64 \<Rightarrow> bool" where
  "upto_bound b f \<longleftrightarrow> (\<exists>x. f = Fin x \<and> 0 < x \<and> x \<le> b)"

lemma upto_Fin: "upto_bound b (Fin x) \<longleftrightarrow> 0 < x \<and> x \<le> b"
  by (simp add: upto_bound_def)

lemma rounded_upto: "0 < x \<Longrightarrow> 2 * x \<le> b \<Longrightarrow> upto_bound b (Fin (rounded x))"
  using rounded_le [of x] by (auto simp: upto_bound_def)

lemma upto_mul:
  assumes "upto_bound a f" "upto_bound b g" "2 * (a * b) \<le> c"
  shows "upto_bound c (float_mul f g)"
proof -
  obtain x y where x: "f = Fin x" "0 < x" "x \<le> a" and y: "g = Fin y" "0 < y" "y \<le> b"
    using assms(1,2) by (auto simp: upto_bound_def)
  have "x * y \<le> a * b" using x y by (intro mult_mono) auto
  then show ?thesis using x y assms(3) by (auto intro!: rounded_upto)
qed

lemma upto_add:
  "upto_bound a f \<Longrightarrow> upto_bound b g \<Longrightarrow> 2 * (a + b) \<le> c \<Longrightarrow> upto_bound c (float_add f g)"
  by (auto simp: upto_bound_def [of a] upto_bound_def [of b] intro!: rounded_upto)

lemma upto_div_whole:
  assumes "upto_bound a f" "1 \<le> n" "2 * a \<le> c"
  shows "upto_bound c (float_div f (Fin (of_int n)))"
proof -
  obtain x where x: "f = Fin x" "0 < x" "x \<le> a" using assms(1) by (auto simp: upto_bound_def)
  have n: "(1::rat) \<le> of_int n" using assms(2) by simp
  have "x / of_int n \<le> x / 1" by (rule divide_left_mono) (use n x in simp_all)
  then show ?thesis using x n assms(2,3) by (auto intro!: rounded_upto)
qed

lemma upto_Ceil: "upto_bound a f \<Longrightarrow> a + 1 \<le> c \<Longrightarrow> upto_bound c (math_Ceil f)"
proof -
  assume "upto_bound a f" "a + 1 \<le> c"
  then obtain x where x: "f = Fin x" "0 < x" "x \<le> a" by (auto simp: upto_bound_def)
  have "(0 :: rat) < of_int \<lceil>x\<rceil>" "of_int \<lceil>x\<rceil> < x + 1" using x(2) ceiling_correct [of x] by linarith+
  then show "upto_bound c (math_Ceil f)" using x \<open>a + 1 \<le> c\<close> by (auto simp: upto_bound_def)
qed

lemma upto_Max: "upto_bound a f \<Longrightarrow> upto_bound b g \<Longrightarrow> a \<le> c \<Longrightarrow> b \<le> c \<Longrightarrow> upto_bound c (math_Max f g)"
  by (auto simp: upto_bound_def math_Max_def)

lemma upto_limit:
  assumes "0 < d" "2 * of_int d \<le> b"
  shows "upto_bound b (or_disk_limit (math_Min (float_of_int d) (float_of_int n)) (float_of_int d))"
    "upto_bound (2000 * b) (or_disk_limit (float_mul (math_Min (float_of_int d) (float_of_int n)) (Fin 1000)) (float_of_int d))"
proof -
  let ?m = "math_Min (float_of_int d) (float_of_int n)"
  have d: "upto_bound b (float_of_int d)" using assms by (auto simp: float_of_int_def intro!: rounded_upto)
  then have b: "0 < b" by (auto simp: upto_bound_def)
  obtain x where m: "?m = Fin x" by (cases ?m) (auto simp: float_of_int_def math_Min_def split: if_splits)
  have x: "0 < x \<Longrightarrow> upto_bound b ?m" using d m by (auto simp: upto_bound_def float_of_int_def math_Min_def split: if_splits)
  then show "upto_bound b (or_disk_limit ?m (float_of_int d))" using d m by (auto simp: or_disk_limit_def)
  have k: "upto_bound 1000 (Fin 1000)" by (simp add: upto_bound_def)
  show "upto_bound (2000 * b) (or_disk_limit (float_mul ?m (Fin 1000)) (float_of_int d))"
  proof (cases "0 < x")
    case True
    then have u: "upto_bound (2000 * b) (float_mul ?m (Fin 1000))" by (intro upto_mul [OF x k]) simp_all
    then show ?thesis using d b by (auto simp: or_disk_limit_def upto_bound_def)
  next
    case False
    then have "rounded (x * 1000) \<le> 0" using rounded_pos [of "- (x * 1000)"]
      by (cases "x = 0") (auto simp: rounded_def split: if_splits)
    then show ?thesis using d m b by (auto simp: or_disk_limit_def upto_bound_def)
  qed
qed

lemma nat_str_length: "n < 10 ^ k \<Longrightarrow> 0 < k \<Longrightarrow> length (nat_str n) \<le> k"
proof (induction n arbitrary: k rule: nat_str.induct)
  case (1 n)
  show ?case
  proof (cases "n < 10")
    case False
    with 1(2,3) obtain j where k: "k = Suc j" "0 < j" by (cases k; cases "k - 1") auto
    with 1(2) have "n div 10 < 10 ^ j" by auto
    from 1(1) [OF False this k(2)] False k(1) show ?thesis by (subst nat_str.simps) simp
  qed (use 1(3) in \<open>subst nat_str.simps, simp\<close>)
qed

lemma whole_g_small: "0 \<le> n \<Longrightarrow> n < 1000000 \<Longrightarrow> whole_g n = Itoa n"
  using nat_str_length [of "nat n" 6] by (simp add: whole_g_def Itoa_def Let_def)

lemma positive_latency: "positive (GetSequentialOLatencyInSec sku)" "positive (GetRandomIOLatencyInSec sku)"
  by (simp_all add: GetSequentialOLatencyInSec_def GetRandomIOLatencyInSec_def)

lemma upto_latency: "upto_bound (11 / 1000) (GetSequentialOLatencyInSec sku)" "upto_bound (11 / 1000) (GetRandomIOLatencyInSec sku)"
  unfolding GetSequentialOLatencyInSec_def GetRandomIOLatencyInSec_def by (auto intro!: rounded_upto)

lemma optimal_settings_positive:
  assumes "0 < MaxBurstIops sku" "MaxBurstIops sku \<le> 20000" "0 < MaxBurstBwMbps sku" "MaxBurstBwMbps sku \<le> 1000"
  obtains n q where "1 \<le> n" "n \<le> 512" "1 \<le> q" "q < 1000000"
    "os_maxSectorsKb (optimal_settings_of ni sku) = Itoa n"
    "os_queueDepth (optimal_settings_of ni sku) = Itoa q"
    "os_nrRequests (optimal_settings_of ni sku) = Itoa q"
    "os_scheduler (optimal_settings_of ni sku) = ''mq-deadline''"
proof -
  define io where "io = or_disk_limit (math_Min (float_of_int (MaxBurstIops sku))
    (float_of_int (ni_MaxBurstIops ni))) (float_of_int (MaxBurstIops sku))"
  define bw where "bw = or_disk_limit (float_mul (math_Min (float_of_int (MaxBurstBwMbps sku))
    (float_of_int (ni_MaxBurstBwMbps ni))) (Fin 1000)) (float_of_int (MaxBurstBwMbps sku))"
  define room where "room = float_add (Fin 1) (float_neg iopsHeadRoom)"
  define rs where "rs = math_Ceil (math_Min maxHwSectorsKb (float_div bw (float_mul io room)))"
  define qs where "qs = math_Ceil (float_div (float_mul bw (GetSequentialOLatencyInSec sku)) rs)"
  define qr where "qr = math_Ceil (float_mul io (GetRandomIOLatencyInSec sku))"
  have p: "positive io" "positive bw" "positive room" "positive maxHwSectorsKb" "positive iopsHeadRoom"
    using positive_limit assms
    by (simp_all add: io_def bw_def room_def maxHwSectorsKb_def iopsHeadRoom_def)
  then have pd: "positive (float_div bw (float_mul io room))" by (intro positive_ops)
  then have "positive (math_Min maxHwSectorsKb (float_div bw (float_mul io room)))" using p by (intro positive_ops)
  then obtain n where n: "rs = Fin (of_int n)" "1 \<le> n" unfolding rs_def by (rule math_Ceil_positive)
  have "n \<le> 512" using n(1) pd unfolding rs_def
    by (auto simp: positive_def math_Min_def maxHwSectorsKb_def ceiling_le_iff split: if_splits)
  have "positive rs" using n by simp
  then have "positive qs" "positive qr" unfolding qs_def qr_def
    using p positive_latency by (auto intro!: positive_Ceil positive_ops)
  then have "positive (math_Max (float_add (float_mul qr iopsHeadRoom) qs) qr)"
    using p by (auto intro!: positive_ops)
  then obtain q where q: "math_Ceil (math_Max (float_add (float_mul qr iopsHeadRoom) qs) qr) = Fin (of_int q)" "1 \<le> q"
    by (rule math_Ceil_positive)
  have u: "upto_bound 40000 io" "upto_bound 4000000 bw" "upto_bound (1 / 4) iopsHeadRoom"
    using upto_limit(1) [of "MaxBurstIops sku" 40000] upto_limit(2) [of "MaxBurstBwMbps sku" 2000] assms
    by (simp_all add: io_def bw_def iopsHeadRoom_def upto_Fin)
  have us: "upto_bound 176001 qs" unfolding qs_def n(1)
    by (rule upto_Ceil [OF upto_div_whole [OF upto_mul [OF u(2) upto_latency(1) order_refl] n(2) order_refl]]) simp
  have ur: "upto_bound 881 qr" unfolding qr_def
    by (rule upto_Ceil [OF upto_mul [OF u(1) upto_latency(2) order_refl]]) simp
  have "upto_bound 999999 (math_Ceil (math_Max (float_add (float_mul qr iopsHeadRoom) qs) qr))"
    by (rule upto_Ceil [OF upto_Max [OF upto_add [OF upto_mul [OF ur u(3) order_refl] us order_refl] ur order_refl]]) simp_all
  then have q6: "q < 1000000" using q(1) by (simp add: upto_bound_def)
  have o: "optimal_settings_of ni sku = \<lparr>os_queueDepth = whole_g q, os_nrRequests = whole_g q,
      os_scheduler = ''mq-deadline'', os_maxSectorsKb = whole_g n,
      os_readAheadKb = sprintf_g (math_Ceil (float_mul qs rs))\<rparr>"
    unfolding optimal_settings_of_def Let_def io_def [symmetric] bw_def [symmetric] room_def [symmetric]
      rs_def [symmetric] qs_def [symmetric] qr_def [symmetric] by (simp add: q(1)) (simp add: n(1))
  show thesis
    by (rule that [of n q]) (use n \<open>n \<le> 512\<close> q q6 o whole_g_small [of n] whole_g_small [of q] in simp_all)
qed

section \<open>Every tuned disk of the table\<close>

definition tuned_tables :: "(string \<times> (string \<times> DiskSkuInfo) list) list" where
  "tuned_tables = filter (\<lambda>(a, t). HasPrefix a ''premium'' \<or> HasPrefix a ''standardssd'') DiskSkuMap"

lemma tuned_tables_bounds:
  "list_all (\<lambda>(a, t). list_all (\<lambda>(k, sku). 0 < MaxBurstIops sku \<and> MaxBurstIops sku \<le> 20000 \<and>
     0 < MaxBurstBwMbps sku \<and> MaxBurstBwMbps sku \<le> 1000) t) tuned_tables"
  by code_simp

lemma tuned_table:
  assumes "accountSupportsPerfOptimization acct" "map_of DiskSkuMap (ToLower acct) = Some t" "sku \<in> snd ` set t"
  shows "0 < MaxBurstIops sku" "MaxBurstIops sku \<le> 20000" "0 < MaxBurstBwMbps sku" "MaxBurstBwMbps sku \<le> 1000"
proof -
  have "(ToLower acct, t) \<in> set tuned_tables"
    using assms(1) map_of_SomeD [OF assms(2)]
    by (auto simp: tuned_tables_def accountSupportsPerfOptimization_def Let_def split: if_splits)
  with tuned_tables_bounds assms(3) show "0 < MaxBurstIops sku" "MaxBurstIops sku \<le> 20000"
    "0 < MaxBurstBwMbps sku" "MaxBurstBwMbps sku \<le> 1000"
    by (fastforce simp: list_all_iff)+
qed

text \<open>C33. For a disk that is tuned with the basic profile, whatever the machine, settings are returned if and
  only if the tables have a disk that meets the request; otherwise the call fails, and it never panics. The settings
  are numbers the block device takes, written in digits: requests of 1 to 512 KiB, a queue of at least one
  and fewer than a million requests with as many tags, the deadline scheduler and a read-ahead of 8 KiB.
  None is the text of an infinity, of not a number (which is what an ultra disk, whose row of the table is
  zero, would give) or of a number with an exponent.\<close>

theorem basic_profile_settings:
  assumes "DiskSupportsPerfOptimization prof acct"
  shows "case getDeviceSettingsForBasicProfile ni dir prof acct gib iops bw of
      Ok s \<Rightarrow> (\<exists>sku. getMatchingDiskSku DiskSkuMap acct gib iops bw = Ok (Some sku)) \<and>
        (\<exists>n q. 1 \<le> n \<and> n \<le> 512 \<and> 1 \<le> q \<and> q < 1000000 \<and>
          s = fold (\<lambda>(setting, value). AList.update (filepath_Join dir setting) value)
            [(''queue/max_sectors_kb'', Itoa n), (''queue/scheduler'', ''mq-deadline''),
             (''device/queue_depth'', Itoa q), (''queue/nr_requests'', Itoa q),
             (''queue/read_ahead_kb'', ''8'')] [])
    | Err e \<Rightarrow> \<forall>sku. getMatchingDiskSku DiskSkuMap acct gib iops bw \<noteq> Ok (Some sku)
    | Panic \<Rightarrow> False"
proof -
  have acct: "accountSupportsPerfOptimization acct" using assms by (simp add: DiskSupportsPerfOptimization_def)
  have np: "getMatchingDiskSku DiskSkuMap acct gib iops bw \<noteq> Panic"
    by (auto simp: getMatchingDiskSku_def Let_def split: option.splits res.splits)
  show ?thesis
  proof (cases "\<exists>sku. getMatchingDiskSku DiskSkuMap acct gib iops bw = Ok (Some sku)")
    case False
    with np show ?thesis
      by (cases "getMatchingDiskSku DiskSkuMap acct gib iops bw")
         (auto simp: getDeviceSettingsForBasicProfile_def getOptimalDeviceSettings_def Let_def split: option.splits)
  next
    case True
    then obtain sku where sku: "getMatchingDiskSku DiskSkuMap acct gib iops bw = Ok (Some sku)" by blast
    then obtain t n where m: "map_of DiskSkuMap (ToLower acct) = Some t"
      "fold (match_step n (atoi_or_zero iops) (atoi_or_zero bw)) (map snd t) None = Some sku"
      by (auto simp: getMatchingDiskSku_def Let_def split: option.splits if_splits res.splits)
    then have "sku \<in> snd ` set t" using match_fold_Some [OF m(2)] by simp
    note bounds = tuned_table [OF acct m(1) this]
    obtain k q where "1 \<le> k" "k \<le> 512" "1 \<le> q" "q < 1000000"
      "os_maxSectorsKb (optimal_settings_of ni sku) = Itoa k"
      "os_queueDepth (optimal_settings_of ni sku) = Itoa q"
      "os_nrRequests (optimal_settings_of ni sku) = Itoa q"
      "os_scheduler (optimal_settings_of ni sku) = ''mq-deadline''"
      by (rule optimal_settings_positive [OF bounds])
    then show ?thesis using sku
      by (simp add: getDeviceSettingsForBasicProfile_def getOptimalDeviceSettings_def basic_settings_def) blast
  qed
qed

definition node1 :: NodeInfo where
  "node1 = node_sku ''Standard_D2s_v5'' 4 2 9000 3750 85 1200"

text \<open>The row of the ultra disks is zero; the quotient of zeros reaches the text of the setting.\<close>

lemma ultra_settings_NaN:
  "list_all (\<lambda>(k, sku). os_maxSectorsKb (optimal_settings_of node1 sku) = ''NaN'') skus_ultrassd_lrs"
  by code_simp

theorem basic_profile_settings_witness:
  "\<exists>s n. getDeviceSettingsForBasicProfile node1 ''/sys/block/sdc'' ''basic'' ''Premium_LRS'' ''100'' [] [] = Ok s \<and>
     1 \<le> n \<and> n \<le> 512 \<and> map_of s ''/sys/block/sdc/queue/max_sectors_kb'' = Some (Itoa n)"
proof -
  let ?r = "getDeviceSettingsForBasicProfile node1 ''/sys/block/sdc'' ''basic'' ''Premium_LRS'' ''100'' [] []"
  have 1: "DiskSupportsPerfOptimization ''basic'' ''Premium_LRS''" by code_simp
  have 2: "is_Ok (getMatchingDiskSku DiskSkuMap ''Premium_LRS'' ''100'' [] [])"
    "getMatchingDiskSku DiskSkuMap ''Premium_LRS'' ''100'' [] [] \<noteq> Ok None" by code_simp+
  have j: "filepath_Join ''/sys/block/sdc'' ''queue/max_sectors_kb'' = ''/sys/block/sdc/queue/max_sectors_kb''"
    "filepath_Join ''/sys/block/sdc'' ''queue/scheduler'' = ''/sys/block/sdc/queue/scheduler''"
    "filepath_Join ''/sys/block/sdc'' ''device/queue_depth'' = ''/sys/block/sdc/device/queue_depth''"
    "filepath_Join ''/sys/block/sdc'' ''queue/nr_requests'' = ''/sys/block/sdc/queue/nr_requests''"
    "filepath_Join ''/sys/block/sdc'' ''queue/read_ahead_kb'' = ''/sys/block/sdc/queue/read_ahead_kb''" by code_simp+
  show ?thesis
    using basic_profile_settings [OF 1, where ni = node1 and dir = "''/sys/block/sdc''" and gib = "''100''" and iops = "[]" and bw = "[]"] 2
    by (cases ?r; cases "getMatchingDiskSku DiskSkuMap ''Premium_LRS'' ''100'' [] []") (auto simp: j)
qed

end
