(* ===== verification/PluginServer.thy ===== *)
theory PluginServer
  imports LinuxCommon
begin

text \<open>
  What surrounds the two services: \<open>pkg/azuredisk/identityserver.go\<close>, \<open>pkg/azuredisk/version.go\<close>,
  \<open>pkg/azuredisk/azure_common.go\<close>, the endpoint and the logging of calls in
  \<open>pkg/csi-common/utils.go\<close>, the choice of the cloud configuration in \<open>pkg/azureutils\<close>, and serving
  the metrics in \<open>pkg/azurediskplugin/main.go\<close>.
\<close>

section \<open>Identity\<close>

definition GetPluginInfo :: "DriverCore \<Rightarrow> (string \<times> string) res" where
  "GetPluginInfo D =
     (if csi_Name D = [] then Err (StatusErr Unavailable ''Driver name not configured'')
      else if csi_Version D = [] then Err (StatusErr Unavailable ''Driver is missing version'')
      else Ok (csi_Name D, csi_Version D))"

definition Probe :: bool where
  "Probe = True"

datatype plugin_capability =
    CONTROLLER_SERVICE | VOLUME_ACCESSIBILITY_CONSTRAINTS | EXPANSION_OFFLINE | EXPANSION_ONLINE

definition GetPluginCapabilities :: "DriverCore \<Rightarrow> plugin_capability list" where
  "GetPluginCapabilities D =
     [CONTROLLER_SERVICE, VOLUME_ACCESSIBILITY_CONSTRAINTS, EXPANSION_OFFLINE] @
     (if enableDiskOnlineResize D then [EXPANSION_ONLINE] else [])"

section \<open>Version and user agent\<close>

record VersionInfo =
  vi_DriverName :: string
  vi_DriverVersion :: string
  vi_GitCommit :: string
  vi_BuildDate :: string
  vi_GoVersion :: string
  vi_Compiler :: string
  vi_Platform :: string
  vi_TopologyKey :: string

text \<open>The variables that the build sets.\<close>

record build_info =
  bi_driverVersion :: string
  bi_gitCommit :: string
  bi_buildDate :: string
  bi_goVersion :: string
  bi_compiler :: string
  bi_GOOS :: string
  bi_GOARCH :: string
  bi_topologyKey :: string

definition GetVersion :: "build_info \<Rightarrow> string \<Rightarrow> VersionInfo" where
  "GetVersion B driverName =
     \<lparr>vi_DriverName = driverName, vi_DriverVersion = bi_driverVersion B, vi_GitCommit = bi_gitCommit B,
      vi_BuildDate = bi_buildDate B, vi_GoVersion = bi_goVersion B, vi_Compiler = bi_compiler B,
      vi_Platform = bi_GOOS B @ ''/'' @ bi_GOARCH B, vi_TopologyKey = bi_topologyKey B\<rparr>"

text \<open>\<open>marshal\<close> is \<open>yaml.Marshal\<close>.\<close>

definition GetVersionYAML :: "(VersionInfo \<Rightarrow> string res) \<Rightarrow> build_info \<Rightarrow> string \<Rightarrow> string res" where
  "GetVersionYAML marshal B driverName =
     (case marshal (GetVersion B driverName) of
        Ok marshalled \<Rightarrow> Ok (TrimSpace marshalled) | Err err \<Rightarrow> Err err | Panic \<Rightarrow> Panic)"

definition GetUserAgent :: "string \<Rightarrow> string \<Rightarrow> string \<Rightarrow> string \<Rightarrow> string" where
  "GetUserAgent driverVersion driverName customUA suffixUA =
     (let custom = TrimSpace customUA;
          userAgent = (if custom = [] then driverName @ ''/'' @ driverVersion else custom);
          suffix = TrimSpace suffixUA
      in if suffix \<noteq> [] then userAgent @ '' '' @ suffix else userAgent)"

definition strFirstLetterToUpper :: "string \<Rightarrow> string" where
  "strFirstLetterToUpper str = (if length str < 2 then str else ToUpper (take 1 str) @ drop 1 str)"

section \<open>Endpoint and logging\<close>

text \<open>\<open>strings.SplitN(ep, "://", 2)\<close> of a text that has the separator.\<close>

definition ParseEndpoint :: "string \<Rightarrow> (string \<times> string) res" where
  "ParseEndpoint ep =
     (let i = nat (Index ep ''://''); proto = take i ep; addr = drop (i + 3) ep
      in if (HasPrefix (ToLower ep) ''unix://'' \<or> HasPrefix (ToLower ep) ''tcp://'') \<and> addr \<noteq> []
         then Ok (proto, addr)
         else Err (Errorf (''Invalid endpoint: '' @ ep)))"

text \<open>\<open>net_Listen\<close> is the listening of the standard library.\<close>

definition Listen ::
    "'w node_os \<Rightarrow> (string \<Rightarrow> string \<Rightarrow> ('w, 'l) io) \<Rightarrow> string \<Rightarrow> ('w, 'l) io" where
  "Listen H net_Listen ep =
     bind (lift (ParseEndpoint ep))
       (\<lambda>(proto, addr).
          if proto = ''unix'' then
            (let path = ''/'' @ addr
             in call (os_Remove H path)
                  (\<lambda>err. if os_IsNotExist H err then net_Listen proto path else fail err)
                  (\<lambda>_. net_Listen proto path))
          else net_Listen proto addr)"

definition getLogLevel :: "string \<Rightarrow> int" where
  "getLogLevel fullMethod =
     (if fullMethod = ''/csi.v1.Identity/Probe'' \<or> fullMethod = ''/csi.v1.Node/NodeGetCapabilities'' \<or>
         fullMethod = ''/csi.v1.Node/NodeGetVolumeStats'' \<or> fullMethod = ''/csi.v1.Controller/ListVolumes''
      then 6 else 2)"

text \<open>The call with the texts it logs, each with its level (0 for an error). \<open>strip\<close> removes the
  secrets of a message.\<close>

definition LogGRPC ::
    "('q \<Rightarrow> string) \<Rightarrow> ('r \<Rightarrow> string) \<Rightarrow> string \<Rightarrow> ('q \<Rightarrow> ('w, 'r) io) \<Rightarrow> 'q \<Rightarrow>
     'w \<Rightarrow> ('r res \<times> (int \<times> string) list) \<times> 'w" where
  "LogGRPC stripReq stripResp fullMethod handler req w =
     (let level = getLogLevel fullMethod;
          logged = [(level, ''GRPC call: '' @ fullMethod), (level, ''GRPC request: '' @ stripReq req)]
      in case handler req w of
           (Err err, w') \<Rightarrow> ((Err err, logged @ [(0, ''GRPC error: '' @ Error err)]), w')
         | (Ok resp, w') \<Rightarrow> ((Ok resp, logged @ [(level, ''GRPC response: '' @ stripResp resp)]), w')
         | (Panic, w') \<Rightarrow> ((Panic, logged), w'))"

text \<open>The result of serving the metrics: the error of a closed connection is none.\<close>

definition trapClosedConnErr :: "go_error option \<Rightarrow> go_error option" where
  "trapClosedConnErr err =
     (case err of
        None \<Rightarrow> None
      | Some e \<Rightarrow> if Contains (Error e) ''use of closed network connection'' then None else Some e)"

section \<open>The configuration of the cloud\<close>

text \<open>The fields of the configuration that the driver sets.\<close>

record cloud_config =
  cfg_Location :: string
  cfg_DiskRateLimit :: bool
  cfg_SnapshotRateLimit :: bool
  cfg_UserAgent :: string
  cfg_ResourceManagerEndpoint :: string
  cfg_TenantID :: string
  cfg_AADClientID :: string
  cfg_AADFederatedTokenFile :: string
  cfg_UseFederatedWorkloadIdentityExtension :: bool

text \<open>Loading from a secret and from a file: a configuration, none, or an error. \<open>env\<close> is the
  environment.\<close>

record config_sources =
  cfs_secret :: "(string \<Rightarrow> string \<Rightarrow> cloud_config option res) option"
  cfs_file :: "string \<Rightarrow> cloud_config option res"
  cfs_env :: "string \<Rightarrow> string option"

definition loaded :: "cloud_config option res \<Rightarrow> cloud_config option" where
  "loaded r = (case r of Ok c \<Rightarrow> c | _ \<Rightarrow> None)"

definition cred_file :: "config_sources \<Rightarrow> string" where
  "cred_file E =
     (case cfs_env E DefaultAzureCredentialFileEnv of
        Some credFile \<Rightarrow> if TrimSpace credFile \<noteq> [] then credFile else DefaultCredFilePathLinux
      | None \<Rightarrow> DefaultCredFilePathLinux)"

definition env_or :: "config_sources \<Rightarrow> string \<Rightarrow> string \<Rightarrow> string" where
  "env_or E name old = (case cfs_env E name of Some v \<Rightarrow> if v \<noteq> [] then v else old | None \<Rightarrow> old)"

text \<open>The changes to a configuration that was loaded.\<close>

definition adjust_config :: "config_sources \<Rightarrow> string \<Rightarrow> bool \<Rightarrow> int \<Rightarrow> cloud_config \<Rightarrow> cloud_config" where
  "adjust_config E userAgent enableTrafficMgr trafficMgrPort c =
     (let c1 = c\<lparr>cfg_Location := ToLower (filter (\<lambda>x. x \<noteq> CHR '' '') (cfg_Location c)),
                 cfg_DiskRateLimit := False, cfg_SnapshotRateLimit := False, cfg_UserAgent := userAgent\<rparr>;
          c2 = (if enableTrafficMgr \<and> trafficMgrPort > 0
                then c1\<lparr>cfg_ResourceManagerEndpoint := ''http://localhost:'' @ Itoa trafficMgrPort @ ''/''\<rparr> else c1);
          c3 = c2\<lparr>cfg_TenantID := env_or E ''AZURE_TENANT_ID'' (cfg_TenantID c2),
                  cfg_AADClientID := env_or E ''AZURE_CLIENT_ID'' (cfg_AADClientID c2)\<rparr>
      in case cfs_env E ''AZURE_FEDERATED_TOKEN_FILE'' of
           Some f \<Rightarrow> if f \<noteq> [] then c3\<lparr>cfg_AADFederatedTokenFile := f,
                                       cfg_UseFederatedWorkloadIdentityExtension := True\<rparr> else c3
         | None \<Rightarrow> c3)"

text \<open>The configuration the cloud is initialised from, if any, and whether it comes from the secret.
  What the initialisation itself does is the cloud provider's.\<close>

definition GetCloudProviderFromClient ::
    "config_sources \<Rightarrow> string \<Rightarrow> string \<Rightarrow> string \<Rightarrow> bool \<Rightarrow> bool \<Rightarrow> int \<Rightarrow> (cloud_config option \<times> bool) res" where
  "GetCloudProviderFromClient E secretName secretNamespace userAgent allowEmpty enableTrafficMgr trafficMgrPort =
     (let secret = (case cfs_secret E of Some load \<Rightarrow> loaded (load secretNamespace secretName) | None \<Rightarrow> None);
          fileRes = cfs_file E (cred_file E)
      in case secret of
           Some c \<Rightarrow> Ok (Some (adjust_config E userAgent enableTrafficMgr trafficMgrPort c), True)
         | None \<Rightarrow>
             (case loaded fileRes of
                Some c \<Rightarrow> Ok (Some (adjust_config E userAgent enableTrafficMgr trafficMgrPort c), False)
              | None \<Rightarrow>
                  if allowEmpty then Ok (None, False)
                  else Err (Errorf (''no cloud config provided, error: '' @
                         (case fileRes of Err e \<Rightarrow> Error e | _ \<Rightarrow> ''<nil>'')))))"

section \<open>Facts\<close>

text \<open>The scheme of an endpoint is read without regard to case, but only the lower-case \<open>unix\<close> is
  listened on as a path: a socket in capitals is handed to the network as it is.\<close>

lemma endpoint_case:
  "ParseEndpoint ''UNIX://tmp/csi.sock'' = Ok (''UNIX'', ''tmp/csi.sock'') \<and>
   Listen H net_Listen ''UNIX://tmp/csi.sock'' = net_Listen ''UNIX'' ''tmp/csi.sock''"
proof -
  have p: "ParseEndpoint ''UNIX://tmp/csi.sock'' = Ok (''UNIX'', ''tmp/csi.sock'')" by code_simp
  have "bind (lift (Ok x)) k = k x" for x :: "string \<times> string" and k :: "string \<times> string \<Rightarrow> ('a, 'b) io" by simp
  with p show ?thesis by (simp add: Listen_def)
qed

text \<open>The location in the configuration fits a label: it has no blank and no capital.\<close>

lemma adjust_config_Location:
  "CHR '' '' \<notin> set (cfg_Location (adjust_config E ua tm port c)) \<and>
   ToLower (cfg_Location (adjust_config E ua tm port c)) = cfg_Location (adjust_config E ua tm port c)"
proof -
  have l: "cfg_Location (adjust_config E ua tm port c) = ToLower (filter (\<lambda>x. x \<noteq> CHR '' '') (cfg_Location c))"
    by (simp add: adjust_config_def Let_def split: option.split)
  have "x = CHR '' ''" if "lower_char x = CHR '' ''" for x
  proof (cases "is_upper x")
    case True
    then have "ord (lower_char x) = ord x + 32" by (simp add: lower_char_def is_upper_def)
    then show ?thesis using that True by (simp add: is_upper_def)
  qed (use that in \<open>simp add: lower_char_def\<close>)
  then show ?thesis unfolding l by (auto simp: ToLower_def)
qed

text \<open>Logging passes the answer of the call through.\<close>

lemma LogGRPC_transparent:
  "fst (fst (LogGRPC sq sr m h req w)) = fst (h req w) \<and> snd (LogGRPC sq sr m h req w) = snd (h req w)"
  by (simp add: LogGRPC_def Let_def split: prod.split res.split)

section \<open>The identity service of the second driver\<close>

definition GetPluginInfo_v2 :: "DriverCore \<Rightarrow> (string \<times> string) res" where
  "GetPluginInfo_v2 D =
     (if csi_Name D = [] then Err (StatusErr Unavailable ''DriverV2 name not configured'')
      else if csi_Version D = [] then Err (StatusErr Unavailable ''DriverV2 is missing version'')
      else Ok (csi_Name D, csi_Version D))"

definition Probe_v2 :: bool where
  "Probe_v2 = True"

definition GetPluginCapabilities_v2 :: "DriverCore \<Rightarrow> plugin_capability list" where
  "GetPluginCapabilities_v2 D =
     [CONTROLLER_SERVICE, VOLUME_ACCESSIBILITY_CONSTRAINTS, EXPANSION_OFFLINE] @
     (if enableDiskOnlineResize D then [EXPANSION_ONLINE] else [])"

section \<open>Serving\<close>

text \<open>
  \<open>InitOtelTracing\<close> of \<open>pkg/azuredisk/trace.go\<close> makes the exporter of traces and can fail, its shutdown as
  well; \<open>grpc_Serve\<close> serves the three services on a listener, with the handler of traces or without, and
  ends with an error, which is \<open>grpc.ErrServerStopped\<close> after a graceful stop. \<open>klog.Fatalf\<close> ends the
  process: the call does not return.
\<close>

record ('w, 'l) server_env =
  sr_marshal :: "VersionInfo \<Rightarrow> string res"
  sr_build :: build_info
  sr_Listen :: "string \<Rightarrow> string \<Rightarrow> ('w, 'l) io"
  sr_InitOtelTracing :: "('w, unit) io"
  sr_Shutdown :: "('w, unit) io"
  sr_Serve :: "bool \<Rightarrow> 'l \<Rightarrow> ('w, unit) io"
  sr_ErrServerStopped :: "go_error \<Rightarrow> bool"

definition listen_and_serve :: "DriverCore \<Rightarrow> 'w node_os \<Rightarrow> ('w, 'l) server_env \<Rightarrow> bool \<Rightarrow> ('w, unit) io" where
  "listen_and_serve D H E traced =
     call (Listen H (sr_Listen E) (endpoint D)) (\<lambda>err. panic)
       (\<lambda>listener. call (sr_Serve E traced listener)
          (\<lambda>err. if sr_ErrServerStopped E err then ret () else fail err) ret)"

definition Run :: "DriverCore \<Rightarrow> 'w node_os \<Rightarrow> ('w, 'l) server_env \<Rightarrow> ('w, unit) io" where
  "Run D H E =
     call (lift (GetVersionYAML (sr_marshal E) (sr_build E) (csi_Name D))) (\<lambda>err. panic)
       (\<lambda>versionMeta.
          if enableOtelTracing D then
            call (sr_InitOtelTracing E) (\<lambda>err. panic)
              (\<lambda>_. deferred (call (sr_Shutdown E) (\<lambda>err. ret ()) ret) (listen_and_serve D H E True))
          else listen_and_serve D H E False)"

text \<open>The second driver makes no exporter of traces.\<close>

definition Run_v2 :: "DriverCore \<Rightarrow> 'w node_os \<Rightarrow> ('w, 'l) server_env \<Rightarrow> ('w, unit) io" where
  "Run_v2 D H E =
     call (lift (GetVersionYAML (sr_marshal E) (sr_build E) (csi_Name D))) (\<lambda>err. panic)
       (\<lambda>versionMeta. listen_and_serve D H E (enableOtelTracing D))"

end
