(* ===== verification/ControllerServerV2.thy ===== *)
theory ControllerServerV2
  imports ControllerServer
begin

text \<open>
  The files \<open>pkg/azuredisk/azuredisk_v2.go\<close> and \<open>pkg/azuredisk/controllerserver_v2.go\<close>, built with the
  tag \<open>azurediskv2\<close>: a second driver with the same interface. Both drivers embed \<open>DriverCore\<close>, so that the
  configuration, the services and the state are the ones of the first driver. Where a method of
  \<open>DriverV2\<close> has the same statements as the method of \<open>Driver\<close>, its definition is that of the first
  driver; the others are written out.
\<close>

section \<open>Construction\<close>

definition controllerCap_v2 :: "controller_rpc list" where
  "controllerCap_v2 =
     [CREATE_DELETE_VOLUME, PUBLISH_UNPUBLISH_VOLUME, CREATE_DELETE_SNAPSHOT, LIST_SNAPSHOTS,
      CLONE_VOLUME, EXPAND_VOLUME, LIST_VOLUMES, LIST_VOLUMES_PUBLISHED_NODES,
      RPC_SINGLE_NODE_MULTI_WRITER]"

definition volumeCap_v2 :: "access_mode list" where
  "volumeCap_v2 =
     [SINGLE_NODE_WRITER, SINGLE_NODE_READER_ONLY, SINGLE_NODE_SINGLE_WRITER, SINGLE_NODE_MULTI_WRITER]"

definition nodeCap_v2 :: "node_rpc list" where
  "nodeCap_v2 = [STAGE_UNSTAGE_VOLUME, NODE_EXPAND_VOLUME, GET_VOLUME_STATS, NODE_SINGLE_NODE_MULTI_WRITER]"

text \<open>The options that are not copied have the zero value of their type.\<close>

definition newDriverV2 :: "string \<Rightarrow> DriverOptions \<Rightarrow> DriverCore" where
  "newDriverV2 driverVersion options =
     AddNodeServiceCapabilities nodeCap_v2
       (snd (AddVolumeCapabilityAccessModes volumeCap_v2
         (AddControllerServiceCapabilities controllerCap_v2
           \<lparr>csi_Name = opt_DriverName options,
            csi_NodeID = opt_NodeID options,
            csi_Version = driverVersion,
            csi_VolumeAttachLimit = opt_VolumeAttachLimit options,
            csi_ReservedDataDiskSlotNum = 0,
            csi_Cap = [], csi_VC = [], csi_NSCap = [],
            perfOptimizationEnabled = opt_EnablePerfOptimization options,
            cloudConfigSecretName = opt_CloudConfigSecretName options,
            cloudConfigSecretNamespace = opt_CloudConfigSecretNamespace options,
            customUserAgent = opt_CustomUserAgent options,
            userAgentSuffix = opt_UserAgentSuffix options,
            useCSIProxyGAInterface = opt_UseCSIProxyGAInterface options,
            enableDiskOnlineResize = False,
            allowEmptyCloudConfig = False,
            enableListVolumes = False,
            enableListSnapshots = False,
            supportZone = False,
            getNodeInfoFromLabels_opt = False,
            enableDiskCapacityCheck = False,
            disableUpdateCache = False,
            enableTrafficManager = False,
            trafficManagerPort = 0,
            vmssCacheTTLInSeconds = 0,
            volStatsCacheExpireInMinutes = 0,
            attachDetachInitialDelayInMs = 0,
            vmType = [],
            enableWindowsHostProcess = False,
            getNodeIDFromIMDS = False,
            enableOtelTracing = opt_EnableOtelTracing options,
            shouldWaitForSnapshotReady = False,
            checkDiskLUNCollision = False,
            forceDetachBackoff = False,
            endpoint = opt_Endpoint options,
            disableAVSetNodes = opt_DisableAVSetNodes options\<rparr>)))"

text \<open>\<open>NewDriver\<close> of this build chooses by the flag \<open>temp-use-driver-v2\<close>; without the tag it is always the
  first driver.\<close>

datatype csi_driver = DriverV1 DriverCore | DriverV2 DriverCore

definition NewDriver_v1 :: "string \<Rightarrow> DriverOptions \<Rightarrow> csi_driver" where
  "NewDriver_v1 driverVersion options = DriverV1 (newDriverV1 driverVersion options)"

definition NewDriver_v2 :: "bool \<Rightarrow> string \<Rightarrow> DriverOptions \<Rightarrow> csi_driver" where
  "NewDriver_v2 useDriverV2 driverVersion options =
     (if \<not> useDriverV2 then DriverV1 (newDriverV1 driverVersion options)
      else DriverV2 (newDriverV2 driverVersion options))"

text \<open>The cloud configuration: the life of the machine caches is left as it is.\<close>

definition configure_cloud_v2 :: "string \<Rightarrow> string \<Rightarrow> DriverCore \<Rightarrow> cloud_settings \<Rightarrow> cloud_settings" where
  "configure_cloud_v2 VMTypeStandard VMTypeVMSS D c =
     (let c1 = (if vmType D \<noteq> [] then c\<lparr>cs_VMType := vmType D\<rparr> else c)
      in if csi_NodeID D = [] then
           (let m = c1\<lparr>cs_UseInstanceMetadata := False\<rparr>;
                m1 = (if cs_VMType m = VMTypeStandard \<and> cs_DisableAvailabilitySetNodes m
                      then m\<lparr>cs_DisableAvailabilitySetNodes := False\<rparr> else m)
            in if cs_VMType m1 = VMTypeVMSS \<and> \<not> cs_DisableAvailabilitySetNodes m1 \<and> disableAVSetNodes D
               then m1\<lparr>cs_DisableAvailabilitySetNodes := True\<rparr> else m1)
         else c1)"

text \<open>The state at the start. \<open>ForceDetachBackoff\<close> of the disk controller is not set.\<close>

definition new_driver_v2 :: "DriverCore \<Rightarrow> 'w \<Rightarrow> 'w driver" where
  "new_driver_v2 D w =
     \<lparr>volumeLocks = NewVolumeLocks,
      diskController = (NewManagedDiskController w)
        \<lparr>DisableUpdateCache := disableUpdateCache D,
         AttachDetachInitialDelayInMs := attachDetachInitialDelayInMs D\<rparr>\<rparr>"

section \<open>Checks of a disk\<close>

text \<open>The disk of a URI; the throttling cache is not asked.\<close>

definition checkDiskExists_v2 :: "'w services \<Rightarrow> string \<Rightarrow> ('w, disk) drv_io" where
  "checkDiskExists_v2 V diskURI =
     bind (lift (GetDiskName diskURI))
       (\<lambda>diskName. bind (lift (GetResourceGroupFromURI diskURI))
          (\<lambda>resourceGroup. bind (lift (cl_GetDiskClientForSub (sv_cloud V) (GetSubscriptionIDFromURI diskURI)))
             (\<lambda>diskClient. in_world (dc_Get diskClient resourceGroup diskName))))"

text \<open>An error of the reading is taken as a disk that does not exist. The comparison with the empty disk
  changes nothing, because that one has no properties either.\<close>

definition checkDiskCapacity_v2 ::
    "'w services \<Rightarrow> string \<Rightarrow> string \<Rightarrow> string \<Rightarrow> int \<Rightarrow> ('w, unit) drv_io" where
  "checkDiskCapacity_v2 V subsID resourceGroup diskName requestGiB =
     bind (lift (cl_GetDiskClientForSub (sv_cloud V) subsID))
       (\<lambda>diskClient. call (in_world (dc_Get diskClient resourceGroup diskName))
          (\<lambda>err. ret ())
          (\<lambda>d. case Option.bind (disk_Properties d) prop_DiskSizeGB of
               None \<Rightarrow> ret ()
             | Some gb \<Rightarrow>
                 if gb \<noteq> requestGiB then
                   fail (StatusErr AlreadyExists
                     (''the request volume already exists, but its capacity('' @ Itoa gb @
                      '') is different from ('' @ Itoa requestGiB @ '')''))
                 else ret ()))"

section \<open>CreateVolume\<close>

text \<open>The same statements as the method of the first driver.\<close>

definition GetSourceDiskSize_v2 ::
    "'w services \<Rightarrow> string \<Rightarrow> string \<Rightarrow> string \<Rightarrow> int \<Rightarrow> int \<Rightarrow> ('w, int \<times> disk) drv_io" where
  "GetSourceDiskSize_v2 = GetSourceDiskSize"

text \<open>The content source. The zone of the source disk is not looked at.\<close>

definition volume_source_v2 ::
    "'w services \<Rightarrow> content_source option \<Rightarrow> ManagedDiskParameters \<Rightarrow> int \<Rightarrow>
     ('w, string \<times> string \<times> content_source \<times> str_map) drv_io" where
  "volume_source_v2 V content p requestGiB =
     (case content of
        None \<Rightarrow> ret ([], [], EmptySource, mdp_VolumeContext p)
      | Some (SnapshotSource sourceID) \<Rightarrow>
          ret (sourceID, SourceSnapshot, SnapshotSource sourceID, mdp_VolumeContext p)
      | Some src \<Rightarrow>
          (let sourceID = (case src of VolumeSource i \<Rightarrow> i | _ \<Rightarrow> [])
           in call (GetSourceDiskSize_v2 V (GetSubscriptionIDFromURI sourceID) (mdp_ResourceGroup p)
                      (Base sourceID) 0 SourceDiskSearchMaxDepth)
                (\<lambda>err. ret (sourceID, SourceVolume, VolumeSource sourceID, mdp_VolumeContext p))
                (\<lambda>(sourceGiB, d).
                   ret (sourceID, SourceVolume, VolumeSource sourceID,
                        if sourceGiB < to_int32 requestGiB
                        then AList.update ResizeRequired (FormatBool True) (mdp_VolumeContext p)
                        else mdp_VolumeContext p))))"

text \<open>The options of the disk: \<open>DiskEncryptionType\<close> and \<open>SkipGetDiskOperation\<close> are not among the fields
  that are set.\<close>

definition volume_options_v2 ::
    "ManagedDiskParameters \<Rightarrow> string \<Rightarrow> string \<Rightarrow> int \<Rightarrow> string \<Rightarrow> string \<Rightarrow> bool \<Rightarrow> string \<Rightarrow> string \<Rightarrow>
     ManagedDiskOptions" where
  "volume_options_v2 p zone skuName requestGiB sourceID sourceType stack policy publicAccess =
     \<lparr>mdo_StorageAccountType = skuName, mdo_DiskName = mdp_DiskName p, mdo_PVCName = [],
      mdo_ResourceGroup = mdp_ResourceGroup p, mdo_AvailabilityZone = zone, mdo_Tags = mdp_Tags p,
      mdo_DiskIOPSReadWrite = mdp_DiskIOPSReadWrite p, mdo_DiskMBpsReadWrite = mdp_DiskMBPSReadWrite p,
      mdo_SourceResourceID = sourceID, mdo_SourceType = sourceType,
      mdo_DiskEncryptionSetID = mdp_DiskEncryptionSetID p, mdo_DiskEncryptionType = [],
      mdo_SizeGB = requestGiB, mdo_MaxShares = to_int32 (mdp_MaxShares p),
      mdo_LogicalSectorSize = to_int32 (mdp_LogicalSectorSize p), mdo_SkipGetDiskOperation = False,
      mdo_PublicNetworkAccess = (if stack then [] else publicAccess),
      mdo_NetworkAccessPolicy = (if stack then [] else policy),
      mdo_DiskAccessID = (if \<not> stack \<and> mdp_DiskAccessID p \<noteq> [] then Some (mdp_DiskAccessID p) else None),
      mdo_BurstingEnabled = mdp_EnableBursting p, mdo_SubscriptionID = mdp_SubscriptionID p,
      mdo_Location = mdp_Location p, mdo_PerformancePlus = mdp_PerformancePlus p\<rparr>"

text \<open>From the zone on: the capacity check, the source, the call of \<open>CreateManagedDisk\<close> and the answer. The
  zone is picked with the location of the cloud, not the one of the parameters.\<close>

definition create_disk_v2 ::
    "sdk \<Rightarrow> DriverCore \<Rightarrow> 'w services \<Rightarrow> create_volume_request \<Rightarrow> int \<Rightarrow>
     ManagedDiskParameters \<times> string \<times> string \<times> string \<Rightarrow> ('w, csi_volume) drv_io" where
  "create_disk_v2 S D V req requestGiB normal =
     (case normal of (p0, skuName, policy, publicAccess) \<Rightarrow>
      let C = sv_cloud V;
          zone = PickAvailabilityZone (cv_AccessibilityRequirements req) (cl_Location C) (topologyKey D)
      in bind (if enableDiskCapacityCheck D
               then checkDiskCapacity_v2 V (mdp_SubscriptionID p0) (mdp_ResourceGroup p0) (mdp_DiskName p0) requestGiB
               else ret ())
           (\<lambda>_.
              let p1 = (if EqualFold (mdp_WriteAcceleratorEnabled p0) TrueValue
                        then p0\<lparr>mdp_Tags := AList.update (azure_WriteAcceleratorEnabled S) TrueValue (mdp_Tags p0)\<rparr>
                        else p0)
              in bind (volume_source_v2 V (cv_VolumeContentSource req) p1 requestGiB)
                   (\<lambda>(sourceID, sourceType, contentSource, context).
                      let p2 = p1\<lparr>mdp_VolumeContext := AList.update RequestedSizeGib (Itoa requestGiB) context\<rparr>
                      in call (on_controller
                                 (CreateManagedDisk S C (sv_attempts V)
                                    (volume_options_v2 p2 zone skuName requestGiB sourceID sourceType
                                       (IsAzureStackCloud (cl_Cloud C) (cl_DisableAzureStackCloud C))
                                       policy publicAccess)))
                           (\<lambda>err. if Contains (Error err) NotFoundText
                                  then fail (StatusErr NotFound (Error err))
                                  else fail (StatusErr Internal (Error err)))
                           (\<lambda>diskURI. ret
                              \<lparr>vol_VolumeId = diskURI, vol_CapacityBytes = GiBToBytes requestGiB,
                               vol_VolumeContext = mdp_VolumeContext p2, vol_ContentSource = contentSource,
                               vol_AccessibleTopology = [[(topologyKey D, zone)]]\<rparr>))))"

text \<open>The checks, the size and the normal form of the parameters are those of the first driver, always with
  the driver's own cloud.\<close>

definition CreateVolume_v2 ::
    "sdk \<Rightarrow> DriverCore \<Rightarrow> 'w services \<Rightarrow> create_volume_request \<Rightarrow> ('w, csi_volume) drv_io" where
  "CreateVolume_v2 S D V req =
     bind (lift (validate_create S D V req))
       (\<lambda>p. with_volume_lock (cv_Name req)
          (bind (lift (requested_size p (cv_RequiredBytes req) (cv_LimitBytes req)))
             (\<lambda>requestGiB. bind (normalize_create S V (sv_cloud V) (cv_Name req) p)
                (create_disk_v2 S D V req requestGiB))))"

text \<open>The same statements as the methods of the first driver.\<close>

definition DeleteVolume_v2 :: "DriverCore \<Rightarrow> 'w services \<Rightarrow> string \<Rightarrow> ('w, unit) drv_io" where
  "DeleteVolume_v2 = DeleteVolume"

definition ControllerGetVolume_v2 :: "('w, unit) drv_io" where
  "ControllerGetVolume_v2 = fail (StatusErr Unimplemented [])"

definition ControllerModifyVolume_v2 :: "('w, unit) drv_io" where
  "ControllerModifyVolume_v2 = fail (StatusErr Unimplemented [])"

section \<open>ControllerPublishVolume and ControllerUnpublishVolume\<close>

text \<open>Attaching a disk: no LUN is counted as taken beyond those the machine shows. A disk attached elsewhere,
  the same node included, is detached there and attached again, once.\<close>

definition publish_attach_v2 ::
    "sdk \<Rightarrow> 'w services \<Rightarrow> string \<Rightarrow> string \<Rightarrow> string \<Rightarrow> str_map \<Rightarrow> disk \<Rightarrow> ('w, int) drv_io" where
  "publish_attach_v2 S V diskName diskURI nodeName volumeContext dsk =
     or_status Internal (GetCachingMode S volumeContext)
       (\<lambda>cachingMode.
          let C = sv_cloud V;
              attach = on_controller (AttachDisk S C diskName diskURI nodeName cachingMode (Some (0, dsk)) []);
              failed = (\<lambda>err. fail (StatusErr Internal
                         (''Attach volume '' @ diskURI @ '' to instance '' @ nodeName @ '' failed with '' @ Error err)))
          in call attach
               (\<lambda>err. case err of
                   DanglingAttachError _ currentNode \<Rightarrow>
                     call (on_controller (DetachDisk S C diskName diskURI currentNode))
                       (\<lambda>err. fail (StatusErr Internal (''Could not detach volume '' @ diskURI @
                          '' from node '' @ currentNode @ '': '' @ Error err)))
                       (\<lambda>_. call attach failed ret)
                 | _ \<Rightarrow> failed err)
               ret)"

text \<open>An error of \<open>GetDiskLun\<close> other than throttling or a missing instance is taken as a disk that is not
  attached.\<close>

definition ensure_attached_v2 ::
    "sdk \<Rightarrow> 'w services \<Rightarrow> string \<Rightarrow> string \<Rightarrow> string \<Rightarrow> str_map \<Rightarrow> disk \<Rightarrow> ('w, int) drv_io" where
  "ensure_attached_v2 S V diskName diskURI nodeName volumeContext dsk =
     bind (on_controller (GetDiskLun S (sv_cloud V) diskName diskURI nodeName))
       (\<lambda>(lun, vmState, err).
          if err = Some InstanceNotFound then
            fail (StatusErr NotFound (''failed to get azure instance id for node '' @ dquoted nodeName @
              '' ('' @ Error InstanceNotFound @ '')''))
          else (case err of
             None \<Rightarrow>
               if (case vmState of Some st \<Rightarrow> ToLower st = ''failed'' | None \<Rightarrow> False) then
                 call (on_controller (UpdateVM (sv_cloud V) nodeName))
                   (\<lambda>err. fail (StatusErr Internal (''update instance '' @ dquoted nodeName @
                      '' failed with '' @ Error err)))
                   (\<lambda>_. ret lun)
               else ret lun
           | Some e \<Rightarrow>
               if IsThrottlingError (Some e) then fail (StatusErr Internal (Error e))
               else publish_attach_v2 S V diskName diskURI nodeName volumeContext dsk))"

definition ControllerPublishVolume_v2 ::
    "sdk \<Rightarrow> 'w services \<Rightarrow> string \<Rightarrow> volume_capability option \<Rightarrow> string \<Rightarrow> str_map \<Rightarrow> ('w, str_map) drv_io" where
  "ControllerPublishVolume_v2 S V diskURI volCap nodeID volumeContext =
     (if diskURI = [] then fail (StatusErr InvalidArgument ''Volume ID not provided'')
      else (case volCap of
        None \<Rightarrow> fail (StatusErr InvalidArgument ''Volume capability not provided'')
      | Some cap \<Rightarrow>
          call (lift (GetMaxShares volumeContext))
            (\<lambda>err. fail (StatusErr InvalidArgument ''MaxShares value not supported''))
            (\<lambda>maxShares. or_status InvalidArgument (IsValidVolumeCapabilities [cap] maxShares)
               (\<lambda>_. call (checkDiskExists_v2 V diskURI)
                  (\<lambda>err. fail (StatusErr NotFound (''Volume not found, failed with error: '' @ Error err)))
                  (\<lambda>dsk.
                     if nodeID = [] then fail (StatusErr InvalidArgument ''Node ID not provided'')
                     else or_status Internal (GetDiskName diskURI)
                       (\<lambda>diskName. bind (ensure_attached_v2 S V diskName diskURI nodeID volumeContext dsk)
                          (\<lambda>lun. lift (publish_context (Some dsk) volumeContext lun))))))))"

definition ControllerUnpublishVolume_v2 ::
    "sdk \<Rightarrow> 'w services \<Rightarrow> string \<Rightarrow> string \<Rightarrow> ('w, unit) drv_io" where
  "ControllerUnpublishVolume_v2 S V diskURI nodeID =
     (if diskURI = [] then fail (StatusErr InvalidArgument ''Volume ID not provided'')
      else if nodeID = [] then fail (StatusErr InvalidArgument ''Node ID not provided'')
      else or_status Internal (GetDiskName diskURI)
        (\<lambda>diskName. call (on_controller (DetachDisk S (sv_cloud V) diskName diskURI nodeID))
           (\<lambda>err. if Contains (Error err) ErrDiskNotFound then ret ()
                  else fail (StatusErr Internal
                         (''Could not detach volume '' @ dquoted diskURI @ '' from node '' @ dquoted nodeID @
                          '': '' @ Error err)))
           (\<lambda>_. ret ())))"

section \<open>Capabilities and lists\<close>

definition ValidateVolumeCapabilities_v2 ::
    "'w services \<Rightarrow> string \<Rightarrow> volume_capability list option \<Rightarrow> str_map \<Rightarrow> ('w, validate_response) drv_io" where
  "ValidateVolumeCapabilities_v2 V diskURI volumeCapabilities params =
     (if diskURI = [] then fail (StatusErr InvalidArgument ''Volume ID missing in the request'')
      else (case volumeCapabilities of
        None \<Rightarrow> fail (StatusErr InvalidArgument ''VolumeCapabilities missing in the request'')
      | Some caps \<Rightarrow>
          call (lift (GetMaxShares params))
            (\<lambda>err. fail (StatusErr InvalidArgument ''MaxShares value not supported''))
            (\<lambda>maxShares. call (lift (IsValidVolumeCapabilities caps maxShares))
               (\<lambda>err. ret (ValidateMessage (Error err)))
               (\<lambda>_. call (checkDiskExists_v2 V diskURI)
                  (\<lambda>err. fail (StatusErr NotFound (''Volume not found, failed with error: '' @ Error err)))
                  (\<lambda>_. ret (Confirmed caps))))))"

definition ControllerGetCapabilities_v2 :: "DriverCore \<Rightarrow> controller_rpc list" where
  "ControllerGetCapabilities_v2 D = csi_Cap D"

definition GetCapacity_v2 :: "('w, unit) drv_io" where
  "GetCapacity_v2 = fail (StatusErr Unimplemented [])"

text \<open>The four methods of \<open>ListVolumes\<close> have the same statements as those of the first driver.\<close>

definition listVolumesByResourceGroup_v2 ::
    "'w services \<Rightarrow> string \<Rightarrow> list_entry list \<Rightarrow> int \<Rightarrow> int \<Rightarrow> string list option \<Rightarrow> ('w, listVolumeStatus) drv_io" where
  "listVolumesByResourceGroup_v2 = listVolumesByResourceGroup"

definition listVolumesInNodeResourceGroup_v2 ::
    "'w services \<Rightarrow> int \<Rightarrow> int \<Rightarrow> ('w, list_entry list \<times> string) drv_io" where
  "listVolumesInNodeResourceGroup_v2 V start maxEntries =
     bind (listVolumesByResourceGroup_v2 V (cl_ResourceGroup (sv_cloud V)) [] start maxEntries None)
       (\<lambda>st. case list_err st of
           Some e \<Rightarrow> fail e
         | None \<Rightarrow> ret (entries st, if \<not> isCompleteRun st then Itoa (numVisited st) else []))"

definition listVolumesInCluster_v2 ::
    "DriverCore \<Rightarrow> 'w services \<Rightarrow> ('w, (string \<times> string) option list) io \<Rightarrow> int \<Rightarrow> int \<Rightarrow>
     ('w, list_entry list \<times> string) drv_io" where
  "listVolumesInCluster_v2 = listVolumesInCluster"

definition ListVolumes_v2 ::
    "DriverCore \<Rightarrow> 'w services \<Rightarrow> string \<Rightarrow> int \<Rightarrow> ('w, list_entry list \<times> string) drv_io" where
  "ListVolumes_v2 D V startingToken maxEntries =
     (let go = (\<lambda>start.
            case Option.bind (cl_KubeClient (sv_cloud V)) kc_PersistentVolumes of
              Some listPVs \<Rightarrow> listVolumesInCluster_v2 D V listPVs start maxEntries
            | None \<Rightarrow> listVolumesInNodeResourceGroup_v2 V start maxEntries)
      in if startingToken = [] then go 0
         else
           call (lift (Atoi startingToken))
             (\<lambda>err. fail (StatusErr Aborted (''ListVolumes starting token('' @ startingToken @
                '') parsing with error: '' @ Error err)))
             (\<lambda>start. if start < 0 then
                  fail (StatusErr Aborted (''ListVolumes starting token('' @ Itoa start @ '') can not be negative''))
                else go start))"

section \<open>ControllerExpandVolume\<close>

text \<open>A disk without properties is a nil dereference here.\<close>

definition ControllerExpandVolume_v2 ::
    "sdk \<Rightarrow> DriverCore \<Rightarrow> 'w services \<Rightarrow> string \<Rightarrow> int \<Rightarrow> ('w, int \<times> bool) drv_io" where
  "ControllerExpandVolume_v2 S D V diskURI capacityBytes =
     (if diskURI = [] then fail (StatusErr InvalidArgument ''Volume ID missing in the request'')
      else if \<not> is_Ok (ValidateControllerServiceRequest D EXPAND_VOLUME) then
        fail (StatusErr InvalidArgument ''invalid expand volume request: '')
      else if capacityBytes = 0 then
        fail (StatusErr InvalidArgument ''volume capacity range missing in request'')
      else
        call (lift (IsValidDiskURI diskURI))
          (\<lambda>err. fail (StatusErr InvalidArgument (''disk URI('' @ diskURI @ '') is not valid: '' @ Error err)))
          (\<lambda>_. call (lift (GetDiskName diskURI))
             (\<lambda>err. fail (StatusErr Internal (''could not get disk name from diskURI('' @ diskURI @
                '') with error('' @ Error err @ '')'')))
             (\<lambda>diskName. call (lift (GetResourceGroupFromURI diskURI))
                (\<lambda>err. fail (StatusErr Internal (''could not get resource group from diskURI('' @ diskURI @
                   '') with error('' @ Error err @ '')'')))
                (\<lambda>resourceGroup.
                   let subsID = GetSubscriptionIDFromURI diskURI
                   in call (lift (cl_GetDiskClientForSub (sv_cloud V) subsID))
                        (\<lambda>err. fail (StatusErr Internal (''could not get disk client for subscription('' @ subsID @
                           '') with error('' @ Error err @ '')'')))
                        (\<lambda>diskClient. call (in_world (dc_Get diskClient resourceGroup diskName))
                           (\<lambda>err. fail (StatusErr Internal (''could not get the disk('' @ diskName @ '') under rg('' @
                              resourceGroup @ '') with error('' @ Error err @ '')'')))
                           (\<lambda>result. case disk_Properties result of
                                None \<Rightarrow> panic
                              | Some p \<Rightarrow>
                                  if prop_DiskSizeGB p = None then
                                    fail (StatusErr Internal (''could not get size of the disk('' @ diskName @ '')''))
                                  else
                                    call (on_controller (ResizeDisk S (sv_cloud V) (sv_RoundUpToGiBInt32 V) diskURI
                                            capacityBytes (enableDiskOnlineResize D)))
                                      (\<lambda>err. fail (StatusErr Internal (''failed to resize disk('' @ diskURI @
                                         '') with error('' @ Error err @ '')'')))
                                      (\<lambda>newSize. if int64_range newSize then ret (newSize, True)
                                         else fail (StatusErr Internal ''failed to transform disk size with error(<nil>)''))))))))"

section \<open>Snapshots\<close>

text \<open>The same statements as the methods of the first driver.\<close>

definition getSnapshotInfo_v2 :: "string \<Rightarrow> (string \<times> string \<times> string) res" where
  "getSnapshotInfo_v2 = getSnapshotInfo"

definition getSnapshotByID_v2 ::
    "'w services \<Rightarrow> string \<Rightarrow> string \<Rightarrow> string \<Rightarrow> string \<Rightarrow> ('w, csi_snapshot) drv_io" where
  "getSnapshotByID_v2 V subsID0 resourceGroup0 snapshotID sourceVolumeID =
     or_status Internal
       (if IsARMResourceID snapshotID then getSnapshotInfo_v2 snapshotID
        else Ok (snapshotID, resourceGroup0, subsID0))
       (\<lambda>(snapshotName, resourceGroup, subsID). snapshot_client V subsID
          (\<lambda>snapshotClient. call (in_world (sc_Get snapshotClient resourceGroup snapshotName))
             (\<lambda>rerr. fail (StatusErr Internal (''get snapshot '' @ snapshotName @ '' from rg('' @ resourceGroup @
                '') error: '' @ Error rerr)))
             (\<lambda>snap. lift (GenerateCSISnapshot sourceVolumeID (Some snap)))))"

definition DeleteSnapshot_v2 :: "'w services \<Rightarrow> string \<Rightarrow> ('w, unit) drv_io" where
  "DeleteSnapshot_v2 V snapshotID =
     (if snapshotID = [] then fail (StatusErr InvalidArgument ''Snapshot ID must be provided'')
      else
        or_status Internal
          (if IsARMResourceID snapshotID then getSnapshotInfo_v2 snapshotID
           else Ok (snapshotID, cl_ResourceGroup (sv_cloud V), []))
          (\<lambda>(snapshotName, resourceGroup, subsID). snapshot_client V subsID
             (\<lambda>snapshotClient. call (in_world (sc_Delete snapshotClient resourceGroup snapshotName))
                (\<lambda>err. bind (sleep_if_throttled V err)
                   (\<lambda>_. fail (StatusErr Internal (''delete snapshot error: '' @ Error err))))
                ret)))"

definition ListSnapshots_v2 ::
    "'w services \<Rightarrow> list_snapshots_request \<Rightarrow> ('w, csi_snapshot list \<times> string) drv_io" where
  "ListSnapshots_v2 V req =
     (if ls_SnapshotId req \<noteq> [] then
        call (getSnapshotByID_v2 V [] (cl_ResourceGroup (sv_cloud V)) (ls_SnapshotId req) (ls_SourceVolumeId req))
          (\<lambda>err. if Contains (Error err) ResourceNotFound then ret ([], []) else fail err)
          (\<lambda>snap. ret ([snap], []))
      else
        call (in_world (sc_List (cl_GetSnapshotClient (sv_cloud V)) (cl_ResourceGroup (sv_cloud V))))
          (\<lambda>err. fail (StatusErr Internal (''Unknown list snapshot error: '' @ Error err)))
          (\<lambda>snapshots. lift (GetEntriesAndNextToken (Some req) snapshots)))"

text \<open>The loop over the parameters, which knows neither the location nor the user agent.\<close>

record snapshot_parameters_v2 =
  sp2_customTags :: string
  sp2_incremental :: bool
  sp2_subsID :: string
  sp2_resourceGroup :: string
  sp2_dataAccessAuthMode :: string

fun snapshot_params_v2 :: "str_map \<Rightarrow> snapshot_parameters_v2 \<Rightarrow> snapshot_parameters_v2 res" where
  "snapshot_params_v2 [] p = Ok p"
| "snapshot_params_v2 ((k, v) # rest) p =
     (let key = ToLower k
      in if key = TagsField then snapshot_params_v2 rest (p\<lparr>sp2_customTags := v\<rparr>)
         else if key = IncrementalField then
           snapshot_params_v2 rest (if v = ''false'' then p\<lparr>sp2_incremental := False\<rparr> else p)
         else if key = ResourceGroupField then snapshot_params_v2 rest (p\<lparr>sp2_resourceGroup := v\<rparr>)
         else if key = SubscriptionIDField then snapshot_params_v2 rest (p\<lparr>sp2_subsID := v\<rparr>)
         else if key = DataAccessAuthModeField then snapshot_params_v2 rest (p\<lparr>sp2_dataAccessAuthMode := v\<rparr>)
         else Err (StatusErr Internal (''AzureDisk - invalid option '' @ k @ '' in VolumeSnapshotClass'')))"

text \<open>\<open>CreateSnapshot\<close> takes no lock of the snapshot and always waits until the snapshot is ready.\<close>

definition CreateSnapshot_v2 ::
    "sdk \<Rightarrow> 'w services \<Rightarrow> string \<Rightarrow> string \<Rightarrow> str_map \<Rightarrow> ('w, csi_snapshot) drv_io" where
  "CreateSnapshot_v2 S V sourceVolumeID name parameters =
     (if sourceVolumeID = [] then
        fail (StatusErr InvalidArgument ''CreateSnapshot Source Volume ID must be provided'')
      else if name = [] then fail (StatusErr InvalidArgument ''snapshot name must be provided'')
      else
        bind get_state
          (\<lambda>s. bind (lift (CreateValidDiskName (sv_NewUUID V (world (diskController s))) name))
             (\<lambda>snapshotName. bind (lift (snapshot_params_v2 parameters
                   \<lparr>sp2_customTags = [], sp2_incremental = True, sp2_subsID = [], sp2_resourceGroup = [],
                    sp2_dataAccessAuthMode = []\<rparr>))
                (\<lambda>p.
                   let C = sv_cloud V;
                       incremental = (sp2_incremental p \<and> \<not> IsAzureStackCloud (cl_Cloud C) (cl_DisableAzureStackCloud C));
                       subsID = sp2_subsID p
                   in call (lift (if sp2_resourceGroup p = [] then GetResourceGroupFromURI sourceVolumeID
                                  else Ok (sp2_resourceGroup p)))
                        (\<lambda>err. fail (StatusErr InvalidArgument (''could not get resource group from diskURI('' @
                           sourceVolumeID @ '') with error('' @ Error err @ '')'')))
                        (\<lambda>resourceGroup. or_status InvalidArgument (ConvertTagsToMap (sp2_customTags p))
                           (\<lambda>tags. or_status InvalidArgument
                              (if sp2_dataAccessAuthMode p \<noteq> []
                               then ValidateDataAccessAuthMode S (sp2_dataAccessAuthMode p) else Ok ())
                              (\<lambda>_. snapshot_client V subsID
                                 (\<lambda>snapshotClient.
                                    bind (put_snapshot V snapshotClient resourceGroup snapshotName
                                            (snapshot_model V sourceVolumeID CreateOptionCopy (cl_Location C)
                                               incremental (sp2_dataAccessAuthMode p) tags))
                                      (\<lambda>_. bind (wait_snapshot V subsID resourceGroup snapshotName)
                                         (\<lambda>_. getSnapshotByID_v2 V subsID resourceGroup snapshotName
                                            sourceVolumeID))))))))))"

end
