(* ===== verification/ControllerServerV2Correct.thy ===== *)
theory ControllerServerV2Correct
  imports ControllerServerV2 ControllerServerCorrect
begin

text \<open>
  What the controller service of the second driver guarantees: it gives back its locks, a published disk
  is on the machine, and on the requests that use none of the features it lacks it creates the same
  volumes as the first driver.
\<close>

section \<open>Locks\<close>

lemma keeps_checks_v2 [simp, intro]:
  "keeps serves (checkDiskExists_v2 V u)" "keeps serves (checkDiskCapacity_v2 V subs rg d q)"
  unfolding checkDiskExists_v2_def checkDiskCapacity_v2_def
  by (auto intro!: serves_rules split: option.split)

lemma keeps_source_v2 [simp, intro]: "keeps serves (volume_source_v2 V c p q)"
  unfolding volume_source_v2_def GetSourceDiskSize_v2_def GetSourceDiskSize_def Let_def
  by (auto intro!: serves_rules split: option.split content_source.split)

lemma keeps_create_disk_v2 [simp, intro]: "keeps serves (create_disk_v2 S D V req q nm)"
  unfolding create_disk_v2_def Let_def by (auto intro!: serves_rules split: prod.split)

lemma keeps_CreateVolume_v2: "keeps serves (CreateVolume_v2 S D V req)"
  unfolding CreateVolume_v2_def by (auto intro!: serves_rules)

lemma keeps_DeleteVolume_v2: "keeps serves (DeleteVolume_v2 D V v)"
  unfolding DeleteVolume_v2_def by (rule keeps_DeleteVolume)

lemma keeps_attach_v2 [simp, intro]:
  "keeps serves (publish_attach_v2 S V d u n ctx dsk)" "keeps serves (ensure_attached_v2 S V d u n ctx dsk)"
proof -
  show a: "keeps serves (publish_attach_v2 S V d u n ctx dsk)" for d u n ctx dsk
    unfolding publish_attach_v2_def Let_def by (auto intro!: serves_rules split: go_error.split)
  show "keeps serves (ensure_attached_v2 S V d u n ctx dsk)"
    unfolding ensure_attached_v2_def by (auto intro!: serves_rules a split: option.split)
qed

lemma keeps_Publish_v2: "keeps serves (ControllerPublishVolume_v2 S V u c n ctx)"
  unfolding ControllerPublishVolume_v2_def by (auto intro!: serves_rules split: option.split)

lemma keeps_Unpublish_v2: "keeps serves (ControllerUnpublishVolume_v2 S V u n)"
  unfolding ControllerUnpublishVolume_v2_def by (auto intro!: serves_rules)

lemma keeps_Expand_v2: "keeps serves (ControllerExpandVolume_v2 S D V u q)"
  unfolding ControllerExpandVolume_v2_def Let_def by (auto intro!: serves_rules split: option.split)

lemma keeps_snapshot_id_v2 [simp, intro]: "keeps serves (getSnapshotByID_v2 V subs rg i src)"
  unfolding getSnapshotByID_v2_def by (auto intro!: serves_rules keeps_snapshot_client)

lemma keeps_CreateSnapshot_v2: "keeps serves (CreateSnapshot_v2 S V src n ps)"
  unfolding CreateSnapshot_v2_def Let_def by (auto intro!: serves_rules keeps_snapshot_client)

lemma keeps_DeleteSnapshot_v2: "keeps serves (DeleteSnapshot_v2 V i)"
  unfolding DeleteSnapshot_v2_def by (auto intro!: serves_rules keeps_snapshot_client)

section \<open>Publishing\<close>

lemma publish_attach_v2_at:
  assumes "publish_attach_v2 S V d u n ctx dsk s = (Ok lun, s')" "\<not> DisableDiskLunCheck (diskController s)"
  shows "attached_at (sv_cloud V) n (world (diskController s')) d u lun"
proof (cases "GetCachingMode S ctx")
  case (Ok cm)
  then show ?thesis using assms(1) unfolding publish_attach_v2_def or_status_def Let_def
    by simp (erule attach_again_at [OF _ assms(2)], auto elim!: call_cases split: go_error.splits, iprover)
qed (use assms(1) in \<open>auto simp: publish_attach_v2_def or_status_def\<close>)

lemma ensure_attached_v2_at:
  assumes "ensure_attached_v2 S V d u n ctx dsk s = (Ok lun, s')" "\<not> DisableDiskLunCheck (diskController s)"
  shows "attached_at (sv_cloud V) n (world (diskController s')) d u lun \<or>
    (\<exists>c1. attached_at (sv_cloud V) n (world c1) d u lun \<and> UpdateVM (sv_cloud V) n c1 = (Ok (), diskController s'))"
proof -
  obtain lun0 st err s1 where 1: "on_controller (GetDiskLun S (sv_cloud V) d u n) s = (Ok (lun0, st, err), s1)" and
    2: "err = None \<and> lun = lun0 \<and> (s' = s1 \<or> on_controller (UpdateVM (sv_cloud V) n) s1 = (Ok (), s')) \<or>
        err \<noteq> None \<and> publish_attach_v2 S V d u n ctx dsk s1 = (Ok lun, s')"
    using assms(1) unfolding ensure_attached_v2_def
    by (auto elim!: bind_OkE call_cases split: if_splits option.splits)
  show ?thesis
  proof (cases err)
    case None
    then have "attached_at (sv_cloud V) n (world (diskController s1)) d u lun"
      using 2 GetDiskLun_found [OF on_controller_Ok [OF 1 [unfolded None]]] find_lun_Some
      by (fastforce simp: attached_at_def)
    with 2 None show ?thesis by (auto dest: on_controller_Ok)
  next
    case (Some e)
    have "\<not> DisableDiskLunCheck (diskController s1)"
      using serves_check [OF keeps_on_controller [OF keeps_luns(1)] 1] assms(2) by simp
    with publish_attach_v2_at 2 Some show ?thesis by blast
  qed
qed

lemma ControllerPublishVolume_v2_at:
  assumes "\<not> DisableDiskLunCheck (diskController s)" "ControllerPublishVolume_v2 S V u c n ctx s = (Ok pc, s')"
  shows "\<exists>d lun. GetDiskName u = Ok d \<and> map_of pc LUN = Some (Itoa lun) \<and>
         (attached_at (sv_cloud V) n (world (diskController s')) d u lun \<or>
          (\<exists>c1. attached_at (sv_cloud V) n (world c1) d u lun \<and>
             UpdateVM (sv_cloud V) n c1 = (Ok (), diskController s')))"
proof -
  obtain dsk s1 d lun where 1: "checkDiskExists_v2 V u s = (Ok dsk, s1)" "GetDiskName u = Ok d"
    "ensure_attached_v2 S V d u n ctx dsk s1 = (Ok lun, s')" "publish_context (Some dsk) ctx lun = Ok pc"
    using assms(2) unfolding ControllerPublishVolume_v2_def or_status_def
    by (cases "GetMaxShares ctx"; cases "GetDiskName u"; cases c)
       (auto elim!: call_cases bind_OkE split: if_splits)
  have "\<not> DisableDiskLunCheck (diskController s1)" using serves_check [OF keeps_checks_v2(1) 1(1)] assms(1) by simp
  from ensure_attached_v2_at [OF 1(3) this] publish_context_LUN [OF 1(4)] 1(2) show ?thesis by blast
qed

section \<open>Agreement with the first driver\<close>

lemma CreateManagedDisk_location:
  "CreateManagedDisk S C n (opts\<lparr>mdo_Location := cl_Location C\<rparr>) = CreateManagedDisk S C n (opts\<lparr>mdo_Location := []\<rparr>)"
proof -
  let ?o = "opts\<lparr>mdo_Location := cl_Location C\<rparr>" and ?e = "opts\<lparr>mdo_Location := []\<rparr>"
  have parts: "network_properties S ?o = network_properties S ?e"
    "performance_properties S ?o = performance_properties S ?e"
    "encryption_properties S ?o = encryption_properties S ?e"
    "base_properties ?o = base_properties ?e"
    by (rule ext, cases opts,
        simp only: network_properties_def performance_properties_def encryption_properties_def
          base_properties_def ManagedDiskOptions.simps)+
  then have "disk_properties_of S ?o = disk_properties_of S ?e"
    unfolding disk_properties_of_def by (intro ext) (cases opts; simp only: ManagedDiskOptions.simps)
  moreover have "getValidCreationData subs rg ?o = getValidCreationData subs rg ?e" for subs rg
    by (simp add: getValidCreationData_def Let_def)
  moreover have "disk_model S C ?o p = disk_model S C ?e p" for p
    by (simp add: disk_model_def create_zones_def new_tags_def)
  ultimately show ?thesis unfolding CreateManagedDisk_def by (simp add: Let_def cong: if_cong)
qed

text \<open>The normal form does not look at the location, and keeps what the agreement depends on.\<close>

lemma bind_assoc:
  "bind (bind m f) g = bind m (\<lambda>x. bind (f x) g)"
  "bind (call m h k) g = call m (\<lambda>e. bind (h e) g) (\<lambda>x. bind (k x) g)"
  "bind (if b then m1 else m2) g = (if b then bind m1 g else bind m2 g)"
  by (auto simp: bind_def call_def split: res.split prod.split)

lemma ret_Pair: "ret x = Pair (Ok x)"
  by (rule ext) (simp add: ret_def)

lemma normalize_create_location:
  "normalize_create S V C n (p\<lparr>mdp_Location := l\<rparr>) =
   bind (normalize_create S V C n p) (\<lambda>(q, rest). ret (q\<lparr>mdp_Location := l\<rparr>, rest))"
  unfolding normalize_create_def Let_def or_status_def
  by (cases p) (simp add: bind_assoc ret_Pair bind_ret(1) [unfolded ret_Pair] if_distrib [of "\<lambda>q. q\<lparr>mdp_Location := l\<rparr>"] if_distrib [of mdp_DiskEncryptionType]
      if_distrib [of mdp_NetworkAccessPolicy] if_distrib [of mdp_PublicNetworkAccess] cong: if_cong option.case_cong)

lemma or_status_Ok: "or_status c r k s = (Ok x, s') \<longleftrightarrow> (\<exists>y. r = Ok y \<and> k y s = (Ok x, s'))"
  by (cases r) (simp_all add: or_status_def)

lemma normalize_create_Ok:
  assumes "normalize_create S V C n p s = (Ok (q, sku, pol, pub), s')"
  shows "s' = s \<and> mdp_UserAgent q = mdp_UserAgent p \<and> mdp_Location q = mdp_Location p \<and>
    mdp_DiskEncryptionType q = mdp_DiskEncryptionType p \<and>
    NormalizeStorageAccountType S (mdp_AccountType p) (cl_Cloud C) (cl_DisableAzureStackCloud C) = Ok sku"
proof -
  show ?thesis
    using assms unfolding normalize_create_def Let_def
    by (simp add: bind_lift_Ok or_status_Ok split: if_split_asm) (elim conjE disjE; auto)+
qed

text \<open>A request that uses nothing the second driver lacks: no user agent, no location other than that of the
  cloud, no encryption type, a disk that is neither zone-redundant nor an ultra disk, and no volume as
  the source.\<close>

definition plain_request :: "sdk \<Rightarrow> 'w cloud \<Rightarrow> ManagedDiskParameters \<Rightarrow> create_volume_request \<Rightarrow> bool" where
  "plain_request S C p req \<longleftrightarrow>
     mdp_UserAgent p = [] \<and> (mdp_Location p = [] \<or> mdp_Location p = cl_Location C) \<and>
     mdp_DiskEncryptionType p = [] \<and>
     (case NormalizeStorageAccountType S (mdp_AccountType p) (cl_Cloud C) (cl_DisableAzureStackCloud C) of
        Ok sku \<Rightarrow> \<not> HasSuffix (ToLower sku) ''zrs'' \<and> sku \<noteq> DiskStorageAccountTypesUltraSSDLRS S
      | _ \<Rightarrow> True) \<and>
     (case cv_VolumeContentSource req of None \<Rightarrow> True | Some (SnapshotSource _) \<Rightarrow> True | _ \<Rightarrow> False)"

definition not_throttled :: "'w services \<Rightarrow> bool" where
  "not_throttled V \<longleftrightarrow> (\<forall>w. tc_Get (sv_throttlingCache V) GetDiskThrottlingKey w = (Ok None, w))"

lemma not_throttled_run:
  assumes "not_throttled V"
  shows "isGetDiskThrottled V = ret False"
proof
  fix s :: "'a driver"
  have "in_world (tc_Get (sv_throttlingCache V) GetDiskThrottlingKey) s = (Ok None, s)"
    using assms by (simp add: not_throttled_def in_world_def on_controller_def on_world_def)
  then show "isGetDiskThrottled V s = ret False s"
    by (simp add: isGetDiskThrottled_def call_Ok ret_def)
qed

lemma volume_options_agree:
  assumes "mdp_DiskEncryptionType q = []" "mdp_Location q = [] \<or> mdp_Location q = cl_Location C"
  shows "CreateManagedDisk S C k
      (volume_options (q\<lparr>mdp_Location := cl_Location C\<rparr>) z sku g i ty False st pol pub) =
    CreateManagedDisk S C k (volume_options_v2 q z sku g i ty st pol pub)"
proof -
  let ?o = "volume_options_v2 q z sku g i ty st pol pub"
  have 1: "volume_options (q\<lparr>mdp_Location := cl_Location C\<rparr>) z sku g i ty False st pol pub = ?o\<lparr>mdo_Location := cl_Location C\<rparr>"
    using assms(1) by (simp add: volume_options_def volume_options_v2_def)
  have 2: "?o = ?o\<lparr>mdo_Location := []\<rparr> \<or> ?o = ?o\<lparr>mdo_Location := cl_Location C\<rparr>"
    using assms(2) by (auto simp: volume_options_v2_def)
  show ?thesis unfolding 1 using 2 CreateManagedDisk_location [of S C k ?o] by metis
qed

lemma create_disk_agree:
  assumes "not_throttled V" "\<not> enableDiskCapacityCheck D" "mdp_UserAgent q = []" "mdp_DiskEncryptionType q = []"
    "mdp_Location q = [] \<or> mdp_Location q = cl_Location (sv_cloud V)"
    "\<not> HasSuffix (ToLower sku) ''zrs''" "sku \<noteq> DiskStorageAccountTypesUltraSSDLRS S"
    "case cv_VolumeContentSource req of None \<Rightarrow> True | Some (SnapshotSource _) \<Rightarrow> True | _ \<Rightarrow> False"
  shows "create_disk S D V (sv_cloud V) req g (q\<lparr>mdp_Location := cl_Location (sv_cloud V)\<rparr>, sku, pol, pub) =
    create_disk_v2 S D V req g (q, sku, pol, pub)"
proof -
  let ?C = "sv_cloud V"
  obtain i ty src where v: "volume_source V (cv_VolumeContentSource req) p g z = ret (i, ty, src, mdp_VolumeContext p, z)"
    "volume_source_v2 V (cv_VolumeContentSource req) p g = ret (i, ty, src, mdp_VolumeContext p)" for p z
    using assms(8)
    by (cases "cv_VolumeContentSource req"; cases "the (cv_VolumeContentSource req)")
       (auto simp: volume_source_def volume_source_v2_def)
  have agree: "call (on_controller (CreateManagedDisk S ?C k
        (volume_options q1 z sku g i ty False st pol pub))) h f =
      call (on_controller (CreateManagedDisk S ?C k (volume_options_v2 q2 z sku g i ty st pol pub))) h f"
    if "q1 = q2\<lparr>mdp_Location := cl_Location ?C\<rparr>" "mdp_DiskEncryptionType q2 = []"
      "mdp_Location q2 = [] \<or> mdp_Location q2 = cl_Location ?C" for q1 q2 k z st h and f :: "string \<Rightarrow> ('a, csi_volume) drv_io"
    unfolding that(1) by (simp only: volume_options_agree [OF that(2,3)])
  show ?thesis unfolding create_disk_def create_disk_v2_def Let_def
    by (cases "EqualFold (mdp_WriteAcceleratorEnabled q) TrueValue";
        simp add: assms(2,3,6,7) v not_throttled_run [OF assms(1)] zone_topology_def ultra_defaults_def
          on_local_controller_def; rule agree; use assms(4,5) in \<open>simp; cases q; simp\<close>)
qed

text \<open>C18. The second driver creates the same volumes: on a request that uses nothing it lacks, with no
  capacity check and while reading disks is not throttled, its CreateVolume gives the same answer and
  leaves the same state as the one of the first driver, on every branch, errors included. A request
  that does not validate is refused with the same error.\<close>

theorem CreateVolume_v2_agrees:
  assumes "\<And>p. validate_create S D V req = Ok p \<Longrightarrow> plain_request S (sv_cloud V) p req"
    and "not_throttled V" "\<not> enableDiskCapacityCheck D"
  shows "CreateVolume_v2 S D V req = CreateVolume S D V req"
proof (cases "validate_create S D V req")
  case (Ok p)
  let ?C = "sv_cloud V"
  note plain = assms(1) [OF Ok, unfolded plain_request_def]
  have p1: "(if mdp_Location p = [] then p\<lparr>mdp_Location := cl_Location ?C\<rparr> else p) = p\<lparr>mdp_Location := cl_Location ?C\<rparr>"
    using plain by (cases p) auto
  have "bind (normalize_create S V ?C (cv_Name req) p) (create_disk_v2 S D V req g) =
    bind (normalize_create S V ?C (cv_Name req) (p\<lparr>mdp_Location := cl_Location ?C\<rparr>)) (create_disk S D V ?C req g)" for g
  proof
    fix s
    show "bind (normalize_create S V ?C (cv_Name req) p) (create_disk_v2 S D V req g) s =
      bind (normalize_create S V ?C (cv_Name req) (p\<lparr>mdp_Location := cl_Location ?C\<rparr>)) (create_disk S D V ?C req g) s"
    proof (cases "normalize_create S V ?C (cv_Name req) p s")
      case (Pair r s1)
      show ?thesis
      proof (cases r)
        case (Ok x)
        obtain q sku pol pub where x: "x = (q, sku, pol, pub)" by (cases x)
        note n = normalize_create_Ok [OF Pair [unfolded Ok x]]
        have "create_disk S D V ?C req g (q\<lparr>mdp_Location := cl_Location ?C\<rparr>, sku, pol, pub) =
          create_disk_v2 S D V req g (q, sku, pol, pub)"
          using plain n by (intro create_disk_agree assms(2,3)) auto
        then show ?thesis using Pair Ok x by (simp add: normalize_create_location bind_assoc bind_Ok)
      qed (use Pair in \<open>simp_all add: normalize_create_location bind_assoc bind_def call_Err call_Panic\<close>)
    qed
  qed
  then show ?thesis using plain
    by (simp add: CreateVolume_v2_def CreateVolume_def Ok p1 local_cloud_def Let_def)
qed (simp_all add: CreateVolume_v2_def CreateVolume_def)

definition driver2 :: DriverCore where
  "driver2 = newDriverV2 ''v2'' AddFlags"

theorem CreateVolume_v2_agrees_witness:
  "CreateVolume_v2 sdk0 driver2 (services_of cloud2) request1 = CreateVolume sdk0 driver2 (services_of cloud2) request1 \<and>
   is_Ok (fst (CreateVolume_v2 sdk0 driver2 (services_of cloud2) request1 (new_driver_v2 driver2 None)))"
proof -
  have "case validate_create sdk0 driver2 (services_of cloud2) request1 of
      Ok p \<Rightarrow> plain_request sdk0 (sv_cloud (services_of cloud2)) p request1 | _ \<Rightarrow> False" by code_simp
  then have 1: "plain_request sdk0 (sv_cloud (services_of cloud2)) p request1"
    if "validate_create sdk0 driver2 (services_of cloud2) request1 = Ok p" for p using that by simp
  have 2: "not_throttled (services_of cloud2)" by (simp add: not_throttled_def services_of_def no_cache_def ret_def)
  have 3: "\<not> enableDiskCapacityCheck driver2" by code_simp
  have "is_Ok (fst (CreateVolume_v2 sdk0 driver2 (services_of cloud2) request1 (new_driver_v2 driver2 None)))"
    by code_simp
  with CreateVolume_v2_agrees [OF 1 2 3] show ?thesis by blast
qed

section \<open>Locks are given back and published disks are attached\<close>

text \<open>A call of the controller service of the second driver that returns, with an answer or an error. The
  capabilities are read without a state.\<close>

inductive controller_call_v2 :: "sdk \<Rightarrow> DriverCore \<Rightarrow> 'w services \<Rightarrow> 'w driver \<Rightarrow> 'w driver \<Rightarrow> bool"
  for S :: sdk and D :: DriverCore and V :: "'w services" where
  create: "CreateVolume_v2 S D V req s = (r, s') \<Longrightarrow> r \<noteq> Panic \<Longrightarrow> controller_call_v2 S D V s s'"
| delete: "DeleteVolume_v2 D V v s = (r, s') \<Longrightarrow> r \<noteq> Panic \<Longrightarrow> controller_call_v2 S D V s s'"
| get: "ControllerGetVolume_v2 s = (r, s') \<Longrightarrow> r \<noteq> Panic \<Longrightarrow> controller_call_v2 S D V s s'"
| modify: "ControllerModifyVolume_v2 s = (r, s') \<Longrightarrow> r \<noteq> Panic \<Longrightarrow> controller_call_v2 S D V s s'"
| publish: "ControllerPublishVolume_v2 S V u c n ctx s = (r, s') \<Longrightarrow> r \<noteq> Panic \<Longrightarrow> controller_call_v2 S D V s s'"
| unpublish: "ControllerUnpublishVolume_v2 S V u n s = (r, s') \<Longrightarrow> r \<noteq> Panic \<Longrightarrow> controller_call_v2 S D V s s'"
| validate: "ValidateVolumeCapabilities_v2 V u caps ps s = (r, s') \<Longrightarrow> r \<noteq> Panic \<Longrightarrow> controller_call_v2 S D V s s'"
| capacity: "GetCapacity_v2 s = (r, s') \<Longrightarrow> r \<noteq> Panic \<Longrightarrow> controller_call_v2 S D V s s'"
| list_volumes: "ListVolumes_v2 D V tok m s = (r, s') \<Longrightarrow> r \<noteq> Panic \<Longrightarrow> controller_call_v2 S D V s s'"
| expand: "ControllerExpandVolume_v2 S D V u q s = (r, s') \<Longrightarrow> r \<noteq> Panic \<Longrightarrow> controller_call_v2 S D V s s'"
| create_snapshot: "CreateSnapshot_v2 S V src n ps s = (r, s') \<Longrightarrow> r \<noteq> Panic \<Longrightarrow> controller_call_v2 S D V s s'"
| delete_snapshot: "DeleteSnapshot_v2 V i s = (r, s') \<Longrightarrow> r \<noteq> Panic \<Longrightarrow> controller_call_v2 S D V s s'"
| list_snapshots: "ListSnapshots_v2 V lreq s = (r, s') \<Longrightarrow> r \<noteq> Panic \<Longrightarrow> controller_call_v2 S D V s s'"

lemma keeps_reads_v2:
  "keeps serves ControllerGetVolume_v2" "keeps serves ControllerModifyVolume_v2" "keeps serves GetCapacity_v2"
  "keeps serves (ValidateVolumeCapabilities_v2 V u caps ps)" "keeps serves (ListVolumes_v2 D V tok m)"
  "keeps serves (ListSnapshots_v2 V lreq)"
  unfolding ControllerGetVolume_v2_def ControllerModifyVolume_v2_def GetCapacity_v2_def ValidateVolumeCapabilities_v2_def
    ListVolumes_v2_def listVolumesInCluster_v2_def listVolumesInNodeResourceGroup_v2_def listVolumesByResourceGroup_v2_def
    ListSnapshots_v2_def Let_def
  by (auto intro!: serves_rules split: option.split)

lemma controller_call_v2_serves: "controller_call_v2 S D V s s' \<Longrightarrow> serves s s'"
  by (induction rule: controller_call_v2.induct)
    (erule (1) keepsD [rotated]; intro keeps_CreateVolume_v2 keeps_DeleteVolume_v2 keeps_Publish_v2 keeps_Unpublish_v2
      keeps_Expand_v2 keeps_CreateSnapshot_v2 keeps_DeleteSnapshot_v2 keeps_reads_v2)+

lemma controller_calls_v2_serve: "rtranclp (controller_call_v2 S D V) s s' \<Longrightarrow> serves s s'"
  by (induction rule: rtranclp_induct)
    (auto intro: reflpD [OF serves_refl] transpD [OF serves_trans] dest: controller_call_v2_serves)

text \<open>C17. The controller service of the second driver, too, gives back what it takes. After any sequence of
  its calls, of every kind and each with an answer or an error, the table of volume locks is as it was, a
  node mutex is held exactly if it was held before, and a disk carries the mark it had before or none; a
  driver that started with no mutex held and no disk marked has none held and none marked. And a publish
  that succeeds (with the LUN check on) answers with the LUN at which the machine itself reported the
  disk, as the last thing the driver asked or before it updated a machine in failed state.\<close>

theorem controller_v2_sound:
  "(rtranclp (controller_call_v2 S D V) s s' \<longrightarrow> serves s s' \<and> (idle s \<longrightarrow> idle s')) \<and>
   (\<not> DisableDiskLunCheck (diskController s) \<and> ControllerPublishVolume_v2 S V u c n ctx s = (Ok pc, s'') \<longrightarrow>
     (\<exists>d lun. GetDiskName u = Ok d \<and> map_of pc LUN = Some (Itoa lun) \<and>
         (attached_at (sv_cloud V) n (world (diskController s'')) d u lun \<or>
          (\<exists>c1. attached_at (sv_cloud V) n (world c1) d u lun \<and>
             UpdateVM (sv_cloud V) n c1 = (Ok (), diskController s'')))))"
proof (intro conjI impI)
  assume "rtranclp (controller_call_v2 S D V) s s'"
  then show "serves s s'" by (rule controller_calls_v2_serve)
next
  assume "rtranclp (controller_call_v2 S D V) s s'" "idle s"
  then show "idle s'" using controller_calls_v2_serve serves_idle by blast
qed (use ControllerPublishVolume_v2_at in blast)

definition services2 :: "data_disk list services" where
  "services2 = services_of (cloud1\<lparr>cl_GetDiskClientForSub :=
     (\<lambda>subs. Ok (no_disk_client\<lparr>dc_Get := (\<lambda>rg n w. (Ok (disk1 None), w))\<rparr>))\<rparr>)"

theorem controller_v2_sound_witness:
  "\<exists>pc s' lun. ControllerPublishVolume_v2 sdk0 services2 (managedDiskPath ''s'' ''g'' ''d'') (Some cap1) ''node'' []
      (new_driver_v2 driver2 [lun_disk 0 ''/disks/x'']) = (Ok pc, s') \<and> map_of pc LUN = Some (Itoa lun) \<and> idle s'"
proof -
  let ?s = "new_driver_v2 driver2 [lun_disk 0 ''/disks/x'']"
  let ?r = "ControllerPublishVolume_v2 sdk0 services2 (managedDiskPath ''s'' ''g'' ''d'') (Some cap1) ''node'' [] ?s"
  have "is_Ok (fst ?r)" by code_simp
  then obtain pc s' where r: "?r = (Ok pc, s')" by (cases ?r; cases "fst ?r") auto
  have d: "\<not> DisableDiskLunCheck (diskController ?s)" "idle ?s"
    by (simp_all add: new_driver_v2_def NewManagedDiskController_def idle_def newLockMap_def entry_locked_def)
  have "rtranclp (controller_call_v2 sdk0 driver2 services2) ?s s'" using controller_call_v2.publish [OF r] by auto
  with d r controller_v2_sound [of sdk0 driver2 services2 ?s s' "managedDiskPath ''s'' ''g'' ''d''" "Some cap1" "''node''"
      "[]" pc s'] show ?thesis by blast
qed

end
