(* ===== verification/NodeServerV2.thy ===== *)
theory NodeServerV2
  imports NodeServer ControllerServerV2
begin

text \<open>
  The file \<open>pkg/azuredisk/nodeserver_v2.go\<close>, built with the tag \<open>azurediskv2\<close>: the node service of the
  second driver, on Linux. It has no crypt mapper: what it formats and mounts is the disk itself.
\<close>

section \<open>Mount points and devices\<close>

text \<open>The same statements as the methods of the first driver.\<close>

definition ensureMountPoint_v2 :: "'w node_os \<Rightarrow> string \<Rightarrow> ('w, bool) io" where
  "ensureMountPoint_v2 = ensureMountPoint"

definition formatAndMount_v2 :: "'w node_os \<Rightarrow> string \<Rightarrow> string \<Rightarrow> string \<Rightarrow> string list \<Rightarrow> ('w, unit) io" where
  "formatAndMount_v2 = formatAndMount"

definition getDevicePathWithLUN_v2 :: "'w node_env \<Rightarrow> string \<Rightarrow> ('w, string) io" where
  "getDevicePathWithLUN_v2 N lunStr =
     bind (lift (GetDiskLUN lunStr))
       (\<lambda>lun. bind (scsiHostRescan (ne_os N)) (\<lambda>_. poll_device (ne_os N) (ne_polls N) lun))"

definition ensureBlockTargetFile_v2 :: "'w node_os \<Rightarrow> string \<Rightarrow> ('w, unit) io" where
  "ensureBlockTargetFile_v2 H target =
     (let parentDir = filepath_Dir target
      in call (ensureMountPoint_v2 H parentDir)
           (\<lambda>err. fail (StatusErr Internal (''could not mount target '' @ dquoted parentDir @ '': '' @ Error err)))
           (\<lambda>_. call (MakeFile H target)
              (\<lambda>err. call (os_Remove H target)
                 (\<lambda>removeErr. fail (StatusErr Internal
                    (''could not remove mount target '' @ dquoted target @ '': '' @ Error removeErr)))
                 (\<lambda>_. fail (StatusErr Internal
                    (''could not create file '' @ dquoted target @ '': '' @ Error err))))
              ret))"

section \<open>Staging\<close>

text \<open>The file system and the mount options: the flags of the capability, without \<open>nouuid\<close> for XFS.\<close>

definition stage_fs_v2 :: "volume_capability \<Rightarrow> str_map \<Rightarrow> string \<times> string list" where
  "stage_fs_v2 volumeCapability ctx =
     (let (fstype, options) =
        (case GetMount volumeCapability of
           None \<Rightarrow> (getDefaultFsType, [])
         | Some mnt \<Rightarrow>
            (if mnt_FsType mnt \<noteq> [] then mnt_FsType mnt else getDefaultFsType, mnt_MountFlags mnt));
          volContextFSType = GetFStype ctx
      in (if volContextFSType \<noteq> [] then volContextFSType else fstype, options))"

text \<open>From the mount point on: the partition, or the disk, is formatted when needed and mounted.\<close>

definition stage_device_v2 ::
    "'w node_os \<Rightarrow> string \<Rightarrow> volume_capability \<Rightarrow> str_map \<Rightarrow> string \<Rightarrow> string \<Rightarrow> ('w, unit) io" where
  "stage_device_v2 H target volumeCapability ctx lun device =
     (let (fstype, options) = stage_fs_v2 volumeCapability ctx;
          source = stage_source ctx device
      in call (formatAndMount_v2 H source target fstype options)
           (\<lambda>err. fail (StatusErr Internal (''could not format '' @ source @ ''(lun: '' @ lun @
              ''), and mount it at '' @ target @ '', failed with '' @ Error err)))
           (\<lambda>_. stage_resize H ctx source target))"

definition stage_lun_v2 ::
    "DriverCore \<Rightarrow> 'w node_env \<Rightarrow> string \<Rightarrow> volume_capability \<Rightarrow> str_map \<Rightarrow> string \<Rightarrow> ('w, unit) io" where
  "stage_lun_v2 D N target volumeCapability ctx lun =
     call (getDevicePathWithLUN_v2 N lun)
       (\<lambda>err. fail (StatusErr Internal (''failed to find disk on lun '' @ lun @ ''. '' @ Error err)))
       (\<lambda>source. bind (stage_tuning D N ctx source)
          (\<lambda>_. if GetBlock volumeCapability then ret ()
               else call (ensureMountPoint_v2 (ne_os N) target)
                 (\<lambda>err. fail (StatusErr Internal (''could not mount target '' @ dquoted target @ '': '' @ Error err)))
                 (\<lambda>mnt. if mnt then ret ()
                        else stage_device_v2 (ne_os N) target volumeCapability ctx lun source)))"

definition NodeStageVolume_v2 ::
    "DriverCore \<Rightarrow> 'w node_env \<Rightarrow> string \<Rightarrow> string \<Rightarrow> volume_capability option \<Rightarrow> str_map \<Rightarrow> str_map \<Rightarrow>
     ('w, unit) drv_io" where
  "NodeStageVolume_v2 D N diskURI target capability volumeContext publishContext =
     (if diskURI = [] then fail (StatusErr InvalidArgument ''Volume ID not provided'')
      else if target = [] then fail (StatusErr InvalidArgument ''Staging target not provided'')
      else (case capability of
        None \<Rightarrow> fail (StatusErr InvalidArgument ''Volume capability not provided'')
      | Some volumeCapability \<Rightarrow>
          bind (lift (check_capability volumeContext volumeCapability))
            (\<lambda>_. with_volume_lock diskURI
               (case map_of publishContext LUN of
                  None \<Rightarrow> fail (StatusErr InvalidArgument ''lun not provided'')
                | Some lun \<Rightarrow> in_world (stage_lun_v2 D N target volumeCapability volumeContext lun)))))"

definition NodeUnstageVolume_v2 :: "'w node_env \<Rightarrow> string \<Rightarrow> string \<Rightarrow> ('w, unit) drv_io" where
  "NodeUnstageVolume_v2 N volumeID stagingTargetPath =
     (if volumeID = [] then fail (StatusErr InvalidArgument ''Volume ID not provided'')
      else if stagingTargetPath = [] then fail (StatusErr InvalidArgument ''Staging target not provided'')
      else with_volume_lock volumeID (in_world
        (call (CleanupMountPoint (ne_os N) stagingTargetPath False)
           (\<lambda>err. fail (StatusErr Internal (''failed to unmount staging target '' @ dquoted stagingTargetPath @
              '': '' @ Error err)))
           ret)))"

section \<open>Publishing\<close>

text \<open>A block volume is the device of the LUN, found again, on a file; a mounted one the staging directory.\<close>

definition publish_target_v2 ::
    "'w node_env \<Rightarrow> string \<Rightarrow> string \<Rightarrow> volume_capability \<Rightarrow> str_map \<Rightarrow> string list \<Rightarrow> ('w, unit) io" where
  "publish_target_v2 N source target volumeCapability publishContext mountOptions =
     (case cap_AccessType volumeCapability of
        Some Block \<Rightarrow>
          (case map_of publishContext LUN of
             None \<Rightarrow> fail (StatusErr InvalidArgument ''lun not provided'')
           | Some lun \<Rightarrow>
               call (getDevicePathWithLUN_v2 N lun)
                 (\<lambda>err. fail (StatusErr Internal (''failed to find device path with lun '' @ lun @ ''. '' @ Error err)))
                 (\<lambda>device. call (ensureBlockTargetFile_v2 (ne_os N) target)
                    (\<lambda>err. fail (StatusErr Internal (Error err)))
                    (\<lambda>_. publish_mount (ne_os N) device target mountOptions)))
      | Some (Mount _) \<Rightarrow>
          call (ensureMountPoint_v2 (ne_os N) target)
            (\<lambda>err. fail (StatusErr Internal (''could not mount target '' @ dquoted target @ '': '' @ Error err)))
            (\<lambda>mnt. if mnt then ret () else publish_mount (ne_os N) source target mountOptions)
      | None \<Rightarrow> publish_mount (ne_os N) source target mountOptions)"

definition NodePublishVolume_v2 ::
    "'w node_env \<Rightarrow> string \<Rightarrow> volume_capability option \<Rightarrow> str_map \<Rightarrow> str_map \<Rightarrow> string \<Rightarrow> string \<Rightarrow> bool \<Rightarrow>
     ('w, unit) drv_io" where
  "NodePublishVolume_v2 N volumeID capability params publishContext source target readonly =
     (if volumeID = [] then fail (StatusErr InvalidArgument ''Volume ID missing in the request'')
      else (case capability of
        None \<Rightarrow> fail (StatusErr InvalidArgument ''Volume capability missing in request'')
      | Some volumeCapability \<Rightarrow>
          bind (lift (check_capability params volumeCapability))
            (\<lambda>_. if source = [] then fail (StatusErr InvalidArgument ''Staging target not provided'')
                 else if target = [] then fail (StatusErr InvalidArgument ''Target path not provided'')
                 else call (preparePublishPath target)
                   (\<lambda>err. fail (StatusErr Internal (''Target path could not be prepared: '' @ Error err)))
                   (\<lambda>_. with_volume_lock volumeID (in_world
                      (publish_target_v2 N source target volumeCapability publishContext
                         (''bind'' # (if readonly then [''ro''] else []))))))))"

text \<open>The target is unmounted before the lock is asked for.\<close>

definition NodeUnpublishVolume_v2 :: "'w node_env \<Rightarrow> string \<Rightarrow> string \<Rightarrow> ('w, unit) drv_io" where
  "NodeUnpublishVolume_v2 N volumeID targetPath =
     (if volumeID = [] then fail (StatusErr InvalidArgument ''Volume ID missing in the request'')
      else if targetPath = [] then fail (StatusErr InvalidArgument ''Target path missing in request'')
      else call (in_world (CleanupMountPoint (ne_os N) targetPath False))
        (\<lambda>err. fail (StatusErr Internal (''failed to unmount target '' @ dquoted targetPath @ '': '' @ Error err)))
        (\<lambda>_. with_volume_lock volumeID (ret ())))"

section \<open>What the node can hold\<close>

definition NodeGetCapabilities_v2 :: "DriverCore \<Rightarrow> node_rpc list" where
  "NodeGetCapabilities_v2 D = csi_NSCap D"

text \<open>The zone and the instance type are found as in the first driver. No slot is reserved, and the node
  id is always the one of the driver.\<close>

definition NodeGetInfo_v2 ::
    "DriverCore \<Rightarrow> 'w services \<Rightarrow> 'w node_env \<Rightarrow> ('w, node_info_response) drv_io" where
  "NodeGetInfo_v2 D V N =
     in_world
       (bind (if supportZone D then
                bind (node_zone D V N)
                  (\<lambda>(failureDomain, instanceType).
                     ret (zone_segments D V failureDomain [(topologyKey D, [])], instanceType))
              else ret ([(topologyKey D, [])], []))
          (\<lambda>(segments, instanceTypeFromLabels).
             bind (if csi_VolumeAttachLimit D < 0 then
                     bind (node_instance_type D V N instanceTypeFromLabels)
                       (\<lambda>instanceType. ret (getMaxDataDiskCount instanceType))
                   else ret (csi_VolumeAttachLimit D))
               (\<lambda>maxDataDiskCount.
                  ret \<lparr>nr_NodeId = csi_NodeID D, nr_MaxVolumesPerNode = maxDataDiskCount,
                       nr_Segments = segments\<rparr>)))"

section \<open>Statistics and expansion\<close>

definition NodeGetVolumeStats_v2 :: "'w node_env \<Rightarrow> string \<Rightarrow> string \<Rightarrow> ('w, volume_usage list) drv_io" where
  "NodeGetVolumeStats_v2 N volumeId volumePath =
     (if volumeId = [] then fail (StatusErr InvalidArgument ''NodeGetVolumeStats volume ID was empty'')
      else if volumePath = [] then fail (StatusErr InvalidArgument ''NodeGetVolumeStats volume path was empty'')
      else in_world (GetVolumeStats (ne_os N) volumePath))"

definition expand_fs_v2 :: "DriverCore \<Rightarrow> 'w node_os \<Rightarrow> string \<Rightarrow> string \<Rightarrow> int \<Rightarrow> ('w, int) io" where
  "expand_fs_v2 D H volumeID volumePath requestGiB =
     call (getDevicePathWithMountPath H volumePath) (\<lambda>err. fail (StatusErr NotFound (Error err)))
       (\<lambda>devicePath.
          bind (if enableDiskOnlineResize D then ignore_error (rescanVolume H devicePath) else ret ())
            (\<lambda>_. bind (call (resizeVolume H devicePath volumePath)
                 (\<lambda>err. ret (Some (StatusErr Internal (''could not resize volume '' @ dquoted volumeID @
                    '' ('' @ dquoted devicePath @ ''):  '' @ Error err))))
                 (\<lambda>_. ret None))
               (\<lambda>retErr. call (getBlockSizeBytes H devicePath)
                  (\<lambda>err. fail (StatusErr Internal (''could not get size of block volume at path '' @
                     devicePath @ '': '' @ Error err)))
                  (\<lambda>gotBlockSizeBytes.
                     let gotBlockGiB = RoundUpGiB gotBlockSizeBytes
                     in if gotBlockGiB < requestGiB then
                          (case retErr of
                             Some e \<Rightarrow> fail e
                           | None \<Rightarrow> fail (StatusErr Internal (''resize requested for '' @ Itoa requestGiB @
                               '', but after resizing volume size was '' @ Itoa gotBlockGiB)))
                        else ret gotBlockSizeBytes))))"

text \<open>A block volume is only rescanned, without the lock.\<close>

definition NodeExpandVolume_v2 ::
    "DriverCore \<Rightarrow> 'w node_env \<Rightarrow> string \<Rightarrow> string \<Rightarrow> int \<Rightarrow> volume_capability option \<Rightarrow> ('w, int) drv_io" where
  "NodeExpandVolume_v2 D N volumeID volumePath capacityBytes capability =
     (if volumeID = [] then fail (StatusErr InvalidArgument ''Volume ID not provided'')
      else if volumePath = [] then fail (StatusErr InvalidArgument ''volume path must be provided'')
      else call (in_world (hu_PathIsDevice (ne_os N) volumePath))
        (\<lambda>err. fail (StatusErr NotFound (''failed to determine device path for volumePath ['' @
           volumePath @ '']: '' @ Error err)))
        (\<lambda>isDevice.
           if isDevice \<or> (case capability of Some c \<Rightarrow> GetBlock c | None \<Rightarrow> False) then
             in_world (bind (if enableDiskOnlineResize D then ignore_error (rescanAllVolumes (ne_os N)) else ret ())
               (\<lambda>_. ret 0))
           else with_volume_lock volumeID (in_world
             (expand_fs_v2 D (ne_os N) volumeID volumePath (RoundUpGiB capacityBytes)))))"

end
