(* ===== verification/NodeServerV2Correct.thy ===== *)
theory NodeServerV2Correct
  imports NodeServerV2 NodeServerCorrect ControllerServerV2Correct
begin

text \<open>
  What the node service of the second driver does: its life cycle of a volume changes mounts and opens no
  encrypted device, so that a staged volume is a file system on the disk itself; its calls give back the
  lock of the volume, except that the unmount of an unpublish is not under it.
\<close>

section \<open>The life cycle without encryption\<close>

lemmas v2_shared = ensureMountPoint_v2_def formatAndMount_v2_def formatAndMount_def

lemma getDevicePathWithLUN_v2_eq: "getDevicePathWithLUN_v2 = getDevicePathWithLUN"
  by (intro ext) (simp add: getDevicePathWithLUN_v2_def getDevicePathWithLUN_def)

lemma ensureBlockTargetFile_v2_eq: "ensureBlockTargetFile_v2 = ensureBlockTargetFile"
  by (intro ext) (simp add: ensureBlockTargetFile_v2_def ensureBlockTargetFile_def ensureMountPoint_v2_def)

definition abs_stage_v2 :: "string \<Rightarrow> bool \<Rightarrow> node_view \<Rightarrow> node_view" where
  "abs_stage_v2 t block v = (if block then v else abs_mount t v)"

lemma stage_view_v2:
  assumes h: "tracking_host N view" and t: "filepath_Abs (os_workdir (ne_os N)) t = Ok t"
    and e: "stage_lun_v2 D N t c ctx lun w = (Ok x, w')"
  shows "view w' = abs_stage_v2 t (GetBlock c) (view w)"
proof -
  note k = tracking_host_keeps [OF h, THEN same_view_Ok]
  obtain src w1 w2 where 1: "getDevicePathWithLUN N lun w = (Ok src, w1)" "stage_tuning D N ctx src w1 = (Ok (), w2)"
    "GetBlock c \<and> w' = w2 \<or>
     \<not> GetBlock c \<and> (\<exists>mnt w3. ensureMountPoint (ne_os N) t w2 = (Ok mnt, w3) \<and>
       (mnt \<and> w' = w3 \<or> \<not> mnt \<and> stage_device_v2 (ne_os N) t c ctx lun src w3 = (Ok x, w')))"
    using e unfolding stage_lun_v2_def v2_shared getDevicePathWithLUN_v2_eq
    by (auto elim!: call_cases bind_OkE split: if_splits) blast+
  have v2: "view w2 = view w" using k(5) [OF 1(1)] k(6) [OF 1(2)] by simp
  show ?thesis
  proof (cases "GetBlock c")
    case False
    then obtain mnt w3 where 2: "ensureMountPoint (ne_os N) t w2 = (Ok mnt, w3)"
      "mnt \<and> w' = w3 \<or> \<not> mnt \<and> stage_device_v2 (ne_os N) t c ctx lun src w3 = (Ok x, w')" using 1(3) by blast
    have v: "view w3 = view w" "mnt = (t \<in> nv_mounts (view w))"
      using v2 ensureMountPoint_view [OF h 2(1)] t by simp_all
    show ?thesis
    proof (cases mnt)
      case True
      with 2 v False show ?thesis by (simp add: abs_stage_v2_def abs_mount_def insert_absorb)
    next
      case nm: False
      then obtain src' fs opts w4 where "mnt_FormatAndMount (ne_os N) src' t fs opts w3 = (Ok (), w4)"
        "stage_resize (ne_os N) ctx src' t w4 = (Ok x, w')"
        using 2(2) unfolding stage_device_v2_def Let_def v2_shared
        by (auto elim!: call_cases split: prod.splits)
      with effect_Ok [OF tracking_hostD(1) [OF h]] k(7) v False show ?thesis by (simp add: abs_stage_v2_def)
    qed
  qed (use 1(3) v2 in \<open>simp add: abs_stage_v2_def\<close>)
qed

lemma publish_view_v2:
  assumes h: "tracking_host N view" and t: "filepath_Abs (os_workdir (ne_os N)) t = Ok t"
    and e: "publish_target_v2 N src t c pctx opts w = (Ok x, w')"
  shows "view w' = abs_mount t (view w)"
proof (cases "cap_AccessType c")
  case None
  with e publish_mount_view [OF h] show ?thesis by (simp add: publish_target_v2_def)
next
  case (Some a)
  show ?thesis
  proof (cases a)
    case Block
    then obtain lun dev w1 w2 where "getDevicePathWithLUN N lun w = (Ok dev, w1)"
      "ensureBlockTargetFile (ne_os N) t w1 = (Ok (), w2)" "publish_mount (ne_os N) dev t opts w2 = (Ok x, w')"
      using e Some unfolding publish_target_v2_def getDevicePathWithLUN_v2_eq ensureBlockTargetFile_v2_eq
      by (auto elim!: call_cases split: option.splits)
    then show ?thesis using same_view_Ok [OF tracking_host_keeps(5) [OF h]] block_target_view [OF h]
      publish_mount_view [OF h] by metis
  next
    case (Mount m)
    with e Some obtain mnt w1 where 1: "ensureMountPoint (ne_os N) t w = (Ok mnt, w1)"
      "(if mnt then ret () else publish_mount (ne_os N) src t opts) w1 = (Ok x, w')"
      by (auto simp: publish_target_v2_def ensureMountPoint_v2_def elim!: call_cases)
    note v = ensureMountPoint_view [OF h 1(1)]
    show ?thesis using 1(2) v(1) v(2) [OF t] publish_mount_view [OF h]
      by (auto simp: abs_mount_def insert_absorb split: if_splits)
  qed
qed

lemma v2_locked_stage:
  assumes "NodeStageVolume_v2 D N u t (Some c) ctx pctx s = (Ok (), s1)"
  obtains lun where "map_of pctx LUN = Some lun" "with_volume_lock u (in_world (stage_lun_v2 D N t c ctx lun)) s = (Ok (), s1)"
  using assms unfolding NodeStageVolume_v2_def
  by (cases "map_of pctx LUN")
     (auto simp: bind_lift_Ok split: if_splits elim: with_volume_lock_cases)

lemma unpublish_v2_run:
  assumes "NodeUnpublishVolume_v2 N u t s = (r, s')" "u \<noteq> []" "t \<noteq> []"
    "mnt_CleanupMountPoint (ne_os N) t False (world (diskController s)) = (Ok (), w)"
  shows "world (diskController s') = w \<and> volumeLocks s' = volumeLocks s \<and>
    (if u \<in> locks (volumeLocks s) then \<exists>msg. r = Err (StatusErr Aborted msg) else r = Ok ())"
  using assms release_insert [of u "volumeLocks s"]
  by (auto simp: NodeUnpublishVolume_v2_def CleanupMountPoint_def in_world_run call_def
      with_volume_lock_def TryAcquire_def deferred_def release_volume_def)

lemma unpublish_v2_Ok:
  assumes "NodeUnpublishVolume_v2 N u t s = (Ok (), s')"
  shows "mnt_CleanupMountPoint (ne_os N) t False (world (diskController s)) = (Ok (), world (diskController s')) \<and>
    u \<noteq> [] \<and> t \<noteq> [] \<and> u \<notin> locks (volumeLocks s)"
  using assms
  by (auto simp: NodeUnpublishVolume_v2_def CleanupMountPoint_def in_world_run call_def
      with_volume_lock_def TryAcquire_def deferred_def release_volume_def split: if_splits prod.splits res.splits)

text \<open>C12. The node service of the second driver implements the life cycle of a volume without encryption. On
  a host whose mounts and encrypted devices change as its calls say: a successful staging mounts a file
  system at the target and does nothing for a block volume, a successful unstaging unmounts the target,
  publishing mounts the target and unpublishing unmounts it. None of them opens or closes an
  encrypted device, so that, unlike with the first driver, a staged volume is the disk itself.\<close>

theorem node_v2_lifecycle_refinement:
  assumes "tracking_host N view" "filepath_Abs (os_workdir (ne_os N)) t = Ok t"
  shows
    "(NodeStageVolume_v2 D N u t (Some c) ctx pctx s = (Ok (), s1) \<longrightarrow>
        driver_view view s1 = abs_stage_v2 t (GetBlock c) (driver_view view s) \<and>
        nv_open (driver_view view s1) = nv_open (driver_view view s)) \<and>
     (NodeUnstageVolume_v2 N u t s = (Ok (), s2) \<longrightarrow> driver_view view s2 = abs_unmount t (driver_view view s)) \<and>
     (NodePublishVolume_v2 N u (Some c) ctx pctx src t ro s = (Ok (), s3) \<longrightarrow>
        driver_view view s3 = abs_mount t (driver_view view s)) \<and>
     (NodeUnpublishVolume_v2 N u t s = (Ok (), s4) \<longrightarrow> driver_view view s4 = abs_unmount t (driver_view view s))"
proof (intro conjI impI)
  assume "NodeStageVolume_v2 D N u t (Some c) ctx pctx s = (Ok (), s1)"
  then obtain lun where "with_volume_lock u (in_world (stage_lun_v2 D N t c ctx lun)) s = (Ok (), s1)"
    by (rule v2_locked_stage)
  then show v: "driver_view view s1 = abs_stage_v2 t (GetBlock c) (driver_view view s)"
    unfolding driver_view_def using stage_view_v2 [OF assms] by (blast elim: locked_world_run)
  then show "nv_open (driver_view view s1) = nv_open (driver_view view s)"
    by (simp add: abs_stage_v2_def abs_mount_def)
next
  assume "NodeUnstageVolume_v2 N u t s = (Ok (), s2)"
  then obtain m where "with_volume_lock u (in_world (call (mnt_CleanupMountPoint (ne_os N) t False)
      (\<lambda>err. fail (m err)) ret)) s = (Ok (), s2)"
    unfolding NodeUnstageVolume_v2_def CleanupMountPoint_def by (auto split: if_splits)
  then obtain w where "call (mnt_CleanupMountPoint (ne_os N) t False) (\<lambda>err. fail (m err)) ret (world (diskController s)) =
      (Ok (), w)" "world (diskController s2) = w" by (rule locked_world_run)
  then have "mnt_CleanupMountPoint (ne_os N) t False (world (diskController s)) = (Ok (), world (diskController s2))"
    by (auto elim!: call_cases)
  then show "driver_view view s2 = abs_unmount t (driver_view view s)"
    unfolding driver_view_def by (rule effect_Ok [OF tracking_hostD(3) [OF assms(1)]])
next
  assume "NodePublishVolume_v2 N u (Some c) ctx pctx src t ro s = (Ok (), s3)"
  then have "with_volume_lock u (in_world (publish_target_v2 N src t c pctx
      (''bind'' # (if ro then [''ro''] else [])))) s = (Ok (), s3)"
    unfolding NodePublishVolume_v2_def preparePublishPath_def by (auto simp: bind_lift_Ok split: if_splits)
  then show "driver_view view s3 = abs_mount t (driver_view view s)"
    unfolding driver_view_def using publish_view_v2 [OF assms] by (blast elim: locked_world_run)
next
  assume "NodeUnpublishVolume_v2 N u t s = (Ok (), s4)"
  then show "driver_view view s4 = abs_unmount t (driver_view view s)"
    using unpublish_v2_Ok effect_Ok [OF tracking_hostD(3) [OF assms(1)]] unfolding driver_view_def by blast
qed

lemma sim_stage_v2:
  obtains s' where "NodeStageVolume_v2 driver2 sim_env sim_uri ''/stage'' (Some sim_cap) [] [(LUN, ''1'')] sim_driver = (Ok (), s')"
    "sn_mounts (world (diskController s')) = [(''/stage'', ''/dev/sdc'')]"
proof -
  let ?r = "NodeStageVolume_v2 driver2 sim_env sim_uri ''/stage'' (Some sim_cap) [] [(LUN, ''1'')] sim_driver"
  have "fst ?r = Ok ()" "sn_mounts (world (diskController (snd ?r))) = [(''/stage'', ''/dev/sdc'')]" by code_simp+
  then show thesis using that by (cases ?r) auto
qed

theorem node_v2_lifecycle_refinement_witness:
  "\<exists>s'. NodeStageVolume_v2 driver2 sim_env sim_uri ''/stage'' (Some sim_cap) [] [(LUN, ''1'')] sim_driver = (Ok (), s') \<and>
     driver_view sim_view s' = \<lparr>nv_mounts = {''/stage''}, nv_open = {}\<rparr>"
proof -
  obtain s' where s: "NodeStageVolume_v2 driver2 sim_env sim_uri ''/stage'' (Some sim_cap) [] [(LUN, ''1'')] sim_driver = (Ok (), s')"
    by (rule sim_stage_v2)
  have 1: "filepath_Abs (os_workdir (ne_os sim_env)) ''/stage'' = Ok ''/stage''" by code_simp
  have 3: "driver_view sim_view sim_driver = \<lparr>nv_mounts = {}, nv_open = {}\<rparr>" "\<not> GetBlock sim_cap"
    by (simp_all add: driver_view_def sim_view_def sim_driver_def sim_start_def new_driver_def NewManagedDiskController_def
        sim_cap_def GetBlock_def)
  from node_v2_lifecycle_refinement [OF sim_tracking 1] s
  have "driver_view sim_view s' = abs_stage_v2 ''/stage'' (GetBlock sim_cap) (driver_view sim_view sim_driver)" by blast
  with s 3 show ?thesis by (simp add: abs_stage_v2_def abs_mount_def)
qed

section \<open>Staging is not encrypted\<close>

text \<open>The same host with the crypt mapper of another one.\<close>

definition mapper_of :: "'w node_os \<Rightarrow> 'w node_os \<Rightarrow> 'w node_os" where
  "mapper_of X H = H\<lparr>cm_OpenCryptDevice := cm_OpenCryptDevice X, cm_CloseCryptDevice := cm_CloseCryptDevice X,
     cm_ResizeCryptDevice := cm_ResizeCryptDevice X, cm_GetDevicePath := cm_GetDevicePath X,
     cm_IsIntegrityFS := cm_IsIntegrityFS X\<rparr>"

lemma mapper_of_fields [simp]:
  "os_ReadDir (mapper_of X H) = os_ReadDir H" "os_Readlink (mapper_of X H) = os_Readlink H"
  "os_WriteFile (mapper_of X H) = os_WriteFile H" "os_ReadFile (mapper_of X H) = os_ReadFile H"
  "os_MkdirAll (mapper_of X H) = os_MkdirAll H" "os_IsNotExist (mapper_of X H) = os_IsNotExist H"
  "os_IsExist (mapper_of X H) = os_IsExist H" "os_workdir (mapper_of X H) = os_workdir H"
  "os_Sleep (mapper_of X H) = os_Sleep H" "mnt_IsLikelyNotMountPoint (mapper_of X H) = mnt_IsLikelyNotMountPoint H"
  "mnt_List (mapper_of X H) = mnt_List H" "mnt_Unmount (mapper_of X H) = mnt_Unmount H"
  "mnt_FormatAndMount (mapper_of X H) = mnt_FormatAndMount H" "mnt_PathExists (mapper_of X H) = mnt_PathExists H"
  "mnt_IsCorruptedMnt (mapper_of X H) = mnt_IsCorruptedMnt H" "mnt_Resize (mapper_of X H) = mnt_Resize H"
  "mnt_NeedResize (mapper_of X H) = mnt_NeedResize H"
  by (simp_all add: mapper_of_def)

lemma mapper_of_search [simp]:
  "link_targets (mapper_of X H) = link_targets H" "list_azure_disks (mapper_of X H) = list_azure_disks H"
  "find_link (mapper_of X H) = find_link H" "rescan_hosts (mapper_of X H) = rescan_hosts H"
proof -
  have "link_targets (mapper_of X H) dir ns = link_targets H dir ns" for ns dir
    by (induction ns; simp only: link_targets.simps mapper_of_fields)
  then show 1: "link_targets (mapper_of X H) = link_targets H" by blast
  have "list_azure_disks (mapper_of X H) dirs = list_azure_disks H dirs" for dirs
    by (induction dirs; simp only: list_azure_disks.simps mapper_of_fields 1)
  then show "list_azure_disks (mapper_of X H) = list_azure_disks H" by blast
  have "find_link (mapper_of X H) l dev ns = find_link H l dev ns" for l dev ns
  proof (induction ns)
    case (Cons name ns)
    show ?case unfolding find_link.simps Cons mapper_of_fields ..
  qed simp
  then show "find_link (mapper_of X H) = find_link H" by blast
  have "rescan_hosts (mapper_of X H) ns = rescan_hosts H ns" for ns
    by (induction ns; simp only: rescan_hosts.simps mapper_of_fields)
  then show "rescan_hosts (mapper_of X H) = rescan_hosts H" by blast
qed

lemma mapper_of_find_device [simp]: "find_device (mapper_of X H) = find_device H"
proof -
  have e: "device_path (mapper_of X H) = device_path H" "attribute_is (mapper_of X H) = attribute_is H"
    by (simp_all add: fun_eq_iff device_path_def getDiskLinkByDevName_def attribute_is_def)
  have "find_device (mapper_of X H) lun disks ns = find_device H lun disks ns" for lun disks ns
  proof (induction ns)
    case (Cons name ns)
    show ?case unfolding find_device.simps Cons e mapper_of_fields ..
  qed simp
  then show ?thesis by blast
qed

lemma mapper_of_poll [simp]: "poll_device (mapper_of X H) = poll_device H"
proof -
  have c: "findDiskByLunWithConstraint (mapper_of X H) = findDiskByLunWithConstraint H"
    by (simp add: fun_eq_iff findDiskByLunWithConstraint_def)
  have l: "listAzureDiskPath (mapper_of X H) = listAzureDiskPath H"
    by (simp add: listAzureDiskPath_def del: list_azure_disks.simps)
  have f: "findDiskByLun (mapper_of X H) = findDiskByLun H" unfolding fun_eq_iff findDiskByLun_def c l by simp
  have "poll_device (mapper_of X H) n lun = poll_device H n lun" for n lun
  proof (induction n)
    case 0
    show ?case unfolding poll_device.simps [of "mapper_of X H" 0] poll_device.simps [of H 0] f nat.case ..
  next
    case (Suc n)
    show ?case unfolding poll_device.simps [of "mapper_of X H" "Suc n"] poll_device.simps [of H "Suc n"] f mapper_of_fields
        nat.case Suc ..
  qed
  then show ?thesis by blast
qed

lemma mapper_of_mount_point [simp]: "ensureMountPoint (mapper_of X H) = ensureMountPoint H"
proof -
  have e: "MakeDir (mapper_of X H) = MakeDir H" "test_mount_link (mapper_of X H) = test_mount_link H"
    and c: "IsCorruptedDir (mapper_of X H) = IsCorruptedDir H"
    by (simp_all add: fun_eq_iff MakeDir_def test_mount_link_def IsCorruptedDir_def)
  have m: "mount_or_make (mapper_of X H) = mount_or_make H" unfolding fun_eq_iff mount_or_make_def mapper_of_fields e by simp
  show ?thesis unfolding fun_eq_iff ensureMountPoint_def mapper_of_fields c m by simp
qed

lemma mapper_of_stage:
  "NodeStageVolume_v2 D (N\<lparr>ne_os := mapper_of X (ne_os N)\<rparr>) = NodeStageVolume_v2 D N"
proof -
  let ?N = "N\<lparr>ne_os := mapper_of X (ne_os N)\<rparr>"
  have e: "ne_os ?N = mapper_of X (ne_os N)" "ne_fs ?N = ne_fs N" "ne_nodeInfo ?N = ne_nodeInfo N" "ne_polls ?N = ne_polls N"
    by simp_all
  have r: "stage_resize (mapper_of X H) = stage_resize H" for H :: "'a node_os"
    unfolding fun_eq_iff stage_resize_def needResizeVolume_def resizeVolume_def mapper_of_fields by simp
  have f: "getDevicePathWithLUN_v2 ?N = getDevicePathWithLUN_v2 N" "stage_tuning D ?N = stage_tuning D N"
    "stage_device_v2 (mapper_of X (ne_os N)) = stage_device_v2 (ne_os N)"
    unfolding fun_eq_iff getDevicePathWithLUN_v2_def scsiHostRescan_def stage_tuning_def e
      stage_device_v2_def v2_shared mapper_of_fields r by simp_all
  have l: "stage_lun_v2 D ?N = stage_lun_v2 D N"
    unfolding fun_eq_iff stage_lun_v2_def ensureMountPoint_v2_def f unfolding e mapper_of_mount_point f by simp
  show ?thesis unfolding fun_eq_iff NodeStageVolume_v2_def l by simp
qed

lemma stage_v2_device:
  assumes "NodeStageVolume_v2 D N u t (Some c) ctx pctx s = (Ok (), s')" "\<not> GetBlock c"
  shows "\<exists>lun dev w1 w2 mnt w3. map_of pctx LUN = Some lun \<and>
    getDevicePathWithLUN N lun (world (diskController s)) = (Ok dev, w1) \<and>
    stage_tuning D N ctx dev w1 = (Ok (), w2) \<and> ensureMountPoint (ne_os N) t w2 = (Ok mnt, w3) \<and>
    (if mnt then world (diskController s') = w3
     else \<exists>fs opts w4. mnt_FormatAndMount (ne_os N) (stage_source ctx dev) t fs opts w3 = (Ok (), w4) \<and>
       stage_resize (ne_os N) ctx (stage_source ctx dev) t w4 = (Ok (), world (diskController s')))"
proof -
  obtain lun where 1: "map_of pctx LUN = Some lun" "with_volume_lock u (in_world (stage_lun_v2 D N t c ctx lun)) s = (Ok (), s')"
    using assms(1) by (rule v2_locked_stage)
  then have "stage_lun_v2 D N t c ctx lun (world (diskController s)) = (Ok (), world (diskController s'))"
    by (auto elim: locked_world_run)
  then obtain dev w1 w2 mnt w3 where 2: "getDevicePathWithLUN N lun (world (diskController s)) = (Ok dev, w1)"
    "stage_tuning D N ctx dev w1 = (Ok (), w2)" "ensureMountPoint (ne_os N) t w2 = (Ok mnt, w3)"
    "(if mnt then ret () else stage_device_v2 (ne_os N) t c ctx lun dev) w3 = (Ok (), world (diskController s'))"
    using assms(2) unfolding stage_lun_v2_def v2_shared getDevicePathWithLUN_v2_eq
    by (auto elim!: call_cases bind_OkE)
  from 2(4) have "if mnt then world (diskController s') = w3
     else \<exists>fs opts w4. mnt_FormatAndMount (ne_os N) (stage_source ctx dev) t fs opts w3 = (Ok (), w4) \<and>
       stage_resize (ne_os N) ctx (stage_source ctx dev) t w4 = (Ok (), world (diskController s'))"
    unfolding stage_device_v2_def Let_def v2_shared
    by (cases mnt) (auto elim!: call_cases split: prod.splits, blast+)
  with 1(1) 2(1-3) show ?thesis by blast
qed

lemma stage_device_first:
  assumes "NodeStageVolume D N u t (Some c) ctx pctx s = (Ok (), s')" "\<not> GetBlock c"
  shows "\<exists>lun dev w1 w2 mnt w3. map_of pctx LUN = Some lun \<and>
    getDevicePathWithLUN N lun (world (diskController s)) = (Ok dev, w1) \<and>
    stage_tuning D N ctx dev w1 = (Ok (), w2) \<and> ensureMountPoint (ne_os N) t w2 = (Ok mnt, w3) \<and>
    (if mnt then world (diskController s') = w3
     else \<exists>name i path w4 fs opts w5. GetVolumeName u = Ok name \<and>
       cm_OpenCryptDevice (ne_os N) (stage_source ctx dev) name i w3 = (Ok path, w4) \<and>
       mnt_FormatAndMount (ne_os N) path t fs opts w4 = (Ok (), w5) \<and>
       stage_resize (ne_os N) ctx path t w5 = (Ok (), world (diskController s')))"
proof -
  obtain name lun where 1: "GetVolumeName u = Ok name" "map_of pctx LUN = Some lun"
    "with_volume_lock u (in_world (stage_lun D N name t c ctx lun)) s = (Ok (), s')"
    using assms(1) unfolding NodeStageVolume_def
    by (cases "map_of pctx LUN"; cases "GetVolumeName u")
       (auto simp: bind_lift_Ok split: if_splits elim: with_volume_lock_cases)
  then have "stage_lun D N name t c ctx lun (world (diskController s)) = (Ok (), world (diskController s'))"
    by (auto elim: locked_world_run)
  then obtain dev w1 w2 mnt w3 where 2: "getDevicePathWithLUN N lun (world (diskController s)) = (Ok dev, w1)"
    "stage_tuning D N ctx dev w1 = (Ok (), w2)" "ensureMountPoint (ne_os N) t w2 = (Ok mnt, w3)"
    "(if mnt then ret () else stage_device (ne_os N) name t c ctx lun dev) w3 = (Ok (), world (diskController s'))"
    unfolding stage_lun_def by (auto elim!: call_cases bind_OkE)
  from 2(4) have "if mnt then world (diskController s') = w3
     else \<exists>i path w4 fs opts w5. cm_OpenCryptDevice (ne_os N) (stage_source ctx dev) name i w3 = (Ok path, w4) \<and>
       mnt_FormatAndMount (ne_os N) path t fs opts w4 = (Ok (), w5) \<and>
       stage_resize (ne_os N) ctx path t w5 = (Ok (), world (diskController s'))"
    using assms(2) unfolding stage_device_def Let_def formatAndMount_def
    by (cases mnt) (auto elim!: call_cases split: prod.splits, blast+)
  then have "if mnt then world (diskController s') = w3
     else \<exists>name i path w4 fs opts w5. GetVolumeName u = Ok name \<and>
       cm_OpenCryptDevice (ne_os N) (stage_source ctx dev) name i w3 = (Ok path, w4) \<and>
       mnt_FormatAndMount (ne_os N) path t fs opts w4 = (Ok (), w5) \<and>
       stage_resize (ne_os N) ctx path t w5 = (Ok (), world (diskController s'))"
    using 1(1) by (simp split: if_splits)
  with 1(2) 2(1-3) show ?thesis by blast
qed

text \<open>C13. The second driver does not encrypt. Staging does not use the crypt mapper: with any other one the call is
  the same, state and result. When it succeeds for a volume that is to be mounted, it has found the
  device of the published LUN and, unless the target was a mount point already, formatted and mounted that
  device itself, or its partition, and resized that if needed. The first driver, at the same place, opens
  the encrypted device on it under the name of the volume, and formats, mounts and resizes the path that
  this returned. So the guarantee of the first driver that only encrypted devices are formatted and
  mounted does not hold for the second.\<close>

theorem stage_v2_not_encrypted:
  assumes "\<not> GetBlock c"
  shows "NodeStageVolume_v2 D (N\<lparr>ne_os := mapper_of X (ne_os N)\<rparr>) = NodeStageVolume_v2 D N \<and>
   (NodeStageVolume_v2 D N u t (Some c) ctx pctx s = (Ok (), s2) \<longrightarrow>
     (\<exists>lun dev w1 w2 mnt w3. map_of pctx LUN = Some lun \<and>
       getDevicePathWithLUN N lun (world (diskController s)) = (Ok dev, w1) \<and>
       stage_tuning D N ctx dev w1 = (Ok (), w2) \<and> ensureMountPoint (ne_os N) t w2 = (Ok mnt, w3) \<and>
       (if mnt then world (diskController s2) = w3
        else \<exists>fs opts w4. mnt_FormatAndMount (ne_os N) (stage_source ctx dev) t fs opts w3 = (Ok (), w4) \<and>
          stage_resize (ne_os N) ctx (stage_source ctx dev) t w4 = (Ok (), world (diskController s2))))) \<and>
   (NodeStageVolume D N u t (Some c) ctx pctx s = (Ok (), s1) \<longrightarrow>
     (\<exists>lun dev w1 w2 mnt w3. map_of pctx LUN = Some lun \<and>
       getDevicePathWithLUN N lun (world (diskController s)) = (Ok dev, w1) \<and>
       stage_tuning D N ctx dev w1 = (Ok (), w2) \<and> ensureMountPoint (ne_os N) t w2 = (Ok mnt, w3) \<and>
       (if mnt then world (diskController s1) = w3
        else \<exists>name i path w4 fs opts w5. GetVolumeName u = Ok name \<and>
          cm_OpenCryptDevice (ne_os N) (stage_source ctx dev) name i w3 = (Ok path, w4) \<and>
          mnt_FormatAndMount (ne_os N) path t fs opts w4 = (Ok (), w5) \<and>
          stage_resize (ne_os N) ctx path t w5 = (Ok (), world (diskController s1)))))"
  by (intro conjI impI mapper_of_stage; drule stage_v2_device [OF _ assms] stage_device_first [OF _ assms]; assumption)

text \<open>On a host of the kind the guarantee of the first driver is about, both drivers stage the same volume: the
  first mounts the mapped device and keeps every file system on an encrypted device, the second mounts the disk.\<close>

theorem stage_v2_not_encrypted_witness:
  "\<exists>s1 s2 dev w1 w3 fs opts w4.
     encrypting_host sim_env sim_secure (\<lambda>w d. HasPrefix d ''/dev/mapper/'') \<and> sim_secure (world (diskController sim_driver)) \<and>
     NodeStageVolume driver1 sim_env sim_uri ''/stage'' (Some sim_cap) [] [(LUN, ''1'')] sim_driver = (Ok (), s1) \<and>
     sim_secure (world (diskController s1)) \<and>
     NodeStageVolume_v2 driver2 sim_env sim_uri ''/stage'' (Some sim_cap) [] [(LUN, ''1'')] sim_driver = (Ok (), s2) \<and>
     \<not> sim_secure (world (diskController s2)) \<and>
     getDevicePathWithLUN sim_env ''1'' (world (diskController sim_driver)) = (Ok dev, w1) \<and>
     mnt_FormatAndMount (ne_os sim_env) dev ''/stage'' fs opts w3 = (Ok (), w4)"
proof -
  obtain s1 where 1: "NodeStageVolume driver1 sim_env sim_uri ''/stage'' (Some sim_cap) [] [(LUN, ''1'')] sim_driver = (Ok (), s1)"
    "sn_mounts (world (diskController s1)) = [(''/stage'', ''/dev/mapper/d'')]" by (rule sim_stage)
  obtain s2 where 2: "NodeStageVolume_v2 driver2 sim_env sim_uri ''/stage'' (Some sim_cap) [] [(LUN, ''1'')] sim_driver = (Ok (), s2)"
    "sn_mounts (world (diskController s2)) = [(''/stage'', ''/dev/sdc'')]" by (rule sim_stage_v2)
  have 3: "sim_secure (world (diskController s1))" "\<not> sim_secure (world (diskController s2))"
    using 1(2) 2(2) by (simp_all add: sim_secure_def HasPrefix_def)
  have 4: "sim_secure (world (diskController sim_driver))" by code_simp
  have "\<not> GetBlock sim_cap" by (simp add: sim_cap_def GetBlock_def)
  from stage_v2_not_encrypted [OF this, where D = driver2 and N = sim_env and u = sim_uri and t = "''/stage''" and ctx = "[]" and pctx = "[(LUN, ''1'')]" and s = sim_driver and ?s2.0 = s2,
      THEN conjunct2, THEN conjunct1, THEN mp, OF 2(1)]
  obtain dev w1 w2 mnt w3 where 5: "getDevicePathWithLUN sim_env ''1'' (world (diskController sim_driver)) = (Ok dev, w1)"
    "stage_tuning driver2 sim_env [] dev w1 = (Ok (), w2)" "ensureMountPoint (ne_os sim_env) ''/stage'' w2 = (Ok mnt, w3)"
    "if mnt then world (diskController s2) = w3
     else \<exists>fs opts w4. mnt_FormatAndMount (ne_os sim_env) (stage_source [] dev) ''/stage'' fs opts w3 = (Ok (), w4) \<and>
       stage_resize (ne_os sim_env) [] (stage_source [] dev) ''/stage'' w4 = (Ok (), world (diskController s2))"
    by auto
  have 6: "sn_mounts (world (diskController sim_driver)) = []"
    by (simp add: sim_driver_def sim_start_def new_driver_def NewManagedDiskController_def)
  note k = tracking_host_keeps [OF sim_tracking, THEN same_view_Ok]
  have a: "filepath_Abs (os_workdir (ne_os sim_env)) ''/stage'' = Ok ''/stage''" by code_simp
  have "\<not> mnt" using k(5) [OF 5(1)] k(6) [OF 5(2)] ensureMountPoint_view [OF sim_tracking 5(3)] a 6
    by (simp add: sim_view_def)
  then show ?thesis using sim_encrypting 1(1) 2(1) 3 4 5(1,4) by (auto simp: stage_source_def)
qed

section \<open>Locks\<close>

lemma keeps_node_v2 [simp, intro]:
  "keeps serves (NodeStageVolume_v2 D N u t c ctx pctx)" "keeps serves (NodeUnstageVolume_v2 N u t)"
  "keeps serves (NodePublishVolume_v2 N u c ctx pctx src t ro)" "keeps serves (NodeUnpublishVolume_v2 N u t)"
  "keeps serves (NodeExpandVolume_v2 D N u p q c)"
  unfolding NodeStageVolume_v2_def NodeUnstageVolume_v2_def NodePublishVolume_v2_def NodeUnpublishVolume_v2_def
    NodeExpandVolume_v2_def preparePublishPath_def
  by (auto intro!: serves_rules split: option.split)

text \<open>C22. The node calls of the second driver give back the lock of the volume, and while another operation
  holds it, staging, unstaging and publishing are refused and change nothing. Unpublishing is refused
  as well, but only after it has unmounted the target: the caller sees the code Aborted and the mount is
  gone.\<close>

theorem node_v2_locks:
  "(NodeStageVolume_v2 D N u t c ctx pctx s = (r1, s1) \<and> r1 \<noteq> Panic \<longrightarrow>
      serves s s1 \<and> (u \<in> locks (volumeLocks s) \<longrightarrow> \<not> is_Ok r1 \<and> s1 = s)) \<and>
   (NodeUnstageVolume_v2 N u t s = (r2, s2) \<and> r2 \<noteq> Panic \<longrightarrow>
      serves s s2 \<and> (u \<in> locks (volumeLocks s) \<longrightarrow> \<not> is_Ok r2 \<and> s2 = s)) \<and>
   (NodePublishVolume_v2 N u c ctx pctx src t ro s = (r3, s3) \<and> r3 \<noteq> Panic \<longrightarrow>
      serves s s3 \<and> (u \<in> locks (volumeLocks s) \<longrightarrow> \<not> is_Ok r3 \<and> s3 = s)) \<and>
   (NodeExpandVolume_v2 D N u p q c s = (r4, s4) \<and> r4 \<noteq> Panic \<longrightarrow> serves s s4) \<and>
   (NodeUnpublishVolume_v2 N u t s = (r5, s5) \<and> r5 \<noteq> Panic \<longrightarrow> serves s s5) \<and>
   (NodeUnpublishVolume_v2 N u t s = (r5, s5) \<and> u \<noteq> [] \<and> t \<noteq> [] \<and> u \<in> locks (volumeLocks s) \<and>
      mnt_CleanupMountPoint (ne_os N) t False (world (diskController s)) = (Ok (), w) \<longrightarrow>
      (\<exists>msg. r5 = Err (StatusErr Aborted msg)) \<and> world (diskController s5) = w)"
proof (intro conjI impI; (elim conjE)?)
  assume "NodeStageVolume_v2 D N u t c ctx pctx s = (r1, s1)" "r1 \<noteq> Panic"
  then show "serves s s1" by (rule keepsD [OF keeps_node_v2(1)])
next
  assume "NodeUnstageVolume_v2 N u t s = (r2, s2)" "r2 \<noteq> Panic"
  then show "serves s s2" by (rule keepsD [OF keeps_node_v2(2)])
next
  assume "NodePublishVolume_v2 N u c ctx pctx src t ro s = (r3, s3)" "r3 \<noteq> Panic"
  then show "serves s s3" by (rule keepsD [OF keeps_node_v2(3)])
next
  assume "NodeExpandVolume_v2 D N u p q c s = (r4, s4)" "r4 \<noteq> Panic"
  then show "serves s s4" by (rule keepsD [OF keeps_node_v2(5)])
next
  assume "NodeUnpublishVolume_v2 N u t s = (r5, s5)" "r5 \<noteq> Panic"
  then show "serves s s5" by (rule keepsD [OF keeps_node_v2(4)])
next
  assume "NodeStageVolume_v2 D N u t c ctx pctx s = (r1, s1)" "r1 \<noteq> Panic" "u \<in> locks (volumeLocks s)"
  then show "\<not> is_Ok r1" "s1 = s" unfolding NodeStageVolume_v2_def
    by (cases c; cases "check_capability ctx (the c)"; auto dest!: with_volume_lock_held split: if_splits)+
next
  assume "NodeUnstageVolume_v2 N u t s = (r2, s2)" "r2 \<noteq> Panic" "u \<in> locks (volumeLocks s)"
  then show "\<not> is_Ok r2" "s2 = s" unfolding NodeUnstageVolume_v2_def
    by (auto dest!: with_volume_lock_held split: if_splits)
next
  assume "NodePublishVolume_v2 N u c ctx pctx src t ro s = (r3, s3)" "r3 \<noteq> Panic" "u \<in> locks (volumeLocks s)"
  then show "\<not> is_Ok r3" "s3 = s" unfolding NodePublishVolume_v2_def preparePublishPath_def
    by (cases c; cases "check_capability ctx (the c)"; auto dest!: with_volume_lock_held split: if_splits)+
next
  assume a: "NodeUnpublishVolume_v2 N u t s = (r5, s5)" "u \<noteq> []" "t \<noteq> []" "u \<in> locks (volumeLocks s)"
    "mnt_CleanupMountPoint (ne_os N) t False (world (diskController s)) = (Ok (), w)"
  from unpublish_v2_run [OF a(1-3,5)] a(4) show "\<exists>msg. r5 = Err (StatusErr Aborted msg)" "world (diskController s5) = w"
    by simp_all
qed

definition sim_busy_v2 :: "sim_node driver" where
  "sim_busy_v2 = (new_driver_v2 driver2 (sim_start\<lparr>sn_mounts := [(''/pod'', ''/stage'')]\<rparr>))
     \<lparr>volumeLocks := \<lparr>locks = {sim_uri}\<rparr>\<rparr>"

theorem node_v2_locks_witness:
  "\<exists>msg s'. NodeUnpublishVolume_v2 sim_env sim_uri ''/pod'' sim_busy_v2 = (Err (StatusErr Aborted msg), s') \<and>
     sn_mounts (world (diskController sim_busy_v2)) \<noteq> [] \<and> sn_mounts (world (diskController s')) = []"
proof -
  let ?s = sim_busy_v2
  obtain r s' where r: "NodeUnpublishVolume_v2 sim_env sim_uri ''/pod'' ?s = (r, s')" by fastforce
  have w: "world (diskController ?s) = sim_start\<lparr>sn_mounts := [(''/pod'', ''/stage'')]\<rparr>"
    by (simp add: sim_busy_v2_def new_driver_v2_def NewManagedDiskController_def)
  then have 1: "mnt_CleanupMountPoint (ne_os sim_env) ''/pod'' False (world (diskController ?s)) = (Ok (), sim_start)"
    by (simp add: sim_env_def sim_os_def sim_start_def)
  have 2: "sim_uri \<noteq> []" "''/pod'' \<noteq> ([] :: string)" "sim_uri \<in> locks (volumeLocks ?s)"
    by (simp_all add: sim_uri_def managedDiskPath_def sim_busy_v2_def)
  have "(\<exists>msg. r = Err (StatusErr Aborted msg)) \<and> world (diskController s') = sim_start"
    using node_v2_locks [of driver2 sim_env sim_uri "''/pod''" None "[]" "[]" ?s Panic s' Panic s' "[]" False Panic s'
        "[]" 0 Panic s' r s' sim_start] r 1 2 by (simp only: simp_thms)
  with r w show ?thesis by (auto simp: sim_start_def)
qed

section \<open>What the second driver makes of its options\<close>

text \<open>Options that the second driver does not copy have no effect: whatever they say, its node answers
  with an empty zone, because the support of zones stays off, and with its own node id; disks that are
  attached are not resized; no list operation is missing from its capabilities; and the disk controller
  starts without the backoff of a forced detach.\<close>

theorem driver_v2_options:
  assumes "D = newDriverV2 v opts"
  shows "(NodeGetInfo_v2 D V N s = (Ok r, s') \<longrightarrow>
      nr_Segments r = [(topologyKey D, [])] \<and> nr_NodeId r = opt_NodeID opts \<and>
      (0 \<le> opt_VolumeAttachLimit opts \<longrightarrow> nr_MaxVolumesPerNode r = opt_VolumeAttachLimit opts)) \<and>
    \<not> enableDiskOnlineResize D \<and> \<not> allowEmptyCloudConfig D \<and>
    set (controllerCap True True) \<subseteq> set (ControllerGetCapabilities_v2 D) \<and>
    \<not> ForceDetachBackoff (diskController (new_driver_v2 D w)) \<and>
    D = newDriverV2 v (AddFlags\<lparr>opt_NodeID := opt_NodeID opts, opt_DriverName := opt_DriverName opts,
      opt_VolumeAttachLimit := opt_VolumeAttachLimit opts, opt_EnablePerfOptimization := opt_EnablePerfOptimization opts,
      opt_CloudConfigSecretName := opt_CloudConfigSecretName opts,
      opt_CloudConfigSecretNamespace := opt_CloudConfigSecretNamespace opts,
      opt_CustomUserAgent := opt_CustomUserAgent opts, opt_UserAgentSuffix := opt_UserAgentSuffix opts,
      opt_UseCSIProxyGAInterface := opt_UseCSIProxyGAInterface opts, opt_EnableOtelTracing := opt_EnableOtelTracing opts,
      opt_Endpoint := opt_Endpoint opts, opt_DisableAVSetNodes := opt_DisableAVSetNodes opts\<rparr>)"
proof -
  note d = assms newDriverV2_def AddNodeServiceCapabilities_def AddVolumeCapabilityAccessModes_def
    AddControllerServiceCapabilities_def
  have f: "\<not> supportZone D" "csi_NodeID D = opt_NodeID opts" "csi_VolumeAttachLimit D = opt_VolumeAttachLimit opts"
    "\<not> enableDiskOnlineResize D" "\<not> allowEmptyCloudConfig D" by (simp_all add: d)
  have "nr_Segments r = [(topologyKey D, [])] \<and> nr_NodeId r = opt_NodeID opts \<and>
      (0 \<le> opt_VolumeAttachLimit opts \<longrightarrow> nr_MaxVolumesPerNode r = opt_VolumeAttachLimit opts)"
    if "NodeGetInfo_v2 D V N s = (Ok r, s')"
    using that f unfolding NodeGetInfo_v2_def in_world_run
    by (auto elim!: bind_OkE split: prod.splits if_splits)
  moreover have "set (controllerCap True True) \<subseteq> set (ControllerGetCapabilities_v2 D)"
    by (simp add: d ControllerGetCapabilities_v2_def controllerCap_def controllerCap_v2_def)
  moreover have "\<not> ForceDetachBackoff (diskController (new_driver_v2 D w))"
    by (simp add: new_driver_v2_def NewManagedDiskController_def)
  ultimately show ?thesis using f(4,5) by (simp add: d)
qed

theorem driver_v2_options_witness:
  "\<exists>r s'. NodeGetInfo_v2 driver2 (services_of bare_cloud) sim_env sim_driver = (Ok r, s') \<and> opt_SupportZone AddFlags \<and>
     nr_Segments r = [(topologyKey driver2, [])]"
proof -
  let ?r = "NodeGetInfo_v2 driver2 (services_of bare_cloud) sim_env sim_driver"
  have "\<not> supportZone driver2" "\<not> getNodeInfoFromLabels_opt driver2" "csi_VolumeAttachLimit driver2 < 0"
    "opt_SupportZone AddFlags" by code_simp+
  note c = this
  then have "is_Ok (fst ?r)"
    by (simp add: NodeGetInfo_v2_def in_world_run node_instance_type_def sim_env_def Let_def pure_simps)
  then obtain r s' where r: "?r = (Ok r, s')" by (cases ?r; cases "fst ?r") auto
  with driver_v2_options [of driver2 "''v2''" AddFlags "services_of bare_cloud" sim_env sim_driver r s' sim_start]
  show ?thesis using c(4) by (simp add: driver2_def)
qed

end
