(* ===== verification/SkuGenerator.thy ===== *)
theory SkuGenerator
  imports SkuTables
begin

text \<open>
  The file \<open>pkg/tool/gen-disk-skus-map.go\<close>: the program that asks Azure for the sizes of disks and
  machines and writes the tables \<open>DiskSkuMap\<close> and \<open>NodeInfoMap\<close> as Go source. The command line of
  Azure, the file system and the JSON decoder are the record \<open>gen_env\<close>; a resource is what the decoder
  returns, with \<open>None\<close> for a field that is absent. Logging is left out.
\<close>

section \<open>Resources\<close>

definition MaxValueOfMaxSharesCapability :: string where
  "MaxValueOfMaxSharesCapability = ''maxvalueofmaxshares''"

definition MaxBurstIopsCapability :: string where
  "MaxBurstIopsCapability = ''maxburstiops''"

definition MaxIOpsCapability :: string where
  "MaxIOpsCapability = ''maxiops''"

definition MaxBandwidthMBpsCapability :: string where
  "MaxBandwidthMBpsCapability = ''maxbandwidthmbps''"

definition MaxBurstBandwidthMBpsCapability :: string where
  "MaxBurstBandwidthMBpsCapability = ''maxburstbandwidthmbps''"

definition MaxSizeGiBCapability :: string where
  "MaxSizeGiBCapability = ''maxsizegib''"

definition UncachedDiskIOPSCapability :: string where
  "UncachedDiskIOPSCapability = ''uncacheddiskiops''"

definition UncachedDiskBytesPerSecondCapability :: string where
  "UncachedDiskBytesPerSecondCapability = ''uncacheddiskbytespersecond''"

definition MaxDataDiskCountCapability :: string where
  "MaxDataDiskCountCapability = ''maxdatadiskcount''"

definition VCPUsCapability :: string where
  "VCPUsCapability = ''vcpus''"

lemmas capability_names =
  MaxValueOfMaxSharesCapability_def MaxBurstIopsCapability_def MaxIOpsCapability_def MaxBandwidthMBpsCapability_def
  MaxBurstBandwidthMBpsCapability_def MaxSizeGiBCapability_def UncachedDiskIOPSCapability_def
  UncachedDiskBytesPerSecondCapability_def MaxDataDiskCountCapability_def VCPUsCapability_def

record resource_capability =
  rc_Name :: "string option"
  rc_Value :: "string option"

record resource_sku =
  rs_ResourceType :: "string option"
  rs_Name :: "string option"
  rs_Tier :: "string option"
  rs_Size :: "string option"
  rs_Capabilities :: "resource_capability list"

text \<open>\<open>*p\<close>\<close>

definition deref :: "'a option \<Rightarrow> ('a \<Rightarrow> 'b res) \<Rightarrow> 'b res" where
  "deref p k = (case p of None \<Rightarrow> Panic | Some x \<Rightarrow> k x)"

text \<open>\<open>field, err = strconv.Atoi(*capability.Value)\<close> followed by the test of \<open>err\<close>.\<close>

definition number_capability ::
    "string \<Rightarrow> string \<Rightarrow> resource_capability \<Rightarrow> (int \<Rightarrow> 'b res) \<Rightarrow> 'b res" where
  "number_capability what name c k =
     deref (rc_Value c) (\<lambda>v. case Atoi v of
         Ok n \<Rightarrow> k n
       | Err err \<Rightarrow> Err (Errorf (what @ name @ ''. Error: '' @ Error err))
       | Panic \<Rightarrow> Panic)"

section \<open>Capabilities\<close>

fun node_capabilities :: "resource_capability list \<Rightarrow> NodeInfo \<Rightarrow> NodeInfo res" where
  "node_capabilities [] n = Ok n"
| "node_capabilities (c # cs) n =
     (case rc_Name c of
        None \<Rightarrow> node_capabilities cs n
      | Some name \<Rightarrow>
          (let key = ToLower name;
               read = number_capability ''PopulateNodeCapabilities: Failed to parse node capability '' name c
           in if key = UncachedDiskIOPSCapability then
                read (\<lambda>v. node_capabilities cs (n\<lparr>ni_MaxIops := v\<rparr>))
              else if key = UncachedDiskBytesPerSecondCapability then
                read (\<lambda>bw. node_capabilities cs (n\<lparr>ni_MaxBwMbps := bw sdiv (1024 * 1024)\<rparr>))
              else if key = MaxDataDiskCountCapability then
                read (\<lambda>v. node_capabilities cs (n\<lparr>ni_MaxDataDiskCount := v\<rparr>))
              else if key = VCPUsCapability then
                read (\<lambda>v. node_capabilities cs (n\<lparr>ni_VCpus := v\<rparr>))
              else node_capabilities cs n))"

text \<open>A machine that does not burst has its regular limits as burst limits.\<close>

definition populateNodeCapabilities :: "resource_sku \<Rightarrow> NodeInfo \<Rightarrow> NodeInfo res" where
  "populateNodeCapabilities sku nodeInfo =
     (case node_capabilities (rs_Capabilities sku) nodeInfo of
        Ok n0 \<Rightarrow>
          (let n1 = (if ni_MaxBurstIops n0 < ni_MaxIops n0 then n0\<lparr>ni_MaxBurstIops := ni_MaxIops n0\<rparr> else n0)
           in Ok (if ni_MaxBurstBwMbps n1 < ni_MaxBwMbps n1
                  then n1\<lparr>ni_MaxBurstBwMbps := ni_MaxBwMbps n1\<rparr> else n1))
      | Err e \<Rightarrow> Err e
      | Panic \<Rightarrow> Panic)"

fun disk_capabilities :: "resource_capability list \<Rightarrow> DiskSkuInfo \<Rightarrow> DiskSkuInfo res" where
  "disk_capabilities [] d = Ok d"
| "disk_capabilities (c # cs) d =
     (case rc_Name c of
        None \<Rightarrow> disk_capabilities cs d
      | Some name \<Rightarrow>
          (let key = ToLower name;
               read = number_capability ''GetDiskCapabilities: Failed to parse disk capability '' name c
           in if key = MaxValueOfMaxSharesCapability then
                read (\<lambda>v. disk_capabilities cs (d\<lparr>MaxAllowedShares := v\<rparr>))
              else if key = MaxBurstIopsCapability then
                read (\<lambda>v. disk_capabilities cs (d\<lparr>MaxBurstIops := v\<rparr>))
              else if key = MaxIOpsCapability then
                read (\<lambda>v. disk_capabilities cs (d\<lparr>MaxIops := v\<rparr>))
              else if key = MaxBandwidthMBpsCapability then
                read (\<lambda>v. disk_capabilities cs (d\<lparr>MaxBwMbps := v\<rparr>))
              else if key = MaxBurstBandwidthMBpsCapability then
                read (\<lambda>v. disk_capabilities cs (d\<lparr>MaxBurstBwMbps := v\<rparr>))
              else if key = MaxSizeGiBCapability then
                read (\<lambda>v. disk_capabilities cs (d\<lparr>MaxSizeGiB := v\<rparr>))
              else disk_capabilities cs d))"

definition getDiskCapabilities :: "resource_sku \<Rightarrow> DiskSkuInfo res" where
  "getDiskCapabilities sku =
     deref (rs_Name sku) (\<lambda>name. deref (rs_Tier sku) (\<lambda>tier. deref (rs_Size sku) (\<lambda>sz.
       case disk_capabilities (rs_Capabilities sku) (disk_sku name tier sz 0 0 0 0 0 0) of
         Ok d0 \<Rightarrow>
           (let d1 = (if MaxBurstIops d0 < MaxIops d0 then d0\<lparr>MaxBurstIops := MaxIops d0\<rparr> else d0)
            in Ok (if MaxBurstBwMbps d1 < MaxBwMbps d1
                   then d1\<lparr>MaxBurstBwMbps := MaxBwMbps d1\<rparr> else d1))
       | Err e \<Rightarrow> Err e
       | Panic \<Rightarrow> Panic)))"

section \<open>The tables\<close>

record gen_tables =
  gt_skuMap :: "string list"
  gt_disks :: sku_map
  gt_vms :: "(string \<times> NodeInfo) list"

definition no_tables :: gen_tables where
  "no_tables = \<lparr>gt_skuMap = [], gt_disks = [], gt_vms = []\<rparr>"

definition empty_node_info :: "string \<Rightarrow> NodeInfo" where
  "empty_node_info name = node_sku name 0 0 0 0 0 0"

text \<open>The key of a resource among those that were added; a resource of another kind has none.\<close>

definition sku_key :: "resource_sku \<Rightarrow> string option res" where
  "sku_key sku =
     deref (rs_ResourceType sku) (\<lambda>ty.
       let resType = ToLower ty
       in if resType = ''disks'' then
            deref (rs_Name sku) (\<lambda>name. deref (rs_Tier sku) (\<lambda>tier. deref (rs_Size sku) (\<lambda>sz.
              Ok (Some (name @ ''-'' @ tier @ ''-'' @ sz)))))
          else if resType = ''virtualmachines'' then deref (rs_Name sku) (\<lambda>name. Ok (Some name))
          else Ok None)"

text \<open>\<open>diskSkuInfoMap[account]\<close>, created when it is missing.\<close>

definition sizes_of :: "sku_map \<Rightarrow> string \<Rightarrow> (string \<times> DiskSkuInfo) list" where
  "sizes_of disks account = (case map_of disks account of Some m \<Rightarrow> m | None \<Rightarrow> [])"

definition add_disk :: "resource_sku \<Rightarrow> gen_tables \<Rightarrow> gen_tables res" where
  "add_disk sku g =
     deref (rs_Name sku) (\<lambda>name. deref (rs_Size sku) (\<lambda>sz.
       let account = ToLower name; diskSize = ToLower sz
       in case getDiskCapabilities sku of
            Ok d \<Rightarrow> Ok (g\<lparr>gt_disks := AList.update account
                     (AList.update diskSize d (sizes_of (gt_disks g) account)) (gt_disks g)\<rparr>)
          | Err e \<Rightarrow> Err e
          | Panic \<Rightarrow> Panic))"

definition add_vm :: "resource_sku \<Rightarrow> gen_tables \<Rightarrow> gen_tables res" where
  "add_vm sku g =
     deref (rs_Name sku) (\<lambda>name.
       case populateNodeCapabilities sku (empty_node_info name) of
         Ok n \<Rightarrow> Ok (g\<lparr>gt_vms := AList.update (ToLower name) n (gt_vms g)\<rparr>)
       | Err e \<Rightarrow> Err e
       | Panic \<Rightarrow> Panic)"

text \<open>One round of the loop of \<open>main\<close>. An error ends the program with \<open>os.Exit(1)\<close>.\<close>

definition add_resource :: "resource_sku \<Rightarrow> gen_tables \<Rightarrow> gen_tables res" where
  "add_resource sku g =
     (case sku_key sku of
        Err e \<Rightarrow> Err e
      | Panic \<Rightarrow> Panic
      | Ok None \<Rightarrow> Ok g
      | Ok (Some skuKey) \<Rightarrow>
          if ToLower skuKey \<in> set (gt_skuMap g) then Ok g
          else
            (let g1 = g\<lparr>gt_skuMap := ToLower skuKey # gt_skuMap g\<rparr>
             in deref (rs_ResourceType sku) (\<lambda>ty. if ToLower ty = ''disks'' then add_disk sku g1 else add_vm sku g1)))"

fun add_resources :: "resource_sku list \<Rightarrow> gen_tables \<Rightarrow> gen_tables res" where
  "add_resources [] g = Ok g"
| "add_resources (sku # skus) g =
     (case add_resource sku g of Ok g1 \<Rightarrow> add_resources skus g1 | Err e \<Rightarrow> Err e | Panic \<Rightarrow> Panic)"

section \<open>The text\<close>

definition TAB :: string where
  "TAB = [CHR 0x09]"

definition NL :: string where
  "NL = [CHR 0x0A]"

definition boilerPlate :: string where
  "boilerPlate =
     ''/*'' @ NL @
     ''Copyright 2021 The Kubernetes Authors.'' @ NL @
     TAB @ NL @
     ''Licensed under the Apache License, Version 2.0 (the '' @ dquoted ''License'' @ '');'' @ NL @
     ''you may not use this file except in compliance with the License.'' @ NL @
     ''You may obtain a copy of the License at'' @ NL @
     NL @
     ''    http://www.apache.org/licenses/LICENSE-2.0'' @ NL @
     TAB @ NL @
     ''Unless required by applicable law or agreed to in writing, software'' @ NL @
     ''distributed under the License is distributed on an '' @ dquoted ''AS IS'' @ '' BASIS,'' @ NL @
     ''WITHOUT WARRANTIES OR CONDITIONS OF ANY KIND, either express or implied.'' @ NL @
     ''See the License for the specific language governing permissions and'' @ NL @
     ''limitations under the License.'' @ NL @
     ''*/'' @ NL @
     TAB @ NL @
     ''package azuredisk'' @ NL @
     TAB @ NL @
     ''import ('' @ NL @
     '')''"

definition formatInt :: "int \<Rightarrow> string" where
  "formatInt v = (if v \<le> 0 then ''0'' else Itoa v)"

definition disk_row :: "string \<Rightarrow> DiskSkuInfo \<Rightarrow> string" where
  "disk_row sz d =
     TAB @ TAB @ dquoted sz @ '': DiskSkuInfo{StorageAccountType: '' @ dquoted (StorageAccountType d) @
     '', StorageTier: '' @ dquoted (StorageTier d) @ '', DiskSize: '' @ dquoted (DiskSize d) @
     '', MaxAllowedShares: '' @ Itoa (MaxAllowedShares d) @ '', MaxBurstIops: '' @ Itoa (MaxBurstIops d) @
     '', MaxIops: '' @ Itoa (MaxIops d) @ '', MaxBwMbps: '' @ Itoa (MaxBwMbps d) @
     '', MaxBurstBwMbps: '' @ Itoa (MaxBurstBwMbps d) @ '', MaxSizeGiB: '' @ Itoa (MaxSizeGiB d) @ ''},''"

definition node_row :: "string \<Rightarrow> NodeInfo \<Rightarrow> string" where
  "node_row vm n =
     TAB @ dquoted vm @ '': NodeInfo{SkuName: '' @ dquoted (ni_SkuName n) @
     '', MaxDataDiskCount: '' @ Itoa (ni_MaxDataDiskCount n) @ '', VCpus: '' @ Itoa (ni_VCpus n) @
     '', MaxBurstIops: '' @ Itoa (ni_MaxBurstIops n) @ '', MaxIops: '' @ Itoa (ni_MaxIops n) @
     '', MaxBwMbps: '' @ formatInt (ni_MaxBwMbps n) @ '', MaxBurstBwMbps: '' @ formatInt (ni_MaxBurstBwMbps n) @ ''},''"

text \<open>\<open>appendWithErrCheck\<close> appends to a \<open>strings.Builder\<close>, which never fails. The order of the lists is the
  order in which \<open>range\<close> visits the maps.\<close>

definition disk_table_text :: "sku_map \<Rightarrow> string" where
  "disk_table_text disks =
     TAB @ ''DiskSkuMap = map[string]map[string]DiskSkuInfo{'' @
     concat (map (\<lambda>(account, sizes).
       NL @ TAB @ dquoted account @ '': map[string]DiskSkuInfo {'' @
       concat (map (\<lambda>(sz, d). NL @ disk_row sz d) sizes) @
       NL @ TAB @ TAB @ ''},'') disks) @
     NL @ TAB @ ''}''"

definition node_table_text :: "(string \<times> NodeInfo) list \<Rightarrow> string" where
  "node_table_text vms =
     TAB @ ''NodeInfoMap = map[string]NodeInfo{'' @
     concat (map (\<lambda>(vm, n). NL @ node_row vm n) vms) @
     NL @ TAB @ ''}''"

definition skus_file_text :: "gen_tables \<Rightarrow> string" where
  "skus_file_text g =
     boilerPlate @ NL @ NL @ ''var ('' @ NL @
     disk_table_text (gt_disks g) @ NL @ NL @
     node_table_text (gt_vms g) @ NL @ '')'' @ NL"

section \<open>The program\<close>

text \<open>The command \<open>az vm list-skus\<close> with its output into a file, the files, and the decoder.\<close>

record 'w gen_env =
  ge_Create :: "string \<Rightarrow> ('w, unit) io"
  ge_Close :: "string \<Rightarrow> ('w, unit) io"
  ge_Start :: "string list \<Rightarrow> string \<Rightarrow> ('w, unit) io"
  ge_Wait :: "('w, unit) io"
  ge_Open :: "string \<Rightarrow> ('w, unit) io"
  ge_ReadAll :: "string \<Rightarrow> 'w \<Rightarrow> string \<times> 'w"
  ge_Remove :: "string \<Rightarrow> ('w, unit) io"
  ge_WriteFile :: "string \<Rightarrow> string \<Rightarrow> ('w, unit) io"
  ge_Unmarshal :: "string \<Rightarrow> resource_sku list res"

definition getAllSkus :: "'w gen_env \<Rightarrow> string \<Rightarrow> ('w, unit) io" where
  "getAllSkus E filePath =
     bind (ge_Create E filePath)
       (\<lambda>_. deferred (ge_Close E filePath)
          (bind (ge_Start E [''az'', ''vm'', ''list-skus''] filePath) (\<lambda>_. ge_Wait E)))"

definition skusFullfilePath :: string where
  "skusFullfilePath = ''skus-full.json''"

definition skusFilePath :: string where
  "skusFilePath = ''pkg/azuredisk/azure_skus_map.go''"

datatype gen_end = Returned | Exited int

text \<open>\<open>os.Exit(1)\<close> ends the program at once: neither deferred call runs.\<close>

definition run_deferred :: "('w, unit) io \<Rightarrow> ('w, gen_end) io \<Rightarrow> ('w, gen_end) io" where
  "run_deferred d m w =
     (case m w of
        (Ok (Exited c), w') \<Rightarrow> (Ok (Exited c), w')
      | (r, w') \<Rightarrow> (case d w' of (Panic, w'') \<Rightarrow> (Panic, w'') | (_, w'') \<Rightarrow> (r, w'')))"

definition gen_main :: "'w gen_env \<Rightarrow> ('w, gen_end) io" where
  "gen_main E =
     run_deferred (ge_Remove E skusFullfilePath)
       (call (call (getAllSkus E skusFullfilePath) (\<lambda>err. ret ()) ret) fail
          (\<lambda>_. call (ge_Open E skusFullfilePath) (\<lambda>err. ret Returned)
             (\<lambda>_. run_deferred (ge_Close E skusFullfilePath)
                (bind (\<lambda>w. case ge_ReadAll E skusFullfilePath w of (b, w') \<Rightarrow> (Ok b, w'))
                   (\<lambda>byteValue. call (lift (ge_Unmarshal E byteValue)) (\<lambda>err. ret Returned)
                      (\<lambda>resources. call (lift (add_resources resources no_tables)) (\<lambda>err. ret (Exited 1))
                         (\<lambda>g. call (ge_WriteFile E skusFilePath (skus_file_text g))
                            (\<lambda>err. ret Returned) (\<lambda>_. ret Returned))))))))"

end
