(* ===== verification/SkuGeneratorCorrect.thy ===== *)
theory SkuGeneratorCorrect
  imports SkuGenerator
begin

text \<open>
  What the generator of the SKU tables guarantees of the tables it writes, and that the tables of the
  repository satisfy the same conditions.
\<close>

section \<open>Well-formed tables\<close>

text \<open>The key of a row is the lower case of the name it is for, and no burst limit is below the regular
  one.\<close>

definition disk_row_ok :: "string \<Rightarrow> string \<Rightarrow> DiskSkuInfo \<Rightarrow> bool" where
  "disk_row_ok account sz d \<longleftrightarrow>
     account = ToLower (StorageAccountType d) \<and> sz = ToLower (DiskSize d) \<and>
     MaxIops d \<le> MaxBurstIops d \<and> MaxBwMbps d \<le> MaxBurstBwMbps d"

definition disk_table_ok :: "sku_map \<Rightarrow> bool" where
  "disk_table_ok disks \<longleftrightarrow> list_all (\<lambda>(account, sizes). list_all (\<lambda>(sz, d). disk_row_ok account sz d) sizes) disks"

definition node_row_ok :: "string \<Rightarrow> NodeInfo \<Rightarrow> bool" where
  "node_row_ok vm n \<longleftrightarrow>
     vm = ToLower (ni_SkuName n) \<and> ni_MaxIops n \<le> ni_MaxBurstIops n \<and> ni_MaxBwMbps n \<le> ni_MaxBurstBwMbps n"

definition node_table_ok :: "(string \<times> NodeInfo) list \<Rightarrow> bool" where
  "node_table_ok vms \<longleftrightarrow> list_all (\<lambda>(vm, n). node_row_ok vm n) vms"

lemma res_case_Ok [simp]:
  "(case r of Ok x \<Rightarrow> f x | Err e \<Rightarrow> Err (h e) | Panic \<Rightarrow> Panic) = Ok y \<longleftrightarrow> (\<exists>x. r = Ok x \<and> f x = Ok y)"
  by (simp split: res.split)

lemma deref_Ok [simp]: "deref p k = Ok x \<longleftrightarrow> (\<exists>y. p = Some y \<and> k y = Ok x)"
  by (simp add: deref_def split: option.split)

lemma number_capability_Ok [simp]:
  "number_capability what name c k = Ok x \<longleftrightarrow> (\<exists>v n. rc_Value c = Some v \<and> Atoi v = Ok n \<and> k n = Ok x)"
  by (auto simp: number_capability_def)

lemma disk_capabilities_names:
  "disk_capabilities cs d = Ok d' \<Longrightarrow>
   StorageAccountType d' = StorageAccountType d \<and> StorageTier d' = StorageTier d \<and> DiskSize d' = DiskSize d"
  by (induction cs arbitrary: d) (auto simp: Let_def split: option.splits if_splits)

lemma node_capabilities_name: "node_capabilities cs n = Ok n' \<Longrightarrow> ni_SkuName n' = ni_SkuName n"
  by (induction cs arbitrary: n) (auto simp: Let_def split: option.splits if_splits)

lemma getDiskCapabilities_row:
  assumes "getDiskCapabilities sku = Ok d" "rs_Name sku = Some name" "rs_Size sku = Some sz"
  shows "disk_row_ok (ToLower name) (ToLower sz) d"
  using assms
  by (auto simp: getDiskCapabilities_def disk_row_ok_def disk_sku_def Let_def dest!: disk_capabilities_names)

lemma populateNodeCapabilities_row:
  assumes "populateNodeCapabilities sku (empty_node_info name) = Ok n"
  shows "node_row_ok (ToLower name) n"
  using assms
  by (auto simp: populateNodeCapabilities_def node_row_ok_def empty_node_info_def node_sku_def Let_def
      dest!: node_capabilities_name)

lemma set_update_subset: "set (AList.update k v xs) \<subseteq> insert (k, v) (set xs)"
  by (induction xs) auto

lemma node_table_update:
  "node_table_ok vms \<Longrightarrow> node_row_ok vm n \<Longrightarrow> node_table_ok (AList.update vm n vms)"
  using set_update_subset [of vm n vms] by (fastforce simp: node_table_ok_def list_all_iff)

lemma sizes_of_set: "x \<in> set (sizes_of disks a) \<Longrightarrow> \<exists>m. (a, m) \<in> set disks \<and> x \<in> set m"
  by (cases "map_of disks a") (auto simp: sizes_of_def dest!: map_of_SomeD)

lemma disk_table_update:
  assumes "disk_table_ok disks" "disk_row_ok account sz d"
  shows "disk_table_ok (AList.update account (AList.update sz d (sizes_of disks account)) disks)"
proof -
  let ?m = "sizes_of disks account"
  have "disk_row_ok account z e" if "(z, e) \<in> set ?m" for z e
    using sizes_of_set [OF that] assms(1) by (auto simp: disk_table_ok_def list_all_iff)
  then have "disk_row_ok account z e" if "(z, e) \<in> set (AList.update sz d ?m)" for z e
    using that assms(2) set_update_subset [of sz d ?m] by auto
  then show ?thesis using assms(1) set_update_subset [of account "AList.update sz d ?m" disks]
    unfolding disk_table_ok_def list_all_iff by fastforce
qed

text \<open>The tables have rows with distinct keys.\<close>

definition distinct_tables :: "gen_tables \<Rightarrow> bool" where
  "distinct_tables g \<longleftrightarrow>
     distinct (map fst (gt_disks g)) \<and> (\<forall>(account, sizes) \<in> set (gt_disks g). distinct (map fst sizes)) \<and>
     distinct (map fst (gt_vms g))"

definition tables_ok :: "gen_tables \<Rightarrow> bool" where
  "tables_ok g \<longleftrightarrow> disk_table_ok (gt_disks g) \<and> node_table_ok (gt_vms g) \<and> distinct_tables g"

lemma distinct_disk_update:
  assumes "distinct (map fst disks)" "\<forall>(a, m) \<in> set disks. distinct (map fst m)"
  shows "distinct (map fst (AList.update account (AList.update sz d (sizes_of disks account)) disks))"
    "\<forall>(a, m) \<in> set (AList.update account (AList.update sz d (sizes_of disks account)) disks). distinct (map fst m)"
proof -
  let ?m = "sizes_of disks account"
  show "distinct (map fst (AList.update account (AList.update sz d ?m) disks))" using assms(1) by (rule distinct_update)
  have "distinct (map fst ?m)" using assms(2) by (auto simp: sizes_of_def split: option.split dest!: map_of_SomeD)
  then have "distinct (map fst (AList.update sz d ?m))" by (rule distinct_update)
  then show "\<forall>(a, m) \<in> set (AList.update account (AList.update sz d ?m) disks). distinct (map fst m)"
    using assms(2) set_update_subset [of account "AList.update sz d ?m" disks] by fastforce
qed

lemma add_resource_cases:
  assumes "add_resource sku g = Ok g'"
  obtains "g' = g" | k where "add_disk sku (g\<lparr>gt_skuMap := k # gt_skuMap g\<rparr>) = Ok g'"
  | k where "add_vm sku (g\<lparr>gt_skuMap := k # gt_skuMap g\<rparr>) = Ok g'"
proof (cases "sku_key sku")
  case (Ok o1)
  let ?g = "\<lambda>k. g\<lparr>gt_skuMap := k # gt_skuMap g\<rparr>"
  from assms Ok have "g' = g \<or> (\<exists>k ty. (if ToLower ty = ''disks'' then add_disk sku (?g k) else add_vm sku (?g k)) = Ok g')"
    by (cases o1) (auto simp: add_resource_def Let_def split: if_split_asm simp del: fun_upd_apply)
  then consider "g' = g" | k where "add_disk sku (?g k) = Ok g'" | k where "add_vm sku (?g k) = Ok g'"
    by (metis (full_types))
  then show thesis using that by cases blast+
qed (use assms in \<open>simp_all add: add_resource_def\<close>)

lemma add_resource_ok:
  assumes "add_resource sku g = Ok g'" "tables_ok g"
  shows "tables_ok g'"
proof -
  have vm: "tables_ok g2" if "add_vm sku g1 = Ok g2" "tables_ok g1" for g1 g2
    using that node_table_update populateNodeCapabilities_row
    by (auto simp: add_vm_def tables_ok_def distinct_tables_def distinct_update)
  have disk: "tables_ok g2" if a: "add_disk sku g1 = Ok g2" and b: "tables_ok g1" for g1 g2
  proof -
    obtain name sz d where n: "rs_Name sku = Some name" "rs_Size sku = Some sz" "getDiskCapabilities sku = Ok d"
      "g2 = g1\<lparr>gt_disks := AList.update (ToLower name)
         (AList.update (ToLower sz) d (sizes_of (gt_disks g1) (ToLower name))) (gt_disks g1)\<rparr>"
      using a by (auto simp: add_disk_def Let_def)
    from b have o: "disk_table_ok (gt_disks g1)" "distinct (map fst (gt_disks g1))" "node_table_ok (gt_vms g1)"
      "distinct (map fst (gt_vms g1))" "\<forall>(account, sizes) \<in> set (gt_disks g1). distinct (map fst sizes)"
      by (simp_all add: tables_ok_def distinct_tables_def)
    from disk_table_update [OF o(1) getDiskCapabilities_row [OF n(3,1,2)]] distinct_disk_update [OF o(2,5)] o(3,4) n(4)
    show ?thesis unfolding tables_ok_def distinct_tables_def by simp
  qed
  have skip: "tables_ok (g\<lparr>gt_skuMap := ks\<rparr>)" for ks
    using assms(2) by (simp add: tables_ok_def distinct_tables_def)
  from assms(1) show ?thesis using assms(2) vm disk skip by (cases rule: add_resource_cases) blast+
qed

lemma add_resources_ok: "add_resources skus g = Ok g' \<Longrightarrow> tables_ok g \<Longrightarrow> tables_ok g'"
  by (induction skus arbitrary: g) (auto split: res.splits dest: add_resource_ok)

section \<open>Every resource has a row\<close>

definition has_row :: "resource_sku \<Rightarrow> gen_tables \<Rightarrow> bool" where
  "has_row r g \<longleftrightarrow>
     (\<forall>ty. rs_ResourceType r = Some ty \<longrightarrow>
        (ToLower ty = ''disks'' \<longrightarrow>
           (\<exists>name sz d. rs_Name r = Some name \<and> rs_Size r = Some sz \<and>
              map_of (sizes_of (gt_disks g) (ToLower name)) (ToLower sz) = Some d)) \<and>
        (ToLower ty = ''virtualmachines'' \<longrightarrow>
           (\<exists>name n. rs_Name r = Some name \<and> map_of (gt_vms g) (ToLower name) = Some n)))"

text \<open>The key of a disk is joined with hyphens: its parts must have none, and the name of a machine at most
  one, so that it is not such a key.\<close>

definition hyphens :: "string \<Rightarrow> nat" where
  "hyphens s = length (filter (\<lambda>c. c = CHR ''-'') s)"

definition plain_names :: "resource_sku \<Rightarrow> bool" where
  "plain_names r \<longleftrightarrow>
     (case rs_ResourceType r of
        None \<Rightarrow> True
      | Some ty \<Rightarrow>
          list_all (\<lambda>p. case p of None \<Rightarrow> True | Some s \<Rightarrow> hyphens s \<le> (if ToLower ty = ''disks'' then 0 else 1))
            [rs_Name r, rs_Tier r, rs_Size r])"

lemma sizes_of_update [simp]: "sizes_of (AList.update a m disks) b = (if a = b then m else sizes_of disks b)"
  by (simp add: sizes_of_def update_conv')

lemma lower_hyphen [simp]: "lower_char c = CHR ''-'' \<longleftrightarrow> c = CHR ''-''"
proof
  assume l: "lower_char c = CHR ''-''"
  then have "ord (lower_char c) = 45" by simp
  then have "\<not> is_upper c" by (auto simp: ord_lower_char is_upper_def)
  with l show "c = CHR ''-''" by (simp add: lower_char_fix)
qed (simp add: lower_char_def is_upper_def)

lemma hyphens_append [simp]: "hyphens (s @ t) = hyphens s + hyphens t" "hyphens ''-'' = 1" "hyphens [] = 0"
  by (simp_all add: hyphens_def)

lemma hyphens_Cons [simp]: "hyphens (c # s) = (if c = CHR ''-'' then 1 else 0) + hyphens s"
  by (simp add: hyphens_def)

lemma hyphens_ToLower [simp]: "hyphens (ToLower s) = hyphens s"
  by (induction s) (simp_all add: hyphens_def ToLower_def)

lemma hyphens_0: "hyphens s = 0 \<longleftrightarrow> CHR ''-'' \<notin> set s"
  by (induction s) (auto simp: hyphens_def)

lemma ToLower_hyphen [simp]: "ToLower (CHR ''-'' # s) = CHR ''-'' # ToLower s"
  by (simp add: ToLower_def lower_char_def is_upper_def)

lemma split_first:
  assumes "xs @ c # ys = xs' @ c # ys'" "c \<notin> set xs" "c \<notin> set xs'"
  shows "xs = xs'" "ys = ys'"
  using assms by (auto simp: append_eq_append_conv2 append_eq_Cons_conv Cons_eq_append_conv)

lemma same_key_row:
  assumes "sku_key r = Ok (Some k)" "sku_key q = Ok (Some k')" "ToLower k = ToLower k'" "plain_names r" "plain_names q"
  shows "has_row r g \<longleftrightarrow> has_row q g"
proof -
  obtain ty ty' where t: "rs_ResourceType r = Some ty" "rs_ResourceType q = Some ty'"
    using assms(1,2) by (auto simp: sku_key_def)
  have kinds: "ToLower ty \<in> {''disks'', ''virtualmachines''}" "ToLower ty' \<in> {''disks'', ''virtualmachines''}"
    using assms(1,2) t by (auto simp: sku_key_def Let_def split: if_splits)
  have k: "hyphens k = 2 \<longleftrightarrow> ToLower ty = ''disks''" "hyphens k' = 2 \<longleftrightarrow> ToLower ty' = ''disks''"
    using assms(1,2,4,5) t kinds by (auto simp: sku_key_def Let_def plain_names_def split: if_splits)
  then have same: "ToLower ty = ToLower ty'" using assms(3) kinds hyphens_ToLower [of k] hyphens_ToLower [of k'] by auto
  show ?thesis
  proof (cases "ToLower ty = ''disks''")
    case True
    then obtain a b c a' b' c' where n: "rs_Name r = Some a" "rs_Tier r = Some b" "rs_Size r = Some c"
      "rs_Name q = Some a'" "rs_Tier q = Some b'" "rs_Size q = Some c'"
      "k = a @ ''-'' @ b @ ''-'' @ c" "k' = a' @ ''-'' @ b' @ ''-'' @ c'"
      using assms(1,2) t same by (auto simp: sku_key_def Let_def)
    have h: "hyphens a = 0" "hyphens b = 0" "hyphens a' = 0" "hyphens b' = 0"
      using assms(4,5) n t True same by (simp_all add: plain_names_def)
    have e: "ToLower a @ CHR ''-'' # ToLower b @ CHR ''-'' # ToLower c =
        ToLower a' @ CHR ''-'' # ToLower b' @ CHR ''-'' # ToLower c'" using assms(3) n(7,8) by simp
    from split_first [OF e] h hyphens_0 hyphens_ToLower have 1: "ToLower a = ToLower a'"
      "ToLower b @ CHR ''-'' # ToLower c = ToLower b' @ CHR ''-'' # ToLower c'" by metis+
    from split_first(2) [OF 1(2)] h hyphens_0 hyphens_ToLower have "ToLower c = ToLower c'" by metis
    with 1(1) True same n t show ?thesis by (simp add: has_row_def)
  next
    case False
    then have "rs_Name r = Some k" "rs_Name q = Some k'" "ToLower ty = ''virtualmachines''"
      using assms(1,2) t same kinds by (auto simp: sku_key_def Let_def)
    with False same t assms(3) show ?thesis by (simp add: has_row_def)
  qed
qed

lemma add_disk_rows:
  assumes "add_disk sku g = Ok g'"
  shows "\<exists>name sz d. rs_Name sku = Some name \<and> rs_Size sku = Some sz \<and>
      map_of (sizes_of (gt_disks g') (ToLower name)) (ToLower sz) = Some d" "has_row q g \<Longrightarrow> has_row q g'"
    "gt_skuMap g' = gt_skuMap g"
  using assms by (auto simp: add_disk_def Let_def has_row_def update_conv')

lemma add_vm_rows:
  assumes "add_vm sku g = Ok g'"
  shows "\<exists>name n. rs_Name sku = Some name \<and> map_of (gt_vms g') (ToLower name) = Some n"
    "has_row q g \<Longrightarrow> has_row q g'" "gt_skuMap g' = gt_skuMap g"
  using assms by (auto simp: add_vm_def has_row_def update_conv')

text \<open>Every resource so far has a row, and every key is that of one of them.\<close>

definition covered :: "resource_sku set \<Rightarrow> gen_tables \<Rightarrow> bool" where
  "covered S g \<longleftrightarrow> (\<forall>r \<in> S. plain_names r \<and> has_row r g) \<and>
     (\<forall>k \<in> set (gt_skuMap g). \<exists>r \<in> S. \<exists>k'. sku_key r = Ok (Some k') \<and> ToLower k' = k)"

lemma add_resource_covered:
  assumes "add_resource sku g = Ok g'" "covered S g" "plain_names sku"
  shows "covered (insert sku S) g'"
proof -
  obtain o1 where k: "sku_key sku = Ok o1"
    using assms(1) by (cases "sku_key sku") (auto simp: add_resource_def)
  show ?thesis
  proof (cases o1)
    case None
    then have "g' = g" "has_row sku g"
      using assms(1) k by (auto simp: add_resource_def has_row_def sku_key_def Let_def split: if_splits)
    with assms(2,3) show ?thesis by (auto simp: covered_def)
  next
    case (Some key)
    show ?thesis
    proof (cases "ToLower key \<in> set (gt_skuMap g)")
      case True
      then obtain r k' where r: "r \<in> S" "sku_key r = Ok (Some k')" "ToLower k' = ToLower key"
        using assms(2) unfolding covered_def by blast
      have "g' = g" using assms(1) k Some True by (simp add: add_resource_def)
      moreover have "has_row sku g"
        using same_key_row [OF r(2) k [unfolded Some] r(3)] r(1) assms(2,3) by (auto simp: covered_def)
      ultimately show ?thesis using assms(2,3) by (auto simp: covered_def)
    next
      case False
      let ?g = "g\<lparr>gt_skuMap := ToLower key # gt_skuMap g\<rparr>"
      have old: "has_row q ?g \<longleftrightarrow> has_row q g" for q by (simp add: has_row_def)
      obtain ty where ty: "rs_ResourceType sku = Some ty"
        "(if ToLower ty = ''disks'' then add_disk sku ?g else add_vm sku ?g) = Ok g'"
        using assms(1) k Some False by (auto simp: add_resource_def Let_def)
      have "has_row sku g'"
        using ty add_disk_rows(1) [of sku ?g g'] add_vm_rows(1) [of sku ?g g']
        by (simp add: has_row_def split: if_splits)
      moreover have "has_row q g \<Longrightarrow> has_row q g'" for q
        using ty(2) add_disk_rows(2) [of sku ?g g' q] add_vm_rows(2) [of sku ?g g' q] old [of q] by (simp split: if_splits)
      moreover have "gt_skuMap g' = ToLower key # gt_skuMap g"
        using ty(2) add_disk_rows(3) [of sku ?g g'] add_vm_rows(3) [of sku ?g g'] by (simp split: if_splits)
      ultimately show ?thesis using assms(2,3) k Some by (auto simp: covered_def)
    qed
  qed
qed

lemma add_resources_covered:
  "add_resources skus g = Ok g' \<Longrightarrow> covered S g \<Longrightarrow> \<forall>r \<in> set skus. plain_names r \<Longrightarrow> covered (S \<union> set skus) g'"
  by (induction skus arbitrary: g S) (fastforce dest: add_resource_covered)+

section \<open>The tables of the repository\<close>

lemma lower_chars:
  "lower_char (CHR ''a'') = CHR ''a''" "lower_char (CHR ''b'') = CHR ''b''" "lower_char (CHR ''c'') = CHR ''c''"
  "lower_char (CHR ''d'') = CHR ''d''" "lower_char (CHR ''e'') = CHR ''e''" "lower_char (CHR ''f'') = CHR ''f''"
  "lower_char (CHR ''g'') = CHR ''g''" "lower_char (CHR ''h'') = CHR ''h''" "lower_char (CHR ''i'') = CHR ''i''"
  "lower_char (CHR ''j'') = CHR ''j''" "lower_char (CHR ''k'') = CHR ''k''" "lower_char (CHR ''l'') = CHR ''l''"
  "lower_char (CHR ''m'') = CHR ''m''" "lower_char (CHR ''n'') = CHR ''n''" "lower_char (CHR ''o'') = CHR ''o''"
  "lower_char (CHR ''p'') = CHR ''p''" "lower_char (CHR ''q'') = CHR ''q''" "lower_char (CHR ''r'') = CHR ''r''"
  "lower_char (CHR ''s'') = CHR ''s''" "lower_char (CHR ''t'') = CHR ''t''" "lower_char (CHR ''u'') = CHR ''u''"
  "lower_char (CHR ''v'') = CHR ''v''" "lower_char (CHR ''w'') = CHR ''w''" "lower_char (CHR ''x'') = CHR ''x''"
  "lower_char (CHR ''y'') = CHR ''y''" "lower_char (CHR ''z'') = CHR ''z''" "lower_char (CHR ''A'') = CHR ''a''"
  "lower_char (CHR ''B'') = CHR ''b''" "lower_char (CHR ''C'') = CHR ''c''" "lower_char (CHR ''D'') = CHR ''d''"
  "lower_char (CHR ''E'') = CHR ''e''" "lower_char (CHR ''F'') = CHR ''f''" "lower_char (CHR ''G'') = CHR ''g''"
  "lower_char (CHR ''H'') = CHR ''h''" "lower_char (CHR ''I'') = CHR ''i''" "lower_char (CHR ''J'') = CHR ''j''"
  "lower_char (CHR ''K'') = CHR ''k''" "lower_char (CHR ''L'') = CHR ''l''" "lower_char (CHR ''M'') = CHR ''m''"
  "lower_char (CHR ''N'') = CHR ''n''" "lower_char (CHR ''O'') = CHR ''o''" "lower_char (CHR ''P'') = CHR ''p''"
  "lower_char (CHR ''Q'') = CHR ''q''" "lower_char (CHR ''R'') = CHR ''r''" "lower_char (CHR ''S'') = CHR ''s''"
  "lower_char (CHR ''T'') = CHR ''t''" "lower_char (CHR ''U'') = CHR ''u''" "lower_char (CHR ''V'') = CHR ''v''"
  "lower_char (CHR ''W'') = CHR ''w''" "lower_char (CHR ''X'') = CHR ''x''" "lower_char (CHR ''Y'') = CHR ''y''"
  "lower_char (CHR ''Z'') = CHR ''z''" "lower_char (CHR ''0'') = CHR ''0''" "lower_char (CHR ''1'') = CHR ''1''"
  "lower_char (CHR ''2'') = CHR ''2''" "lower_char (CHR ''3'') = CHR ''3''" "lower_char (CHR ''4'') = CHR ''4''"
  "lower_char (CHR ''5'') = CHR ''5''" "lower_char (CHR ''6'') = CHR ''6''" "lower_char (CHR ''7'') = CHR ''7''"
  "lower_char (CHR ''8'') = CHR ''8''" "lower_char (CHR ''9'') = CHR ''9''" "lower_char (CHR ''_'') = CHR ''_''" "lower_char (CHR ''-'') = CHR ''-''"
  by code_simp+

lemmas row_eval = ToLower_def lower_chars disk_row_ok_def node_row_ok_def disk_sku_def node_sku_def

lemma disk_table_checked: "disk_table_ok DiskSkuMap"
  by (simp add: disk_table_ok_def DiskSkuMap_def skus_premium_lrs_def skus_standardssd_lrs_def skus_ultrassd_lrs_def
      skus_standardssd_zrs_def skus_premium_zrs_def skus_standard_lrs_def row_eval)

lemma node_tables_checked:
  "node_table_ok NodeInfoMap_1" "node_table_ok NodeInfoMap_2" "node_table_ok NodeInfoMap_3"
  "node_table_ok NodeInfoMap_4" "node_table_ok NodeInfoMap_5"
  unfolding node_table_ok_def NodeInfoMap_1_def NodeInfoMap_2_def NodeInfoMap_3_def NodeInfoMap_4_def NodeInfoMap_5_def
  by (simp_all add: row_eval)

text \<open>C34. The generator of the SKU tables. When it does not stop with an error, no row of the tables it
  writes has a burst limit below its regular limit, each row is under the lower case of its own name,
  no key occurs twice, and every disk size and machine size it was given has a row (as long as the names
  of disks contain no hyphen, with which it joins the parts of their key, and those of machines at most
  one). The tables that are checked in satisfy
  the same conditions on their rows.\<close>

theorem generated_tables:
  assumes "add_resources skus no_tables = Ok g"
  shows "tables_ok g \<and> ((\<forall>r \<in> set skus. plain_names r) \<longrightarrow> (\<forall>r \<in> set skus. has_row r g)) \<and>
    disk_table_ok DiskSkuMap \<and> node_table_ok NodeInfoMap"
proof -
  have "tables_ok no_tables"
    by (simp add: tables_ok_def no_tables_def disk_table_ok_def node_table_ok_def distinct_tables_def)
  moreover have "covered {} no_tables" by (simp add: covered_def no_tables_def)
  moreover have "node_table_ok NodeInfoMap"
    using node_tables_checked by (simp add: NodeInfoMap_def node_table_ok_def)
  ultimately show ?thesis
    using add_resources_ok [OF assms] add_resources_covered [OF assms, of "{}"] disk_table_checked
    unfolding covered_def by simp
qed

definition p10_resource :: resource_sku where
  "p10_resource = \<lparr>rs_ResourceType = Some ''disks'', rs_Name = Some ''Premium_LRS'', rs_Tier = Some ''Premium'',
     rs_Size = Some ''P10'', rs_Capabilities =
       [\<lparr>rc_Name = Some ''MaxIOps'', rc_Value = Some ''500''\<rparr>, \<lparr>rc_Name = Some ''MaxBurstIops'', rc_Value = Some ''3''\<rparr>,
        \<lparr>rc_Name = Some ''Zones'', rc_Value = None\<rparr>]\<rparr>"

theorem generated_tables_witness:
  "\<exists>g. add_resources [p10_resource, p10_resource] no_tables = Ok g \<and> tables_ok g \<and> has_row p10_resource g \<and>
     map (\<lambda>(z, d). (z, MaxBurstIops d)) (sizes_of (gt_disks g) ''premium_lrs'') = [(''p10'', 500)]"
proof -
  let ?r = "add_resources [p10_resource, p10_resource] no_tables"
  have "case ?r of Ok g \<Rightarrow> map (\<lambda>(z, d). (z, MaxBurstIops d)) (sizes_of (gt_disks g) ''premium_lrs'') = [(''p10'', 500)]
      | _ \<Rightarrow> False" by code_simp
  then obtain g where g: "?r = Ok g"
    "map (\<lambda>(z, d). (z, MaxBurstIops d)) (sizes_of (gt_disks g) ''premium_lrs'') = [(''p10'', 500)]" by (cases ?r) auto
  have "plain_names p10_resource" by code_simp
  with generated_tables [OF g(1)] g show ?thesis by auto
qed

end
