(* ===== verification/WindowsOS.thy ===== *)
theory WindowsOS
  imports LinuxCommon
begin

text \<open>
  The packages \<open>pkg/os/filesystem\<close>, \<open>pkg/os/disk\<close> and \<open>pkg/os/volume\<close>, through which a node in a Windows
  host process works: checks of paths, disks by number with their partitions, and volumes by their unique
  id. They run PowerShell commands and read their output. Files, device controls, PowerShell and the JSON
  decoder are fields of \<open>win_os\<close>. A function carries the name of its package where that name alone would
  be that of another function.
\<close>

section \<open>The operating system\<close>

text \<open>\<open>wo_Lstat\<close> answers whether the mode has the bit of a symbolic link. \<open>wo_CombinedOutput\<close> runs a program
  with additional environment and gives its output and its error, if any; output and error can come
  together. \<open>wo_DeviceIoControl\<close> fills a buffer of the given size.\<close>

datatype json = JString string | JNumber int | JNull

record 'w win_os =
  wo_CombinedOutput :: "string list \<Rightarrow> string list \<Rightarrow> 'w \<Rightarrow> (string \<times> go_error option) \<times> 'w"
  wo_Lstat :: "string \<Rightarrow> ('w, bool) io"
  wo_IsNotExist :: "go_error \<Rightarrow> bool"
  wo_Readlink :: "string \<Rightarrow> ('w, string) io"
  wo_MkdirAll :: "string \<Rightarrow> ('w, unit) io"
  wo_Remove :: "string \<Rightarrow> ('w, unit) io"
  wo_RemoveAll :: "string \<Rightarrow> ('w, unit) io"
  wo_Symlink :: "string \<Rightarrow> string \<Rightarrow> ('w, unit) io"
  wo_Open :: "string \<Rightarrow> ('w, int) io"
  wo_Close :: "int \<Rightarrow> ('w, unit) io"
  wo_InvalidHandle :: int
  wo_DeviceIoControl :: "int \<Rightarrow> int \<Rightarrow> 8 word list \<Rightarrow> nat \<Rightarrow> ('w, 8 word list) io"
  wo_Unmarshal_rows :: "string \<Rightarrow> (string \<times> json) list list res"
  wo_Unmarshal_disks :: "string \<Rightarrow> (string \<times> string) list res"
  wo_Unmarshal_sizes :: "string \<Rightarrow> (string \<times> int) list res"

definition to_uint32 :: "int \<Rightarrow> int" where
  "to_uint32 n = n mod 4294967296"

text \<open>The verb \<open>%v\<close> on an error that may be nil and on a slice of bytes.\<close>

definition error_v :: "go_error option \<Rightarrow> string" where
  "error_v e = (case e of None \<Rightarrow> ''<nil>'' | Some e \<Rightarrow> Error e)"

definition bytes_v :: "string \<Rightarrow> string" where
  "bytes_v s = ''['' @ Join (map (\<lambda>c. nat_str (of_char c)) s) (CHR '' '') @ '']''"

text \<open>\<open>azureutils.RunPowershellCmd\<close>. One command runs at a time, so its mutex is not seen.\<close>

definition RunPowershellCmd :: "'w win_os \<Rightarrow> string \<Rightarrow> string list \<Rightarrow> ('w, string \<times> go_error option) io" where
  "RunPowershellCmd K command envs w =
     (case wo_CombinedOutput K [''powershell'', ''-Mta'', ''-NoProfile'', ''-Command'', command] envs w of
        (output, w') \<Rightarrow> (Ok output, w'))"

text \<open>The idiom of most commands: an error of the command becomes an error with a text made of the output.\<close>

definition powershell ::
    "'w win_os \<Rightarrow> string \<Rightarrow> string list \<Rightarrow> (string \<Rightarrow> go_error option \<Rightarrow> string) \<Rightarrow> (string \<Rightarrow> ('w, 'a) io) \<Rightarrow> ('w, 'a) io" where
  "powershell K command envs text k =
     bind (RunPowershellCmd K command envs)
       (\<lambda>(out, err). if err \<noteq> None then fail (Errorf (text out err)) else k out)"

section \<open>pkg/os/filesystem\<close>

definition MaxPathLengthWindows :: int where
  "MaxPathLengthWindows = 260"

definition BACKSLASH :: char where
  "BACKSLASH = CHR 0x5C"

definition DQUOTE :: char where
  "DQUOTE = CHR 0x22"

definition invalidPathCharsRegexWindows :: "ritem list" where
  "invalidPathCharsRegexWindows = [One (AnyOf (\<lambda>c. c \<in> set [DQUOTE, CHR ''/'', CHR '':'', CHR ''?'', CHR ''*'', CHR ''|'']))]"

text \<open>\<open>^[a-zA-Z]:\\\<close> is anchored: the match is tried at the start only.\<close>

definition absPathRegexWindows :: "ritem list" where
  "absPathRegexWindows = [One (AnyOf IsLetter), One (Lit (CHR '':'')), One (Lit BACKSLASH)]"

definition isAbsWindows :: "string \<Rightarrow> bool" where
  "isAbsWindows path \<longleftrightarrow> rmatch [] absPathRegexWindows path \<noteq> None"

definition isUNCPathWindows :: "string \<Rightarrow> bool" where
  "isUNCPathWindows path \<longleftrightarrow> 2 \<le> length path \<and> path ! 0 = BACKSLASH \<and> path ! 1 = BACKSLASH"

definition containsInvalidCharactersWindows :: "string \<Rightarrow> bool" where
  "containsInvalidCharactersWindows path =
     (let path' = (if isAbsWindows path then drop 3 path else path)
      in MatchFound invalidPathCharsRegexWindows path' \<or> Contains path' ''..'')"

definition ValidatePathWindows :: "string \<Rightarrow> unit res" where
  "ValidatePathWindows path =
     (let pathlen = int (length path)
      in if pathlen > MaxPathLengthWindows then
           Err (Errorf (''path length '' @ Itoa pathlen @ '' exceeds maximum characters: '' @ Itoa MaxPathLengthWindows))
         else if pathlen > 0 \<and> path ! 0 = BACKSLASH then
           Err (Errorf (''invalid character '' @ [BACKSLASH] @ '' at beginning of path: '' @ path))
         else if isUNCPathWindows path then Err (Errorf (''unsupported UNC path prefix: '' @ path))
         else if containsInvalidCharactersWindows path then Err (Errorf (''path contains invalid characters: '' @ path))
         else if \<not> isAbsWindows path then Err (Errorf (''not an absolute Windows path: '' @ path))
         else Ok ())"

definition pathExists :: "'w win_os \<Rightarrow> string \<Rightarrow> ('w, bool) io" where
  "pathExists K path =
     call (wo_Lstat K path) (\<lambda>err. if wo_IsNotExist K err then ret False else fail err) (\<lambda>_. ret True)"

definition filesystem_PathExists :: "'w win_os \<Rightarrow> string \<Rightarrow> ('w, bool) io" where
  "filesystem_PathExists K path = bind (lift (ValidatePathWindows path)) (\<lambda>_. pathExists K path)"

definition PathValid :: "'w win_os \<Rightarrow> string \<Rightarrow> ('w, bool) io" where
  "PathValid K path =
     powershell K ''Test-Path $Env:remotepath'' [''remotepath='' @ path]
       (\<lambda>output err. ''returned output: '' @ output @ '', error: '' @ error_v err)
       (\<lambda>output. ret (HasPrefix (ToLower output) ''true''))"

definition filesystem_Mkdir :: "'w win_os \<Rightarrow> string \<Rightarrow> ('w, unit) io" where
  "filesystem_Mkdir K path = bind (lift (ValidatePathWindows path)) (\<lambda>_. wo_MkdirAll K path)"

definition filesystem_Rmdir :: "'w win_os \<Rightarrow> string \<Rightarrow> bool \<Rightarrow> ('w, unit) io" where
  "filesystem_Rmdir K path force =
     bind (lift (ValidatePathWindows path)) (\<lambda>_. if force then wo_RemoveAll K path else wo_Remove K path)"

definition CreateSymlink :: "'w win_os \<Rightarrow> string \<Rightarrow> string \<Rightarrow> ('w, unit) io" where
  "CreateSymlink K sourcePath targetPath =
     bind (lift (ValidatePathWindows targetPath))
       (\<lambda>_. bind (lift (ValidatePathWindows sourcePath)) (\<lambda>_. wo_Symlink K sourcePath targetPath))"

definition LinkPath :: "'w win_os \<Rightarrow> string \<Rightarrow> string \<Rightarrow> ('w, unit) io" where
  "LinkPath = CreateSymlink"

definition isSymlink :: "'w win_os \<Rightarrow> string \<Rightarrow> ('w, bool) io" where
  "isSymlink K tgt =
     bind (wo_Lstat K tgt)
       (\<lambda>link. if link then
                 call (wo_Readlink K tgt) (\<lambda>err. fail (Errorf (''readlink error: '' @ Error err))) (pathExists K)
               else ret False)"

definition filesystem_IsSymlink :: "'w win_os \<Rightarrow> string \<Rightarrow> ('w, bool) io" where
  "filesystem_IsSymlink = isSymlink"

definition filesystem_IsMountPoint :: "'w win_os \<Rightarrow> string \<Rightarrow> ('w, bool) io" where
  "filesystem_IsMountPoint = filesystem_IsSymlink"

section \<open>pkg/os/disk\<close>

record Location =
  loc_Adapter :: string
  loc_Bus :: string
  loc_Target :: string
  loc_LUNID :: string

record IDs =
  ids_Page83 :: string
  ids_SerialNumber :: string

definition no_location :: Location where
  "no_location = \<lparr>loc_Adapter = [], loc_Bus = [], loc_Target = [], loc_LUNID = []\<rparr>"

text \<open>One item of a location, as in \<open>LUN 5\<close>: the location after it, and whether it had two parts.\<close>

definition location_item :: "string \<Rightarrow> Location \<times> bool \<Rightarrow> Location \<times> bool" where
  "location_item item st =
     (case Split (TrimSpace item) (CHR '' '') of
        [key, val] \<Rightarrow>
          (let d = fst st; k = TrimSpace key; v = TrimSpace val
           in (if k = ''Adapter'' then d\<lparr>loc_Adapter := v\<rparr>
               else if k = ''Target'' then d\<lparr>loc_Target := v\<rparr>
               else if k = ''LUN'' then d\<lparr>loc_LUNID := v\<rparr>
               else d, True))
      | _ \<Rightarrow> st)"

definition parse_location :: "string \<Rightarrow> Location option" where
  "parse_location str =
     (let s = Split str (CHR '':'')
      in if 5 \<le> length s then
           (case fold location_item s (no_location, False) of (d, found) \<Rightarrow> if found then Some d else None)
         else None)"

text \<open>A row without a text as location or a number as number fails its type assertion.\<close>

fun disk_locations :: "(string \<times> json) list list \<Rightarrow> (int \<times> Location) list \<Rightarrow> (int \<times> Location) list res" where
  "disk_locations [] m = Ok m"
| "disk_locations (v # rows) m =
     (case (map_of v ''Location'', map_of v ''Number'') of
        (Some (JString str), Some (JNumber num)) \<Rightarrow>
          disk_locations rows
            (case parse_location str of None \<Rightarrow> m | Some d \<Rightarrow> AList.update (to_uint32 num) d m)
      | _ \<Rightarrow> Panic)"

definition locations_cmd :: string where
  "locations_cmd = ''ConvertTo-Json @(Get-Disk | select Number, Location)''"

definition ListDiskLocations :: "'w win_os \<Rightarrow> ('w, (int \<times> Location) list) io" where
  "ListDiskLocations K =
     powershell K locations_cmd []
       (\<lambda>out err. ''failed to list disk location. cmd: '' @ dquoted locations_cmd @ '', output: '' @ dquoted out @
          '', err '' @ error_v err)
       (\<lambda>out. bind (lift (wo_Unmarshal_rows K out)) (\<lambda>getDisk. lift (disk_locations getDisk [])))"

definition disk_Rescan :: "'w win_os \<Rightarrow> ('w, unit) io" where
  "disk_Rescan K =
     powershell K ''Update-HostStorageCache'' []
       (\<lambda>out err. ''error updating host storage cache output: '' @ dquoted out @ '', err: '' @ error_v err)
       (\<lambda>_. ret ())"

definition raw_disk_cmd :: "int \<Rightarrow> string" where
  "raw_disk_cmd diskNumber = ''Get-Disk -Number '' @ Itoa diskNumber @ '' | Where partitionstyle -eq '' @ quoted ''raw''"

definition IsDiskInitialized :: "'w win_os \<Rightarrow> int \<Rightarrow> ('w, bool) io" where
  "IsDiskInitialized K diskNumber =
     powershell K (raw_disk_cmd diskNumber) []
       (\<lambda>out err. ''error checking initialized status of disk '' @ Itoa diskNumber @ '': '' @ bytes_v out @ '', '' @ error_v err)
       (\<lambda>out. ret (out = []))"

definition initialize_cmd :: "int \<Rightarrow> string" where
  "initialize_cmd diskNumber = ''Initialize-Disk -Number '' @ Itoa diskNumber @ '' -PartitionStyle GPT''"

definition InitializeDisk :: "'w win_os \<Rightarrow> int \<Rightarrow> ('w, unit) io" where
  "InitializeDisk K diskNumber =
     powershell K (initialize_cmd diskNumber) []
       (\<lambda>out err. ''error initializing disk '' @ Itoa diskNumber @ '': '' @ out @ '', '' @ error_v err)
       (\<lambda>_. ret ())"

definition partitions_cmd :: "int \<Rightarrow> string" where
  "partitions_cmd diskNumber = ''Get-Partition | Where DiskNumber -eq '' @ Itoa diskNumber @ '' | Where Type -ne Reserved''"

definition BasicPartitionsExist :: "'w win_os \<Rightarrow> int \<Rightarrow> ('w, bool) io" where
  "BasicPartitionsExist K diskNumber =
     powershell K (partitions_cmd diskNumber) []
       (\<lambda>out err. ''error checking presence of partitions on disk '' @ Itoa diskNumber @ '': '' @ bytes_v out @ '', '' @
          error_v err)
       (\<lambda>out. ret (out \<noteq> []))"

definition new_partition_cmd :: "int \<Rightarrow> string" where
  "new_partition_cmd diskNumber = ''New-Partition -DiskNumber '' @ Itoa diskNumber @ '' -UseMaximumSize''"

definition CreateBasicPartition :: "'w win_os \<Rightarrow> int \<Rightarrow> ('w, unit) io" where
  "CreateBasicPartition K diskNumber =
     powershell K (new_partition_cmd diskNumber) []
       (\<lambda>out err. ''error creating partition on disk '' @ Itoa diskNumber @ '': '' @ bytes_v out @ '', '' @ error_v err)
       (\<lambda>_. ret ())"

definition PartitionDisk :: "'w win_os \<Rightarrow> int \<Rightarrow> ('w, unit) io" where
  "PartitionDisk K diskNumber =
     bind (IsDiskInitialized K diskNumber)
       (\<lambda>initialized. bind (if initialized then ret () else InitializeDisk K diskNumber)
          (\<lambda>_. bind (BasicPartitionsExist K diskNumber)
             (\<lambda>partitioned. if partitioned then ret () else CreateBasicPartition K diskNumber)))"

text \<open>The size of a disk: everything but the digits of the output is dropped.\<close>

definition only_digits :: "string \<Rightarrow> string" where
  "only_digits = filter IsDigit"

definition GetDiskStats :: "'w win_os \<Rightarrow> int \<Rightarrow> ('w, int) io" where
  "GetDiskStats K diskNumber =
     (let cmd = ''(Get-Disk -Number '' @ Itoa diskNumber @ '').Size''
      in bind (RunPowershellCmd K cmd [])
           (\<lambda>(out, err).
              if err \<noteq> None \<or> out = [] then
                fail (Errorf (''error getting size of disk. cmd: '' @ cmd @ '', output: '' @ out @ '', error: '' @ error_v err))
              else let diskSizeOutput = only_digits out
                   in call (lift (Atoi diskSizeOutput))
                        (\<lambda>err. fail (Errorf (''error parsing size of disk. cmd: '' @ cmd @ '', output: '' @ diskSizeOutput @
                           '', error: '' @ Error err)))
                        ret))"

definition set_disk_cmd :: "int \<Rightarrow> bool \<Rightarrow> string" where
  "set_disk_cmd diskNumber isOnline =
     ''Set-Disk -Number '' @ Itoa diskNumber @ '' -IsOffline $'' @ FormatBool (\<not> isOnline) @
     '';Set-Disk -Number '' @ Itoa diskNumber @ '' -IsReadOnly $false''"

definition SetDiskState :: "'w win_os \<Rightarrow> int \<Rightarrow> bool \<Rightarrow> ('w, unit) io" where
  "SetDiskState K diskNumber isOnline =
     powershell K (set_disk_cmd diskNumber isOnline) []
       (\<lambda>out err. ''error setting disk attach state. cmd: '' @ set_disk_cmd diskNumber isOnline @ '', output: '' @ out @
          '', error: '' @ error_v err)
       (\<lambda>_. ret ())"

definition GetDiskState :: "'w win_os \<Rightarrow> int \<Rightarrow> ('w, bool) io" where
  "GetDiskState K diskNumber =
     (let cmd = ''(Get-Disk -Number '' @ Itoa diskNumber @ '') | Select-Object -ExpandProperty IsOffline''
      in powershell K cmd []
           (\<lambda>out err. ''error getting disk state. cmd: '' @ cmd @ '', output: '' @ out @ '', error: '' @ error_v err)
           (\<lambda>out. let sout = TrimSpace out
                  in call (lift (ParseBool sout))
                       (\<lambda>err. fail (Errorf (''error parsing disk state. output: '' @ sout @ '', error: '' @ Error err)))
                       (\<lambda>isOffline. ret (\<not> isOffline))))"

section \<open>The identifiers of a disk\<close>

text \<open>
  The answers of the device are read from the buffer through pointers to structures, in the byte order of
  the machine. \<open>StorageDeviceIDDescriptor\<close> has its identifiers from byte 12 on; a \<open>StorageIdentifier\<close> has
  its code set at 0, its size at 8, the offset of the next one at 10, its association at 12 and its bytes
  from 16 on. A pointer beyond the buffer reads memory that nothing is known of: \<open>Panic\<close>.
\<close>

definition IOCTL_STORAGE_GET_DEVICE_NUMBER :: int where
  "IOCTL_STORAGE_GET_DEVICE_NUMBER = 0x2D1080"

definition IOCTL_STORAGE_QUERY_PROPERTY :: int where
  "IOCTL_STORAGE_QUERY_PROPERTY = 0x002d1400"

definition StorageIDAssocDevice :: nat where
  "StorageIDAssocDevice = 0"

definition StorageIDCodeSetBinary :: nat where
  "StorageIDCodeSetBinary = 1"

definition StorageIDCodeSetASCII :: nat where
  "StorageIDCodeSetASCII = 2"

definition get_bytes :: "8 word list \<Rightarrow> nat \<Rightarrow> nat \<Rightarrow> 8 word list res" where
  "get_bytes buffer off n = (if off + n \<le> length buffer then Ok (take n (drop off buffer)) else Panic)"

definition little_endian :: "8 word list \<Rightarrow> nat" where
  "little_endian bs = foldr (\<lambda>b v. unat b + 256 * v) bs 0"

definition get_number :: "8 word list \<Rightarrow> nat \<Rightarrow> nat \<Rightarrow> nat res" where
  "get_number buffer off n =
     (case get_bytes buffer off n of Ok bs \<Rightarrow> Ok (little_endian bs) | Err e \<Rightarrow> Err e | Panic \<Rightarrow> Panic)"

definition hex_digit :: "nat \<Rightarrow> char" where
  "hex_digit n = (if n < 10 then char_of (48 + n) else char_of (87 + n))"

definition EncodeToString :: "8 word list \<Rightarrow> string" where
  "EncodeToString bs = concat (map (\<lambda>b. [hex_digit (unat b div 16), hex_digit (unat b mod 16)]) bs)"

definition bytes_string :: "8 word list \<Rightarrow> string" where
  "bytes_string bs = map (\<lambda>b. char_of (unat b)) bs"

record StorageIdentifier =
  si_CodeSet :: nat
  si_IdentifierSize :: nat
  si_NextOffset :: nat
  si_Association :: nat

definition storage_identifier :: "8 word list \<Rightarrow> nat \<Rightarrow> StorageIdentifier res" where
  "storage_identifier buffer pID =
     (case (get_number buffer pID 4, get_number buffer (pID + 8) 2, get_number buffer (pID + 10) 2,
            get_number buffer (pID + 12) 4) of
        (Ok c, Ok z, Ok n, Ok a) \<Rightarrow>
          Ok \<lparr>si_CodeSet = c, si_IdentifierSize = z, si_NextOffset = n, si_Association = a\<rparr>
      | _ \<Rightarrow> Panic)"

text \<open>The loop over \<open>left\<close> identifiers from \<open>pID\<close> on.\<close>

fun page83_loop :: "8 word list \<Rightarrow> nat \<Rightarrow> nat \<Rightarrow> string res" where
  "page83_loop buffer 0 pID = Ok []"
| "page83_loop buffer (Suc left) pID =
     (case storage_identifier buffer pID of
        Ok si \<Rightarrow>
          if si_Association si = StorageIDAssocDevice \<and>
             (si_CodeSet si = StorageIDCodeSetBinary \<or> si_CodeSet si = StorageIDCodeSetASCII) then
            (case get_bytes buffer (pID + 16) (si_IdentifierSize si) of
               Ok page83ID \<Rightarrow>
                 if si_CodeSet si = StorageIDCodeSetASCII then Ok (bytes_string page83ID)
                 else Ok (EncodeToString page83ID)
             | Err e \<Rightarrow> Err e
             | Panic \<Rightarrow> Panic)
          else page83_loop buffer left (pID + si_NextOffset si)
      | Err e \<Rightarrow> Err e
      | Panic \<Rightarrow> Panic)"

definition page83_of_buffer :: "8 word list \<Rightarrow> string res" where
  "page83_of_buffer buffer =
     (case get_number buffer 8 4 of Ok n \<Rightarrow> page83_loop buffer n 12 | Err e \<Rightarrow> Err e | Panic \<Rightarrow> Panic)"

text \<open>The query is passed with its size in Go, the header of an empty slice included.\<close>

definition StoragePropertyQuery_bytes :: "8 word list" where
  "StoragePropertyQuery_bytes = [2, 0, 0, 0] @ [0, 0, 0, 0] @ replicate 24 0"

definition GetDiskPage83ID :: "'w win_os \<Rightarrow> int \<Rightarrow> ('w, string) io" where
  "GetDiskPage83ID K disk =
     call (wo_DeviceIoControl K disk IOCTL_STORAGE_QUERY_PROPERTY StoragePropertyQuery_bytes (4 * 1024))
       (\<lambda>err. fail (Errorf (''IOCTL_STORAGE_QUERY_PROPERTY failed: '' @ Error err)))
       (\<lambda>buffer. lift (page83_of_buffer buffer))"

definition GetDiskNumber :: "'w win_os \<Rightarrow> int \<Rightarrow> ('w, int) io" where
  "GetDiskNumber K disk =
     bind (wo_DeviceIoControl K disk IOCTL_STORAGE_GET_DEVICE_NUMBER [] 12)
       (\<lambda>devNum. bind (lift (get_number devNum 4 4)) (\<lambda>n. ret (int n)))"

definition GetDiskNumberAndPage83ID :: "'w win_os \<Rightarrow> string \<Rightarrow> ('w, int \<times> string) io" where
  "GetDiskNumberAndPage83ID K path =
     call (wo_Open K path)
       (\<lambda>err. deferred (wo_Close K (wo_InvalidHandle K)) (fail err))
       (\<lambda>h. deferred (wo_Close K h)
          (bind (GetDiskNumber K h)
             (\<lambda>diskNumber. bind (GetDiskPage83ID K h) (\<lambda>page83ID. ret (diskNumber, page83ID)))))"

fun disk_with_id :: "'w win_os \<Rightarrow> string \<Rightarrow> (string \<times> string) list \<Rightarrow> ('w, int) io" where
  "disk_with_id K page83ID [] = fail (Errorf (''Could not find disk with Page83 ID '' @ page83ID))"
| "disk_with_id K page83ID ((path, serial) # disks) =
     bind (GetDiskNumberAndPage83ID K path)
       (\<lambda>(diskNumber, diskPage83ID).
          if diskPage83ID = page83ID then ret diskNumber else disk_with_id K page83ID disks)"

definition GetDiskNumberWithID :: "'w win_os \<Rightarrow> string \<Rightarrow> ('w, int) io" where
  "GetDiskNumberWithID K page83ID =
     powershell K ''ConvertTo-Json @(Get-Disk | Select Path)'' [] (\<lambda>out err. ''Could not query disk paths'')
       (\<lambda>out. bind (lift (wo_Unmarshal_disks K out)) (disk_with_id K page83ID))"

definition GetDiskNumberByName :: "'w win_os \<Rightarrow> string \<Rightarrow> ('w, int) io" where
  "GetDiskNumberByName = GetDiskNumberWithID"

fun disk_ids :: "'w win_os \<Rightarrow> (string \<times> string) list \<Rightarrow> (int \<times> IDs) list \<Rightarrow> ('w, (int \<times> IDs) list) io" where
  "disk_ids K [] m = ret m"
| "disk_ids K ((path, serial) # disks) m =
     bind (GetDiskNumberAndPage83ID K path)
       (\<lambda>(diskNumber, page83).
          disk_ids K disks (AList.update diskNumber \<lparr>ids_Page83 = page83, ids_SerialNumber = serial\<rparr> m))"

definition ListDiskIDs :: "'w win_os \<Rightarrow> ('w, (int \<times> IDs) list) io" where
  "ListDiskIDs K =
     powershell K ''ConvertTo-Json @(Get-Disk | Select Path, SerialNumber)'' [] (\<lambda>out err. ''Could not query disk paths'')
       (\<lambda>out. bind (lift (wo_Unmarshal_disks K out)) (\<lambda>disks. disk_ids K disks []))"

section \<open>pkg/os/volume\<close>

definition VolumeRegexp :: "ritem list" where
  "VolumeRegexp = lits ''Volume{'' @
     [Many (\<lambda>c. IsLetter c \<or> IsDigit c \<or> c = CHR ''_'' \<or> c = CHR ''-''), One (Lit (CHR ''}''))]"

text \<open>\<open>Get-Volume -UniqueId "$Env:volumeID"\<close>, with which most commands start, and its environment.\<close>

definition get_volume :: string where
  "get_volume = ''Get-Volume -UniqueId '' @ dquoted ''$Env:volumeID''"

definition volume_env :: "string \<Rightarrow> string list" where
  "volume_env volumeID = [''volumeID='' @ volumeID]"

definition size_cmd :: string where
  "size_cmd = ''('' @ get_volume @ '' | Get-partition).Size''"

definition getVolumeSize :: "'w win_os \<Rightarrow> string \<Rightarrow> ('w, int) io" where
  "getVolumeSize K volumeID =
     bind (RunPowershellCmd K size_cmd (volume_env volumeID))
       (\<lambda>(out, err).
          if err \<noteq> None \<or> out = [] then
            fail (Errorf (''error getting size of the partition from mount. cmd '' @ size_cmd @ '', output: '' @ out @
              '', error: '' @ error_v err))
          else let outString = TrimSpace out
               in call (lift (Atoi outString))
                    (\<lambda>err. fail (Errorf (''error parsing size of volume '' @ volumeID @ '' received '' @ bytes_v out @
                       '' trimmed to '' @ outString @ '' err '' @ Error err)))
                    ret)"

text \<open>\<open>strings.Split(s, sep)\<close> with a separator of two characters.\<close>

fun Split2 :: "string \<Rightarrow> char \<Rightarrow> char \<Rightarrow> string list" where
  "Split2 (x # y # s) a b =
     (if x = a \<and> y = b then [] # Split2 s a b
      else (case Split2 (y # s) a b of [] \<Rightarrow> [[x]] | p # ps \<Rightarrow> (x # p) # ps))"
| "Split2 s a b = [s]"

definition volumes_cmd :: "int \<Rightarrow> int \<Rightarrow> string" where
  "volumes_cmd diskNumber partitionNumber =
     (if partitionNumber = 0 then ''(Get-Disk -Number '' @ Itoa diskNumber @ '' | Get-Partition | Get-Volume).UniqueId''
      else ''(Get-Disk -Number '' @ Itoa diskNumber @ '' | Get-Partition -PartitionNumber '' @ Itoa partitionNumber @
           '' | Get-Volume).UniqueId'')"

definition ListVolumesOnDisk :: "'w win_os \<Rightarrow> int \<Rightarrow> int \<Rightarrow> ('w, string list) io" where
  "ListVolumesOnDisk K diskNumber partitionNumber =
     (let cmd = volumes_cmd diskNumber partitionNumber
      in powershell K cmd []
           (\<lambda>out err. ''error list volumes on disk. cmd: '' @ cmd @ '', output: '' @ out @ '', error: '' @ error_v err)
           (\<lambda>out. ret (Split2 (TrimSpace out) (CHR 0x0D) (CHR 0x0A))))"

definition format_cmd :: string where
  "format_cmd = get_volume @ '' | Format-Volume -FileSystem ntfs -Confirm:$false''"

definition FormatVolume :: "'w win_os \<Rightarrow> string \<Rightarrow> ('w, unit) io" where
  "FormatVolume K volumeID =
     powershell K format_cmd (volume_env volumeID)
       (\<lambda>out err. ''error formatting volume. cmd: '' @ format_cmd @ '', output: '' @ out @ '', error: '' @ error_v err)
       (\<lambda>_. ret ())"

definition write_cache_cmd :: string where
  "write_cache_cmd = get_volume @ '' | Write-Volumecache''"

definition writeCache :: "'w win_os \<Rightarrow> string \<Rightarrow> ('w, unit) io" where
  "writeCache K volumeID =
     powershell K write_cache_cmd (volume_env volumeID)
       (\<lambda>out err. ''error writing volume cache. cmd: '' @ write_cache_cmd @ '', output: '' @ out @ '', error: '' @ error_v err)
       (\<lambda>_. ret ())"

definition WriteVolumeCache :: "'w win_os \<Rightarrow> string \<Rightarrow> ('w, unit) io" where
  "WriteVolumeCache = writeCache"

definition formatted_cmd :: string where
  "formatted_cmd = ''('' @ get_volume @ '' -ErrorAction Stop).FileSystemType''"

definition IsVolumeFormatted :: "'w win_os \<Rightarrow> string \<Rightarrow> ('w, bool) io" where
  "IsVolumeFormatted K volumeID =
     powershell K formatted_cmd (volume_env volumeID)
       (\<lambda>out err. ''error checking if volume is formatted. cmd: '' @ formatted_cmd @ '', output: '' @ out @ '', error: '' @
          error_v err)
       (\<lambda>out. let stringOut = TrimSpace out in ret (\<not> (stringOut = [] \<or> EqualFold stringOut ''Unknown'')))"

definition mount_cmd :: string where
  "mount_cmd = get_volume @ '' | Get-Partition | Add-PartitionAccessPath -AccessPath $Env:path''"

definition MountVolume :: "'w win_os \<Rightarrow> string \<Rightarrow> string \<Rightarrow> ('w, unit) io" where
  "MountVolume K volumeID path =
     powershell K mount_cmd (volume_env volumeID @ [''path='' @ path])
       (\<lambda>out err. ''error mount volume to path. cmd: '' @ mount_cmd @ '', output: '' @ out @ '', error: '' @ error_v err)
       (\<lambda>_. ret ())"

definition UnmountVolume :: "'w win_os \<Rightarrow> string \<Rightarrow> string \<Rightarrow> ('w, unit) io" where
  "UnmountVolume K volumeID path =
     bind (writeCache K volumeID)
       (\<lambda>_. let cmd = get_volume @ '' | Get-Partition | Remove-PartitionAccessPath -AccessPath $Env:path''
            in powershell K cmd (volume_env volumeID @ [''path='' @ path])
                 (\<lambda>out err. ''error getting driver letter to mount volume. cmd: '' @ cmd @ '', output: '' @ out @
                    '',error: '' @ error_v err)
                 (\<lambda>_. ret ()))"

section \<open>Sizes of volumes\<close>

text \<open>\<open>m[key]\<close> of a missing key is zero.\<close>

definition size_in :: "(string \<times> int) list \<Rightarrow> string \<Rightarrow> int" where
  "size_in m key = (case map_of m key of Some n \<Rightarrow> n | None \<Rightarrow> 0)"

definition supported_size_cmd :: string where
  "supported_size_cmd = get_volume @ '' | Get-partition | Get-PartitionSupportedSize | Select SizeMax | ConvertTo-Json''"

definition final_size :: "'w win_os \<Rightarrow> string \<Rightarrow> int \<Rightarrow> ('w, int) io" where
  "final_size K volumeID sz =
     (if sz = 0 then
        bind (RunPowershellCmd K supported_size_cmd (volume_env volumeID))
          (\<lambda>(out, err).
             if err \<noteq> None \<or> out = [] then
               fail (Errorf (''error getting sizemin,sizemax from mount. cmd: '' @ supported_size_cmd @ '', output: '' @ out @
                 '', error: '' @ error_v err))
             else call (lift (wo_Unmarshal_sizes K out))
                    (\<lambda>err. fail (Errorf (''out '' @ bytes_v out @ '' outstring '' @ out @ '' err '' @ Error err)))
                    (\<lambda>getVolumeSizing. ret (size_in getVolumeSizing ''SizeMax'')))
      else ret sz)"

definition resize_cmd :: "int \<Rightarrow> string" where
  "resize_cmd finalSize = get_volume @ '' | Get-Partition | Resize-Partition -Size '' @ Itoa finalSize"

definition volume_ResizeVolume :: "'w win_os \<Rightarrow> string \<Rightarrow> int \<Rightarrow> ('w, unit) io" where
  "volume_ResizeVolume K volumeID sz =
     bind (final_size K volumeID sz)
       (\<lambda>finalSize. call (getVolumeSize K volumeID)
          (\<lambda>err. fail (Errorf (''error getting the current size of volume ('' @ volumeID @ '') with error ('' @ Error err @ '')'')))
          (\<lambda>currentSize.
             if currentSize \<ge> finalSize then ret ()
             else powershell K (resize_cmd finalSize) (volume_env volumeID)
                    (\<lambda>out err. ''error resizing volume. cmd: '' @ resize_cmd finalSize @ '', output: '' @ out @ '' size:'' @
                       Itoa sz @ '', finalSize '' @ Itoa finalSize @ '', error: '' @ error_v err)
                    (\<lambda>_. ret ())))"

definition volume_GetVolumeStats :: "'w win_os \<Rightarrow> string \<Rightarrow> ('w, int \<times> int) io" where
  "volume_GetVolumeStats K volumeID =
     (let cmd = ''('' @ get_volume @ '' | Select SizeRemaining,Size) | ConvertTo-Json''
      in powershell K cmd (volume_env volumeID)
           (\<lambda>out err. ''error getting capacity and used size of volume. cmd: '' @ cmd @ '', output: '' @ out @ '', error: '' @
              error_v err)
           (\<lambda>out. call (lift (wo_Unmarshal_sizes K out))
              (\<lambda>err. fail (Errorf (''out '' @ bytes_v out @ '' outstring '' @ out @ '' err '' @ Error err)))
              (\<lambda>getVolume.
                 let volumeSize = size_in getVolume ''Size''
                 in ret (volumeSize, to_int64 (volumeSize - size_in getVolume ''SizeRemaining'')))))"

text \<open>\<open>strconv.ParseUint(s, 10, 32)\<close>.\<close>

definition parse_uint32 :: "string \<Rightarrow> int res" where
  "parse_uint32 s =
     (if s \<noteq> [] \<and> list_all IsDigit s \<and> digits_val s < 4294967296 then Ok (int (digits_val s))
      else Err (Errorf (''strconv.ParseUint: parsing '' @ s)))"

definition GetDiskNumberFromVolumeID :: "'w win_os \<Rightarrow> string \<Rightarrow> ('w, int) io" where
  "GetDiskNumberFromVolumeID K volumeID =
     (let cmd = ''('' @ get_volume @ '' | Get-Partition).DiskNumber''
      in bind (RunPowershellCmd K cmd (volume_env volumeID))
           (\<lambda>(out, err).
              if err \<noteq> None \<or> out = [] then
                fail (Errorf (''error getting disk number. cmd: '' @ cmd @ '', output: '' @ out @ '', error: '' @ error_v err))
              else let diskNumberOutput = only_digits out
                   in call (lift (parse_uint32 diskNumberOutput))
                        (\<lambda>err. fail (Errorf (''error parsing disk number. cmd: '' @ cmd @ '', output: '' @ diskNumberOutput @
                           '', error: '' @ Error err)))
                        ret))"

section \<open>The volume of a path\<close>

definition volume_prefix :: string where
  "volume_prefix = [BACKSLASH, BACKSLASH, CHR ''?'', BACKSLASH]"

definition ensureVolumePrefix :: "string \<Rightarrow> string" where
  "ensureVolumePrefix volume = (if HasPrefix volume volume_prefix then volume else volume_prefix @ volume)"

definition target_cmd :: "string \<Rightarrow> string" where
  "target_cmd var = ''(Get-Item -Path $Env:'' @ var @ '').Target''"

fun getTarget :: "'w win_os \<Rightarrow> string \<Rightarrow> nat \<Rightarrow> ('w, string) io" where
  "getTarget K mount 0 = fail (Errorf (''maximum depth reached on mount '' @ mount))"
| "getTarget K mount (Suc depth) =
     bind (RunPowershellCmd K (target_cmd ''mount'') [''mount='' @ mount])
       (\<lambda>(out, err).
          if err \<noteq> None \<or> out = [] then
            fail (Errorf (''error getting volume from mount. cmd: '' @ target_cmd ''mount'' @ '', output: '' @ out @
              '', error: '' @ error_v err))
          else let volumeString = TrimSpace out
               in if \<not> HasPrefix volumeString ''Volume'' then getTarget K volumeString depth
                  else ret (ensureVolumePrefix volumeString))"

definition GetVolumeIDFromTargetPath :: "'w win_os \<Rightarrow> string \<Rightarrow> ('w, string) io" where
  "GetVolumeIDFromTargetPath K mount = getTarget K mount 5"

definition dereferenceSymlink :: "'w win_os \<Rightarrow> string \<Rightarrow> ('w, string) io" where
  "dereferenceSymlink K path =
     bind (RunPowershellCmd K (target_cmd ''path'') [''path='' @ path])
       (\<lambda>(out, err). case err of Some e \<Rightarrow> fail e | None \<Rightarrow> ret (TrimSpace out))"

definition getVolumeForDriveLetter :: "'w win_os \<Rightarrow> string \<Rightarrow> ('w, string) io" where
  "getVolumeForDriveLetter K path =
     (if length path \<noteq> 1 then fail (Errorf (''The path='' @ path @ '' is not a valid DriverLetter''))
      else bind (RunPowershellCmd K ''(Get-Partition -DriveLetter $Env:path | Get-Volume).UniqueId'' [''path='' @ path])
             (\<lambda>(out, err). case err of Some e \<Rightarrow> fail e | None \<Rightarrow> ret (TrimSpace out)))"

text \<open>
  \<open>filepath.Dir\<close> on Windows for a path with or without a drive letter: the letter and its colon stay, and
  what comes before the last separator is cleaned. Names of network shares and of devices, which begin with
  two separators, are taken as rooted paths.
\<close>

definition win_separator :: "char \<Rightarrow> bool" where
  "win_separator c \<longleftrightarrow> c = BACKSLASH \<or> c = CHR ''/''"

definition win_clean :: "string \<Rightarrow> string" where
  "win_clean p =
     (let p' = map (\<lambda>c. if c = BACKSLASH then CHR ''/'' else c) p
      in map (\<lambda>c. if c = CHR ''/'' then BACKSLASH else c) (if p' = [] then ''.'' else Clean p'))"

definition win_Dir :: "string \<Rightarrow> string" where
  "win_Dir path =
     (let v = (if 2 \<le> length path \<and> path ! 1 = CHR '':'' then 2 else 0);
          vol = take v path; rest = drop v path
      in vol @ win_clean (rev (dropWhile (\<lambda>c. \<not> win_separator c) (rev rest))))"

text \<open>The bounded loop of \<open>findClosestVolume\<close>; \<open>left\<close> iterations remain.\<close>

fun closest_volume :: "'w win_os \<Rightarrow> string \<Rightarrow> nat \<Rightarrow> string \<Rightarrow> ('w, string) io" where
  "closest_volume K path 0 candidatePath = fail (Errorf (''Failed to find the closest volume for path='' @ path))"
| "closest_volume K path (Suc left) candidatePath =
     bind (wo_Lstat K candidatePath)
       (\<lambda>link.
          if link then
            bind (dereferenceSymlink K candidatePath)
              (\<lambda>target. if MatchFound VolumeRegexp target then ret (ensureVolumePrefix target)
                        else closest_volume K path left target)
          else let parent = win_Dir candidatePath
               in if candidatePath = parent then
                    (if parent = [] then panic else getVolumeForDriveLetter K (take 1 parent))
                  else closest_volume K path left parent)"

definition findClosestVolume :: "'w win_os \<Rightarrow> string \<Rightarrow> ('w, string) io" where
  "findClosestVolume K path = closest_volume K path 256 path"

definition GetClosestVolumeIDFromTargetPath :: "'w win_os \<Rightarrow> string \<Rightarrow> ('w, string) io" where
  "GetClosestVolumeIDFromTargetPath = findClosestVolume"

end
