(* ===== verification/WindowsMounter.thy ===== *)
theory WindowsMounter
  imports WindowsOS
begin

text \<open>
  The mounters of the Windows build, \<open>pkg/mounter\<close>: one over the stable interface of csi-proxy
  (\<open>safe_mounter_windows.go\<close>), one over its beta interface (\<open>safe_mounter_v1beta_windows.go\<close>) and one for
  a host process (\<open>safe_mounter_host_process_windows.go\<close>), which calls the packages of \<open>WindowsOS\<close>. A
  mounter is a value of \<open>win_mounter\<close>, the interface \<open>CSIProxyMounter\<close>. The clients of csi-proxy are records
  of functions; a response may be nil where the driver tests for it.
\<close>

section \<open>The interface\<close>

record 'w win_mounter =
  wm_Mount :: "string \<Rightarrow> string \<Rightarrow> string \<Rightarrow> string list \<Rightarrow> ('w, unit) io"
  wm_Unmount :: "string \<Rightarrow> ('w, unit) io"
  wm_List :: "('w, string list) io"
  wm_IsMountPoint :: "string \<Rightarrow> ('w, bool) io"
  wm_IsMountPointMatch :: "string \<Rightarrow> string \<Rightarrow> bool"
  wm_IsLikelyNotMountPoint :: "string \<Rightarrow> ('w, bool) io"
  wm_CanSafelySkipMountPointCheck :: bool
  wm_MakeDir :: "string \<Rightarrow> ('w, unit) io"
  wm_GetMountRefs :: "string \<Rightarrow> ('w, string list) io"
  wm_MountSensitive :: "string \<Rightarrow> string \<Rightarrow> string \<Rightarrow> string list \<Rightarrow> string list \<Rightarrow> ('w, unit) io"
  wm_MountSensitiveWithoutSystemd :: "string \<Rightarrow> string \<Rightarrow> string \<Rightarrow> string list \<Rightarrow> string list \<Rightarrow> ('w, unit) io"
  wm_FormatAndMount :: "string \<Rightarrow> string \<Rightarrow> string \<Rightarrow> string list \<Rightarrow> ('w, unit) io"
  wm_ExistsPath :: "string \<Rightarrow> ('w, bool) io"
  wm_Rmdir :: "string \<Rightarrow> ('w, unit) io"
  wm_Rescan :: "('w, unit) io"
  wm_FindDiskByLun :: "string \<Rightarrow> ('w, string) io"
  wm_GetDeviceNameFromMount :: "string \<Rightarrow> string \<Rightarrow> ('w, string) io"
  wm_GetVolumeSizeInBytes :: "string \<Rightarrow> ('w, int) io"
  wm_ResizeVolume :: "string \<Rightarrow> ('w, unit) io"
  wm_GetVolumeStats :: "string \<Rightarrow> ('w, volume_usage) io"
  wm_GetAPIVersions :: string

text \<open>\<open>os.ErrNotExist\<close>\<close>

definition ErrNotExist :: go_error where
  "ErrNotExist = Errorf ''file does not exist''"

definition normalizeWindowsPath :: "string \<Rightarrow> string" where
  "normalizeWindowsPath path =
     (let normalizedPath = map (\<lambda>c. if c = CHR ''/'' then BACKSLASH else c) path
      in if HasPrefix normalizedPath [BACKSLASH] then ''c:'' @ normalizedPath else normalizedPath)"

text \<open>A field of a response that is nil.\<close>

definition response :: "('w, 'a option) io \<Rightarrow> ('w, 'a) io" where
  "response m = bind m (\<lambda>r. case r of None \<Rightarrow> panic | Some x \<Rightarrow> ret x)"

text \<open>The search through the locations of the disks.\<close>

fun find_lun_id :: "string \<Rightarrow> ('d \<times> Location) list \<Rightarrow> 'd option" where
  "find_lun_id lun [] = None"
| "find_lun_id lun ((diskID, location) # m) =
     (if EqualFold (loc_LUNID location) lun then Some diskID else find_lun_id lun m)"

section \<open>The stable interface of csi-proxy\<close>

record 'w fs_client =
  fs_CreateSymlink :: "string \<Rightarrow> string \<Rightarrow> ('w, unit) io"
  fs_Rmdir :: "string \<Rightarrow> bool \<Rightarrow> ('w, unit) io"
  fs_PathExists :: "string \<Rightarrow> ('w, bool) io"
  fs_IsSymlink :: "string \<Rightarrow> ('w, bool) io"
  fs_Mkdir :: "string \<Rightarrow> ('w, unit) io"
  fs_Version :: string

record 'w win_disk_client =
  wdc_Rescan :: "('w, unit) io"
  wdc_ListDiskLocations :: "('w, (int \<times> Location) list) io"
  wdc_PartitionDisk :: "int \<Rightarrow> ('w, unit) io"
  wdc_Version :: string

text \<open>The statistics of a volume are its total and its used bytes.\<close>

record 'w volume_client =
  vc_GetVolumeIDFromTargetPath :: "string \<Rightarrow> ('w, string option) io"
  vc_WriteVolumeCache :: "string \<Rightarrow> ('w, unit) io"
  vc_ListVolumesOnDisk :: "int \<Rightarrow> ('w, string list) io"
  vc_IsVolumeFormatted :: "string \<Rightarrow> ('w, bool) io"
  vc_FormatVolume :: "string \<Rightarrow> ('w, unit) io"
  vc_MountVolume :: "string \<Rightarrow> string \<Rightarrow> ('w, unit) io"
  vc_ResizeVolume :: "string \<Rightarrow> int \<Rightarrow> ('w, unit) io"
  vc_GetVolumeStats :: "string \<Rightarrow> ('w, (int \<times> int) option) io"
  vc_Version :: string

record 'w csi_proxy =
  FsClient :: "'w fs_client"
  DiskClient :: "'w win_disk_client"
  VolumeClient :: "'w volume_client"

definition csiProxyMounter_Mount :: "'w csi_proxy \<Rightarrow> string \<Rightarrow> string \<Rightarrow> string \<Rightarrow> string list \<Rightarrow> ('w, unit) io" where
  "csiProxyMounter_Mount M source target fstype options =
     fs_CreateSymlink (FsClient M) (normalizeWindowsPath source) (normalizeWindowsPath target)"

definition csiProxyMounter_Rmdir :: "'w csi_proxy \<Rightarrow> string \<Rightarrow> ('w, unit) io" where
  "csiProxyMounter_Rmdir M path = fs_Rmdir (FsClient M) (normalizeWindowsPath path) True"

text \<open>The cache of the volume is written first; a failure of that is only logged. The path is not normalised
  for the question which volume it is.\<close>

definition csiProxyMounter_Unmount :: "'w csi_proxy \<Rightarrow> string \<Rightarrow> ('w, unit) io" where
  "csiProxyMounter_Unmount M target =
     bind (call (vc_GetVolumeIDFromTargetPath (VolumeClient M) target) (\<lambda>err. ret ())
             (\<lambda>resp. case resp of
                 None \<Rightarrow> ret ()
               | Some volumeID \<Rightarrow>
                   call (vc_WriteVolumeCache (VolumeClient M) volumeID) (\<lambda>err. ret ()) ret))
       (\<lambda>_. csiProxyMounter_Rmdir M target)"

definition csiProxyMounter_ExistsPath :: "'w csi_proxy \<Rightarrow> string \<Rightarrow> ('w, bool) io" where
  "csiProxyMounter_ExistsPath M path = fs_PathExists (FsClient M) (normalizeWindowsPath path)"

definition csiProxyMounter_IsLikelyNotMountPoint :: "'w csi_proxy \<Rightarrow> string \<Rightarrow> ('w, bool) io" where
  "csiProxyMounter_IsLikelyNotMountPoint M path =
     bind (csiProxyMounter_ExistsPath M path)
       (\<lambda>isExists.
          if \<not> isExists then fail ErrNotExist
          else bind (fs_IsSymlink (FsClient M) (normalizeWindowsPath path)) (\<lambda>b. ret (\<not> b)))"

definition csiProxyMounter_IsMountPoint :: "'w csi_proxy \<Rightarrow> string \<Rightarrow> ('w, bool) io" where
  "csiProxyMounter_IsMountPoint M file =
     bind (csiProxyMounter_IsLikelyNotMountPoint M file) (\<lambda>isNotMnt. ret (\<not> isNotMnt))"

definition csiProxyMounter_MakeDir :: "'w csi_proxy \<Rightarrow> string \<Rightarrow> ('w, unit) io" where
  "csiProxyMounter_MakeDir M pathname = fs_Mkdir (FsClient M) (normalizeWindowsPath pathname)"

definition csiProxyMounter_GetDeviceNameFromMount :: "'w csi_proxy \<Rightarrow> string \<Rightarrow> string \<Rightarrow> ('w, string) io" where
  "csiProxyMounter_GetDeviceNameFromMount M mountPath pluginMountDir =
     response (vc_GetVolumeIDFromTargetPath (VolumeClient M) (normalizeWindowsPath mountPath))"

definition csiProxyMounter_Rescan :: "'w csi_proxy \<Rightarrow> ('w, unit) io" where
  "csiProxyMounter_Rescan M = wdc_Rescan (DiskClient M)"

definition csiProxyMounter_FindDiskByLun :: "'w csi_proxy \<Rightarrow> string \<Rightarrow> ('w, string) io" where
  "csiProxyMounter_FindDiskByLun M lun =
     bind (wdc_ListDiskLocations (DiskClient M))
       (\<lambda>locations. case find_lun_id lun locations of
            None \<Rightarrow> fail (Errorf (''could not find disk id for lun: '' @ lun))
          | Some diskID \<Rightarrow> ret (Itoa diskID))"

text \<open>The first volume is taken; a list without a volume is an index out of range.\<close>

definition csiProxyMounter_FormatAndMount :: "'w csi_proxy \<Rightarrow> string \<Rightarrow> string \<Rightarrow> string \<Rightarrow> string list \<Rightarrow> ('w, unit) io" where
  "csiProxyMounter_FormatAndMount M source target fstype options =
     call (lift (Atoi source)) (\<lambda>err. fail (Errorf (''parse '' @ source @ '' failed with error: '' @ Error err)))
       (\<lambda>diskNum. bind (wdc_PartitionDisk (DiskClient M) (to_uint32 diskNum))
       (\<lambda>_. bind (vc_ListVolumesOnDisk (VolumeClient M) (to_uint32 diskNum))
          (\<lambda>volumeIds. case volumeIds of
               [] \<Rightarrow> panic
             | volumeID # _ \<Rightarrow>
                 bind (vc_IsVolumeFormatted (VolumeClient M) volumeID)
                   (\<lambda>formatted. bind (if \<not> formatted then vc_FormatVolume (VolumeClient M) volumeID else ret ())
                      (\<lambda>_. vc_MountVolume (VolumeClient M) volumeID (normalizeWindowsPath target))))))"

definition csiProxyMounter_ResizeVolume :: "'w csi_proxy \<Rightarrow> string \<Rightarrow> ('w, unit) io" where
  "csiProxyMounter_ResizeVolume M devicePath = vc_ResizeVolume (VolumeClient M) devicePath 0"

definition csiProxyMounter_GetVolumeSizeInBytes :: "'w csi_proxy \<Rightarrow> string \<Rightarrow> ('w, int) io" where
  "csiProxyMounter_GetVolumeSizeInBytes M devicePath =
     bind (response (vc_GetVolumeStats (VolumeClient M) devicePath)) (\<lambda>(sizeBytes, used). ret sizeBytes)"

definition csiProxyMounter_GetVolumeStats :: "'w csi_proxy \<Rightarrow> string \<Rightarrow> ('w, volume_usage) io" where
  "csiProxyMounter_GetVolumeStats M path =
     (let failed = (\<lambda>err. fail (Errorf (''GetVolumeIDFromMount('' @ path @ '') failed with error: '' @ error_v err @
            '', response: <nil>'')))
      in call (vc_GetVolumeIDFromTargetPath (VolumeClient M) path) (\<lambda>err. failed (Some err))
           (\<lambda>volIDResp. case volIDResp of
               None \<Rightarrow> failed None
             | Some volumeID \<Rightarrow>
                 (let failed = (\<lambda>err. fail (Errorf (''GetVolumeStats('' @ volumeID @ '') failed with error: '' @ error_v err @
                        '', response: <nil>'')))
                  in call (vc_GetVolumeStats (VolumeClient M) volumeID) (\<lambda>err. failed (Some err))
                       (\<lambda>resp. case resp of
                           None \<Rightarrow> failed None
                         | Some (totalBytes, used) \<Rightarrow>
                             ret \<lparr>vu_Unit = BYTES, vu_Available = to_int64 (totalBytes - used),
                               vu_Total = totalBytes, vu_Used = used\<rparr>))))"

definition csiProxyMounter_GetAPIVersions :: "'w csi_proxy \<Rightarrow> string" where
  "csiProxyMounter_GetAPIVersions M =
     ''API Versions filesystem: '' @ fs_Version (FsClient M) @ '', disk: '' @ wdc_Version (DiskClient M) @
     '', volume: '' @ vc_Version (VolumeClient M)"

text \<open>The methods of the interface with those that are not implemented.\<close>

definition csiProxyMounter :: "'w csi_proxy \<Rightarrow> 'w win_mounter" where
  "csiProxyMounter M =
     \<lparr>wm_Mount = csiProxyMounter_Mount M, wm_Unmount = csiProxyMounter_Unmount M,
      wm_List = fail (Errorf ''List not implemented for csiProxyMounter''),
      wm_IsMountPoint = csiProxyMounter_IsMountPoint M, wm_IsMountPointMatch = (\<lambda>mp dir. mp = dir),
      wm_IsLikelyNotMountPoint = csiProxyMounter_IsLikelyNotMountPoint M, wm_CanSafelySkipMountPointCheck = False,
      wm_MakeDir = csiProxyMounter_MakeDir M,
      wm_GetMountRefs = (\<lambda>pathname. fail (Errorf ''GetMountRefs is not implemented for csiProxyMounter'')),
      wm_MountSensitive = (\<lambda>source target fstype options sensitiveOptions.
        fail (Errorf ''MountSensitive is not implemented for csiProxyMounter'')),
      wm_MountSensitiveWithoutSystemd = (\<lambda>source target fstype options sensitiveOptions.
        fail (Errorf ''MountSensitiveWithoutSystemd is not implemented for csiProxyMounter'')),
      wm_FormatAndMount = csiProxyMounter_FormatAndMount M, wm_ExistsPath = csiProxyMounter_ExistsPath M, wm_Rmdir = csiProxyMounter_Rmdir M,
      wm_Rescan = csiProxyMounter_Rescan M, wm_FindDiskByLun = csiProxyMounter_FindDiskByLun M,
      wm_GetDeviceNameFromMount = csiProxyMounter_GetDeviceNameFromMount M,
      wm_GetVolumeSizeInBytes = csiProxyMounter_GetVolumeSizeInBytes M, wm_ResizeVolume = csiProxyMounter_ResizeVolume M,
      wm_GetVolumeStats = csiProxyMounter_GetVolumeStats M, wm_GetAPIVersions = csiProxyMounter_GetAPIVersions M\<rparr>"

section \<open>The beta interface of csi-proxy\<close>

datatype path_context = PathContext_POD | PathContext_PLUGIN

record 'w fs_client_beta =
  fsb_LinkPath :: "string \<Rightarrow> string \<Rightarrow> ('w, unit) io"
  fsb_Rmdir :: "string \<Rightarrow> path_context \<Rightarrow> bool \<Rightarrow> ('w, unit) io"
  fsb_PathExists :: "string \<Rightarrow> ('w, bool) io"
  fsb_IsMountPoint :: "string \<Rightarrow> ('w, bool) io"
  fsb_Mkdir :: "string \<Rightarrow> path_context \<Rightarrow> ('w, unit) io"
  fsb_Version :: string

text \<open>A disk has a text as its id.\<close>

record 'w disk_client_beta =
  wdb_Rescan :: "('w, unit) io"
  wdb_ListDiskLocations :: "('w, (string \<times> Location) list) io"
  wdb_PartitionDisk :: "string \<Rightarrow> ('w, unit) io"
  wdb_Version :: string

text \<open>The statistics of a volume are \<open>VolumeSize\<close> and \<open>VolumeUsedSize\<close>.\<close>

record 'w volume_client_beta =
  vb_GetVolumeIDFromMount :: "string \<Rightarrow> ('w, string option) io"
  vb_WriteVolumeCache :: "string \<Rightarrow> ('w, unit) io"
  vb_ListVolumesOnDisk :: "string \<Rightarrow> ('w, string list) io"
  vb_IsVolumeFormatted :: "string \<Rightarrow> ('w, bool) io"
  vb_FormatVolume :: "string \<Rightarrow> ('w, unit) io"
  vb_MountVolume :: "string \<Rightarrow> string \<Rightarrow> ('w, unit) io"
  vb_ResizeVolume :: "string \<Rightarrow> int \<Rightarrow> ('w, unit) io"
  vb_VolumeStats :: "string \<Rightarrow> ('w, (int \<times> int) option) io"
  vb_Version :: string

record 'w csi_proxy_beta =
  FsClient_beta :: "'w fs_client_beta"
  DiskClient_beta :: "'w disk_client_beta"
  VolumeClient_beta :: "'w volume_client_beta"

definition csiProxyMounterV1Beta_Mount :: "'w csi_proxy_beta \<Rightarrow> string \<Rightarrow> string \<Rightarrow> string \<Rightarrow> string list \<Rightarrow> ('w, unit) io" where
  "csiProxyMounterV1Beta_Mount M source target fstype options =
     fsb_LinkPath (FsClient_beta M) (normalizeWindowsPath source) (normalizeWindowsPath target)"

definition csiProxyMounterV1Beta_Rmdir :: "'w csi_proxy_beta \<Rightarrow> string \<Rightarrow> ('w, unit) io" where
  "csiProxyMounterV1Beta_Rmdir M path = fsb_Rmdir (FsClient_beta M) (normalizeWindowsPath path) PathContext_POD True"

text \<open>The cache of the volume is written first; a failure of that is only logged. The path is not normalised
  for the question which volume it is.\<close>

definition csiProxyMounterV1Beta_Unmount :: "'w csi_proxy_beta \<Rightarrow> string \<Rightarrow> ('w, unit) io" where
  "csiProxyMounterV1Beta_Unmount M target =
     bind (call (vb_GetVolumeIDFromMount (VolumeClient_beta M) target) (\<lambda>err. ret ())
             (\<lambda>resp. case resp of
                 None \<Rightarrow> ret ()
               | Some volumeID \<Rightarrow>
                   call (vb_WriteVolumeCache (VolumeClient_beta M) volumeID) (\<lambda>err. ret ()) ret))
       (\<lambda>_. csiProxyMounterV1Beta_Rmdir M target)"

definition csiProxyMounterV1Beta_ExistsPath :: "'w csi_proxy_beta \<Rightarrow> string \<Rightarrow> ('w, bool) io" where
  "csiProxyMounterV1Beta_ExistsPath M path = fsb_PathExists (FsClient_beta M) (normalizeWindowsPath path)"

definition csiProxyMounterV1Beta_IsLikelyNotMountPoint :: "'w csi_proxy_beta \<Rightarrow> string \<Rightarrow> ('w, bool) io" where
  "csiProxyMounterV1Beta_IsLikelyNotMountPoint M path =
     bind (csiProxyMounterV1Beta_ExistsPath M path)
       (\<lambda>isExists.
          if \<not> isExists then fail ErrNotExist
          else bind (fsb_IsMountPoint (FsClient_beta M) (normalizeWindowsPath path)) (\<lambda>b. ret (\<not> b)))"

definition csiProxyMounterV1Beta_IsMountPoint :: "'w csi_proxy_beta \<Rightarrow> string \<Rightarrow> ('w, bool) io" where
  "csiProxyMounterV1Beta_IsMountPoint M file =
     bind (csiProxyMounterV1Beta_IsLikelyNotMountPoint M file) (\<lambda>isNotMnt. ret (\<not> isNotMnt))"

definition csiProxyMounterV1Beta_MakeDir :: "'w csi_proxy_beta \<Rightarrow> string \<Rightarrow> ('w, unit) io" where
  "csiProxyMounterV1Beta_MakeDir M pathname = fsb_Mkdir (FsClient_beta M) (normalizeWindowsPath pathname) PathContext_PLUGIN"

definition csiProxyMounterV1Beta_GetDeviceNameFromMount :: "'w csi_proxy_beta \<Rightarrow> string \<Rightarrow> string \<Rightarrow> ('w, string) io" where
  "csiProxyMounterV1Beta_GetDeviceNameFromMount M mountPath pluginMountDir =
     response (vb_GetVolumeIDFromMount (VolumeClient_beta M) (normalizeWindowsPath mountPath))"

definition csiProxyMounterV1Beta_Rescan :: "'w csi_proxy_beta \<Rightarrow> ('w, unit) io" where
  "csiProxyMounterV1Beta_Rescan M = wdb_Rescan (DiskClient_beta M)"

definition csiProxyMounterV1Beta_FindDiskByLun :: "'w csi_proxy_beta \<Rightarrow> string \<Rightarrow> ('w, string) io" where
  "csiProxyMounterV1Beta_FindDiskByLun M lun =
     bind (wdb_ListDiskLocations (DiskClient_beta M))
       (\<lambda>locations. case find_lun_id lun locations of
            None \<Rightarrow> fail (Errorf (''could not find disk id for lun: '' @ lun))
          | Some diskID \<Rightarrow> ret diskID)"

text \<open>The first volume is taken; a list without a volume is an index out of range.\<close>

definition csiProxyMounterV1Beta_FormatAndMount :: "'w csi_proxy_beta \<Rightarrow> string \<Rightarrow> string \<Rightarrow> string \<Rightarrow> string list \<Rightarrow> ('w, unit) io" where
  "csiProxyMounterV1Beta_FormatAndMount M source target fstype options =
     bind (wdb_PartitionDisk (DiskClient_beta M) source)
       (\<lambda>_. bind (vb_ListVolumesOnDisk (VolumeClient_beta M) source)
          (\<lambda>volumeIds. case volumeIds of
               [] \<Rightarrow> panic
             | volumeID # _ \<Rightarrow>
                 bind (vb_IsVolumeFormatted (VolumeClient_beta M) volumeID)
                   (\<lambda>formatted. bind (if \<not> formatted then vb_FormatVolume (VolumeClient_beta M) volumeID else ret ())
                      (\<lambda>_. vb_MountVolume (VolumeClient_beta M) volumeID (normalizeWindowsPath target)))))"

definition csiProxyMounterV1Beta_ResizeVolume :: "'w csi_proxy_beta \<Rightarrow> string \<Rightarrow> ('w, unit) io" where
  "csiProxyMounterV1Beta_ResizeVolume M devicePath = vb_ResizeVolume (VolumeClient_beta M) devicePath 0"

definition csiProxyMounterV1Beta_GetVolumeSizeInBytes :: "'w csi_proxy_beta \<Rightarrow> string \<Rightarrow> ('w, int) io" where
  "csiProxyMounterV1Beta_GetVolumeSizeInBytes M devicePath =
     bind (response (vb_VolumeStats (VolumeClient_beta M) devicePath)) (\<lambda>(sizeBytes, used). ret sizeBytes)"

text \<open>The size that this interface reports is taken as the available bytes.\<close>

definition csiProxyMounterV1Beta_GetVolumeStats :: "'w csi_proxy_beta \<Rightarrow> string \<Rightarrow> ('w, volume_usage) io" where
  "csiProxyMounterV1Beta_GetVolumeStats M path =
     (let failed = (\<lambda>err. fail (Errorf (''GetVolumeIDFromMount('' @ path @ '') failed with error: '' @ error_v err @
            '', response: <nil>'')))
      in call (vb_GetVolumeIDFromMount (VolumeClient_beta M) path) (\<lambda>err. failed (Some err))
           (\<lambda>volIDResp. case volIDResp of
               None \<Rightarrow> failed None
             | Some volumeID \<Rightarrow>
                 (let failed = (\<lambda>err. fail (Errorf (''GetVolumeStats('' @ volumeID @ '') failed with error: '' @ error_v err @
                        '', response: <nil>'')))
                  in call (vb_VolumeStats (VolumeClient_beta M) volumeID) (\<lambda>err. failed (Some err))
                       (\<lambda>resp. case resp of
                           None \<Rightarrow> failed None
                         | Some (availableSize, used) \<Rightarrow>
                             ret \<lparr>vu_Unit = BYTES, vu_Available = availableSize,
                               vu_Total = to_int64 (availableSize + used), vu_Used = used\<rparr>))))"

definition csiProxyMounterV1Beta_GetAPIVersions :: "'w csi_proxy_beta \<Rightarrow> string" where
  "csiProxyMounterV1Beta_GetAPIVersions M =
     ''API Versions filesystem: '' @ fsb_Version (FsClient_beta M) @ '', disk: '' @ wdb_Version (DiskClient_beta M) @
     '', volume: '' @ vb_Version (VolumeClient_beta M)"

text \<open>The methods of the interface with those that are not implemented.\<close>

definition csiProxyMounterV1Beta :: "'w csi_proxy_beta \<Rightarrow> 'w win_mounter" where
  "csiProxyMounterV1Beta M =
     \<lparr>wm_Mount = csiProxyMounterV1Beta_Mount M, wm_Unmount = csiProxyMounterV1Beta_Unmount M,
      wm_List = fail (Errorf ''List not implemented for CSIProxyMounterV1Beta''),
      wm_IsMountPoint = csiProxyMounterV1Beta_IsMountPoint M, wm_IsMountPointMatch = (\<lambda>mp dir. mp = dir),
      wm_IsLikelyNotMountPoint = csiProxyMounterV1Beta_IsLikelyNotMountPoint M, wm_CanSafelySkipMountPointCheck = False,
      wm_MakeDir = csiProxyMounterV1Beta_MakeDir M,
      wm_GetMountRefs = (\<lambda>pathname. fail (Errorf ''GetMountRefs is not implemented for CSIProxyMounterV1Beta'')),
      wm_MountSensitive = (\<lambda>source target fstype options sensitiveOptions.
        fail (Errorf ''MountSensitive is not implemented for CSIProxyMounterV1Beta'')),
      wm_MountSensitiveWithoutSystemd = (\<lambda>source target fstype options sensitiveOptions.
        fail (Errorf ''MountSensitiveWithoutSystemd is not implemented for CSIProxyMounterV1Beta'')),
      wm_FormatAndMount = csiProxyMounterV1Beta_FormatAndMount M, wm_ExistsPath = csiProxyMounterV1Beta_ExistsPath M, wm_Rmdir = csiProxyMounterV1Beta_Rmdir M,
      wm_Rescan = csiProxyMounterV1Beta_Rescan M, wm_FindDiskByLun = csiProxyMounterV1Beta_FindDiskByLun M,
      wm_GetDeviceNameFromMount = csiProxyMounterV1Beta_GetDeviceNameFromMount M,
      wm_GetVolumeSizeInBytes = csiProxyMounterV1Beta_GetVolumeSizeInBytes M, wm_ResizeVolume = csiProxyMounterV1Beta_ResizeVolume M,
      wm_GetVolumeStats = csiProxyMounterV1Beta_GetVolumeStats M, wm_GetAPIVersions = csiProxyMounterV1Beta_GetAPIVersions M\<rparr>"

section \<open>The mounter of a host process\<close>

definition winMounter_Mount :: "'w win_os \<Rightarrow> string \<Rightarrow> string \<Rightarrow> string \<Rightarrow> string list \<Rightarrow> ('w, unit) io" where
  "winMounter_Mount K source target fstype options =
     LinkPath K (normalizeWindowsPath source) (normalizeWindowsPath target)"

definition winMounter_Rmdir :: "'w win_os \<Rightarrow> string \<Rightarrow> ('w, unit) io" where
  "winMounter_Rmdir K path = filesystem_Rmdir K (normalizeWindowsPath path) True"

definition winMounter_Unmount :: "'w win_os \<Rightarrow> string \<Rightarrow> ('w, unit) io" where
  "winMounter_Unmount = winMounter_Rmdir"

definition winMounter_ExistsPath :: "'w win_os \<Rightarrow> string \<Rightarrow> ('w, bool) io" where
  "winMounter_ExistsPath K path = filesystem_PathExists K (normalizeWindowsPath path)"

definition winMounter_IsLikelyNotMountPoint :: "'w win_os \<Rightarrow> string \<Rightarrow> ('w, bool) io" where
  "winMounter_IsLikelyNotMountPoint K path =
     bind (winMounter_ExistsPath K path)
       (\<lambda>isExists.
          if \<not> isExists then fail ErrNotExist
          else bind (filesystem_IsMountPoint K (normalizeWindowsPath path)) (\<lambda>b. ret (\<not> b)))"

definition winMounter_IsMountPoint :: "'w win_os \<Rightarrow> string \<Rightarrow> ('w, bool) io" where
  "winMounter_IsMountPoint K file =
     bind (winMounter_IsLikelyNotMountPoint K file) (\<lambda>isNotMnt. ret (\<not> isNotMnt))"

definition winMounter_MakeDir :: "'w win_os \<Rightarrow> string \<Rightarrow> ('w, unit) io" where
  "winMounter_MakeDir K path = filesystem_Mkdir K (normalizeWindowsPath path)"

text \<open>The disk is set online first; a failure of that is only logged.\<close>

definition winMounter_FormatAndMount ::
    "'w win_os \<Rightarrow> string \<Rightarrow> string \<Rightarrow> string \<Rightarrow> string list \<Rightarrow> ('w, unit) io" where
  "winMounter_FormatAndMount K source target fstype options =
     call (lift (Atoi source)) (\<lambda>err. fail (Errorf (''parse '' @ source @ '' failed with error: '' @ Error err)))
       (\<lambda>diskNum. bind (call (SetDiskState K (to_uint32 diskNum) True) (\<lambda>err. ret ()) ret)
          (\<lambda>_. bind (PartitionDisk K (to_uint32 diskNum))
             (\<lambda>_. bind (ListVolumesOnDisk K (to_uint32 diskNum) 0)
                (\<lambda>volumeIds. case volumeIds of
                     [] \<Rightarrow> fail (Errorf (''no volumes found on disk '' @ Itoa diskNum))
                   | volumeID # _ \<Rightarrow>
                       bind (IsVolumeFormatted K volumeID)
                         (\<lambda>formatted. bind (if \<not> formatted then FormatVolume K volumeID else ret ())
                            (\<lambda>_. MountVolume K volumeID (normalizeWindowsPath target)))))))"

definition winMounter_Rescan :: "'w win_os \<Rightarrow> ('w, unit) io" where
  "winMounter_Rescan = disk_Rescan"

definition winMounter_FindDiskByLun :: "'w win_os \<Rightarrow> string \<Rightarrow> ('w, string) io" where
  "winMounter_FindDiskByLun K lun =
     bind (ListDiskLocations K)
       (\<lambda>diskLocations. case find_lun_id lun diskLocations of
            None \<Rightarrow> fail (Errorf (''could not find disk id for lun: '' @ lun))
          | Some diskID \<Rightarrow> ret (Itoa diskID))"

definition winMounter_GetDeviceNameFromMount :: "'w win_os \<Rightarrow> string \<Rightarrow> string \<Rightarrow> ('w, string) io" where
  "winMounter_GetDeviceNameFromMount K mountPath pluginMountDir =
     GetVolumeIDFromTargetPath K (normalizeWindowsPath mountPath)"

definition winMounter_GetVolumeSizeInBytes :: "'w win_os \<Rightarrow> string \<Rightarrow> ('w, int) io" where
  "winMounter_GetVolumeSizeInBytes K devicePath =
     bind (volume_GetVolumeStats K devicePath) (\<lambda>(volumeSize, used). ret volumeSize)"

definition winMounter_ResizeVolume :: "'w win_os \<Rightarrow> string \<Rightarrow> ('w, unit) io" where
  "winMounter_ResizeVolume K devicePath = volume_ResizeVolume K devicePath 0"

definition winMounter_GetVolumeStats :: "'w win_os \<Rightarrow> string \<Rightarrow> ('w, volume_usage) io" where
  "winMounter_GetVolumeStats K path =
     call (GetVolumeIDFromTargetPath K path)
       (\<lambda>err. fail (Errorf (''GetVolumeIDFromMount('' @ path @ '') failed with error: '' @ Error err)))
       (\<lambda>volumeID. call (volume_GetVolumeStats K volumeID)
          (\<lambda>err. fail (Errorf (''GetVolumeStats('' @ volumeID @ '') failed with error: '' @ Error err)))
          (\<lambda>(volumeSize, volumeUsedSize).
             ret \<lparr>vu_Unit = BYTES, vu_Available = to_int64 (volumeSize - volumeUsedSize),
                  vu_Total = volumeSize, vu_Used = volumeUsedSize\<rparr>))"

definition winMounter :: "'w win_os \<Rightarrow> 'w win_mounter" where
  "winMounter K =
     \<lparr>wm_Mount = winMounter_Mount K, wm_Unmount = winMounter_Unmount K,
      wm_List = fail (Errorf ''List not implemented for CSIProxyMounter''),
      wm_IsMountPoint = winMounter_IsMountPoint K, wm_IsMountPointMatch = (\<lambda>mp dir. mp = dir),
      wm_IsLikelyNotMountPoint = winMounter_IsLikelyNotMountPoint K, wm_CanSafelySkipMountPointCheck = False,
      wm_MakeDir = winMounter_MakeDir K,
      wm_GetMountRefs = (\<lambda>pathname. fail (Errorf ''GetMountRefs not implemented for winMounter'')),
      wm_MountSensitive = (\<lambda>source target fstype options sensitiveOptions.
        fail (Errorf ''MountSensitive not implemented for winMounter'')),
      wm_MountSensitiveWithoutSystemd = (\<lambda>source target fstype options sensitiveOptions.
        fail (Errorf ''MountSensitiveWithoutSystemd not implemented for winMounter'')),
      wm_FormatAndMount = winMounter_FormatAndMount K, wm_ExistsPath = winMounter_ExistsPath K,
      wm_Rmdir = winMounter_Rmdir K, wm_Rescan = winMounter_Rescan K, wm_FindDiskByLun = winMounter_FindDiskByLun K,
      wm_GetDeviceNameFromMount = winMounter_GetDeviceNameFromMount K,
      wm_GetVolumeSizeInBytes = winMounter_GetVolumeSizeInBytes K, wm_ResizeVolume = winMounter_ResizeVolume K,
      wm_GetVolumeStats = winMounter_GetVolumeStats K, wm_GetAPIVersions = []\<rparr>"

section \<open>The choice of the mounter\<close>

text \<open>The constructors of the clients.\<close>

record 'w client_env =
  ce_NewFs :: "('w, 'w fs_client) io"
  ce_NewDisk :: "('w, 'w win_disk_client) io"
  ce_NewVolume :: "('w, 'w volume_client) io"
  ce_NewFs_beta :: "('w, 'w fs_client_beta) io"
  ce_NewDisk_beta :: "('w, 'w disk_client_beta) io"
  ce_NewVolume_beta :: "('w, 'w volume_client_beta) io"

definition newCSIProxyMounter :: "'w client_env \<Rightarrow> ('w, 'w csi_proxy) io" where
  "newCSIProxyMounter E =
     bind (ce_NewFs E) (\<lambda>f. bind (ce_NewDisk E) (\<lambda>d. bind (ce_NewVolume E)
       (\<lambda>v. ret \<lparr>FsClient = f, DiskClient = d, VolumeClient = v\<rparr>)))"

definition newCSIProxyMounterV1Beta :: "'w client_env \<Rightarrow> ('w, 'w csi_proxy_beta) io" where
  "newCSIProxyMounterV1Beta E =
     bind (ce_NewFs_beta E) (\<lambda>f. bind (ce_NewDisk_beta E) (\<lambda>d. bind (ce_NewVolume_beta E)
       (\<lambda>v. ret \<lparr>FsClient_beta = f, DiskClient_beta = d, VolumeClient_beta = v\<rparr>)))"

definition NewSafeMounter :: "'w client_env \<Rightarrow> 'w win_os \<Rightarrow> bool \<Rightarrow> bool \<Rightarrow> ('w, 'w win_mounter) io" where
  "NewSafeMounter E K enableHostProcess useGAInterface =
     (let beta = bind (newCSIProxyMounterV1Beta E) (\<lambda>M. ret (csiProxyMounterV1Beta M))
      in if enableHostProcess then ret (winMounter K)
         else if useGAInterface then call (newCSIProxyMounter E) (\<lambda>err. beta) (\<lambda>M. ret (csiProxyMounter M))
         else beta)"

end
