(* ===== verification/WindowsNode.thy ===== *)
theory WindowsNode
  imports WindowsMounter DeviceOptimize
begin

text \<open>
  What the node service calls in the builds for Windows (\<open>azure_common_windows.go\<close>) and for Darwin
  (\<open>azure_common_darwin.go\<close>, a build for tests), and the tuning of devices in both
  (\<open>device_perf_unsupported.go\<close>). The functions have the names of those of the Linux build.
\<close>

section \<open>Windows\<close>

text \<open>The interface of the mounter and the assertion \<open>m.Interface.(mounter.CSIProxyMounter)\<close>.\<close>

datatype 'w mount_interface = CSIProxyMounter "'w win_mounter" | OtherMounter

definition no_cast :: go_error where
  "no_cast = Errorf ''could not cast to csi proxy class''"

definition with_proxy :: "'w mount_interface \<Rightarrow> ('w win_mounter \<Rightarrow> ('w, 'a) io) \<Rightarrow> ('w, 'a) io" where
  "with_proxy m f = (case m of CSIProxyMounter proxy \<Rightarrow> f proxy | OtherMounter \<Rightarrow> fail no_cast)"

definition formatAndMount_windows :: "'w mount_interface \<Rightarrow> string \<Rightarrow> string \<Rightarrow> string \<Rightarrow> string list \<Rightarrow> ('w, unit) io" where
  "formatAndMount_windows m source target fstype options =
     with_proxy m (\<lambda>proxy. wm_FormatAndMount proxy source target fstype options)"

text \<open>Errors are only logged.\<close>

definition scsiHostRescan_windows :: "'w mount_interface \<Rightarrow> ('w, unit) io" where
  "scsiHostRescan_windows m =
     (case m of CSIProxyMounter proxy \<Rightarrow> call (wm_Rescan proxy) (\<lambda>err. ret ()) ret | OtherMounter \<Rightarrow> ret ())"

definition findDiskByLun_windows :: "'w mount_interface \<Rightarrow> int \<Rightarrow> ('w, string) io" where
  "findDiskByLun_windows m lun = with_proxy m (\<lambda>proxy. wm_FindDiskByLun proxy (Itoa lun))"

text \<open>The directory that the kubelet made is removed, because the link of the volume takes its place.\<close>

definition preparePublishPath_windows :: "'w mount_interface \<Rightarrow> string \<Rightarrow> ('w, unit) io" where
  "preparePublishPath_windows m path =
     with_proxy m (\<lambda>proxy. bind (wm_ExistsPath proxy path)
       (\<lambda>isExists. if isExists then wm_Rmdir proxy path else ret ()))"

definition CleanupMountPoint_windows :: "'w mount_interface \<Rightarrow> string \<Rightarrow> bool \<Rightarrow> ('w, unit) io" where
  "CleanupMountPoint_windows m path extensiveCheck = with_proxy m (\<lambda>proxy. wm_Unmount proxy path)"

text \<open>\<open>status.FromError(err)\<close>: the message of a status, the whole text of an error that wraps one.\<close>

fun wraps_status :: "go_error \<Rightarrow> bool" where
  "wraps_status (StatusErr c m) = True"
| "wraps_status (Wrapped m e) = wraps_status e"
| "wraps_status _ = False"

definition plain_error :: "go_error \<Rightarrow> go_error" where
  "plain_error err =
     (case err of
        StatusErr c m \<Rightarrow> Errorf m
      | _ \<Rightarrow> if wraps_status err then Errorf (Error err) else err)"

definition getDevicePathWithMountPath_windows :: "'w mount_interface \<Rightarrow> string \<Rightarrow> ('w, string) io" where
  "getDevicePathWithMountPath_windows m mountPath =
     with_proxy m (\<lambda>proxy. call (wm_GetDeviceNameFromMount proxy mountPath []) (\<lambda>err. fail (plain_error err)) ret)"

definition getBlockSizeBytes_windows :: "'w mount_interface \<Rightarrow> string \<Rightarrow> ('w, int) io" where
  "getBlockSizeBytes_windows m devicePath =
     with_proxy m (\<lambda>proxy. call (wm_GetVolumeSizeInBytes proxy devicePath) (\<lambda>err. fail (plain_error err)) ret)"

definition resizeVolume_windows :: "'w mount_interface \<Rightarrow> string \<Rightarrow> string \<Rightarrow> ('w, unit) io" where
  "resizeVolume_windows m devicePath volumePath =
     with_proxy m (\<lambda>proxy. call (wm_ResizeVolume proxy devicePath) (\<lambda>err. fail (plain_error err)) ret)"

definition needResizeVolume_windows :: "string \<Rightarrow> string \<Rightarrow> ('w, bool) io" where
  "needResizeVolume_windows devicePath volumePath = ret False"

definition rescanVolume_windows :: "string \<Rightarrow> ('w, unit) io" where
  "rescanVolume_windows devicePath = ret ()"

definition rescanAllVolumes_windows :: "('w, unit) io" where
  "rescanAllVolumes_windows = ret ()"

text \<open>The cache of usages by volume, of a library. \<open>Get\<close> answers nil for what is not there. When the mounter
  fails, its usage is nil and is dereferenced before the error is looked at.\<close>

record 'w stats_cache =
  usage_Get :: "string \<Rightarrow> ('w, volume_usage option) io"
  usage_Set :: "string \<Rightarrow> volume_usage \<Rightarrow> 'w \<Rightarrow> 'w"

definition GetVolumeStats_windows ::
    "'w stats_cache \<Rightarrow> 'w mount_interface \<Rightarrow> string \<Rightarrow> string \<Rightarrow> ('w, volume_usage list) io" where
  "GetVolumeStats_windows C m volumeID target =
     call (usage_Get C volumeID) (\<lambda>err. fail (StatusErr Internal (Error err)))
       (\<lambda>cache. case cache of
            Some volUsage \<Rightarrow> ret [volUsage]
          | None \<Rightarrow>
              with_proxy m (\<lambda>proxy. call (wm_GetVolumeStats proxy target) (\<lambda>err. panic)
                (\<lambda>volUsage w. (Ok [volUsage], usage_Set C volumeID volUsage w))))"

section \<open>Darwin\<close>

definition scsiHostRescan_darwin :: "('w, unit) io" where
  "scsiHostRescan_darwin = ret ()"

definition formatAndMount_darwin :: "string \<Rightarrow> string \<Rightarrow> string \<Rightarrow> string list \<Rightarrow> ('w, unit) io" where
  "formatAndMount_darwin source target fstype options = ret ()"

definition findDiskByLun_darwin :: "int \<Rightarrow> ('w, string) io" where
  "findDiskByLun_darwin lun = fail (Errorf ''findDiskByLun not implemented'')"

definition preparePublishPath_darwin :: "string \<Rightarrow> ('w, unit) io" where
  "preparePublishPath_darwin path = ret ()"

definition CleanupMountPoint_darwin :: "string \<Rightarrow> bool \<Rightarrow> ('w, unit) io" where
  "CleanupMountPoint_darwin path extensiveCheck = ret ()"

text \<open>The statements of these are those of the Linux build.\<close>

definition getDevicePathWithMountPath_darwin :: "'w node_os \<Rightarrow> string \<Rightarrow> ('w, string) io" where
  "getDevicePathWithMountPath_darwin = getDevicePathWithMountPath"

definition getBlockSizeBytes_darwin :: "'w node_os \<Rightarrow> string \<Rightarrow> ('w, int) io" where
  "getBlockSizeBytes_darwin = getBlockSizeBytes"

definition resizeVolume_darwin :: "'w node_os \<Rightarrow> string \<Rightarrow> string \<Rightarrow> ('w, unit) io" where
  "resizeVolume_darwin = resizeVolume"

definition needResizeVolume_darwin :: "string \<Rightarrow> string \<Rightarrow> ('w, bool) io" where
  "needResizeVolume_darwin devicePath volumePath = ret False"

definition rescanVolume_darwin :: "'w node_os \<Rightarrow> string \<Rightarrow> ('w, unit) io" where
  "rescanVolume_darwin = rescanVolume"

definition rescanAllVolumes_darwin :: "'w node_os \<Rightarrow> ('w, unit) io" where
  "rescanAllVolumes_darwin = rescanAllVolumes"

definition GetVolumeStats_darwin :: "string \<Rightarrow> string \<Rightarrow> ('w, volume_usage list) io" where
  "GetVolumeStats_darwin volumeID target = ret []"

section \<open>Tuning where it is not supported\<close>

definition DiskSupportsPerfOptimization_unsupported :: "string \<Rightarrow> string \<Rightarrow> bool" where
  "DiskSupportsPerfOptimization_unsupported diskPerfProfile diskAccountType = False"

definition OptimizeDiskPerformance_unsupported :: "('w, unit) io" where
  "OptimizeDiskPerformance_unsupported = fail (Errorf ''OptimizeDiskPerformance not implemented'')"

end
