(* ===== verification/WindowsPaths.thy ===== *)
theory WindowsPaths
  imports WindowsNode
begin

text \<open>
  What a PowerShell command and a sequence of calls can end with, and paths on Windows: what the checks of \<open>pkg/os/filesystem\<close> accept, what becomes of the paths the kubelet
  sends, and the contract that the three mounters have in common (the locale \<open>windows_mounter\<close>), with what
  the node service can rely on whichever of them it was given.
\<close>

section \<open>Commands\<close>

lemma RunPowershellCmd_Ok: "\<exists>out err w'. RunPowershellCmd K c e w = (Ok (out, err), w')"
  by (auto simp: RunPowershellCmd_def split: prod.splits)

lemma powershell_cases:
  assumes "powershell K c e text k w = (r, w')"
  obtains (ran) out w1 where "RunPowershellCmd K c e w = (Ok (out, None), w1)" "k out w1 = (r, w')"
    | (failed) out err where "RunPowershellCmd K c e w = (Ok (out, Some err), w')" "r = Err (Errorf (text out (Some err)))"
  using assms RunPowershellCmd_Ok [of K c e w]
  by (auto simp: powershell_def bind_def call_def split: if_splits)

lemma Itoa_no_space: "c \<in> set (Itoa n) \<Longrightarrow> \<not> is_space c"
proof -
  have "c \<in> set (nat_str k) \<Longrightarrow> \<not> is_space c" for k
    using nat_str_digits [of k] by (auto simp: list_all_iff IsDigit_def is_space_def)
  then show "c \<in> set (Itoa n) \<Longrightarrow> \<not> is_space c" by (auto simp: Itoa_def is_space_def split: if_splits)
qed

lemma Itoa_nonempty [simp]: "Itoa n \<noteq> []"
  by (simp add: Itoa_def)

lemma TrimSpace_Itoa [simp]: "TrimSpace (Itoa n) = Itoa n"
  by (rule TrimSpace_id) (meson Itoa_no_space Itoa_nonempty hd_in_set last_in_set)

definition Itoa_value :: "string \<Rightarrow> int" where
  "Itoa_value s = (case s of c # r \<Rightarrow> if c = CHR ''-'' then - int (digits_val r) else int (digits_val s) | [] \<Rightarrow> 0)"

lemma Itoa_value_Itoa: "Itoa_value (Itoa n) = n"
proof (cases "n < 0")
  case True
  then show ?thesis by (simp add: Itoa_value_def Itoa_def)
next
  case False
  obtain c r where "nat_str (nat n) = c # r" by (meson neq_Nil_conv nat_str_nonempty)
  with False nat_str_hd [OF this] digits_val_nat_str [of "nat n"] show ?thesis by (simp add: Itoa_value_def Itoa_def)
qed

lemma Itoa_inject: "Itoa a = Itoa b \<longleftrightarrow> a = b"
  by (metis Itoa_value_Itoa)

lemma bind_cases:
  assumes "bind m k w = (r, w')"
  obtains (ran) x w1 where "m w = (Ok x, w1)" "k x w1 = (r, w')"
    | (failed) e where "m w = (Err e, w')" "r = Err e"
    | (stuck) "m w = (Panic, w')" "r = Panic"
  using assms by (auto simp: bind_def call_def split: prod.splits res.splits)

section \<open>Checked paths\<close>

definition invalid_chars :: "char set" where
  "invalid_chars = {DQUOTE, CHR '':'', CHR ''?'', CHR ''*'', CHR ''|''}"

lemma MatchFound_class: "MatchFound [One (AnyOf p)] s \<longleftrightarrow> (\<exists>c \<in> set s. p c)"
  unfolding MatchFound_def by (induction s) auto

lemma isAbsWindows_iff: "isAbsWindows p \<longleftrightarrow> (\<exists>d r. IsLetter d \<and> p = d # CHR '':'' # BACKSLASH # r)"
  unfolding isAbsWindows_def absPathRegexWindows_def by (auto split: list.splits if_splits)

lemma backslash_ne [simp]: "BACKSLASH \<noteq> CHR ''/''" "CHR ''/'' \<noteq> BACKSLASH" "BACKSLASH \<noteq> CHR '':''" "BACKSLASH \<noteq> CHR ''.''" "DQUOTE \<noteq> CHR ''/''"
  "DQUOTE \<noteq> BACKSLASH" "\<not> IsLetter BACKSLASH" "BACKSLASH \<notin> invalid_chars" "CHR ''/'' \<notin> invalid_chars"
  by (simp_all add: BACKSLASH_def DQUOTE_def IsLetter_def is_upper_def is_lower_def invalid_chars_def)

lemma ValidatePathWindows_iff:
  "ValidatePathWindows p = Ok () \<longleftrightarrow>
     (\<exists>d r. p = d # CHR '':'' # BACKSLASH # r \<and> IsLetter d \<and> length p \<le> 260 \<and>
        CHR ''/'' \<notin> set r \<and> set r \<inter> invalid_chars = {} \<and> \<not> Contains r ''..'')"
proof (cases "isAbsWindows p")
  case False
  then show ?thesis by (auto simp: ValidatePathWindows_def isAbsWindows_iff Let_def)
next
  case True
  then obtain d r where p: "p = d # CHR '':'' # BACKSLASH # r" "IsLetter d" by (auto simp: isAbsWindows_iff)
  then have "d \<noteq> BACKSLASH" by auto
  moreover have "containsInvalidCharactersWindows p \<longleftrightarrow>
      \<not> (CHR ''/'' \<notin> set r \<and> set r \<inter> invalid_chars = {} \<and> \<not> Contains r ''..'')"
    using True p by (auto simp: containsInvalidCharactersWindows_def invalidPathCharsRegexWindows_def MatchFound_class
        invalid_chars_def)
  ultimately show ?thesis
    using True p by (auto simp: ValidatePathWindows_def isUNCPathWindows_def MaxPathLengthWindows_def Let_def)
qed

definition flip :: "string \<Rightarrow> string" where
  "flip = map (\<lambda>c. if c = CHR ''/'' then BACKSLASH else c)"

lemma flip_simps [simp]: "flip [] = []" "flip (c # s) = (if c = CHR ''/'' then BACKSLASH else c) # flip s"
  "flip (s @ t) = flip s @ flip t" "length (flip s) = length s" "CHR ''/'' \<notin> set (flip s)" "flip (flip s) = flip s"
  by (auto simp: flip_def split: if_splits)

lemma normalizeWindowsPath_flip:
  "normalizeWindowsPath p = (if HasPrefix (flip p) [BACKSLASH] then ''c:'' @ flip p else flip p)"
  by (simp add: normalizeWindowsPath_def flip_def Let_def)

lemma normalizeWindowsPath_idem [simp]: "normalizeWindowsPath (normalizeWindowsPath p) = normalizeWindowsPath p"
  by (simp add: normalizeWindowsPath_flip HasPrefix_iff BACKSLASH_def)

lemma normalizeWindowsPath_root: "normalizeWindowsPath (CHR ''/'' # q) = CHR ''c'' # CHR '':'' # BACKSLASH # flip q"
  by (simp add: normalizeWindowsPath_flip HasPrefix_iff)

lemma normalizeWindowsPath_value:
  "\<exists>r. normalizeWindowsPath p = (if p \<noteq> [] \<and> hd p \<in> {CHR ''/'', BACKSLASH} then ''c:'' @ r else r) \<and>
     length r = length p \<and> (\<forall>i < length p. r ! i = (if p ! i = CHR ''/'' then BACKSLASH else p ! i))"
proof (intro exI conjI)
  show "normalizeWindowsPath p = (if p \<noteq> [] \<and> hd p \<in> {CHR ''/'', BACKSLASH} then ''c:'' @ flip p else flip p)"
    by (cases p) (auto simp: normalizeWindowsPath_flip HasPrefix_iff)
qed (simp_all add: flip_def)

lemma set_flip: "c \<noteq> BACKSLASH \<Longrightarrow> c \<noteq> CHR ''/'' \<Longrightarrow> c \<in> set (flip s) \<longleftrightarrow> c \<in> set s"
  by (auto simp: flip_def)

lemma invalid_flip: "c \<in> invalid_chars \<Longrightarrow> c \<in> set (flip s) \<longleftrightarrow> c \<in> set s"
  using set_flip [of c s] by (metis backslash_ne(8,9))

lemma HasPrefix_flip: "HasPrefix (flip s) ''..'' \<longleftrightarrow> HasPrefix s ''..''"
  by (cases s; cases "tl s") (auto simp: HasPrefix_iff)

lemma Contains_flip: "Contains (flip s) ''..'' \<longleftrightarrow> Contains s ''..''"
proof (induction s)
  case (Cons c s)
  have "Contains (c # t) ''..'' \<longleftrightarrow> HasPrefix (c # t) ''..'' \<or> Contains t ''..''" for c t
    by (auto simp: Contains_def Index_def split: option.splits)
  then show ?case using Cons HasPrefix_flip [of "c # s"] by simp
qed simp

text \<open>C38. Paths of the kubelet on Windows. Normalising a path turns every slash into a backslash and nothing else,
  puts the drive "c:" in front of a path that begins with a slash or a backslash, leaves any other path without
  a drive, and does so once and for all. What the checks accept begins with a drive letter, a colon and a backslash, has at most
  260 characters and afterwards none of the characters that Windows gives a meaning, and no two dots in a
  row, so it names nothing above itself. A rooted path of the kubelet is accepted exactly when it is short
  enough and has none of those.\<close>

theorem windows_paths:
  "(\<exists>r. normalizeWindowsPath p = (if p \<noteq> [] \<and> hd p \<in> {CHR ''/'', BACKSLASH} then ''c:'' @ r else r) \<and>
     length r = length p \<and> (\<forall>i < length p. r ! i = (if p ! i = CHR ''/'' then BACKSLASH else p ! i))) \<and>
   normalizeWindowsPath (normalizeWindowsPath p) = normalizeWindowsPath p \<and>
   (ValidatePathWindows p = Ok () \<longleftrightarrow>
     (\<exists>d r. p = d # CHR '':'' # BACKSLASH # r \<and> IsLetter d \<and> length p \<le> 260 \<and>
        CHR ''/'' \<notin> set r \<and> set r \<inter> invalid_chars = {} \<and> \<not> Contains r ''..'')) \<and>
   (ValidatePathWindows (normalizeWindowsPath (CHR ''/'' # q)) = Ok () \<longleftrightarrow>
     length q \<le> 257 \<and> set q \<inter> invalid_chars = {} \<and> \<not> Contains q ''..'')"
proof -
  have "set (flip q) \<inter> invalid_chars = {} \<longleftrightarrow> set q \<inter> invalid_chars = {}"
    using invalid_flip by blast
  moreover have "IsLetter (CHR ''c'')" by code_simp
  ultimately have "ValidatePathWindows (normalizeWindowsPath (CHR ''/'' # q)) = Ok () \<longleftrightarrow>
      length q \<le> 257 \<and> set q \<inter> invalid_chars = {} \<and> \<not> Contains q ''..''"
    unfolding normalizeWindowsPath_root ValidatePathWindows_iff by (simp add: Contains_flip)
  then show ?thesis using ValidatePathWindows_iff normalizeWindowsPath_value by simp
qed

text \<open>The kubelet's path of a published volume, a path already on a drive, and a path that leaves its directory.\<close>

theorem windows_paths_witness:
  "normalizeWindowsPath ''/var/mnt'' = ''c:'' @ [BACKSLASH] @ ''var'' @ [BACKSLASH] @ ''mnt'' \<and>
   ValidatePathWindows (normalizeWindowsPath ''/var/mnt'') = Ok () \<and>
   ValidatePathWindows (normalizeWindowsPath ''/var/..'') \<noteq> Ok ()"
proof -
  have ok: "length ''var/mnt'' \<le> 257" "set ''var/mnt'' \<inter> invalid_chars = {}" "\<not> Contains ''var/mnt'' ''..''"
    and up: "Contains ''var/..'' ''..''"
    unfolding invalid_chars_def by code_simp+
  from ok windows_paths [of _ "''var/mnt''"]
  have "ValidatePathWindows (normalizeWindowsPath (CHR ''/'' # ''var/mnt'')) = Ok ()" by blast
  moreover from up windows_paths [of _ "''var/..''"]
  have "ValidatePathWindows (normalizeWindowsPath (CHR ''/'' # ''var/..'')) \<noteq> Ok ()" by blast
  moreover have "normalizeWindowsPath ''/var/mnt'' = ''c:'' @ [BACKSLASH] @ ''var'' @ [BACKSLASH] @ ''mnt''" by code_simp
  ultimately show ?thesis by simp
qed

section \<open>What the mounters have in common\<close>

lemma to_int64_diff: "to_int64 (to_int64 x - y) = to_int64 (x - y)"
proof -
  have "((x + a) mod n - a - y + a) mod n = (x - y + a) mod n" for a n :: int
    by (metis (no_types, opaque_lifting) add.commute add_diff_eq diff_add_cancel mod_diff_left_eq)
  then show ?thesis by (simp add: to_int64_def)
qed

lemma to_int64_idem [simp]: "to_int64 (to_int64 x) = to_int64 x"
  using to_int64_diff [of x 0] by simp

text \<open>
  A mounter takes paths in either spelling, says of a path that does not exist that it does not exist when
  it is asked for a mount point, and answers with a usage whose parts add up in 64 bits.
\<close>

locale windows_mounter =
  fixes M :: "'w win_mounter"
  assumes same_exists: "normalizeWindowsPath p = normalizeWindowsPath q \<Longrightarrow> wm_ExistsPath M p = wm_ExistsPath M q"
    and same_rmdir: "normalizeWindowsPath p = normalizeWindowsPath q \<Longrightarrow> wm_Rmdir M p = wm_Rmdir M q"
    and same_device: "normalizeWindowsPath p = normalizeWindowsPath q \<Longrightarrow>
      wm_GetDeviceNameFromMount M p d = wm_GetDeviceNameFromMount M q d"
    and same_format: "normalizeWindowsPath p = normalizeWindowsPath q \<Longrightarrow>
      wm_FormatAndMount M s p f os = wm_FormatAndMount M s q f os"
    and missing: "wm_ExistsPath M p w = (Ok False, w') \<Longrightarrow> wm_IsLikelyNotMountPoint M p w = (Err ErrNotExist, w')"
    and mount_point: "wm_IsMountPoint M p = bind (wm_IsLikelyNotMountPoint M p) (\<lambda>b. ret (\<not> b))"
    and usage: "wm_GetVolumeStats M p w = (Ok u, w') \<Longrightarrow>
      to_int64 (vu_Available u) = to_int64 (vu_Total u - vu_Used u)"
begin

lemma prepare_same_path:
  "normalizeWindowsPath p = normalizeWindowsPath q \<Longrightarrow>
    preparePublishPath_windows (CSIProxyMounter M) p = preparePublishPath_windows (CSIProxyMounter M) q"
  using same_exists [of p q] same_rmdir [of p q] by (simp add: preparePublishPath_windows_def with_proxy_def cong: if_cong)

lemma device_same_path:
  "normalizeWindowsPath p = normalizeWindowsPath q \<Longrightarrow>
    getDevicePathWithMountPath_windows (CSIProxyMounter M) p = getDevicePathWithMountPath_windows (CSIProxyMounter M) q"
  using same_device [of p q] by (simp add: getDevicePathWithMountPath_windows_def with_proxy_def)

lemma format_same_path:
  "normalizeWindowsPath p = normalizeWindowsPath q \<Longrightarrow>
    formatAndMount_windows (CSIProxyMounter M) s p f os = formatAndMount_windows (CSIProxyMounter M) s q f os"
  using same_format [of p q] by (simp add: formatAndMount_windows_def with_proxy_def)

lemma missing_mount_point: "wm_ExistsPath M p w = (Ok False, w') \<Longrightarrow> wm_IsMountPoint M p w = (Err ErrNotExist, w')"
  using missing [of p w w'] by (simp add: mount_point bind_def call_def)

lemma stats_fresh:
  assumes "usage_Get C v w = (Ok None, w1)" "wm_GetVolumeStats M t w1 = (Ok u, w2)"
  shows "GetVolumeStats_windows C (CSIProxyMounter M) v t w = (Ok [u], usage_Set C v u w2)"
    and "to_int64 (vu_Available u) = to_int64 (vu_Total u - vu_Used u)"
  using assms usage [OF assms(2)] by (simp_all add: GetVolumeStats_windows_def with_proxy_def call_def)

lemma stats_failed:
  assumes "usage_Get C v w = (Ok None, w1)" "wm_GetVolumeStats M t w1 = (Err e, w2)"
  shows "GetVolumeStats_windows C (CSIProxyMounter M) v t w = (Panic, w2)"
  using assms by (simp add: GetVolumeStats_windows_def with_proxy_def call_def)

end

lemmas proxy_methods = csiProxyMounter_Mount_def csiProxyMounter_Rmdir_def csiProxyMounter_ExistsPath_def
  csiProxyMounter_IsLikelyNotMountPoint_def csiProxyMounter_IsMountPoint_def csiProxyMounter_GetDeviceNameFromMount_def
  csiProxyMounter_FormatAndMount_def csiProxyMounter_GetVolumeStats_def

lemmas beta_methods = csiProxyMounterV1Beta_Mount_def csiProxyMounterV1Beta_Rmdir_def csiProxyMounterV1Beta_ExistsPath_def
  csiProxyMounterV1Beta_IsLikelyNotMountPoint_def csiProxyMounterV1Beta_IsMountPoint_def
  csiProxyMounterV1Beta_GetDeviceNameFromMount_def csiProxyMounterV1Beta_FormatAndMount_def
  csiProxyMounterV1Beta_GetVolumeStats_def

lemmas host_methods = winMounter_Mount_def winMounter_Rmdir_def winMounter_ExistsPath_def
  winMounter_IsLikelyNotMountPoint_def winMounter_IsMountPoint_def winMounter_GetDeviceNameFromMount_def
  winMounter_FormatAndMount_def winMounter_GetVolumeStats_def

interpretation proxy: windows_mounter "csiProxyMounter M" for M
proof unfold_locales
  fix p q s f os
  assume e: "normalizeWindowsPath p = normalizeWindowsPath q"
  show "wm_FormatAndMount (csiProxyMounter M) s p f os = wm_FormatAndMount (csiProxyMounter M) s q f os"
    unfolding csiProxyMounter_def win_mounter.simps csiProxyMounter_FormatAndMount_def e ..
next
  fix p w u w'
  assume "wm_GetVolumeStats (csiProxyMounter M) p w = (Ok u, w')"
  then show "to_int64 (vu_Available u) = to_int64 (vu_Total u - vu_Used u)"
    by (auto simp: csiProxyMounter_def proxy_methods Let_def call_def split: prod.splits res.splits option.splits)
qed (simp_all add: csiProxyMounter_def proxy_methods bind_def call_def)

interpretation beta: windows_mounter "csiProxyMounterV1Beta M" for M
proof unfold_locales
  fix p q s f os
  assume e: "normalizeWindowsPath p = normalizeWindowsPath q"
  show "wm_FormatAndMount (csiProxyMounterV1Beta M) s p f os = wm_FormatAndMount (csiProxyMounterV1Beta M) s q f os"
    unfolding csiProxyMounterV1Beta_def win_mounter.simps csiProxyMounterV1Beta_FormatAndMount_def e ..
next
  fix p w u w'
  assume "wm_GetVolumeStats (csiProxyMounterV1Beta M) p w = (Ok u, w')"
  then show "to_int64 (vu_Available u) = to_int64 (vu_Total u - vu_Used u)"
    by (auto simp: csiProxyMounterV1Beta_def beta_methods Let_def call_def to_int64_diff
        split: prod.splits res.splits option.splits)
qed (simp_all add: csiProxyMounterV1Beta_def beta_methods bind_def call_def)

interpretation host: windows_mounter "winMounter K" for K
proof unfold_locales
  fix p q s f os
  assume e: "normalizeWindowsPath p = normalizeWindowsPath q"
  show "wm_FormatAndMount (winMounter K) s p f os = wm_FormatAndMount (winMounter K) s q f os"
    unfolding winMounter_def win_mounter.simps winMounter_FormatAndMount_def e ..
next
  fix p w u w'
  assume "wm_GetVolumeStats (winMounter K) p w = (Ok u, w')"
  then show "to_int64 (vu_Available u) = to_int64 (vu_Total u - vu_Used u)"
    by (auto simp: winMounter_def host_methods Let_def call_def split: prod.splits res.splits option.splits)
qed (simp_all add: winMounter_def host_methods bind_def call_def)

lemma NewSafeMounter_cases:
  assumes "NewSafeMounter E K h g w = (Ok M, w')"
  obtains P where "M = csiProxyMounter P" | B where "M = csiProxyMounterV1Beta B" | "M = winMounter K"
  using assms by (auto simp: NewSafeMounter_def Let_def bind_def call_def split: prod.splits res.splits if_splits)

lemma NewSafeMounter_contract: "NewSafeMounter E K h g w = (Ok M, w') \<Longrightarrow> windows_mounter M"
  by (erule NewSafeMounter_cases) (simp_all add: proxy.windows_mounter_axioms beta.windows_mounter_axioms host.windows_mounter_axioms)

text \<open>C23. A node on Windows can rely on the same of whichever mounter it was given. The path where a volume is
  published is prepared, its device found and a volume mounted alike for both spellings of a path; a path that
  does not exist is reported as such by the question for a mount point; a usage that is not cached is cached
  and answered as the mounter gives it, with parts that add up in 64 bits; and when the mounter cannot tell
  the usage, the call does not return an error but dereferences a nil pointer.\<close>

theorem windows_mounter_contract:
  assumes "NewSafeMounter E K h g w0 = (Ok M, w1)" "m = CSIProxyMounter M"
  shows "(normalizeWindowsPath p = normalizeWindowsPath q \<longrightarrow>
      preparePublishPath_windows m p = preparePublishPath_windows m q \<and>
      getDevicePathWithMountPath_windows m p = getDevicePathWithMountPath_windows m q \<and>
      formatAndMount_windows m s p f os = formatAndMount_windows m s q f os) \<and>
    (wm_ExistsPath M p w = (Ok False, w2) \<longrightarrow> wm_IsMountPoint M p w = (Err ErrNotExist, w2)) \<and>
    (usage_Get C v w = (Ok None, w2) \<and> wm_GetVolumeStats M t w2 = (Ok u, w3) \<longrightarrow>
      GetVolumeStats_windows C m v t w = (Ok [u], usage_Set C v u w3) \<and>
      to_int64 (vu_Available u) = to_int64 (vu_Total u - vu_Used u)) \<and>
    (usage_Get C v w = (Ok None, w2) \<and> wm_GetVolumeStats M t w2 = (Err e, w3) \<longrightarrow>
      GetVolumeStats_windows C m v t w = (Panic, w3))"
proof -
  note c = NewSafeMounter_contract [OF assms(1)]
  show ?thesis unfolding assms(2)
    by (intro conjI impI; (elim conjE)?;
        rule windows_mounter.prepare_same_path [OF c] windows_mounter.device_same_path [OF c]
          windows_mounter.format_same_path [OF c] windows_mounter.missing_mount_point [OF c]
          windows_mounter.stats_fresh [OF c] windows_mounter.stats_failed [OF c]; assumption)
qed

definition no_clients :: "unit client_env" where
  "no_clients = (let e = Errorf ''no csi-proxy'' in
     \<lparr>ce_NewFs = fail e, ce_NewDisk = fail e, ce_NewVolume = fail e,
      ce_NewFs_beta = fail e, ce_NewDisk_beta = fail e, ce_NewVolume_beta = fail e\<rparr>)"

definition no_windows :: "'w win_os" where
  "no_windows = (let e = Errorf ''not found'' in
     \<lparr>wo_CombinedOutput = (\<lambda>args envs w. (([], Some e), w)), wo_Lstat = (\<lambda>p. fail e), wo_IsNotExist = (\<lambda>e. True),
      wo_Readlink = (\<lambda>p. fail e), wo_MkdirAll = (\<lambda>p. ret ()), wo_Remove = (\<lambda>p. ret ()), wo_RemoveAll = (\<lambda>p. ret ()),
      wo_Symlink = (\<lambda>s t. ret ()), wo_Open = (\<lambda>p. fail e), wo_Close = (\<lambda>h. ret ()), wo_InvalidHandle = -1,
      wo_DeviceIoControl = (\<lambda>h c i n. fail e), wo_Unmarshal_rows = (\<lambda>s. Err e), wo_Unmarshal_disks = (\<lambda>s. Err e),
      wo_Unmarshal_sizes = (\<lambda>s. Err e)\<rparr>)"

definition no_usages :: "unit stats_cache" where
  "no_usages = \<lparr>usage_Get = (\<lambda>v. ret None), usage_Set = (\<lambda>v u w. w)\<rparr>"

theorem windows_mounter_contract_witness:
  "\<exists>M. NewSafeMounter no_clients no_windows True False () = (Ok M, ()) \<and>
     GetVolumeStats_windows no_usages (CSIProxyMounter M) ''v'' ''/mnt'' () = (Panic, ()) \<and>
     wm_IsMountPoint M ''/mnt'' () = (Err ErrNotExist, ()) \<and>
     preparePublishPath_windows (CSIProxyMounter M) ''/mnt'' = preparePublishPath_windows (CSIProxyMounter M) (''c:'' @ [BACKSLASH] @ ''mnt'')"
proof -
  let ?M = "winMounter no_windows"
  have m: "NewSafeMounter no_clients no_windows True False () = (Ok ?M, ())" by (simp add: NewSafeMounter_def Let_def)
  have "normalizeWindowsPath ''/mnt'' = normalizeWindowsPath (''c:'' @ [BACKSLASH] @ ''mnt'')"
    "wm_ExistsPath ?M ''/mnt'' () = (Ok False, ())" "usage_Get no_usages ''v'' () = (Ok None, ())" by code_simp+
  moreover have "\<not> is_Ok (fst (wm_GetVolumeStats ?M ''/mnt'' ())) \<and> fst (wm_GetVolumeStats ?M ''/mnt'' ()) \<noteq> Panic"
    by code_simp
  then obtain e where "wm_GetVolumeStats ?M ''/mnt'' () = (Err e, ())"
    by (cases "wm_GetVolumeStats ?M ''/mnt'' ()"; cases "fst (wm_GetVolumeStats ?M ''/mnt'' ())") auto
  ultimately show ?thesis
    using m windows_mounter_contract [OF m refl, of "''/mnt''" "''c:'' @ [BACKSLASH] @ ''mnt''" _ _ _ "()" "()" no_usages "''v''" "''/mnt''" _ "()" e]
    by blast
qed

end
