(* ===== verification/WindowsStorage.thy ===== *)
theory WindowsStorage
  imports WindowsPaths
begin

text \<open>
  Disks and volumes of a Windows host process: staging a disk partitions and formats it when needed and
  never touches a volume that has a file system; a resize never shrinks; the LUN of a disk is read from the
  text of its location; the identifiers of a disk are read back from the bytes of the device. What the
  PowerShell commands do is the hypothesis \<open>storage_host\<close>, on a view of the host as disks, volumes and
  access paths.
\<close>

section \<open>Staging a disk\<close>

record win_view =
  wv_initialized :: "int set"
  wv_volumes :: "int \<Rightarrow> string list"
  wv_formatted :: "string set"
  wv_contents :: "string \<Rightarrow> string"
  wv_access :: "(string \<times> string) set"

text \<open>
  What the commands about disk \<open>n\<close> do. The questions change nothing and, when they succeed, answer for the
  state they find. A command that fails has not had its effect, except that formatting may have left
  anything on its own volume. The volume of a new partition has no file system.
\<close>

definition asks :: "'w win_os \<Rightarrow> ('w \<Rightarrow> win_view) \<Rightarrow> string \<Rightarrow> string list \<Rightarrow> (string \<Rightarrow> win_view \<Rightarrow> bool) \<Rightarrow> bool" where
  "asks K view c e P \<longleftrightarrow> (\<forall>w out err w'. RunPowershellCmd K c e w = (Ok (out, err), w') \<longrightarrow>
     view w' = view w \<and> (err = None \<longrightarrow> P out (view w)))"

definition acts :: "'w win_os \<Rightarrow> ('w \<Rightarrow> win_view) \<Rightarrow> string \<Rightarrow> string list \<Rightarrow> (win_view \<Rightarrow> win_view \<Rightarrow> bool) \<Rightarrow> bool" where
  "acts K view c e P \<longleftrightarrow> (\<forall>w out err w'. RunPowershellCmd K c e w = (Ok (out, err), w') \<longrightarrow>
     (if err = None then P (view w) (view w') else view w' = view w))"

definition format_fails :: "'w win_os \<Rightarrow> ('w \<Rightarrow> win_view) \<Rightarrow> string \<Rightarrow> bool" where
  "format_fails K view v \<longleftrightarrow> (\<forall>w out err w'. RunPowershellCmd K format_cmd (volume_env v) w = (Ok (out, Some err), w') \<longrightarrow>
     (\<exists>c f. view w' = (view w)\<lparr>wv_formatted := f, wv_contents := (wv_contents (view w))(v := c)\<rparr> \<and>
        f - {v} = wv_formatted (view w) - {v}))"

definition storage_host :: "'w win_os \<Rightarrow> ('w \<Rightarrow> win_view) \<Rightarrow> int \<Rightarrow> bool" where
  "storage_host K view n \<longleftrightarrow>
     acts K view (set_disk_cmd n True) [] (\<lambda>V V'. V' = V) \<and>
     asks K view (raw_disk_cmd n) [] (\<lambda>out V. out = [] \<longleftrightarrow> n \<in> wv_initialized V) \<and>
     acts K view (initialize_cmd n) [] (\<lambda>V V'. V' = V\<lparr>wv_initialized := insert n (wv_initialized V)\<rparr>) \<and>
     asks K view (partitions_cmd n) [] (\<lambda>out V. out = [] \<longleftrightarrow> wv_volumes V n = []) \<and>
     acts K view (new_partition_cmd n) [] (\<lambda>V V'. \<exists>v. v \<notin> wv_formatted V \<and>
       V' = V\<lparr>wv_volumes := (wv_volumes V)(n := wv_volumes V n @ [v])\<rparr>) \<and>
     asks K view (volumes_cmd n 0) [] (\<lambda>out V. wv_volumes V n \<noteq> [] \<longrightarrow>
       Split2 (TrimSpace out) (CHR 0x0D) (CHR 0x0A) = wv_volumes V n) \<and>
     (\<forall>v. asks K view formatted_cmd (volume_env v) (\<lambda>out V.
         (TrimSpace out = [] \<or> EqualFold (TrimSpace out) ''Unknown'') \<longleftrightarrow> v \<notin> wv_formatted V) \<and>
       (\<forall>w out w'. RunPowershellCmd K format_cmd (volume_env v) w = (Ok (out, None), w') \<longrightarrow>
         view w' = (view w)\<lparr>wv_formatted := insert v (wv_formatted (view w)), wv_contents := (wv_contents (view w))(v := [])\<rparr>) \<and>
       format_fails K view v \<and>
       (\<forall>p. acts K view mount_cmd (volume_env v @ [''path='' @ p]) (\<lambda>V V'.
         V' = V\<lparr>wv_access := insert (p, v) (wv_access V)\<rparr>)))"

text \<open>Volumes with a file system keep it and what is on them.\<close>

definition keeps_data :: "win_view \<Rightarrow> win_view \<Rightarrow> bool" where
  "keeps_data V V' \<longleftrightarrow> (\<forall>v \<in> wv_formatted V. v \<in> wv_formatted V' \<and> wv_contents V' v = wv_contents V v)"

lemma keeps_data_order: "keeps_data V V" "keeps_data V V' \<Longrightarrow> keeps_data V' V'' \<Longrightarrow> keeps_data V V''"
  by (simp_all add: keeps_data_def)

text \<open>A disk that is initialised and has a volume, a new one when it had none.\<close>

definition partitioned :: "int \<Rightarrow> win_view \<Rightarrow> win_view \<Rightarrow> bool" where
  "partitioned n V V' \<longleftrightarrow>
     (\<exists>v vs. V' = V\<lparr>wv_initialized := insert n (wv_initialized V), wv_volumes := (wv_volumes V)(n := v # vs)\<rparr> \<and>
        (if wv_volumes V n = [] then vs = [] \<and> v \<notin> wv_formatted V else wv_volumes V n = v # vs))"

text \<open>What staging promises: the first volume of the disk has a file system, a new and empty one if it had
  none, and is at the path.\<close>

definition staged_at :: "int \<Rightarrow> string \<Rightarrow> win_view \<Rightarrow> win_view \<Rightarrow> bool" where
  "staged_at n p V V' \<longleftrightarrow>
     (\<exists>v vs V1. partitioned n V V1 \<and> wv_volumes V1 n = v # vs \<and>
        V' = V1\<lparr>wv_formatted := insert v (wv_formatted V),
               wv_contents := (if v \<in> wv_formatted V then wv_contents V else (wv_contents V)(v := [])),
               wv_access := insert (p, v) (wv_access V)\<rparr>)"

lemma asksD:
  "asks K view c e P \<Longrightarrow> RunPowershellCmd K c e w = (Ok (out, err), w') \<Longrightarrow> view w' = view w"
  "asks K view c e P \<Longrightarrow> RunPowershellCmd K c e w = (Ok (out, None), w') \<Longrightarrow> P out (view w)"
  by (auto simp: asks_def)

lemma actsD:
  "acts K view c e P \<Longrightarrow> RunPowershellCmd K c e w = (Ok (out, None), w') \<Longrightarrow> P (view w) (view w')"
  "acts K view c e P \<Longrightarrow> RunPowershellCmd K c e w = (Ok (out, Some err), w') \<Longrightarrow> view w' = view w"
  by (fastforce simp: acts_def)+

lemma storage_hostD:
  assumes "storage_host K view n"
  shows "acts K view (set_disk_cmd n True) [] (\<lambda>V V'. V' = V)"
    and "asks K view (raw_disk_cmd n) [] (\<lambda>out V. out = [] \<longleftrightarrow> n \<in> wv_initialized V)"
    and "acts K view (initialize_cmd n) [] (\<lambda>V V'. V' = V\<lparr>wv_initialized := insert n (wv_initialized V)\<rparr>)"
    and "asks K view (partitions_cmd n) [] (\<lambda>out V. out = [] \<longleftrightarrow> wv_volumes V n = [])"
    and "acts K view (new_partition_cmd n) [] (\<lambda>V V'. \<exists>v. v \<notin> wv_formatted V \<and>
       V' = V\<lparr>wv_volumes := (wv_volumes V)(n := wv_volumes V n @ [v])\<rparr>)"
    and "asks K view (volumes_cmd n 0) [] (\<lambda>out V. wv_volumes V n \<noteq> [] \<longrightarrow>
       Split2 (TrimSpace out) (CHR 0x0D) (CHR 0x0A) = wv_volumes V n)"
    and "asks K view formatted_cmd (volume_env v) (\<lambda>out V.
       (TrimSpace out = [] \<or> EqualFold (TrimSpace out) ''Unknown'') \<longleftrightarrow> v \<notin> wv_formatted V)"
    and "acts K view mount_cmd (volume_env v @ [''path='' @ p]) (\<lambda>V V'. V' = V\<lparr>wv_access := insert (p, v) (wv_access V)\<rparr>)"
    and "RunPowershellCmd K format_cmd (volume_env v) w = (Ok (out, None), w') \<Longrightarrow>
       view w' = (view w)\<lparr>wv_formatted := insert v (wv_formatted (view w)), wv_contents := (wv_contents (view w))(v := [])\<rparr>"
    and "format_fails K view v"
  using assms unfolding storage_host_def by simp_all

section \<open>The operations on the view\<close>

lemma SetDiskState_view:
  "storage_host K view n \<Longrightarrow> SetDiskState K n True w = (r, w') \<Longrightarrow> view w' = view w \<and> r \<noteq> Panic"
  unfolding SetDiskState_def by (erule powershell_cases) (auto dest: actsD [OF storage_hostD(1)])

lemma IsDiskInitialized_view:
  "storage_host K view n \<Longrightarrow> IsDiskInitialized K n w = (r, w') \<Longrightarrow>
    view w' = view w \<and> (\<forall>b. r = Ok b \<longrightarrow> b = (n \<in> wv_initialized (view w)))"
  unfolding IsDiskInitialized_def by (erule powershell_cases) (auto dest: asksD [OF storage_hostD(2)])

lemma InitializeDisk_view:
  "storage_host K view n \<Longrightarrow> InitializeDisk K n w = (r, w') \<Longrightarrow>
    (if r = Ok () then view w' = (view w)\<lparr>wv_initialized := insert n (wv_initialized (view w))\<rparr> else view w' = view w)"
  unfolding InitializeDisk_def by (erule powershell_cases) (auto dest: actsD [OF storage_hostD(3)])

lemma BasicPartitionsExist_view:
  "storage_host K view n \<Longrightarrow> BasicPartitionsExist K n w = (r, w') \<Longrightarrow>
    view w' = view w \<and> (\<forall>b. r = Ok b \<longrightarrow> b = (wv_volumes (view w) n \<noteq> []))"
  unfolding BasicPartitionsExist_def by (erule powershell_cases) (auto dest: asksD [OF storage_hostD(4)])

lemma CreateBasicPartition_view:
  "storage_host K view n \<Longrightarrow> CreateBasicPartition K n w = (r, w') \<Longrightarrow>
    (if r = Ok () then \<exists>v. v \<notin> wv_formatted (view w) \<and>
       view w' = (view w)\<lparr>wv_volumes := (wv_volumes (view w))(n := wv_volumes (view w) n @ [v])\<rparr> else view w' = view w)"
  unfolding CreateBasicPartition_def by (erule powershell_cases) (auto dest: actsD [OF storage_hostD(5)])

lemma ListVolumesOnDisk_view:
  "storage_host K view n \<Longrightarrow> ListVolumesOnDisk K n 0 w = (r, w') \<Longrightarrow>
    view w' = view w \<and> (\<forall>vs. r = Ok vs \<longrightarrow> wv_volumes (view w) n \<noteq> [] \<longrightarrow> vs = wv_volumes (view w) n)"
  unfolding ListVolumesOnDisk_def Let_def by (erule powershell_cases) (auto dest: asksD [OF storage_hostD(6)])

lemma IsVolumeFormatted_view:
  "storage_host K view n \<Longrightarrow> IsVolumeFormatted K v w = (r, w') \<Longrightarrow>
    view w' = view w \<and> (\<forall>b. r = Ok b \<longrightarrow> b = (v \<in> wv_formatted (view w)))"
  unfolding IsVolumeFormatted_def Let_def by (erule powershell_cases) (auto dest: asksD [OF storage_hostD(7)])

lemma FormatVolume_view:
  assumes "storage_host K view n" "FormatVolume K v w = (r, w')" "v \<notin> wv_formatted (view w)"
  shows "keeps_data (view w) (view w')"
    and "r = Ok () \<Longrightarrow> view w' =
      (view w)\<lparr>wv_formatted := insert v (wv_formatted (view w)), wv_contents := (wv_contents (view w))(v := [])\<rparr>"
  using assms(2) unfolding FormatVolume_def
  by (cases rule: powershell_cases; use assms(3) storage_hostD(9,10) [OF assms(1), of v] in
      \<open>fastforce simp: keeps_data_def format_fails_def\<close>)+

lemma MountVolume_view:
  "storage_host K view n \<Longrightarrow> MountVolume K v p w = (r, w') \<Longrightarrow>
    (if r = Ok () then view w' = (view w)\<lparr>wv_access := insert (p, v) (wv_access (view w))\<rparr> else view w' = view w)"
  unfolding MountVolume_def by (erule powershell_cases) (auto dest: actsD [OF storage_hostD(8)])

lemma initialize_view:
  assumes "storage_host K view n" "bind (IsDiskInitialized K n)
      (\<lambda>b. bind (if b then ret () else InitializeDisk K n) k) w = (r, w')"
  obtains w1 where "view w1 = (view w)\<lparr>wv_initialized := insert n (wv_initialized (view w))\<rparr>" "k () w1 = (r, w')"
    | "view w' = view w" "\<not> is_Ok r"
  using assms(2)
proof (cases rule: bind_cases)
  case (ran b w1)
  note i = IsDiskInitialized_view [OF assms(1) ran(1)]
  show ?thesis
  proof (cases b)
    case True
    with i ran(2) show ?thesis by (intro that(1) [of w1]) (auto simp: insert_absorb)
  next
    case False
    with ran(2) have "bind (InitializeDisk K n) k w1 = (r, w')" by simp
    then show ?thesis
      by (cases rule: bind_cases; use InitializeDisk_view [OF assms(1)] i that in \<open>force split: if_splits\<close>)
  qed
qed (use IsDiskInitialized_view [OF assms(1)] that in auto)

lemma PartitionDisk_view:
  assumes "storage_host K view n" "PartitionDisk K n w = (r, w')"
  shows "keeps_data (view w) (view w')" and "r = Ok () \<Longrightarrow> partitioned n (view w) (view w')"
proof -
  have "keeps_data (view w) (view w') \<and> (r = Ok () \<longrightarrow> partitioned n (view w) (view w'))"
    using assms(2) unfolding PartitionDisk_def
  proof (rule initialize_view [OF assms(1)])
    fix w1
    let ?V = "(view w)\<lparr>wv_initialized := insert n (wv_initialized (view w))\<rparr>"
    assume v: "view w1 = ?V" and "bind (BasicPartitionsExist K n)
      (\<lambda>partitioned. if partitioned then ret () else CreateBasicPartition K n) w1 = (r, w')"
    from this(2) show ?thesis
    proof (cases rule: bind_cases)
      case (ran b w2)
      note p = BasicPartitionsExist_view [OF assms(1) ran(1)]
      show ?thesis
      proof (cases b)
        case True
        with p ran(2) v show ?thesis
          by (cases "wv_volumes (view w) n") (auto simp: partitioned_def keeps_data_def fun_upd_idem)
      next
        case False
        with p ran(2) v CreateBasicPartition_view [OF assms(1), of w2 r w'] show ?thesis
          by (auto simp: partitioned_def keeps_data_def split: if_splits)
      qed
    qed (use BasicPartitionsExist_view [OF assms(1)] v in \<open>auto simp: keeps_data_def\<close>)
  next
    assume "view w' = view w" "\<not> is_Ok r"
    then show ?thesis by (auto simp: keeps_data_def)
  qed
  then show "keeps_data (view w) (view w')" "r = Ok () \<Longrightarrow> partitioned n (view w) (view w')" by simp_all
qed
lemma format_mount_view:
  assumes "storage_host K view n" "bind (IsVolumeFormatted K v)
      (\<lambda>formatted. bind (if \<not> formatted then FormatVolume K v else ret ()) (\<lambda>_. MountVolume K v p)) w = (r, w')"
  shows "keeps_data (view w) (view w')"
    and "r = Ok () \<Longrightarrow> view w' = (view w)\<lparr>wv_formatted := insert v (wv_formatted (view w)),
      wv_contents := (if v \<in> wv_formatted (view w) then wv_contents (view w) else (wv_contents (view w))(v := [])),
      wv_access := insert (p, v) (wv_access (view w))\<rparr>"
proof -
  have "keeps_data (view w) (view w') \<and> (r = Ok () \<longrightarrow> view w' = (view w)\<lparr>wv_formatted := insert v (wv_formatted (view w)),
      wv_contents := (if v \<in> wv_formatted (view w) then wv_contents (view w) else (wv_contents (view w))(v := [])),
      wv_access := insert (p, v) (wv_access (view w))\<rparr>)"
    using assms(2)
  proof (cases rule: bind_cases)
    case (ran b w1)
    note f = IsVolumeFormatted_view [OF assms(1) ran(1)]
    show ?thesis
    proof (cases b)
      case True
      with f ran(2) MountVolume_view [OF assms(1), of v p w1 r w'] show ?thesis
        by (auto simp: keeps_data_def insert_absorb split: if_splits)
    next
      case False
      with f have nv: "v \<notin> wv_formatted (view w1)" by auto
      from False ran(2) have "bind (FormatVolume K v) (\<lambda>_. MountVolume K v p) w1 = (r, w')" by simp
      then show ?thesis
      proof (cases rule: bind_cases)
        case m: (ran u w2)
        with FormatVolume_view [OF assms(1) m(1) nv] MountVolume_view [OF assms(1) m(2)] f nv show ?thesis
          by (auto simp: keeps_data_def split: if_splits)
      qed (use FormatVolume_view(1) [OF assms(1) _ nv] f in auto)
    qed
  qed (use IsVolumeFormatted_view [OF assms(1)] in \<open>auto simp: keeps_data_def\<close>)
  then show "keeps_data (view w) (view w')" "r = Ok () \<Longrightarrow> view w' = (view w)\<lparr>wv_formatted := insert v (wv_formatted (view w)),
      wv_contents := (if v \<in> wv_formatted (view w) then wv_contents (view w) else (wv_contents (view w))(v := [])),
      wv_access := insert (p, v) (wv_access (view w))\<rparr>" by simp_all
qed

lemma Split2_nonempty [simp]: "Split2 s a b \<noteq> []"
  by (induction s a b rule: Split2.induct) (auto split: list.splits)

lemma volumes_view:
  assumes "storage_host K view n" "wv_volumes (view w) n = v # vs"
    "bind (ListVolumesOnDisk K n 0) (\<lambda>volumeIds. case volumeIds of [] \<Rightarrow> fail e | v # _ \<Rightarrow> k v) w = (r, w')"
  obtains w1 where "view w1 = view w" "k v w1 = (r, w')" | "view w' = view w" "\<not> is_Ok r"
  using assms(3)
proof (cases rule: bind_cases)
  case (ran us w1)
  then have "view w1 = view w" "us = v # vs" using ListVolumesOnDisk_view [OF assms(1) ran(1)] assms(2) by simp_all
  with ran(2) show ?thesis by (intro that(1) [of w1]) simp_all
qed (use ListVolumesOnDisk_view [OF assms(1)] that(2) in auto)

lemma FormatAndMount_from:
  assumes "storage_host K view n" "bind (PartitionDisk K n)
      (\<lambda>_. bind (ListVolumesOnDisk K n 0)
        (\<lambda>volumeIds. case volumeIds of [] \<Rightarrow> fail e
          | v # _ \<Rightarrow> bind (IsVolumeFormatted K v)
              (\<lambda>formatted. bind (if \<not> formatted then FormatVolume K v else ret ()) (\<lambda>_. MountVolume K v p)))) w = (r, w')"
  shows "keeps_data (view w) (view w') \<and> (r = Ok () \<longrightarrow> staged_at n p (view w) (view w'))"
  using assms(2)
proof (cases rule: bind_cases)
  case (ran u w1)
  then have p: "keeps_data (view w) (view w1)" "partitioned n (view w) (view w1)"
    using PartitionDisk_view [OF assms(1) ran(1)] by simp_all
  from p(2) obtain v vs where ne: "wv_volumes (view w1) n = v # vs" by (auto simp: partitioned_def)
  from p(2) have same: "wv_formatted (view w1) = wv_formatted (view w)" "wv_contents (view w1) = wv_contents (view w)"
    "wv_access (view w1) = wv_access (view w)" by (auto simp: partitioned_def)
  show ?thesis
  proof (rule volumes_view [OF assms(1) ne ran(2)])
    fix w2
    assume v: "view w2 = view w1"
      and "bind (IsVolumeFormatted K v)
        (\<lambda>formatted. bind (if \<not> formatted then FormatVolume K v else ret ()) (\<lambda>_. MountVolume K v p)) w2 = (r, w')"
    with format_mount_view [OF assms(1) this(2)] p ne same show ?thesis
      unfolding staged_at_def using keeps_data_order(2) [of "view w" "view w1" "view w'"] by fastforce
  next
    assume "view w' = view w1" "\<not> is_Ok r"
    with p show ?thesis by auto
  qed
qed (use PartitionDisk_view [OF assms(1)] in auto)

text \<open>C14. Staging a disk in a Windows host process. Whatever happens, with success or an error at any step, every
  volume of the host that had a file system still has it, with the same contents. When the call succeeds,
  the disk is initialised and partitioned (a new partition only if it had none), its first volume has a file
  system (an empty one if it had none), is at the normalised path, and nothing else has changed.\<close>

theorem windows_staging_refinement:
  assumes "storage_host K view n" "0 \<le> n" "n < 4294967296"
    "formatAndMount_windows (CSIProxyMounter (winMounter K)) (Itoa n) target fstype options w = (r, w')"
  shows "keeps_data (view w) (view w') \<and>
    (r = Ok () \<longrightarrow> staged_at n (normalizeWindowsPath target) (view w) (view w'))"
proof -
  have n: "Atoi (Itoa n) = Ok n" "to_uint32 n = n" using assms(2,3) by (simp_all add: int64_range_def to_uint32_def)
  have *: "bind (call (SetDiskState K n True) (\<lambda>err. ret ()) ret) k w = (r, w') \<Longrightarrow>
      \<exists>w1. view w1 = view w \<and> k () w1 = (r, w')" for k
    using SetDiskState_view [OF assms(1), of w]
    by (auto simp: bind_def call_def split: prod.splits res.splits)
  let ?k = "\<lambda>u. bind (PartitionDisk K n)
      (\<lambda>_. bind (ListVolumesOnDisk K n 0)
        (\<lambda>volumeIds. case volumeIds of [] \<Rightarrow> fail (Errorf (''no volumes found on disk '' @ Itoa n))
          | v # _ \<Rightarrow> bind (IsVolumeFormatted K v)
              (\<lambda>formatted. bind (if \<not> formatted then FormatVolume K v else ret ())
                (\<lambda>_. MountVolume K v (normalizeWindowsPath target)))))"
  have "bind (call (SetDiskState K n True) (\<lambda>err. ret ()) ret) ?k w = (r, w')"
    using assms(4) unfolding formatAndMount_windows_def with_proxy_def mount_interface.case winMounter_def win_mounter.simps
      winMounter_FormatAndMount_def n call_lift res.case .
  from * [OF this] obtain w1 where "view w1 = view w" "?k () w1 = (r, w')" by blast
  with FormatAndMount_from [OF assms(1) this(2)] show ?thesis by simp
qed
text \<open>A host that has one data disk, number 2. Its world is its view.\<close>

definition sim_lines :: "string list \<Rightarrow> string" where
  "sim_lines vs = concat (map (\<lambda>v. v @ [CHR 0x0D, CHR 0x0A]) vs)"

definition sim_powershell :: "string \<Rightarrow> string list \<Rightarrow> win_view \<Rightarrow> (string \<times> go_error option) \<times> win_view" where
  "sim_powershell c envs V =
     (let v = (case envs of [] \<Rightarrow> [] | e # _ \<Rightarrow> drop 9 e);
          p = (case envs of [_, e] \<Rightarrow> drop 5 e | _ \<Rightarrow> []);
          failed = (([], Some (Errorf ''failed'')), V)
      in if c = raw_disk_cmd 2 then ((if 2 \<in> wv_initialized V then [] else ''2'', None), V)
         else if c = initialize_cmd 2 then (([], None), V\<lparr>wv_initialized := insert 2 (wv_initialized V)\<rparr>)
         else if c = partitions_cmd 2 then ((if wv_volumes V 2 = [] then [] else ''1'', None), V)
         else if c = new_partition_cmd 2 then
           (if ''new'' \<in> wv_formatted V then failed
            else (([], None), V\<lparr>wv_volumes := (wv_volumes V)(2 := wv_volumes V 2 @ [''new''])\<rparr>))
         else if c = volumes_cmd 2 0 then
           (let out = sim_lines (wv_volumes V 2)
            in if Split2 (TrimSpace out) (CHR 0x0D) (CHR 0x0A) = wv_volumes V 2 then ((out, None), V) else failed)
         else if c = formatted_cmd then ((if v \<in> wv_formatted V then ''NTFS'' else [], None), V)
         else if c = format_cmd then
           (([], None), V\<lparr>wv_formatted := insert v (wv_formatted V), wv_contents := (wv_contents V)(v := [])\<rparr>)
         else if c = mount_cmd then (([], None), V\<lparr>wv_access := insert (p, v) (wv_access V)\<rparr>)
         else (([], None), V))"

definition sim_windows :: "win_view win_os" where
  "sim_windows = no_windows\<lparr>wo_CombinedOutput := (\<lambda>args. sim_powershell (last args))\<rparr>"

lemma sim_windows_run: "RunPowershellCmd sim_windows c envs V = (case sim_powershell c envs V of (output, V') \<Rightarrow> (Ok output, V'))"
  by (simp add: RunPowershellCmd_def sim_windows_def)

lemma sim_commands: "distinct [set_disk_cmd 2 True, raw_disk_cmd 2, initialize_cmd 2, partitions_cmd 2, new_partition_cmd 2,
    volumes_cmd 2 0, formatted_cmd, format_cmd, mount_cmd]"
  by code_simp

lemma sim_storage_host: "storage_host sim_windows (\<lambda>V. V) 2"
proof -
  note d = sim_commands sim_commands [THEN distinct_rev [THEN iffD2]]
  have v: "volume_env v = [''volumeID='' @ v]" for v by (simp add: volume_env_def)
  have f: "TrimSpace ''NTFS'' = ''NTFS''" "\<not> EqualFold ''NTFS'' ''Unknown''" by code_simp+
  show ?thesis unfolding storage_host_def
    by (intro conjI allI; use d in \<open>auto simp: asks_def acts_def format_fails_def sim_windows_run sim_powershell_def v f Let_def
        split: if_splits\<close>)
qed

definition sim_full_disk :: win_view where
  "sim_full_disk = \<lparr>wv_initialized = {2}, wv_volumes = (\<lambda>n. if n = 2 then [''v''] else []), wv_formatted = {''v''},
     wv_contents = (\<lambda>v. if v = ''v'' then ''data'' else []), wv_access = {}\<rparr>"

theorem windows_staging_refinement_witness:
  "\<exists>V'. formatAndMount_windows (CSIProxyMounter (winMounter sim_windows)) (Itoa 2) ''/mnt'' ''ntfs'' [] sim_full_disk = (Ok (), V') \<and>
     keeps_data sim_full_disk V' \<and> staged_at 2 (normalizeWindowsPath ''/mnt'') sim_full_disk V' \<and> wv_contents V' ''v'' = ''data''"
proof -
  let ?r = "formatAndMount_windows (CSIProxyMounter (winMounter sim_windows)) (Itoa 2) ''/mnt'' ''ntfs'' [] sim_full_disk"
  have "is_Ok (fst ?r)" by code_simp
  then obtain V' where r: "?r = (Ok (), V')" by (cases ?r; cases "fst ?r") auto
  with windows_staging_refinement [OF sim_storage_host _ _ r]
  show ?thesis by (auto simp: keeps_data_def sim_full_disk_def)
qed

section \<open>Resizing\<close>

text \<open>A host that knows the size of the volume and the largest size its partition can have; a resize that fails
  leaves the size as it is.\<close>

definition sizing_host :: "'w win_os \<Rightarrow> ('w \<Rightarrow> int) \<Rightarrow> ('w \<Rightarrow> int) \<Rightarrow> string \<Rightarrow> bool" where
  "sizing_host K cur most v \<longleftrightarrow>
     (\<forall>c w out err w'. c \<in> {supported_size_cmd, size_cmd} \<longrightarrow>
        RunPowershellCmd K c (volume_env v) w = (Ok (out, err), w') \<longrightarrow> cur w' = cur w) \<and>
     (\<forall>w out m w'. RunPowershellCmd K supported_size_cmd (volume_env v) w = (Ok (out, None), w') \<longrightarrow>
        wo_Unmarshal_sizes K out = Ok m \<longrightarrow> size_in m ''SizeMax'' = most w) \<and>
     (\<forall>w out n w'. RunPowershellCmd K size_cmd (volume_env v) w = (Ok (out, None), w') \<longrightarrow>
        Atoi (TrimSpace out) = Ok n \<longrightarrow> n = cur w) \<and>
     (\<forall>n w out err w'. RunPowershellCmd K (resize_cmd n) (volume_env v) w = (Ok (out, err), w') \<longrightarrow>
        cur w' = (if err = None then n else cur w))"

lemma sizing_hostD:
  assumes "sizing_host K cur most v"
  shows "RunPowershellCmd K supported_size_cmd (volume_env v) w = (Ok (out, err), w') \<Longrightarrow> cur w' = cur w"
    and "RunPowershellCmd K size_cmd (volume_env v) w = (Ok (out, err), w') \<Longrightarrow> cur w' = cur w"
    and "RunPowershellCmd K supported_size_cmd (volume_env v) w = (Ok (out, None), w') \<Longrightarrow>
      wo_Unmarshal_sizes K out = Ok m \<Longrightarrow> size_in m ''SizeMax'' = most w"
    and "RunPowershellCmd K size_cmd (volume_env v) w = (Ok (out, None), w') \<Longrightarrow> Atoi (TrimSpace out) = Ok n \<Longrightarrow> n = cur w"
    and "RunPowershellCmd K (resize_cmd n) (volume_env v) w = (Ok (out, err), w') \<Longrightarrow> cur w' = (if err = None then n else cur w)"
  using assms unfolding sizing_host_def by (elim conjE; meson insertCI)+

lemma final_size_host:
  assumes "sizing_host K cur most v" "final_size K v sz w = (r, w')"
  shows "cur w' = cur w" "r = Ok n \<Longrightarrow> n = (if sz = 0 then most w else sz)"
proof -
  obtain out err w1 where c: "RunPowershellCmd K supported_size_cmd (volume_env v) w = (Ok (out, err), w1)"
    using RunPowershellCmd_Ok [of K supported_size_cmd "volume_env v" w] by blast
  with assms(2) sizing_hostD(1,3) [OF assms(1)]
  show "cur w' = cur w" "r = Ok n \<Longrightarrow> n = (if sz = 0 then most w else sz)"
    by (auto simp: final_size_def bind_def call_def split: if_splits res.splits)
qed

lemma getVolumeSize_host:
  assumes "sizing_host K cur most v" "getVolumeSize K v w = (r, w')"
  shows "cur w' = cur w" "r = Ok n \<Longrightarrow> n = cur w"
proof -
  obtain out err w1 where c: "RunPowershellCmd K size_cmd (volume_env v) w = (Ok (out, err), w1)"
    using RunPowershellCmd_Ok [of K size_cmd "volume_env v" w] by blast
  with assms(2) sizing_hostD(2,4) [OF assms(1)] show "cur w' = cur w" "r = Ok n \<Longrightarrow> n = cur w"
    by (auto simp: getVolumeSize_def bind_def call_def Let_def split: if_splits res.splits)
qed

lemma ResizeVolume_host:
  assumes "sizing_host K cur most v" "volume_ResizeVolume K v sz w = (r, w')"
  shows "cur w \<le> cur w'" "r = Ok () \<Longrightarrow> cur w' = max (cur w) (if sz = 0 then most w else sz)"
proof -
  note resized = sizing_hostD(5) [OF assms(1)]
  have "cur w \<le> cur w' \<and> (r = Ok () \<longrightarrow> cur w' = max (cur w) (if sz = 0 then most w else sz))"
    using assms(2) unfolding volume_ResizeVolume_def
  proof (cases rule: bind_cases)
    case (ran n w1)
    note f = final_size_host [OF assms(1) ran(1)]
    obtain r2 w2 where g: "getVolumeSize K v w1 = (r2, w2)" by fastforce
    note s = getVolumeSize_host [OF assms(1) g]
    show ?thesis
    proof (cases r2)
      case (Ok m)
      show ?thesis
      proof (cases "n \<le> m")
        case True
        with Ok ran(2) g f s show ?thesis by (auto simp: call_def)
      next
        case False
        with Ok ran(2) g obtain msg where "powershell K (resize_cmd n) (volume_env v) msg (\<lambda>_. ret ()) w2 = (r, w')"
          by (auto simp: call_def)
        then show ?thesis
          by (cases rule: powershell_cases; use False Ok f s in \<open>force dest: resized\<close>)
      qed
    qed (use ran(2) g f s in \<open>auto simp: call_def\<close>)
  qed (use final_size_host [OF assms(1)] in auto)
  then show "cur w \<le> cur w'" "r = Ok () \<Longrightarrow> cur w' = max (cur w) (if sz = 0 then most w else sz)" by auto
qed

text \<open>C31. A volume on Windows never gets smaller. Whatever a resize answers, the size afterwards is at least the
  size before; and when it succeeds, the volume has the larger of its old size and the size that was asked
  for, which for a resize by the node is the largest that its partition can have.\<close>

theorem windows_resize_never_shrinks:
  assumes "sizing_host K cur most v"
  shows "(volume_ResizeVolume K v sz w = (r, w') \<longrightarrow> cur w \<le> cur w' \<and>
      (r = Ok () \<longrightarrow> cur w' = max (cur w) (if sz = 0 then most w else sz))) \<and>
    (resizeVolume_windows (CSIProxyMounter (winMounter K)) v path w = (r', w') \<longrightarrow> cur w \<le> cur w' \<and>
      (r' = Ok () \<longrightarrow> cur w' = max (cur w) (most w)))"
  using ResizeVolume_host [OF assms, of sz w r w'] ResizeVolume_host [OF assms, of 0 w _ w']
  by (fastforce simp: resizeVolume_windows_def with_proxy_def winMounter_def winMounter_ResizeVolume_def call_def
      split: prod.splits res.splits)

text \<open>A host whose world is the size of the one volume it has, at most 100.\<close>

definition sim_sizes :: "int win_os" where
  "sim_sizes = no_windows
     \<lparr>wo_CombinedOutput := (\<lambda>args envs w.
        if last args = supported_size_cmd then ((''max'', None), w)
        else if last args = size_cmd then
          (if int64_range w then ((Itoa w, None), w) else (([], Some (Errorf ''too large'')), w))
        else (([], None), Itoa_value (drop (length (resize_cmd 0) - 1) (last args)))),
      wo_Unmarshal_sizes := (\<lambda>s. Ok [(''SizeMax'', 100)])\<rparr>"

lemma resize_cmd_ne: "resize_cmd n \<noteq> size_cmd" "resize_cmd n \<noteq> supported_size_cmd" "size_cmd \<noteq> supported_size_cmd"
  by (simp_all add: resize_cmd_def size_cmd_def supported_size_cmd_def get_volume_def)

lemma sim_sizing_host: "sizing_host sim_sizes (\<lambda>w. w) (\<lambda>w. 100) v"
proof -
  have "Itoa 0 = ''0''" by code_simp
  then have l: "drop (length (resize_cmd 0) - 1) (resize_cmd n) = Itoa n" for n by (simp add: resize_cmd_def)
  show ?thesis unfolding sizing_host_def
    by (intro conjI; auto simp: RunPowershellCmd_def sim_sizes_def resize_cmd_ne size_in_def l [unfolded One_nat_def] Itoa_value_Itoa
        split: if_splits)
qed

theorem windows_resize_never_shrinks_witness:
  "\<exists>w'. resizeVolume_windows (CSIProxyMounter (winMounter sim_sizes)) ''v'' ''/mnt'' 40 = (Ok (), w') \<and> w' = 100 \<and>
     (\<exists>w''. volume_ResizeVolume sim_sizes ''v'' 30 40 = (Ok (), w'') \<and> w'' = 40)"
proof -
  let ?r = "resizeVolume_windows (CSIProxyMounter (winMounter sim_sizes)) ''v'' ''/mnt'' 40"
  let ?q = "volume_ResizeVolume sim_sizes ''v'' 30 40"
  have "is_Ok (fst ?r)" "is_Ok (fst ?q)" by code_simp+
  then obtain w' w'' where r: "?r = (Ok (), w')" "?q = (Ok (), w'')"
    by (cases ?r; cases "fst ?r"; cases ?q; cases "fst ?q") auto
  then show ?thesis
    using windows_resize_never_shrinks [OF sim_sizing_host, of "''v''" 30 40 "Ok ()" w'' "''/mnt''" Panic]
      windows_resize_never_shrinks [OF sim_sizing_host, of "''v''" 0 40 Panic w' "''/mnt''" "Ok ()"] by simp
qed

end
