(* ===== verification/WindowsDisks.thy ===== *)
theory WindowsDisks
  imports WindowsPaths
begin

text \<open>
  Finding disks and volumes on Windows: the LUN of a disk from the text of its location, the identifiers of a
  disk from the bytes of the device, and the volume behind a chain of links.
\<close>

section \<open>The disk of a LUN\<close>

text \<open>A data disk as PowerShell reports it.\<close>

record reported_disk =
  rd_number :: int
  rd_slot :: int
  rd_adapter :: int
  rd_port :: int
  rd_target :: int
  rd_lun :: int

definition location_text :: "reported_disk \<Rightarrow> string" where
  "location_text d = ''PCI Slot '' @ Itoa (rd_slot d) @ '' : Adapter '' @ Itoa (rd_adapter d) @ '' : Port '' @ Itoa (rd_port d) @
     '' : Target '' @ Itoa (rd_target d) @ '' : LUN '' @ Itoa (rd_lun d)"

definition location_row :: "reported_disk \<Rightarrow> (string \<times> json) list" where
  "location_row d = [(''Number'', JNumber (rd_number d)), (''Location'', JString (location_text d))]"

lemma Itoa_chars: "c \<in> set (Itoa n) \<Longrightarrow> c \<noteq> CHR '':'' \<and> c \<noteq> CHR '' ''"
proof -
  have "c \<in> set (nat_str k) \<Longrightarrow> c \<noteq> CHR '':'' \<and> c \<noteq> CHR '' ''" for k
    using nat_str_digits [of k] by (auto simp: list_all_iff IsDigit_def)
  then show "c \<in> set (Itoa n) \<Longrightarrow> c \<noteq> CHR '':'' \<and> c \<noteq> CHR '' ''" by (auto simp: Itoa_def split: if_splits)
qed

lemma TrimSpace_pad:
  assumes "list_all is_space a" "list_all is_space b" "s \<noteq> []" "\<not> is_space (hd s)" "\<not> is_space (last s)"
  shows "TrimSpace (a @ s @ b) = s"
proof -
  have drop: "dropWhile is_space (u @ v) = dropWhile is_space v" if "list_all is_space u" for u v
    using that by (induction u) simp_all
  have "dropWhile is_space (a @ s @ b) = s @ b" using assms drop [of a] by (cases s) auto
  moreover have "dropWhile is_space (rev b @ rev s) = rev s" using assms drop [of "rev b" "rev s"]
    by (cases s rule: rev_cases) auto
  ultimately show ?thesis by (simp add: TrimSpace_def)
qed

lemma location_item_pair:
  assumes "list_all is_space a" "list_all is_space b" "key \<noteq> []" "list_all (\<lambda>c. \<not> is_space c) key"
  shows "location_item (a @ key @ CHR '' '' # Itoa n @ b) (d, f) =
    (if key = ''Adapter'' then d\<lparr>loc_Adapter := Itoa n\<rparr> else if key = ''Target'' then d\<lparr>loc_Target := Itoa n\<rparr>
     else if key = ''LUN'' then d\<lparr>loc_LUNID := Itoa n\<rparr> else d, True)"
proof -
  have k: "\<not> is_space (hd key)" "\<not> is_space (last key)" using assms(3,4) by (auto simp: list_all_iff)
  have "\<not> is_space (last (Itoa n))" using Itoa_no_space [of _ n] by simp
  then have "TrimSpace (a @ (key @ CHR '' '' # Itoa n) @ b) = key @ CHR '' '' # Itoa n"
    using assms k by (intro TrimSpace_pad) auto
  moreover have "CHR '' '' \<notin> set key" using assms(4) by (auto simp: list_all_iff is_space_def)
  moreover have "CHR '' '' \<notin> set (Itoa n)" using Itoa_chars by blast
  moreover have "TrimSpace key = key" using k by (intro TrimSpace_id) simp
  ultimately show ?thesis by (simp add: location_item_def Split_append_sep Split_no_sep Let_def)
qed

lemma location_item_slot: "location_item (''PCI Slot '' @ Itoa n @ '' '') st = st"
proof -
  have "\<not> is_space (last (Itoa n))" using Itoa_no_space [of _ n] by simp
  then have "TrimSpace ([] @ (''PCI Slot '' @ Itoa n) @ '' '') = ''PCI Slot '' @ Itoa n"
    by (intro TrimSpace_pad) (auto simp: is_space_def)
  moreover have "CHR '' '' \<notin> set (Itoa n)" using Itoa_chars by blast
  ultimately show ?thesis by (simp add: location_item_def Split_no_sep)
qed

lemma parse_location_text:
  "parse_location (location_text d) = Some \<lparr>loc_Adapter = Itoa (rd_adapter d), loc_Bus = [], loc_Target = Itoa (rd_target d),
     loc_LUNID = Itoa (rd_lun d)\<rparr>"
proof -
  have c: "CHR '':'' \<notin> set (Itoa n)" for n using Itoa_chars by blast
  have eq: "location_text d = (''PCI Slot '' @ Itoa (rd_slot d) @ '' '') @ CHR '':'' # ('' Adapter '' @ Itoa (rd_adapter d) @ '' '') @
     CHR '':'' # ('' Port '' @ Itoa (rd_port d) @ '' '') @ CHR '':'' # ('' Target '' @ Itoa (rd_target d) @ '' '') @
     CHR '':'' # ('' LUN '' @ Itoa (rd_lun d))" by (simp add: location_text_def)
  have s: "Split (location_text d) (CHR '':'') = [''PCI Slot '' @ Itoa (rd_slot d) @ '' '', '' Adapter '' @ Itoa (rd_adapter d) @ '' '',
     '' Port '' @ Itoa (rd_port d) @ '' '', '' Target '' @ Itoa (rd_target d) @ '' '', '' LUN '' @ Itoa (rd_lun d)]"
    unfolding eq by ((subst Split_append_sep, simp add: c)+, simp add: Split_no_sep c)
  have sp: "list_all is_space '' ''" "list_all is_space []" by code_simp+
  have k: "list_all (\<lambda>c. \<not> is_space c) ''Adapter''" "list_all (\<lambda>c. \<not> is_space c) ''Port''"
    "list_all (\<lambda>c. \<not> is_space c) ''Target''" "list_all (\<lambda>c. \<not> is_space c) ''LUN''" by code_simp+
  note item = location_item_pair [OF sp(1,1) _ k(1)] location_item_pair [OF sp(1,1) _ k(2)]
    location_item_pair [OF sp(1,1) _ k(3)] location_item_pair [OF sp _ k(4)]
  show ?thesis unfolding parse_location_def s Let_def
    using item [simplified] location_item_slot [simplified] by (simp add: no_location_def)
qed

definition location_of :: "reported_disk \<Rightarrow> Location" where
  "location_of d = \<lparr>loc_Adapter = Itoa (rd_adapter d), loc_Bus = [], loc_Target = Itoa (rd_target d), loc_LUNID = Itoa (rd_lun d)\<rparr>"

lemma update_absent: "k \<notin> fst ` set m \<Longrightarrow> AList.update k v m = m @ [(k, v)]"
  by (induction m) auto

lemma disk_locations_rows:
  "distinct (map rd_number ds) \<Longrightarrow> \<forall>d \<in> set ds. 0 \<le> rd_number d \<and> rd_number d < 4294967296 \<Longrightarrow>
    fst ` set m \<inter> rd_number ` set ds = {} \<Longrightarrow>
    disk_locations (map location_row ds) m = Ok (m @ map (\<lambda>d. (rd_number d, location_of d)) ds)"
proof (induction ds arbitrary: m)
  case (Cons d ds)
  have "parse_location (location_text d) = Some (location_of d)" "to_uint32 (rd_number d) = rd_number d"
    using Cons.prems(2) by (simp_all add: parse_location_text location_of_def to_uint32_def)
  moreover have "AList.update (rd_number d) (location_of d) m = m @ [(rd_number d, location_of d)]"
    using Cons.prems(3) by (intro update_absent) auto
  ultimately show ?case using Cons.IH [of "m @ [(rd_number d, location_of d)]"] Cons.prems
    by (auto simp: location_row_def)
qed simp

lemma EqualFold_Itoa: "EqualFold (Itoa a) (Itoa b) \<longleftrightarrow> a = b"
proof -
  have "lower_char c = c" if "c \<in> set (nat_str k)" for c k
    using that nat_str_digits [of k] by (intro lower_char_fix) (auto simp: list_all_iff IsDigit_def is_upper_def)
  moreover have "lower_char (CHR ''-'') = CHR ''-''" by code_simp
  ultimately have "ToLower (Itoa n) = Itoa n" for n by (auto simp: ToLower_def Itoa_def intro: map_idI)
  then show ?thesis by (simp add: EqualFold_def Itoa_inject)
qed

lemma find_lun_id_find:
  "find_lun_id (Itoa lun) (map (\<lambda>d. (rd_number d, location_of d)) ds) =
    map_option rd_number (find (\<lambda>d. rd_lun d = lun) ds)"
  by (induction ds) (simp_all add: location_of_def EqualFold_Itoa)

text \<open>C26. The search for the disk of a LUN on Windows, from the text that PowerShell prints. When the host lists its
  disks, in whatever order, with locations such as "PCI Slot 3 : Adapter 0 : Port 0 : Target 1 : LUN 5", the
  search answers with the number of a disk at that LUN, and with an error exactly when there is none. Only
  the LUN is compared: of two disks with the same LUN at different adapters, the one that is visited first
  is the answer.\<close>

theorem windows_find_lun:
  assumes "RunPowershellCmd K locations_cmd [] w = (Ok (out, None), w')"
    "wo_Unmarshal_rows K out = Ok (map location_row ds)"
    "distinct (map rd_number ds)" "\<forall>d \<in> set ds. 0 \<le> rd_number d \<and> rd_number d < 4294967296"
  shows "findDiskByLun_windows (CSIProxyMounter (winMounter K)) lun w =
    (case find (\<lambda>d. rd_lun d = lun) ds of
       None \<Rightarrow> Err (Errorf (''could not find disk id for lun: '' @ Itoa lun))
     | Some d \<Rightarrow> Ok (Itoa (rd_number d)), w')"
proof -
  have "ListDiskLocations K w = (Ok (map (\<lambda>d. (rd_number d, location_of d)) ds), w')"
    using assms disk_locations_rows [of ds "[]"]
    by (simp add: ListDiskLocations_def powershell_def bind_def call_def)
  then show ?thesis
    by (simp add: findDiskByLun_windows_def with_proxy_def winMounter_def winMounter_FindDiskByLun_def bind_def call_def
        find_lun_id_find split: option.splits)
qed

definition two_disks :: "reported_disk list" where
  "two_disks = [\<lparr>rd_number = 0, rd_slot = 1, rd_adapter = 0, rd_port = 0, rd_target = 0, rd_lun = 0\<rparr>,
     \<lparr>rd_number = 2, rd_slot = 3, rd_adapter = 1, rd_port = 0, rd_target = 1, rd_lun = 5\<rparr>]"

definition sim_disks :: "unit win_os" where
  "sim_disks = no_windows
     \<lparr>wo_CombinedOutput := (\<lambda>args envs w. ((''json'', None), w)), wo_Unmarshal_rows := (\<lambda>s. Ok (map location_row two_disks))\<rparr>"

theorem windows_find_lun_witness:
  "findDiskByLun_windows (CSIProxyMounter (winMounter sim_disks)) 5 () = (Ok ''2'', ()) \<and>
   fst (findDiskByLun_windows (CSIProxyMounter (winMounter sim_disks)) 7 ()) =
     Err (Errorf (''could not find disk id for lun: '' @ Itoa 7))"
proof -
  have "RunPowershellCmd sim_disks locations_cmd [] () = (Ok (''json'', None), ())"
    "wo_Unmarshal_rows sim_disks ''json'' = Ok (map location_row two_disks)"
    "distinct (map rd_number two_disks)" "\<forall>d \<in> set two_disks. 0 \<le> rd_number d \<and> rd_number d < 4294967296"
    by (simp_all add: RunPowershellCmd_def sim_disks_def two_disks_def)
  note f = windows_find_lun [OF this]
  have "Itoa 2 = ''2''" by code_simp
  then show ?thesis using f [of 5] f [of 7] by (simp add: two_disks_def)
qed

section \<open>Following links\<close>

text \<open>
  The links of a host. The command prints the target of a path that is a link; for any other path, one that
  is no link or does not exist, it fails or prints nothing. It changes nothing.
\<close>

definition reads_links :: "'w win_os \<Rightarrow> (string \<Rightarrow> string option) \<Rightarrow> bool" where
  "reads_links K tgt \<longleftrightarrow>
     (\<forall>p w. \<exists>out err. RunPowershellCmd K (target_cmd ''mount'') [''mount='' @ p] w = (Ok (out, err), w) \<and>
        (case tgt p of
           Some t \<Rightarrow> err = None \<and> out \<noteq> [] \<and> TrimSpace out = t
         | None \<Rightarrow> err \<noteq> None \<or> out = []))"

text \<open>The path after \<open>k\<close> links, if there are that many.\<close>

fun follow :: "(string \<Rightarrow> string option) \<Rightarrow> nat \<Rightarrow> string \<Rightarrow> string option" where
  "follow tgt 0 m = Some m"
| "follow tgt (Suc k) m = (case tgt m of None \<Rightarrow> None | Some t \<Rightarrow> follow tgt k t)"

text \<open>The first \<open>k\<close> links lead to paths, and not to a volume.\<close>

definition paths_only :: "(string \<Rightarrow> string option) \<Rightarrow> nat \<Rightarrow> string \<Rightarrow> bool" where
  "paths_only tgt k m \<longleftrightarrow> (\<forall>j < k. \<exists>x. follow tgt (Suc j) m = Some x \<and> \<not> HasPrefix x ''Volume'')"

lemma paths_only_Suc:
  "paths_only tgt (Suc k) m \<longleftrightarrow> (\<exists>t. tgt m = Some t \<and> \<not> HasPrefix t ''Volume'' \<and> paths_only tgt k t)"
  unfolding paths_only_def All_less_Suc2 by (auto split: option.splits)

lemma getTarget_link:
  assumes "reads_links K tgt" "tgt m = Some t"
  shows "getTarget K m (Suc n) w = (if HasPrefix t ''Volume'' then (Ok (ensureVolumePrefix t), w) else getTarget K t n w)"
proof -
  obtain out where "RunPowershellCmd K (target_cmd ''mount'') [''mount='' @ m] w = (Ok (out, None), w)" "out \<noteq> []"
    "TrimSpace out = t" using spec [OF spec [OF assms(1) [unfolded reads_links_def], of m], of w] assms(2) by auto
  then show ?thesis by (simp add: bind_def call_def Let_def)
qed

lemma getTarget_no_link:
  assumes "reads_links K tgt" "tgt m = None"
  shows "\<exists>msg. getTarget K m (Suc n) w = (Err (Errorf (''error getting volume from mount. cmd: '' @ msg)), w)"
proof -
  obtain out err where "RunPowershellCmd K (target_cmd ''mount'') [''mount='' @ m] w = (Ok (out, err), w)"
    "err \<noteq> None \<or> out = []" using spec [OF spec [OF assms(1) [unfolded reads_links_def], of m], of w] assms(2) by auto
  then have "getTarget K m (Suc n) w = (Err (Errorf (''error getting volume from mount. cmd: '' @
      (target_cmd ''mount'' @ '', output: '' @ out @ '', error: '' @ error_v err))), w)"
    by (simp only: getTarget.simps bind_def call_def fail_def prod.case res.case if_True)
  then show ?thesis by (rule exI)
qed

text \<open>What \<open>n\<close> links lead to: after \<open>k\<close> links to paths, there is a volume or no further link.\<close>

lemma getTarget_outcome:
  assumes "reads_links K tgt"
  shows "paths_only tgt k m \<Longrightarrow> k < n \<Longrightarrow> follow tgt (Suc k) m = Some v \<Longrightarrow> HasPrefix v ''Volume'' \<Longrightarrow>
      getTarget K m n w = (Ok (ensureVolumePrefix v), w)"
    and "paths_only tgt k m \<Longrightarrow> k < n \<Longrightarrow> follow tgt (Suc k) m = None \<Longrightarrow>
      \<exists>msg. getTarget K m n w = (Err (Errorf (''error getting volume from mount. cmd: '' @ msg)), w)"
    and "paths_only tgt n m \<Longrightarrow> follow tgt n m = Some v \<Longrightarrow>
      getTarget K m n w = (Err (Errorf (''maximum depth reached on mount '' @ v)), w)"
proof (induction n arbitrary: k m)
  case (Suc n)
  note step = getTarget_link [OF assms] getTarget_no_link [OF assms]
  {
    case 1
    show ?case
    proof (cases k)
      case 0
      with 1(3) have "tgt m = Some v" by (simp split: option.splits)
      with step(1) 1(4) show ?thesis by (simp del: getTarget.simps)
    next
      case (Suc i)
      with 1(1) obtain t where t: "tgt m = Some t" "\<not> HasPrefix t ''Volume''" "paths_only tgt i t"
        by (auto simp: paths_only_Suc)
      with 1 Suc have "getTarget K t n w = (Ok (ensureVolumePrefix v), w)" by (intro Suc.IH(1)) simp_all
      with step(1) t show ?thesis by (simp del: getTarget.simps)
    qed
  next
    case 2
    show ?case
    proof (cases k)
      case 0
      with 2(3) have "tgt m = None" by (simp split: option.splits)
      then show ?thesis by (rule step(2))
    next
      case (Suc i)
      with 2(1) obtain t where t: "tgt m = Some t" "\<not> HasPrefix t ''Volume''" "paths_only tgt i t"
        by (auto simp: paths_only_Suc)
      have "\<exists>msg. getTarget K t n w = (Err (Errorf (''error getting volume from mount. cmd: '' @ msg)), w)"
        by (rule Suc.IH(2) [of i]) (use 2 Suc t in simp_all)
      moreover have "getTarget K m (Suc n) w = getTarget K t n w" using step(1) t by (simp only: if_False)
      ultimately show ?thesis by simp
    qed
  next
    case 3
    then obtain t where t: "tgt m = Some t" "\<not> HasPrefix t ''Volume''" "paths_only tgt n t"
      by (auto simp: paths_only_Suc)
    with 3 have "getTarget K t n w = (Err (Errorf (''maximum depth reached on mount '' @ v)), w)"
      by (intro Suc.IH(3)) simp_all
    with step(1) t show ?case by (simp del: getTarget.simps)
  }
qed simp_all

text \<open>C27. The volume behind a path on Windows, on a host where some paths are links and others are not. The search
  follows links until one points to a volume, and at most five of them. A volume behind at most five links is
  found, with the prefix that its id needs; a path from which fewer than five links lead to something that
  is no link and no volume ends with the error of the command; and a longer chain, or one that runs in a
  circle, ends with the error of the maximum depth. These are all the cases, and nothing is changed.\<close>

theorem windows_volume_of_path:
  assumes "reads_links K tgt"
  shows "(\<exists>k v. k < 5 \<and> paths_only tgt k m \<and> follow tgt (Suc k) m = Some v \<and> HasPrefix v ''Volume'' \<and>
      GetVolumeIDFromTargetPath K m w = (Ok (volume_prefix @ v), w)) \<or>
    (\<exists>k msg. k < 5 \<and> paths_only tgt k m \<and> follow tgt (Suc k) m = None \<and>
      GetVolumeIDFromTargetPath K m w = (Err (Errorf (''error getting volume from mount. cmd: '' @ msg)), w)) \<or>
    (\<exists>v. paths_only tgt 5 m \<and> follow tgt 5 m = Some v \<and>
      GetVolumeIDFromTargetPath K m w = (Err (Errorf (''maximum depth reached on mount '' @ v)), w))"
proof -
  have p: "HasPrefix s ''Volume'' \<Longrightarrow> ensureVolumePrefix s = volume_prefix @ s" for s
    by (auto simp: ensureVolumePrefix_def volume_prefix_def HasPrefix_iff BACKSLASH_def)
  note o = getTarget_outcome [OF assms, where n = 5 and m = m and w = w, folded GetVolumeIDFromTargetPath_def]
  show ?thesis
  proof (cases "paths_only tgt 5 m")
    case True
    moreover have "paths_only tgt 5 m \<Longrightarrow> \<exists>v. follow tgt 5 m = Some v"
      using paths_only_def [of tgt 5 m] by (metis eval_nat_numeral(3) lessI)
    ultimately show ?thesis using o(3) by blast
  next
    case False
    define k where "k = (LEAST j. \<not> paths_only tgt (Suc j) m)"
    have ex: "\<exists>j < 5. \<not> paths_only tgt (Suc j) m" using False unfolding paths_only_def by (metis lessI)
    have k: "\<not> paths_only tgt (Suc k) m" "k < 5" "\<And>j. j < k \<Longrightarrow> paths_only tgt (Suc j) m"
      unfolding k_def using ex LeastI [where P = "\<lambda>j. \<not> paths_only tgt (Suc j) m"]
      by (blast intro: Least_le le_less_trans dest: not_less_Least)+
    have "paths_only tgt k m" using k(3) unfolding paths_only_def by blast
    with k(1) have "follow tgt (Suc k) m = None \<or> (\<exists>v. follow tgt (Suc k) m = Some v \<and> HasPrefix v ''Volume'')"
      unfolding paths_only_def by (metis less_SucE option.exhaust)
    then show ?thesis using o(1,2) \<open>paths_only tgt k m\<close> k(2) p by metis
  qed
qed

definition sim_links :: "unit win_os" where
  "sim_links = no_windows\<lparr>wo_CombinedOutput := (\<lambda>args envs w.
     ((if envs = [''mount=b''] then ''Volume{1}'' else if envs = [''mount=a''] then ''b''
       else if envs = [''mount=c''] then ''c'' else [], None), w))\<rparr>"

theorem windows_volume_of_path_witness:
  "GetVolumeIDFromTargetPath sim_links ''a'' () = (Ok (volume_prefix @ ''Volume{1}''), ()) \<and>
   GetVolumeIDFromTargetPath sim_links ''c'' () = (Err (Errorf (''maximum depth reached on mount c'')), ()) \<and>
   (\<exists>msg. GetVolumeIDFromTargetPath sim_links ''d'' () = (Err (Errorf (''error getting volume from mount. cmd: '' @ msg)), ()))"
proof -
  let ?t = "[''b'' \<mapsto> ''Volume{1}'', ''a'' \<mapsto> ''b'', ''c'' \<mapsto> ''c'']"
  have "TrimSpace ''Volume{1}'' = ''Volume{1}''" "TrimSpace ''b'' = ''b''" "TrimSpace ''c'' = ''c''" by code_simp+
  then have l: "reads_links sim_links ?t"
    by (auto simp: reads_links_def RunPowershellCmd_def sim_links_def split: option.split)
  have v: "\<not> HasPrefix ''b'' ''Volume''" "\<not> HasPrefix ''c'' ''Volume''" "HasPrefix ''Volume{1}'' ''Volume''" by code_simp+
  have a: "paths_only ?t k ''a'' \<Longrightarrow> follow ?t (Suc k) ''a'' = Some x \<Longrightarrow> HasPrefix x ''Volume'' \<Longrightarrow> x = ''Volume{1}''"
    "paths_only ?t k ''a'' \<Longrightarrow> follow ?t (Suc k) ''a'' \<noteq> None" "\<not> paths_only ?t 5 ''a''" for k x
    using v by (cases k; cases "k - 1"; force simp: paths_only_Suc numeral_eq_Suc)+
  have d: "follow ?t (Suc k) ''d'' = None" "\<not> paths_only ?t 5 ''d''" for k by (simp_all add: paths_only_Suc numeral_eq_Suc)
  have c: "follow ?t j ''c'' = Some ''c''" for j by (induction j) simp_all
  note t = windows_volume_of_path [OF l]
  show ?thesis using t [of "''a''" "()"] t [of "''c''" "()"] t [of "''d''" "()"] a c d v by (intro conjI) fastforce+
qed

section \<open>The identifiers of a disk\<close>

text \<open>The bytes a device answers with: a header with the number of identifiers, then each identifier with its
  fields, its bytes and bytes that only align the next one.\<close>

record device_id =
  di_code :: nat
  di_type :: nat
  di_assoc :: nat
  di_bytes :: "8 word list"
  di_pad :: "8 word list"

fun le :: "nat \<Rightarrow> nat \<Rightarrow> 8 word list" where
  "le 0 n = []"
| "le (Suc k) n = of_nat n # le k (n div 256)"

definition id_bytes :: "device_id \<Rightarrow> 8 word list" where
  "id_bytes i = le 4 (di_code i) @ le 4 (di_type i) @ le 2 (length (di_bytes i)) @
     le 2 (16 + length (di_bytes i) + length (di_pad i)) @ le 4 (di_assoc i) @ di_bytes i @ di_pad i"

definition id_fits :: "device_id \<Rightarrow> bool" where
  "id_fits i \<longleftrightarrow> di_code i < 4294967296 \<and> di_assoc i < 4294967296 \<and> 16 + length (di_bytes i) + length (di_pad i) < 65536"

definition answer_bytes :: "nat \<Rightarrow> nat \<Rightarrow> device_id list \<Rightarrow> 8 word list \<Rightarrow> 8 word list" where
  "answer_bytes version sz ids rest = le 4 version @ le 4 sz @ le 4 (length ids) @ concat (map id_bytes ids) @ rest"

text \<open>The identifier of the device itself that is binary or text, the first one.\<close>

definition device_name :: "device_id list \<Rightarrow> string" where
  "device_name ids =
     (case find (\<lambda>i. di_assoc i = 0 \<and> di_code i \<in> {1, 2}) ids of
        None \<Rightarrow> []
      | Some i \<Rightarrow> if di_code i = 2 then bytes_string (di_bytes i) else EncodeToString (di_bytes i))"

lemma length_le [simp]: "length (le k n) = k"
  by (induction k n rule: le.induct) simp_all

lemma little_endian_le: "little_endian (le k n) = n mod 256 ^ k"
proof (induction k n rule: le.induct)
  case (2 k n)
  have "unat (of_nat n :: 8 word) = n mod 256" by (simp add: unat_of_nat)
  with 2 show ?case by (simp add: little_endian_def mod_mult2_eq)
qed (simp add: little_endian_def)

lemma get_bytes_at: "off = length pre \<Longrightarrow> n = length mid \<Longrightarrow> get_bytes (pre @ mid @ post) off n = Ok mid"
  by (simp add: get_bytes_def)

lemma get_number_at: "off = length pre \<Longrightarrow> v < 256 ^ n \<Longrightarrow> get_number (pre @ le n v @ post) off n = Ok v"
  by (simp add: get_number_def get_bytes_at little_endian_le)

lemma storage_identifier_at:
  assumes "id_fits i"
  shows "storage_identifier (pre @ id_bytes i @ post) (length pre) =
    Ok \<lparr>si_CodeSet = di_code i, si_IdentifierSize = length (di_bytes i),
        si_NextOffset = length (id_bytes i), si_Association = di_assoc i\<rparr>"
proof -
  let ?b = "pre @ id_bytes i @ post"
  have n: "length (id_bytes i) = 16 + length (di_bytes i) + length (di_pad i)" by (simp add: id_bytes_def)
  have "get_number ?b (length pre) 4 = Ok (di_code i)"
    using assms get_number_at [of "length pre" pre "di_code i" 4] by (simp add: id_bytes_def id_fits_def)
  moreover have "get_number ?b (length pre + 8) 2 = Ok (length (di_bytes i))"
    using assms get_number_at [of "length pre + 8" "pre @ le 4 (di_code i) @ le 4 (di_type i)" "length (di_bytes i)" 2]
    by (simp add: id_bytes_def id_fits_def)
  moreover have "get_number ?b (length pre + 10) 2 = Ok (length (id_bytes i))"
    using assms get_number_at [of "length pre + 10" "pre @ le 4 (di_code i) @ le 4 (di_type i) @ le 2 (length (di_bytes i))"
        "length (id_bytes i)" 2] unfolding n by (simp add: id_bytes_def id_fits_def)
  moreover have "get_number ?b (length pre + 12) 4 = Ok (di_assoc i)"
    using assms get_number_at [of "length pre + 12" "pre @ le 4 (di_code i) @ le 4 (di_type i) @ le 2 (length (di_bytes i)) @
        le 2 (16 + length (di_bytes i) + length (di_pad i))" "di_assoc i" 4]
    by (simp add: id_bytes_def id_fits_def)
  ultimately show ?thesis by (simp add: storage_identifier_def)
qed

lemma identifier_bytes_at:
  "get_bytes (pre @ id_bytes i @ post) (length pre + 16) (length (di_bytes i)) = Ok (di_bytes i)"
  using get_bytes_at [of "length pre + 16" "pre @ le 4 (di_code i) @ le 4 (di_type i) @ le 2 (length (di_bytes i)) @
      le 2 (16 + length (di_bytes i) + length (di_pad i)) @ le 4 (di_assoc i)" _ "di_bytes i" "di_pad i @ post"]
  by (simp add: id_bytes_def)

lemma page83_loop_ids:
  "\<forall>i \<in> set ids. id_fits i \<Longrightarrow>
    page83_loop (pre @ concat (map id_bytes ids) @ rest) (length ids) (length pre) = Ok (device_name ids)"
proof (induction ids arbitrary: pre)
  case (Cons i ids)
  let ?post = "concat (map id_bytes ids) @ rest"
  have "storage_identifier (pre @ id_bytes i @ ?post) (length pre) =
      Ok \<lparr>si_CodeSet = di_code i, si_IdentifierSize = length (di_bytes i),
        si_NextOffset = length (id_bytes i), si_Association = di_assoc i\<rparr>"
    using Cons.prems by (intro storage_identifier_at) simp
  then show ?case
    using Cons.IH [of "pre @ id_bytes i"] Cons.prems identifier_bytes_at [of pre i ?post]
    by (auto simp: device_name_def StorageIDAssocDevice_def StorageIDCodeSetBinary_def StorageIDCodeSetASCII_def)
qed (simp add: device_name_def)

text \<open>C28. The identifier of a disk on Windows is read back from the bytes of the device. Whatever identifiers a
  device has, the first that belongs to the device itself and is binary or text is the answer, as hexadecimal
  digits or as it is, and the answer is empty when there is none. No read leaves the buffer.\<close>

theorem page83_roundtrip:
  assumes "\<forall>i \<in> set ids. id_fits i" "length ids < 4294967296"
    "wo_DeviceIoControl K h IOCTL_STORAGE_QUERY_PROPERTY StoragePropertyQuery_bytes 4096 w = (Ok (answer_bytes v sz ids rest), w')"
  shows "GetDiskPage83ID K h w = (Ok (device_name ids), w')"
proof -
  have "get_number (answer_bytes v sz ids rest) 8 4 = Ok (length ids)"
    using assms(2) get_number_at [of 8 "le 4 v @ le 4 sz" "length ids" 4] by (simp add: answer_bytes_def)
  moreover have "page83_loop (answer_bytes v sz ids rest) (length ids) 12 = Ok (device_name ids)"
    using page83_loop_ids [OF assms(1), of "le 4 v @ le 4 sz @ le 4 (length ids)"] by (simp add: answer_bytes_def)
  ultimately show ?thesis using assms(3) by (simp add: GetDiskPage83ID_def call_def page83_of_buffer_def)
qed

definition two_ids :: "device_id list" where
  "two_ids = [\<lparr>di_code = 2, di_type = 1, di_assoc = 1, di_bytes = [80], di_pad = [0, 0, 0]\<rparr>,
     \<lparr>di_code = 1, di_type = 3, di_assoc = 0, di_bytes = [0x60, 0x02, 0xAB], di_pad = []\<rparr>]"

definition sim_device :: "unit win_os" where
  "sim_device = no_windows\<lparr>wo_DeviceIoControl := (\<lambda>h c i n w. (Ok (answer_bytes 40 80 two_ids [0, 0]), w))\<rparr>"

theorem page83_roundtrip_witness:
  "GetDiskPage83ID sim_device 7 () = (Ok ''6002ab'', ())"
proof -
  have "wo_DeviceIoControl sim_device 7 IOCTL_STORAGE_QUERY_PROPERTY StoragePropertyQuery_bytes 4096 () =
      (Ok (answer_bytes 40 80 two_ids [0, 0]), ())" by (simp add: sim_device_def)
  moreover have "\<forall>i \<in> set two_ids. id_fits i" "length two_ids < 4294967296" by (simp_all add: two_ids_def id_fits_def)
  moreover have "device_name two_ids = ''6002ab''" by code_simp
  ultimately show ?thesis using page83_roundtrip [of two_ids sim_device 7 "()" 40 80 "[0, 0]" "()"] by simp
qed

end
