(* ===== verification/PluginMain.thy ===== *)
theory PluginMain
  imports PluginServer ControllerServerV2 SkuTables
begin

text \<open>
  The start of the plugin: what the construction of a driver asks of its surroundings
  (\<open>newDriverV1\<close> of \<open>pkg/azuredisk/azuredisk.go\<close>, \<open>newDriverV2\<close> of \<open>pkg/azuredisk/azuredisk_v2.go\<close>), the
  choice of a driver, and the program \<open>pkg/azurediskplugin/main.go\<close> with its metrics server. The copied
  options are \<open>newDriverV1\<close> and \<open>newDriverV2\<close> of \<open>DriverCore\<close> and \<open>ControllerServerV2\<close>, the configuration of the
  cloud is that of \<open>PluginServer\<close>. \<open>klog.Fatalf\<close> ends the process: it is the result \<open>Panic\<close>, and a deferred
  call is not run then. The theorem at the end says when the program ends with success.
\<close>

section \<open>Construction\<close>

type_synonym secret_loader = "string \<Rightarrow> string \<Rightarrow> cloud_config option res"

text \<open>
  \<open>st_NewTimedCache\<close> takes nanoseconds. \<open>st_NewForConfig\<close> makes a client of Kubernetes, of which the loader of
  secrets over it is kept; on an error it has a nil pointer beside the error, and a loader over that is
  whatever the library makes of it. \<open>st_InitializeCloudFromConfig\<close> leaves a cloud behind even when it fails, and its
  error is only logged; \<open>st_empty_cloud\<close> is the zero value of a cloud. \<open>st_Instances\<close> are the instances of a
  cloud, if it has that interface. \<open>st_NewSafeMounter\<close> is the function of the build.
\<close>

record ('w, 'm, 'c) start_env =
  st_driverVersion :: string
  st_NewTimedCache :: "int \<Rightarrow> ('w, unit) io"
  st_BuildConfigFromFlags :: "string \<Rightarrow> string \<Rightarrow> ('w, 'c) io"
  st_NewForConfig :: "'c \<Rightarrow> 'w \<Rightarrow> (secret_loader \<times> go_error option) \<times> 'w"
  st_ErrNotInCluster :: "go_error \<Rightarrow> bool"
  st_config_file :: "string \<Rightarrow> cloud_config option res"
  st_env :: "string \<Rightarrow> string option"
  st_InitializeCloudFromConfig :: "cloud_config \<Rightarrow> bool \<Rightarrow> 'w \<Rightarrow> cloud_settings \<times> 'w"
  st_Instances :: "cloud_settings \<Rightarrow> (string \<Rightarrow> string res) option"
  st_NewSafeMounter :: "bool \<Rightarrow> bool \<Rightarrow> ('w, 'm) io"
  st_VMTypeStandard :: string
  st_VMTypeVMSS :: string

record 'm started =
  sd_core :: DriverCore
  sd_cloud :: cloud_settings
  sd_nodeInfo :: "NodeInfo option"
  sd_mounter :: 'm

definition minutes :: "int \<Rightarrow> int" where
  "minutes n = to_int64 (n * 60000000000)"

definition st_empty_cloud :: cloud_settings where
  "st_empty_cloud = \<lparr>cs_VMType = [], cs_UseInstanceMetadata = False, cs_DisableAvailabilitySetNodes = False,
     cs_VMCacheTTLInSeconds = 0, cs_VmssCacheTTLInSeconds = 0\<rparr>"

text \<open>
  The client and the error of \<open>GetKubeClient\<close>. The pointer that \<open>clientset.NewForConfig\<close> returns is converted to
  an interface, which is not nil even when the pointer is: after an error of that call, both parts are there.
\<close>

definition GetKubeClient :: "('w, 'm, 'c) start_env \<Rightarrow> string \<Rightarrow> ('w, secret_loader option \<times> go_error option) io" where
  "GetKubeClient S kubeconfig =
     call (st_BuildConfigFromFlags S [] kubeconfig) (\<lambda>err. ret (None, Some err))
       (\<lambda>config w. case st_NewForConfig S config w of ((client, err), w') \<Rightarrow> (Ok (Some client, err), w'))"

definition choose_config ::
    "('w, 'm, 'c) start_env \<Rightarrow> DriverCore \<Rightarrow> secret_loader option \<Rightarrow> (cloud_config option \<times> bool) res" where
  "choose_config S D kubeClient =
     GetCloudProviderFromClient \<lparr>cfs_secret = kubeClient, cfs_file = st_config_file S, cfs_env = st_env S\<rparr>
       (cloudConfigSecretName D) (cloudConfigSecretNamespace D)
       (GetUserAgent (st_driverVersion S) (csi_Name D) (customUserAgent D) (userAgentSuffix D))
       (allowEmptyCloudConfig D) (enableTrafficManager D) (trafficManagerPort D)"

text \<open>The cloud of a driver: the configuration that \<open>GetCloudProviderFromClient\<close> chooses, initialised.\<close>

definition start_cloud ::
    "('w, 'm, 'c) start_env \<Rightarrow> DriverCore \<Rightarrow> secret_loader option \<Rightarrow> ('w, cloud_settings) io" where
  "start_cloud S D kubeClient =
     call (lift (choose_config S D kubeClient)) (\<lambda>err. panic)
       (\<lambda>(config, fromSecret). case config of
            None \<Rightarrow> ret st_empty_cloud
          | Some c \<Rightarrow> (\<lambda>w. case st_InitializeCloudFromConfig S c fromSecret w of (az, w') \<Rightarrow> (Ok az, w')))"

text \<open>What follows the cloud in both drivers: the SKU of the node, whose error is only logged, and the mounter.\<close>

definition start_node_info :: "('w, 'm, 'c) start_env \<Rightarrow> DriverCore \<Rightarrow> cloud_settings \<Rightarrow> ('w, NodeInfo option) io" where
  "start_node_info S D az =
     (if perfOptimizationEnabled D
      then call (lift (NewNodeInfo NodeInfoMap (st_Instances S az) (csi_NodeID D))) (\<lambda>err. ret None) (\<lambda>n. ret (Some n))
      else ret None)"

definition start_devices :: "('w, 'm, 'c) start_env \<Rightarrow> DriverCore \<Rightarrow> cloud_settings \<Rightarrow> ('w, 'm started) io" where
  "start_devices S D az =
     bind (start_node_info S D az)
       (\<lambda>nodeInfo. call (st_NewSafeMounter S (enableWindowsHostProcess D) (useCSIProxyGAInterface D)) (\<lambda>err. panic)
          (\<lambda>mounter. ret \<lparr>sd_core = D, sd_cloud = az, sd_nodeInfo = nodeInfo, sd_mounter = mounter\<rparr>))"

definition start_caches :: "('w, 'm, 'c) start_env \<Rightarrow> DriverOptions \<Rightarrow> ('w, unit) io" where
  "start_caches S options =
     (let expire = (if opt_VolStatsCacheExpireInMinutes options \<le> 0 then 10 else opt_VolStatsCacheExpireInMinutes options)
      in call (st_NewTimedCache S (minutes 5)) (\<lambda>err. panic)
           (\<lambda>_. call (st_NewTimedCache S (minutes 30)) (\<lambda>err. panic)
              (\<lambda>_. call (st_NewTimedCache S (minutes expire)) (\<lambda>err. panic) ret)))"

definition start_driver :: "('w, 'm, 'c) start_env \<Rightarrow> DriverOptions \<Rightarrow> ('w, 'm started) io" where
  "start_driver S options =
     (let D = newDriverV1 (st_driverVersion S) options
      in bind (start_caches S options)
           (\<lambda>_. bind (GetKubeClient S (opt_Kubeconfig options))
              (\<lambda>(kubeClient, err). bind (start_cloud S D kubeClient)
                 (\<lambda>az. start_devices S D (configure_cloud (st_VMTypeStandard S) (st_VMTypeVMSS S) D az)))))"

text \<open>The second driver has no caches and does not start without a client of Kubernetes, unless the file of
  settings does not exist or the process is outside of a cluster.\<close>

definition fatal_client_error :: "'w node_os \<Rightarrow> ('w, 'm, 'c) start_env \<Rightarrow> go_error option \<Rightarrow> bool" where
  "fatal_client_error H S err =
     (case err of None \<Rightarrow> False | Some e \<Rightarrow> \<not> os_IsNotExist H e \<and> \<not> st_ErrNotInCluster S e)"

definition start_driver_v2 :: "'w node_os \<Rightarrow> ('w, 'm, 'c) start_env \<Rightarrow> DriverOptions \<Rightarrow> ('w, 'm started) io" where
  "start_driver_v2 H S options =
     (let D = newDriverV2 (st_driverVersion S) options
      in bind (GetKubeClient S (opt_Kubeconfig options))
           (\<lambda>(kubeClient, err). bind (if fatal_client_error H S err then panic else ret ())
              (\<lambda>_. bind (start_cloud S D kubeClient)
                 (\<lambda>az. start_devices S D (configure_cloud_v2 (st_VMTypeStandard S) (st_VMTypeVMSS S) D az)))))"

text \<open>\<open>NewSafeMounter\<close> of the builds for Unix cannot fail; its two arguments are not used.\<close>

definition NewSafeMounter_unix :: "'m \<Rightarrow> bool \<Rightarrow> bool \<Rightarrow> ('w, 'm) io" where
  "NewSafeMounter_unix mount_New enableHostProcess useGAInterface = ret mount_New"

section \<open>Access to the fields of a driver\<close>

definition setControllerCapabilities :: "controller_rpc list \<Rightarrow> 'm started \<Rightarrow> 'm started" where
  "setControllerCapabilities caps d = d\<lparr>sd_core := (sd_core d)\<lparr>csi_Cap := caps\<rparr>\<rparr>"

definition setNodeCapabilities :: "node_rpc list \<Rightarrow> 'm started \<Rightarrow> 'm started" where
  "setNodeCapabilities nodeCaps d = d\<lparr>sd_core := (sd_core d)\<lparr>csi_NSCap := nodeCaps\<rparr>\<rparr>"

definition setName :: "string \<Rightarrow> 'm started \<Rightarrow> 'm started" where
  "setName name d = d\<lparr>sd_core := (sd_core d)\<lparr>csi_Name := name\<rparr>\<rparr>"

definition setNodeID :: "string \<Rightarrow> 'm started \<Rightarrow> 'm started" where
  "setNodeID nodeID d = d\<lparr>sd_core := (sd_core d)\<lparr>csi_NodeID := nodeID\<rparr>\<rparr>"

definition setVersion :: "string \<Rightarrow> 'm started \<Rightarrow> 'm started" where
  "setVersion version d = d\<lparr>sd_core := (sd_core d)\<lparr>csi_Version := version\<rparr>\<rparr>"

definition setCloud :: "cloud_settings \<Rightarrow> 'm started \<Rightarrow> 'm started" where
  "setCloud cloud d = d\<lparr>sd_cloud := cloud\<rparr>"

definition setMounter :: "'m \<Rightarrow> 'm started \<Rightarrow> 'm started" where
  "setMounter mounter d = d\<lparr>sd_mounter := mounter\<rparr>"

definition setPerfOptimizationEnabled :: "bool \<Rightarrow> 'm started \<Rightarrow> 'm started" where
  "setPerfOptimizationEnabled enabled d = d\<lparr>sd_core := (sd_core d)\<lparr>perfOptimizationEnabled := enabled\<rparr>\<rparr>"

section \<open>The metrics server\<close>

record ('w, 'l) plugin_env =
  pm_Println :: "string \<Rightarrow> 'w \<Rightarrow> 'w"
  pm_Listen :: "string \<Rightarrow> string \<Rightarrow> ('w, 'l) io"
  pm_http_Serve :: "'l \<Rightarrow> ('w, unit) io"
  pm_Close :: "'l \<Rightarrow> ('w, unit) io"

definition serveMetrics :: "('w, 'l) plugin_env \<Rightarrow> 'l \<Rightarrow> ('w, unit) io" where
  "serveMetrics P l =
     call (pm_http_Serve P l) (\<lambda>err. case trapClosedConnErr (Some err) of None \<Rightarrow> ret () | Some e \<Rightarrow> fail e) ret"

text \<open>The body of the goroutine that \<open>serve\<close> starts.\<close>

definition serve :: "('w, 'l) plugin_env \<Rightarrow> 'l \<Rightarrow> ('l \<Rightarrow> ('w, unit) io) \<Rightarrow> ('w, unit) io" where
  "serve P l serveFunc = deferred (pm_Close P l) (call (serveFunc l) (\<lambda>err. panic) ret)"

text \<open>The listener for which \<open>serve\<close> is started, if any: an address that cannot be listened on is only logged.\<close>

definition exportMetrics :: "('w, 'l) plugin_env \<Rightarrow> string \<Rightarrow> ('w, 'l option) io" where
  "exportMetrics P metricsAddress =
     (if metricsAddress = [] then ret None
      else call (pm_Listen P ''tcp'' metricsAddress) (\<lambda>err. ret None) (\<lambda>l. ret (Some l)))"

section \<open>The program\<close>

text \<open>\<open>use_v2\<close>: the build has the tag \<open>azurediskv2\<close> and its flag is set.\<close>

definition handle :: "bool \<Rightarrow> 'w node_os \<Rightarrow> ('w, 'm, 'c) start_env \<Rightarrow> ('w, 'k) server_env \<Rightarrow> DriverOptions \<Rightarrow> ('w, unit) io" where
  "handle use_v2 H S E driverOptions =
     (if use_v2 then bind (start_driver_v2 H S driverOptions) (\<lambda>driver. call (Run_v2 (sd_core driver) H E) (\<lambda>err. panic) ret)
      else bind (start_driver S driverOptions) (\<lambda>driver. call (Run (sd_core driver) H E) (\<lambda>err. panic) ret))"

text \<open>The status of the process; the goroutine of the metrics server runs beside \<open>handle\<close>.\<close>

definition main :: "bool \<Rightarrow> 'w node_os \<Rightarrow> ('w, 'm, 'c) start_env \<Rightarrow> ('w, 'k) server_env \<Rightarrow> ('w, 'l) plugin_env \<Rightarrow>
    bool \<Rightarrow> string \<Rightarrow> DriverOptions \<Rightarrow> ('w, int) io" where
  "main use_v2 H S E P version metricsAddress driverOptions =
     (if version then
        call (lift (GetVersionYAML (sr_marshal E) (sr_build E) (opt_DriverName driverOptions))) (\<lambda>err. panic)
          (\<lambda>info w. (Ok 0, pm_Println P info w))
      else bind (exportMetrics P metricsAddress)
             (\<lambda>_. bind (handle use_v2 H S E driverOptions) (\<lambda>_. ret 0)))"

section \<open>Facts\<close>

lemma call_panic_Ok: "call m (\<lambda>err. panic) k w = (Ok x, w') \<longleftrightarrow> (\<exists>y v. m w = (Ok y, v) \<and> k y v = (Ok x, w'))"
  by (auto simp: call_def panic_def split: prod.splits res.splits)

lemma bind_Ok_iff: "bind m k w = (Ok x, w') \<longleftrightarrow> (\<exists>y v. m w = (Ok y, v) \<and> k y v = (Ok x, w'))"
  by (auto simp: bind_def call_def fail_def split: prod.splits res.splits)

text \<open>No failure of the construction is an error of a call.\<close>

definition no_Err :: "('w, 'a) io \<Rightarrow> bool" where
  "no_Err m \<longleftrightarrow> (\<forall>w e w'. m w \<noteq> (Err e, w'))"

lemma no_Err_ret: "no_Err (ret x)" by (simp add: no_Err_def ret_def)

lemma no_Err_panic: "no_Err panic" by (simp add: no_Err_def panic_def)

lemma no_Err_call: "(\<And>e. no_Err (h e)) \<Longrightarrow> (\<And>y. no_Err (k y)) \<Longrightarrow> no_Err (call m h k)"
  by (auto simp: no_Err_def call_def split: prod.split res.split)

lemma no_Err_bind: "no_Err m \<Longrightarrow> (\<And>y. no_Err (k y)) \<Longrightarrow> no_Err (bind m k)"
  by (auto simp: no_Err_def bind_def call_def fail_def split: prod.split res.split)

lemma no_Err_if: "no_Err m \<Longrightarrow> no_Err n \<Longrightarrow> no_Err (if b then m else n)" by simp

lemmas no_Err_intros = no_Err_ret no_Err_panic no_Err_call no_Err_bind no_Err_if

lemma start_cloud_no_Err: "no_Err (start_cloud S D k)"
  unfolding start_cloud_def
proof (intro no_Err_intros)
  fix y :: "cloud_config option \<times> bool"
  show "no_Err (case y of (config, fromSecret) \<Rightarrow> case config of None \<Rightarrow> ret st_empty_cloud
      | Some c \<Rightarrow> (\<lambda>w. case st_InitializeCloudFromConfig S c fromSecret w of (az, w') \<Rightarrow> (Ok az, w')))"
    by (simp add: no_Err_def ret_def split: prod.split option.split)
qed

lemma start_devices_no_Err: "no_Err (start_devices S D az)"
  unfolding start_devices_def start_node_info_def by (intro no_Err_intros)

lemma GetKubeClient_no_Err: "no_Err (GetKubeClient S c)"
  unfolding GetKubeClient_def by (intro no_Err_intros) (simp add: no_Err_def split: prod.split)

lemma start_no_Err: "no_Err (start_driver S opts)" "no_Err (start_driver_v2 H S opts)"
  unfolding start_driver_def start_driver_v2_def start_caches_def Let_def split_beta
  by (intro no_Err_intros start_cloud_no_Err start_devices_no_Err GetKubeClient_no_Err)+

lemma handle_no_Err: "no_Err (handle b H S E opts)"
  unfolding handle_def by (intro no_Err_intros start_no_Err)

lemma exportMetrics_no_Err: "no_Err (exportMetrics P a)"
  unfolding exportMetrics_def by (intro no_Err_intros)

lemma main_no_Err: "no_Err (main b H S E P v a opts)"
proof -
  have "no_Err (\<lambda>w. (Ok (0::int), pm_Println P info w))" for info by (simp add: no_Err_def)
  then show ?thesis unfolding main_def by (intro no_Err_intros handle_no_Err exportMetrics_no_Err)
qed

text \<open>The configuration that a cloud is made from, by the options of the driver.\<close>

lemma no_config_allowed: "choose_config S D k = Ok (None, b) \<Longrightarrow> allowEmptyCloudConfig D"
  unfolding choose_config_def GetCloudProviderFromClient_def Let_def by (simp split: option.splits if_splits)

lemma start_cloud_Ok:
  assumes "start_cloud S D k w = (Ok az, w')"
  shows "allowEmptyCloudConfig D \<or> (\<exists>c b. choose_config S D k = Ok (Some c, b) \<and>
      st_InitializeCloudFromConfig S c b w = (az, w'))"
proof -
  obtain config b where g: "choose_config S D k = Ok (config, b)"
    and i: "(case config of None \<Rightarrow> ret st_empty_cloud
        | Some c \<Rightarrow> (\<lambda>w. case st_InitializeCloudFromConfig S c b w of (az, w') \<Rightarrow> (Ok az, w'))) w = (Ok az, w')"
    using assms unfolding start_cloud_def call_panic_Ok lift_def by (auto split: prod.splits)
  show ?thesis
  proof (cases config)
    case None
    with g no_config_allowed show ?thesis by blast
  next
    case (Some c)
    with g i show ?thesis by (auto split: prod.splits)
  qed
qed

lemma start_devices_Ok:
  "start_devices S D az w = (Ok d, w') \<Longrightarrow> sd_core d = D \<and> sd_cloud d = az \<and>
     (\<exists>v. st_NewSafeMounter S (enableWindowsHostProcess D) (useCSIProxyGAInterface D) v = (Ok (sd_mounter d), w'))"
  by (auto simp: start_devices_def bind_Ok_iff call_panic_Ok ret_def)

lemma start_driver_Ok:
  assumes "start_driver S opts w = (Ok d, w')"
  shows "sd_core d = newDriverV1 (st_driverVersion S) opts \<and>
     (\<exists>az k v v'. start_cloud S (sd_core d) k v = (Ok az, v') \<and>
        sd_cloud d = configure_cloud (st_VMTypeStandard S) (st_VMTypeVMSS S) (sd_core d) az)"
proof -
  obtain k v az v' where c: "start_cloud S (newDriverV1 (st_driverVersion S) opts) k v = (Ok az, v')"
    and d: "start_devices S (newDriverV1 (st_driverVersion S) opts)
      (configure_cloud (st_VMTypeStandard S) (st_VMTypeVMSS S) (newDriverV1 (st_driverVersion S) opts) az) v' = (Ok d, w')"
    using assms unfolding start_driver_def Let_def split_beta bind_Ok_iff by blast
  from c start_devices_Ok [OF d] show ?thesis by auto
qed

lemma configure_cloud_controller:
  assumes "csi_NodeID D = []" "std \<noteq> vmss" "C = configure_cloud std vmss D c"
  shows "\<not> cs_UseInstanceMetadata C" "cs_VMType C = std \<Longrightarrow> \<not> cs_DisableAvailabilitySetNodes C"
    "cs_VMType C = vmss \<Longrightarrow> disableAVSetNodes D \<Longrightarrow> cs_DisableAvailabilitySetNodes C"
  using assms by (auto simp: configure_cloud_def Let_def split: if_splits)

lemma newDriverV1_fields:
  "csi_NodeID (newDriverV1 v opts) = opt_NodeID opts" "allowEmptyCloudConfig (newDriverV1 v opts) = opt_AllowEmptyCloudConfig opts"
  "disableAVSetNodes (newDriverV1 v opts) = opt_DisableAVSetNodes opts"
  by (simp_all add: newDriverV1_def AddNodeServiceCapabilities_def AddVolumeCapabilityAccessModes_def AddControllerServiceCapabilities_def)

lemma deferred_OkD: "deferred d m w = (Ok x, w') \<Longrightarrow> \<exists>v. m w = (Ok x, v)"
  by (cases "m w"; cases "fst (m w)") (auto simp: deferred_def split: prod.splits res.splits)

text \<open>Serving ends without an error only after the server was stopped or ended by itself.\<close>

lemma Run_Ok:
  assumes "Run D H E w = (Ok (), w')"
  shows "\<exists>l v v'. Listen H (sr_Listen E) (endpoint D) v = (Ok l, v') \<and>
     (case fst (sr_Serve E (enableOtelTracing D) l v') of Ok _ \<Rightarrow> True | Err e \<Rightarrow> sr_ErrServerStopped E e | Panic \<Rightarrow> False)"
proof -
  have "\<exists>v v'. listen_and_serve D H E (enableOtelTracing D) v = (Ok (), v')"
    using assms unfolding Run_def call_panic_Ok by (auto simp: call_panic_Ok split: if_splits dest!: deferred_OkD)
  then obtain v v' where "listen_and_serve D H E (enableOtelTracing D) v = (Ok (), v')" by blast
  then obtain l u where "Listen H (sr_Listen E) (endpoint D) v = (Ok l, u)"
    "call (sr_Serve E (enableOtelTracing D) l) (\<lambda>err. if sr_ErrServerStopped E err then ret () else fail err) ret u = (Ok (), v')"
    unfolding listen_and_serve_def call_panic_Ok by blast
  then show ?thesis
    by (intro exI [of _ l] exI [of _ v] exI [of _ u]) (auto simp: call_def fail_def split: prod.splits res.splits if_splits)
qed

text \<open>The start of the plugin. A process that is not asked for its version ends with status 0 or is ended by a
  fatal error, and never in between. Status 0 means that the driver was made from the options with all it
  needs, in this order: the configuration of the cloud, unless the options allow none, and the mounter; then
  its endpoint was listened on and served until the server stopped. In the controller, the cloud does not ask
  for instance metadata, and whether it leaves out nodes of availability sets fits the type of its machines.\<close>

theorem plugin_start:
  assumes "main False H S E P False addr opts w = (r, w')" "st_VMTypeStandard S \<noteq> st_VMTypeVMSS S"
  shows "r = Panic \<or> r = Ok 0 \<and> (\<exists>d v v'. start_driver S opts v = (Ok d, v') \<and> Run (sd_core d) H E v' = (Ok (), w') \<and>
     sd_core d = newDriverV1 (st_driverVersion S) opts \<and>
     (opt_AllowEmptyCloudConfig opts \<or> (\<exists>k c b. choose_config S (sd_core d) k = Ok (Some c, b))) \<and>
     (\<exists>l u. fst (Listen H (sr_Listen E) (endpoint (sd_core d)) u) = Ok l) \<and>
     (opt_NodeID opts = [] \<longrightarrow> \<not> cs_UseInstanceMetadata (sd_cloud d) \<and>
        (cs_VMType (sd_cloud d) = st_VMTypeStandard S \<longrightarrow> \<not> cs_DisableAvailabilitySetNodes (sd_cloud d)) \<and>
        (cs_VMType (sd_cloud d) = st_VMTypeVMSS S \<and> opt_DisableAVSetNodes opts \<longrightarrow> cs_DisableAvailabilitySetNodes (sd_cloud d))))"
proof (cases r)
  case (Ok c)
  obtain v d v' where c: "c = 0" and d: "start_driver S opts v = (Ok d, v')" and run: "Run (sd_core d) H E v' = (Ok (), w')"
    using assms(1) Ok by (auto simp: main_def handle_def bind_Ok_iff call_panic_Ok ret_def)
  obtain az k u u' where core: "sd_core d = newDriverV1 (st_driverVersion S) opts"
    and az: "start_cloud S (sd_core d) k u = (Ok az, u')"
    and cl: "sd_cloud d = configure_cloud (st_VMTypeStandard S) (st_VMTypeVMSS S) (sd_core d) az"
    using start_driver_Ok [OF d] by blast
  have "opt_NodeID opts = [] \<Longrightarrow> csi_NodeID (sd_core d) = []" by (simp add: core newDriverV1_fields)
  note conf = configure_cloud_controller [OF this assms(2) cl]
  have "opt_AllowEmptyCloudConfig opts \<or> (\<exists>k c b. choose_config S (sd_core d) k = Ok (Some c, b))"
    using start_cloud_Ok [OF az] by (auto simp: core newDriverV1_fields)
  moreover have "\<exists>l u. fst (Listen H (sr_Listen E) (endpoint (sd_core d)) u) = Ok l"
    using Run_Ok [OF run] by (metis fst_conv)
  moreover have "opt_NodeID opts = [] \<longrightarrow> \<not> cs_UseInstanceMetadata (sd_cloud d) \<and>
      (cs_VMType (sd_cloud d) = st_VMTypeStandard S \<longrightarrow> \<not> cs_DisableAvailabilitySetNodes (sd_cloud d)) \<and>
      (cs_VMType (sd_cloud d) = st_VMTypeVMSS S \<and> opt_DisableAVSetNodes opts \<longrightarrow> cs_DisableAvailabilitySetNodes (sd_cloud d))"
    using conf by (simp add: core newDriverV1_fields)
  ultimately show ?thesis using Ok c d run core by blast
next
  case (Err e)
  then show ?thesis using main_no_Err [of False H S E P False addr opts] assms(1) by (simp add: no_Err_def)
qed simp

end
