(* ===== verification/Spec2Isabelle.thy ===== *)
theory Spec2Isabelle
  imports VolumeHelper DiskUtilsCorrect ControllerCommonCorrect ManagedDiskCorrect SnapshotUtilsCorrect
    ControllerServerCorrect NodeServerCorrect DeviceOptimizeCorrect PluginServer
    ControllerServerV2Correct NodeServerV2Correct SkuGeneratorCorrect WindowsStorage WindowsDisks PluginMain
begin

text \<open>
  A verification development for the Azure disk CSI driver of Constellation
  (\<open>constellation-azuredisk-csi-driver\<close>): the builds for Linux, with and without the tag
  \<open>azurediskv2\<close>, and the node of the builds for Windows and Darwin, read from \<open>src/pkg\<close>.

  \<^bold>\<open>The program.\<close> A CSI driver answers three gRPC services. The controller service
  (\<open>azuredisk/controllerserver.go\<close>) creates, deletes, resizes and snapshots managed disks and attaches
  them to machines; it holds a lock per volume (\<open>util.VolumeLocks\<close>) and works through the disk
  controller (\<open>azuredisk/azure_managedDiskController.go\<close>, \<open>azuredisk/azure_controller_common.go\<close>),
  which batches attach and detach requests per node under a mutex per node and allocates LUNs. The
  publish context carries the LUN to the node service (\<open>azuredisk/nodeserver.go\<close>), which finds the
  device in sysfs (\<open>azuredisk/azure_common_linux.go\<close>), tunes it (\<open>optimization\<close>), opens an encrypted
  device on it and mounts that. On Windows the node works through a mounter (\<open>mounter\<close>) that calls
  csi-proxy in one of two versions or, in a host process, PowerShell itself (\<open>os\<close>). The identity service and the start of the plugin surround them.
  Parameters, names and URIs are parsed in \<open>azureutils\<close>.

  \<^bold>\<open>Style.\<close> A Go function is a HOL function of the same name. A call with effects is a function from a
  state to a result and a state, \<open>('w, 'a) io\<close>; a result is a value, an error with its text, or a panic.
  What is not in the repository (the Azure SDK, the cloud provider, Kubernetes, the mounter, the crypt
  mapper, csi-proxy, PowerShell, the operating system) is a field of a record of such functions (\<open>sdk\<close>, \<open>cloud\<close>, \<open>services\<close>,
  \<open>node_os\<close>, \<open>node_env\<close>, \<open>win_os\<close>), an argument of what uses it, over a world \<open>'w\<close> that is never inspected. A
  hypothesis on one of them is a named predicate (\<open>encrypting_host\<close>, \<open>tracking_host\<close>, \<open>reads_tree\<close>,
  \<open>counting_client\<close>; \<open>storage_host\<close>, \<open>sizing_host\<close> and \<open>reads_links\<close> say what the commands sent to PowerShell
  do to disks, volumes and links), and a witness gives an instance. Integers are \<open>int\<close> with the wrap-around written
  at conversions and products; floats are rationals rounded to 53 bits.

  \<^bold>\<open>Theories.\<close>
  \<^item> \<open>GoPrelude\<close>, \<open>GoStrings\<close>, \<open>GoRegexp\<close>: results, effects, the relation \<open>keeps\<close> between the states
    before and after a call with its rules, integers, and what is used of \<open>strings\<close>, \<open>strconv\<close>,
    \<open>path/filepath\<close> and \<open>regexp\<close>.
  \<^item> \<open>AzureConstants\<close>, \<open>AzureTypes\<close>: constants and the records of the SDK and of CSI.
  \<^item> \<open>VolumeHelper\<close> (\<open>util/util.go\<close>, \<open>azuredisk/util.go\<close>): sizes, tags, volume locks and mutexes. The
    locale \<open>entry_lock\<close> states what a lock by name promises and proves mutual exclusion of its clients
    by rule induction; volume locks and node mutexes are its two interpretations.
  \<^item> \<open>DiskUtils\<close>, \<open>DiskUtilsCorrect\<close> (\<open>azureutils/azure_disk_utils.go\<close>): parameters, URIs, names,
    zones, capabilities; the locale \<open>enum_option\<close> for the normalised options.
  \<^item> \<open>ControllerCommon\<close>, \<open>ControllerCommonCorrect\<close>: queues (the locale \<open>request_queue\<close>, interpreted for
    attach and detach), batches, LUN allocation, checks of the machine, locks given back.
  \<^item> \<open>ManagedDisk\<close>, \<open>ManagedDiskCorrect\<close>: life of a managed disk.
  \<^item> \<open>SnapshotUtils\<close>, \<open>SnapshotUtilsCorrect\<close>: snapshots and their pages.
  \<^item> \<open>DriverCore\<close> (\<open>azuredisk.go\<close>, \<open>azuredisk_option.go\<close>, \<open>csi-common/driver.go\<close>): options,
    construction, the state \<open>driver\<close> and the lock of a volume around a call.
  \<^item> \<open>ControllerServer\<close> with \<open>ControllerLocks\<close> and \<open>ControllerServerCorrect\<close>: every RPC of the
    controller; locks, sizes, publishing, the bounded search through copies.
  \<^item> \<open>LinuxCommon\<close>, \<open>LinuxCommonCorrect\<close>: devices; the search is equal to a specification over a tree
    of files.
  \<^item> \<open>DevicePerf\<close>, \<open>DevicePerfCorrect\<close>, \<open>SkuTables\<close>, \<open>DeviceOptimize\<close>, \<open>DeviceOptimizeCorrect\<close>: tuning
    profiles, the generated SKU tables, the computation of the basic profile.
  \<^item> \<open>MaxDiskCount\<close>: the generated table of data disk counts.
  \<^item> \<open>NodeServer\<close>, \<open>NodeServerCorrect\<close>: every RPC of the node; exclusion, encryption, the life cycle of
    a volume as a refinement of mounts and open devices, the search for a device, the announced limit.
  \<^item> \<open>PluginServer\<close>: identity, version, endpoint, logging, the choice of the cloud configuration, serving.
  \<^item> \<open>PluginMain\<close>: the construction of both drivers from the options with the cloud, the caches and the mounter,
    and the program \<open>azurediskplugin/main.go\<close>; when it ends with success.
  \<^item> \<open>ControllerServerV2\<close>, \<open>NodeServerV2\<close> with their \<open>Correct\<close> theories: the second driver
    (\<open>azuredisk_v2.go\<close>, \<open>controllerserver_v2.go\<close>, \<open>nodeserver_v2.go\<close>). Methods with the statements of the
    first driver are its definitions; the theorems show where the drivers agree (\<open>CreateVolume\<close> on plain
    requests, locks, attached disks, the life cycle of mounts) and where they do not (encryption, options).
    The step relation \<open>controller_call_v2\<close> has a step for each RPC of the second controller: a driver that holds
    nothing holds nothing after any sequence of them. \<open>mapper_of\<close> replaces the crypt mapper of a host: the
    staging of the second driver does not see the difference.
  \<^item> \<open>SkuGenerator\<close>, \<open>SkuGeneratorCorrect\<close> (\<open>tool/gen-disk-skus-map.go\<close>): the program that writes the SKU
    tables, what holds of every table it writes and of the tables that are checked in.
  \<^item> \<open>WindowsOS\<close> (\<open>os/filesystem\<close>, \<open>os/disk\<close>, \<open>os/volume\<close>): paths, disks and volumes of a host, with the
    text of every command.
  \<^item> \<open>WindowsMounter\<close> (\<open>mounter/safe_mounter_*windows.go\<close>): the mounters of the two versions of csi-proxy and of
    the host process, a record of methods each, and the choice between them.
  \<^item> \<open>WindowsNode\<close> (\<open>azure_common_windows.go\<close>, \<open>azure_common_darwin.go\<close>): what the node service calls on
    these systems.
  \<^item> \<open>WindowsPaths\<close>: paths; the locale \<open>windows_mounter\<close> states what the node relies on in a mounter and is
    interpreted for each of the three. \<open>WindowsStorage\<close>: staging as a refinement of disks with partitions and
    volumes, so that no file system is lost; resizing. \<open>WindowsDisks\<close>: the disk of a LUN, the volume of a
    path, the identifier in the bytes of a device.
  \<^item> This theory: the LUN on its way from the controller to the node.

  \<^bold>\<open>Bounds.\<close> Polling loops take the number of attempts that fit their timeout: \<open>sv_attempts\<close> and
  \<open>sv_ticks\<close> in the controller, \<open>ne_polls\<close> in the node; a timeout is an error value, so the functions are
  total, and \<open>device_eventually_found\<close> shows that enough attempts give the result. The search through
  copies is bounded by the depth in the code itself, and so are the links followed by \<open>getTarget\<close> (5) and the
  parents visited by \<open>findClosestVolume\<close> (256) on Windows. All other loops are structural.

  \<^bold>\<open>Not modelled.\<close> The definition of flags, tracing and the metrics handler, which only call libraries;
  facades that pass calls on to the operating system or to modelled functions; mocks and
  other test doubles. Log output is left out except in \<open>LogGRPC\<close>.
  Concurrency appears where the code synchronises: clients of a lock, and queues that other requests
  may change between the steps of a batch; a data race outside the locks is not expressible. Texts of
  errors are kept where the driver reads them.
\<close>

section \<open>From the controller to the node\<close>

lemma Itoa_inj: "Itoa a = Itoa b \<Longrightarrow> a = b"
proof -
  assume e: "Itoa a = Itoa b"
  have n: "nat_str n \<noteq> CHR ''-'' # r" for n r using nat_str_hd by blast
  have "nat_str k = nat_str l \<Longrightarrow> k = l" for k l by (metis digits_val_nat_str)
  with e show "a = b" by (fastforce simp: Itoa_def n n [THEN not_sym] split: if_splits)
qed

text \<open>C16. Controller and node agree on the LUN of a volume. When a publish succeeds (with the LUN check on),
  the machine reported the disk at some LUN, and a node that is given the publish context searches for
  that LUN: on a node whose files answer from a tree, the device it stages is the data disk of that very
  LUN, if there is one.\<close>

theorem published_lun_staged:
  assumes "\<not> DisableDiskLunCheck (diskController s)" "ControllerPublishVolume S D V u c node ctx s = (Ok pc, s')"
    "reads_tree (ne_os N) T" "scsiHostRescan (ne_os N) w = (Ok (), w0)"
  shows "\<exists>d lun w1. GetDiskName u = Ok d \<and> attached_at (sv_cloud V) node w1 d u lun \<and>
      map_of pc LUN = Some (Itoa lun) \<and>
      (0 \<le> lun \<and> lun < 100 \<and> device_path_of_lun T lun \<noteq> [] \<longrightarrow>
         getDevicePathWithLUN N (Itoa lun) w = (Ok (device_path_of_lun T lun), w0))"
proof -
  obtain d lun w1 where p: "GetDiskName u = Ok d" "attached_at (sv_cloud V) node w1 d u lun"
    "map_of pc LUN = Some (Itoa lun)"
    using ControllerPublishVolume_at [OF assms(1,2)] by blast
  have "getDevicePathWithLUN N (Itoa lun) w = (Ok (device_path_of_lun T lun), w0)"
    if "0 \<le> lun \<and> lun < 100 \<and> device_path_of_lun T lun \<noteq> []"
  proof -
    have "poll_device (ne_os N) (ne_polls N) lun w0 = (Ok (device_path_of_lun T lun), w0)"
      by (rule poll_device_finds [of 0])
        (use that in \<open>simp_all add: findDiskByLun_pure [OF assms(3)] device_path_of_lun_def split: res.splits\<close>)
    with that GetDiskLUN_roundtrip [of lun] assms(4) show ?thesis
      by (simp add: getDevicePathWithLUN_def bind_def call_def)
  qed
  with p show ?thesis by blast
qed

theorem published_lun_staged_witness:
  "\<exists>pc lunStr. fst (ControllerPublishVolume sdk0 driver1 services1 (managedDiskPath ''s'' ''g'' ''d'') (Some cap1) ''node'' []
      (new_driver driver1 [lun_disk 0 ''/disks/x''])) = Ok pc \<and> map_of pc LUN = Some lunStr \<and>
     getDevicePathWithLUN sim_env lunStr sim_start = (Ok ''/dev/sdc'', sim_start)"
proof -
  let ?s = "new_driver driver1 [lun_disk 0 ''/disks/x'']"
  let ?r = "ControllerPublishVolume sdk0 driver1 services1 (managedDiskPath ''s'' ''g'' ''d'') (Some cap1) ''node'' [] ?s"
  have "is_Ok (fst ?r)" by code_simp
  then obtain pc s' where r: "?r = (Ok pc, s')" by (cases ?r; cases "fst ?r") auto
  have l: "map_of pc LUN = Some (Itoa 1)"
  proof -
    have "(case fst ?r of Ok m \<Rightarrow> map_of m LUN | _ \<Rightarrow> None) = Some (Itoa 1)" by code_simp
    with r show ?thesis by simp
  qed
  have 1: "\<not> DisableDiskLunCheck (diskController ?s)" by (simp add: new_driver_def NewManagedDiskController_def)
  have 2: "reads_tree (ne_os sim_env) sim_tree"
    by (simp add: reads_tree_def sim_env_def sim_os_def sim_tree_def sim_ReadDir_def sim_ReadFile_def fun_eq_iff)
  have 3: "scsiHostRescan (ne_os sim_env) sim_start = (Ok (), sim_start)" by code_simp
  have 4: "device_path_of_lun sim_tree 1 = ''/dev/sdc''" by code_simp
  from published_lun_staged [OF 1 r 2 3] obtain lun where n: "map_of pc LUN = Some (Itoa lun)"
    "0 \<le> lun \<and> lun < 100 \<and> device_path_of_lun sim_tree lun \<noteq> [] \<longrightarrow>
       getDevicePathWithLUN sim_env (Itoa lun) sim_start = (Ok (device_path_of_lun sim_tree lun), sim_start)" by blast
  have "lun = 1" using l n(1) Itoa_inj [of lun 1] by simp
  with n r 4 show ?thesis by auto
qed

end
